(* ===== verification/Prelude.thy ===== *)
theory Prelude
  imports Complex_Main "HOL-Library.Sublist"
begin

text \<open>
  The JavaScript runtime the panel's TypeScript uses, shared by every component:
  strings and the \<open>String.prototype\<close> functions, \<open>slice\<close>, thrown errors as a sum type,
  property lookup on object literals, and the generic interface of a state machine with an
  invariant.

  A JavaScript string is the list of its UTF-16 code units. Here a string is a list of
  \<open>char\<close>, one code unit below 256 (Latin-1) each; lengths and indices therefore count code
  units, as JavaScript does.
\<close>

named_theorems js_defs \<open>definitions of the runtime functions, for evaluation\<close>

section \<open>Thrown errors\<close>

text \<open>A computation that may throw returns \<open>Inl\<close> of the error or \<open>Inr\<close> of its value.\<close>

datatype js_error = TypeError | InvalidCharacterError | SyntaxError | AppError string

type_synonym 'a res = "js_error + 'a"

definition bind_res :: "'a res \<Rightarrow> ('a \<Rightarrow> 'b res) \<Rightarrow> 'b res" where
  "bind_res m f = (case m of Inl e \<Rightarrow> Inl e | Inr a \<Rightarrow> f a)"

lemma bind_res_simps [simp]: "bind_res (Inl e) f = Inl e" "bind_res (Inr a) f = f a"
  by (simp_all add: bind_res_def)

lemma bind_res_Inr_iff: "bind_res m f = Inr b \<longleftrightarrow> (\<exists>a. m = Inr a \<and> f a = Inr b)"
  by (cases m) auto

lemma bind_res_assoc: "bind_res (bind_res m f) g = bind_res m (\<lambda>a. bind_res (f a) g)"
  by (cases m) auto

text \<open>\<open>Array.prototype.some\<close> and \<open>every\<close> with a callback that may throw: they stop at the
  first element that decides, so a later element that would throw is never looked at.\<close>

fun some_res :: "('a \<Rightarrow> bool res) \<Rightarrow> 'a list \<Rightarrow> bool res" where
  "some_res f [] = Inr False"
| "some_res f (x # xs) =
     (case f x of Inl e \<Rightarrow> Inl e | Inr b \<Rightarrow> if b then Inr True else some_res f xs)"

fun every_res :: "('a \<Rightarrow> bool res) \<Rightarrow> 'a list \<Rightarrow> bool res" where
  "every_res f [] = Inr True"
| "every_res f (x # xs) =
     (case f x of Inl e \<Rightarrow> Inl e | Inr b \<Rightarrow> if b then every_res f xs else Inr False)"

lemma some_res_total:
  "(\<And>x. x \<in> set xs \<Longrightarrow> f x = Inr (p x)) \<Longrightarrow> some_res f xs = Inr (\<exists>x\<in>set xs. p x)"
  by (induction xs) auto

lemma every_res_total:
  "(\<And>x. x \<in> set xs \<Longrightarrow> f x = Inr (p x)) \<Longrightarrow> every_res f xs = Inr (\<forall>x\<in>set xs. p x)"
  by (induction xs) auto

lemma some_res_True: "some_res f xs = Inr True \<Longrightarrow> \<exists>x\<in>set xs. f x = Inr True"
  by (induction xs) (auto split: sum.splits if_splits)

lemma some_res_False: "some_res f xs = Inr False \<longleftrightarrow> (\<forall>x\<in>set xs. f x = Inr False)"
  by (induction xs) (auto split: sum.splits)

lemma every_res_True: "every_res f xs = Inr True \<longleftrightarrow> (\<forall>x\<in>set xs. f x = Inr True)"
  by (induction xs) (auto split: sum.splits)

lemma every_res_negated_some:
  "every_res f xs = map_sum id Not (some_res (\<lambda>x. map_sum id Not (f x)) xs)"
  by (induction xs) (auto split: sum.splits)

section \<open>Strings\<close>

definition code_unit :: "char \<Rightarrow> nat" where
  "code_unit c = of_char c"

lemma code_unit_less [simp]: "code_unit c < 256"
  by (simp add: code_unit_def)

lemma char_of_code_unit [simp]: "char_of (code_unit c) = c"
  by (simp add: code_unit_def)

lemma code_unit_char_of [simp]: "n < 256 \<Longrightarrow> code_unit (char_of n) = n"
  by (simp add: code_unit_def)

definition is_upper :: "char \<Rightarrow> bool" where
  "is_upper c = (let n = code_unit c in 65 \<le> n \<and> n \<le> 90)"

definition is_lower :: "char \<Rightarrow> bool" where
  "is_lower c = (let n = code_unit c in 97 \<le> n \<and> n \<le> 122)"

definition is_digit :: "char \<Rightarrow> bool" where
  "is_digit c = (let n = code_unit c in 48 \<le> n \<and> n \<le> 57)"

text \<open>\<open>toLowerCase\<close> on Latin-1 code units (\<open>A-Z\<close> and the accented capitals).\<close>

definition to_lower :: "char \<Rightarrow> char" where
  "to_lower c = (let n = code_unit c in
     if 65 \<le> n \<and> n \<le> 90 \<or> 192 \<le> n \<and> n \<le> 222 \<and> n \<noteq> 215 then char_of (n + 32) else c)"

definition toLowerCase :: "string \<Rightarrow> string" where
  "toLowerCase s = map to_lower s"

text \<open>\<open>toUpperCase\<close>, for the letters whose capital is a Latin-1 code unit too (not for the sharp s,
  which becomes two letters, nor for the y with diaeresis and the micro sign).\<close>

definition to_upper :: "char \<Rightarrow> char" where
  "to_upper c = (let n = code_unit c in
     if 97 \<le> n \<and> n \<le> 122 \<or> 224 \<le> n \<and> n \<le> 254 \<and> n \<noteq> 247 then char_of (n - 32) else c)"

definition toUpperCase :: "string \<Rightarrow> string" where
  "toUpperCase s = map to_upper s"

text \<open>White space as \<open>String.prototype.trim\<close> strips it, among the Latin-1 code units.\<close>

definition is_space :: "char \<Rightarrow> bool" where
  "is_space c = (let n = code_unit c in 9 \<le> n \<and> n \<le> 13 \<or> n = 32 \<or> n = 160)"

definition trim :: "string \<Rightarrow> string" where
  "trim s = rev (dropWhile is_space (rev (dropWhile is_space s)))"

lemma trim_trim [simp]: "trim (trim s) = trim s"
proof -
  let ?d = "dropWhile is_space"
  have keep: "?d (rev (?d (rev t))) = rev (?d (rev t))" if "t = [] \<or> \<not> is_space (hd t)" for t
    using that by (cases t) (auto simp: dropWhile_append3)
  have "?d s = [] \<or> \<not> is_space (hd (?d s))" using hd_dropWhile by blast
  note keep = keep [OF this]
  have "?d (rev (rev (?d (rev (?d s))))) = ?d (rev (?d s))" by (simp add: dropWhile_idem)
  then show ?thesis unfolding trim_def by (simp add: keep)
qed

definition startsWith :: "string \<Rightarrow> string \<Rightarrow> bool" where
  "startsWith s p = prefix p s"

definition endsWith :: "string \<Rightarrow> string \<Rightarrow> bool" where
  "endsWith s p = suffix p s"

text \<open>\<open>String.prototype.includes\<close>: \<open>p\<close> occurs in \<open>s\<close> at some position.\<close>

fun str_includes :: "string \<Rightarrow> string \<Rightarrow> bool" where
  "str_includes [] p = (p = [])"
| "str_includes (c # s) p = (prefix p (c # s) \<or> str_includes s p)"

lemma str_includes_sublist: "str_includes s p = sublist p s"
  by (induction s) (auto simp: sublist_Cons_right)

text \<open>\<open>s.split(c)\<close> for a separator of one code unit, and \<open>ws.join(c)\<close>.\<close>

fun split_on :: "char \<Rightarrow> string \<Rightarrow> string list" where
  "split_on c [] = [[]]"
| "split_on c (x # xs) =
     (if x = c then [] # split_on c xs
      else (case split_on c xs of [] \<Rightarrow> [[x]] | w # ws \<Rightarrow> (x # w) # ws))"

fun join_on :: "char \<Rightarrow> string list \<Rightarrow> string" where
  "join_on c [] = []"
| "join_on c [w] = w"
| "join_on c (w # v # ws) = w @ c # join_on c (v # ws)"

lemma split_on_nonempty [simp]: "split_on c s \<noteq> []"
  by (induction s) (auto split: list.splits)

lemma join_split [simp]: "join_on c (split_on c s) = s"
proof (induction s)
  case (Cons x s)
  obtain w ws where "split_on c s = w # ws" by (cases "split_on c s") auto
  with Cons show ?case by (cases ws) auto
qed simp

lemma split_on_no_sep: "w \<in> set (split_on c s) \<Longrightarrow> c \<notin> set w"
proof (induction s arbitrary: w)
  case (Cons x s)
  then show ?case by (cases "split_on c s") (auto split: if_splits)
qed simp

lemma split_on_plain: "c \<notin> set w \<Longrightarrow> split_on c w = [w]"
  by (induction w) auto

lemma split_on_append_sep: "c \<notin> set w \<Longrightarrow> split_on c (w @ c # s) = w # split_on c s"
  by (induction w) auto

lemma split_join: "ws \<noteq> [] \<Longrightarrow> \<forall>w\<in>set ws. c \<notin> set w \<Longrightarrow> split_on c (join_on c ws) = ws"
  by (induction c ws rule: join_on.induct) (auto simp: split_on_plain split_on_append_sep)

text \<open>\<open>xs.filter(Boolean)\<close> on strings keeps the non-empty ones.\<close>

definition filter_Boolean :: "string list \<Rightarrow> string list" where
  "filter_Boolean ws = filter (\<lambda>w. w \<noteq> []) ws"

section \<open>Arrays\<close>

text \<open>\<open>slice(a, b)\<close>: a negative index counts from the end, and both ends are clamped.\<close>

definition rel_index :: "nat \<Rightarrow> int \<Rightarrow> nat" where
  "rel_index n i = (if i < 0 then nat (max 0 (int n + i)) else nat (min i (int n)))"

definition slice :: "'a list \<Rightarrow> int \<Rightarrow> int \<Rightarrow> 'a list" where
  "slice xs a b = (let i = rel_index (length xs) a; j = rel_index (length xs) b
     in take (j - i) (drop i xs))"

definition slice_from :: "'a list \<Rightarrow> int \<Rightarrow> 'a list" where
  "slice_from xs a = drop (rel_index (length xs) a) xs"

lemma slice_0 [simp]: "0 \<le> n \<Longrightarrow> slice xs 0 n = take (nat n) xs"
  by (cases "n \<le> int (length xs)") (auto simp: slice_def rel_index_def Let_def min_def nat_le_iff)

lemma slice_0_neg: "n < 0 \<Longrightarrow> slice xs 0 n = take (length xs - nat (- n)) xs"
proof -
  assume "n < 0"
  then have "rel_index (length xs) n = length xs - nat (- n)"
    by (simp add: rel_index_def nat_diff_distrib' max_def) linarith
  then show ?thesis by (simp add: slice_def rel_index_def)
qed

lemma slice_0_minus_1: "slice xs 0 (- 1) = butlast xs"
  by (simp add: slice_0_neg butlast_conv_take)

lemma slice_from_0 [simp]: "slice_from xs 0 = xs"
  by (simp add: slice_from_def rel_index_def)

lemma slice_from_neg: "0 < n \<Longrightarrow> slice_from xs (- int n) = drop (length xs - n) xs"
proof -
  assume "0 < n"
  then have "rel_index (length xs) (- int n) = length xs - n"
    by (simp add: rel_index_def nat_diff_distrib' max_def)
  then show ?thesis by (simp add: slice_from_def)
qed

lemma set_slice: "set (slice xs a b) \<subseteq> set xs"
  by (auto simp: slice_def Let_def dest: in_set_takeD in_set_dropD)

text \<open>\<open>[...new Set(xs)]\<close>: the first occurrence of each element, in order.\<close>

fun unique_from :: "'a list \<Rightarrow> 'a list \<Rightarrow> 'a list" where
  "unique_from seen [] = []"
| "unique_from seen (x # xs) =
     (if x \<in> set seen then unique_from seen xs else x # unique_from (x # seen) xs)"

definition new_Set :: "'a list \<Rightarrow> 'a list" where
  "new_Set xs = unique_from [] xs"

lemma set_unique_from: "set (unique_from seen xs) = set xs - set seen"
  by (induction seen xs rule: unique_from.induct) auto

lemma distinct_unique_from: "distinct (unique_from seen xs)"
  by (induction seen xs rule: unique_from.induct) (auto simp: set_unique_from)

lemma unique_from_distinct:
  "distinct xs \<Longrightarrow> set xs \<inter> set seen = {} \<Longrightarrow> unique_from seen (xs @ ys) = xs @ unique_from (rev xs @ seen) ys"
  by (induction xs arbitrary: seen) auto

lemma new_Set_simps [simp]: "set (new_Set xs) = set xs" "distinct (new_Set xs)"
  by (simp_all add: new_Set_def set_unique_from distinct_unique_from)

lemma new_Set_append: "distinct xs \<Longrightarrow> new_Set (xs @ ys) = xs @ unique_from (rev xs) ys"
  using unique_from_distinct [of xs "[]" ys] by (simp add: new_Set_def)

text \<open>\<open>xs.indexOf(x)\<close>: the first position, or -1.\<close>

fun index_from :: "nat \<Rightarrow> 'a list \<Rightarrow> 'a \<Rightarrow> int" where
  "index_from i [] y = - 1"
| "index_from i (x # xs) y = (if x = y then int i else index_from (Suc i) xs y)"

definition indexOf :: "'a list \<Rightarrow> 'a \<Rightarrow> int" where
  "indexOf xs y = index_from 0 xs y"

lemma index_from_notin: "y \<notin> set xs \<Longrightarrow> index_from i xs y = - 1"
  by (induction xs arbitrary: i) auto

lemma index_from_in:
  "y \<in> set xs \<Longrightarrow> \<exists>k < length xs. index_from i xs y = int (i + k) \<and> xs ! k = y"
proof (induction xs arbitrary: i)
  case (Cons x xs)
  show ?case
  proof (cases "x = y")
    case False
    with Cons obtain k where "k < length xs" "index_from (Suc i) xs y = int (Suc i + k)" "xs ! k = y"
      by fastforce
    with False show ?thesis by (intro exI [of _ "Suc k"]) simp
  qed auto
qed simp

lemma indexOf_notin: "y \<notin> set xs \<Longrightarrow> indexOf xs y = - 1"
  by (simp add: indexOf_def index_from_notin)

lemma indexOf_in: "y \<in> set xs \<Longrightarrow> \<exists>k < length xs. indexOf xs y = int k \<and> xs ! k = y"
  using index_from_in [of y xs 0] by (simp add: indexOf_def)

section \<open>Property lookup on an object literal\<close>

text \<open>
  \<open>obj[key]\<close> on an object literal finds an own property, else one inherited from
  \<open>Object.prototype\<close> (a function, or for \<open>__proto__\<close> the prototype object), else
  \<open>undefined\<close>.
\<close>

datatype 'v property = Own 'v | Inherited | Missing

definition object_prototype :: "string list" where
  "object_prototype =
     [''constructor'', ''__defineGetter__'', ''__defineSetter__'', ''hasOwnProperty'',
      ''__lookupGetter__'', ''__lookupSetter__'', ''isPrototypeOf'', ''propertyIsEnumerable'',
      ''toString'', ''valueOf'', ''__proto__'', ''toLocaleString'']"

definition obj_get :: "(string \<times> 'v) list \<Rightarrow> string \<Rightarrow> 'v property" where
  "obj_get kvs k = (case map_of kvs k of
     Some v \<Rightarrow> Own v
   | None \<Rightarrow> if k \<in> set object_prototype then Inherited else Missing)"

lemma obj_get_Own [simp]: "obj_get kvs k = Own v \<longleftrightarrow> map_of kvs k = Some v"
  by (auto simp: obj_get_def split: option.splits if_splits)

lemma obj_get_Inherited: "obj_get kvs k = Inherited \<longleftrightarrow> map_of kvs k = None \<and> k \<in> set object_prototype"
  by (auto simp: obj_get_def split: option.splits if_splits)

lemma obj_get_Missing: "obj_get kvs k = Missing \<longleftrightarrow> map_of kvs k = None \<and> k \<notin> set object_prototype"
  by (auto simp: obj_get_def split: option.splits if_splits)

section \<open>Components with an invariant\<close>

text \<open>
  The contract every stateful component of the panel meets: its handlers are a step function
  on events, and each handler keeps the component's invariant. Then every run keeps it.
\<close>

locale component =
  fixes step :: "'e \<Rightarrow> 's \<Rightarrow> 's" and inv :: "'s \<Rightarrow> bool"
  assumes step_inv: "inv s \<Longrightarrow> inv (step e s)"
begin

lemma run_inv: "inv s \<Longrightarrow> inv (fold step es s)"
  by (induction es arbitrary: s) (auto intro: step_inv)

end

lemmas [js_defs] = code_unit_def to_lower_def toLowerCase_def to_upper_def toUpperCase_def is_space_def trim_def
  startsWith_def endsWith_def slice_def slice_from_def rel_index_def new_Set_def indexOf_def
  is_upper_def is_lower_def is_digit_def filter_Boolean_def

end
