(* ===== verification/Json.thy ===== *)
theory Json
  imports Prelude
begin

text \<open>
  Dynamically typed values: what \<open>JSON.parse\<close> returns and \<open>JSON.stringify\<close> is given.
  A value of type \<open>json option\<close> may also be \<open>undefined\<close> (\<open>None\<close>). The operators are the
  ones the panel applies to such values: member access with and without \<open>?.\<close>, \<open>??\<close>,
  truthiness, \<open>includes\<close> and object spread.
\<close>

datatype json =
    JNull
  | JBool bool
  | JNum rat
  | JStr string
  | JArr "json list"
  | JObj "(string \<times> json) list"

type_synonym jsval = "json option"

text \<open>Own property access. The names the panel reads (\<open>sub\<close>, \<open>roles\<close>, \<open>accessToken\<close>,
  \<open>error\<close>, ...) are not properties of arrays, strings, numbers or booleans, nor inherited.\<close>

fun own_prop :: "json \<Rightarrow> string \<Rightarrow> jsval" where
  "own_prop (JObj kvs) k = map_of kvs k"
| "own_prop _ k = None"

text \<open>\<open>v.k\<close> throws on \<open>undefined\<close> and \<open>null\<close>; \<open>v?.k\<close> is \<open>undefined\<close> there.\<close>

fun member :: "jsval \<Rightarrow> string \<Rightarrow> jsval res" where
  "member None k = Inl TypeError"
| "member (Some JNull) k = Inl TypeError"
| "member (Some j) k = Inr (own_prop j k)"

fun opt_member :: "jsval \<Rightarrow> string \<Rightarrow> jsval" where
  "opt_member None k = None"
| "opt_member (Some JNull) k = None"
| "opt_member (Some j) k = own_prop j k"

text \<open>\<open>v ?? w\<close>.\<close>

fun nullish :: "jsval \<Rightarrow> bool" where
  "nullish None = True"
| "nullish (Some JNull) = True"
| "nullish _ = False"

definition coalesce :: "jsval \<Rightarrow> jsval \<Rightarrow> jsval" where
  "coalesce v w = (if nullish v then w else v)"

fun truthy :: "jsval \<Rightarrow> bool" where
  "truthy None = False"
| "truthy (Some JNull) = False"
| "truthy (Some (JBool b)) = b"
| "truthy (Some (JNum q)) = (q \<noteq> 0)"
| "truthy (Some (JStr s)) = (s \<noteq> [])"
| "truthy (Some (JArr _)) = True"
| "truthy (Some (JObj _)) = True"

text \<open>\<open>v.includes(s)\<close> for a string \<open>s\<close>: membership in an array, occurrence in a string, and
  a thrown \<open>TypeError\<close> on a value that has no such method.\<close>

fun js_includes :: "jsval \<Rightarrow> string \<Rightarrow> bool res" where
  "js_includes (Some (JArr xs)) s = Inr (JStr s \<in> set xs)"
| "js_includes (Some (JStr t)) s = Inr (str_includes t s)"
| "js_includes _ s = Inl TypeError"

text \<open>\<open>{ ...obj, k: v, ... }\<close>: a later entry replaces an earlier one (the order of keys is not kept); an entry whose
  value is \<open>undefined\<close> reads as absent, as \<open>JSON.stringify\<close> leaves it out.\<close>

definition set_prop :: "string \<Rightarrow> jsval \<Rightarrow> (string \<times> json) list \<Rightarrow> (string \<times> json) list" where
  "set_prop k v kvs = (case v of
     None \<Rightarrow> filter (\<lambda>(k', _). k' \<noteq> k) kvs
   | Some j \<Rightarrow> filter (\<lambda>(k', _). k' \<noteq> k) kvs @ [(k, j)])"

fun entries :: "json \<Rightarrow> (string \<times> json) list" where
  "entries (JObj kvs) = kvs"
| "entries _ = []"

definition spread :: "json \<Rightarrow> (string \<times> jsval) list \<Rightarrow> json" where
  "spread j kvs = JObj (fold (\<lambda>(k, v). set_prop k v) kvs (entries j))"

definition obj :: "(string \<times> jsval) list \<Rightarrow> json" where
  "obj kvs = spread (JObj []) kvs"

lemma map_of_filter_key:
  "map_of (filter (\<lambda>(k', _). k' \<noteq> k) kvs) k'' = (if k'' = k then None else map_of kvs k'')"
  by (induction kvs) auto

lemma map_of_set_prop [simp]: "map_of (set_prop k v kvs) = (map_of kvs)(k := v)"
  by (rule ext) (auto simp: set_prop_def map_of_filter_key map_add_def split: option.splits)

lemma prop_spread: "own_prop (spread j kvs) k = fold (\<lambda>(k, v) m. m(k := v)) kvs (map_of (entries j)) k"
proof -
  have "map_of (fold (\<lambda>(k, v). set_prop k v) kvs es) = fold (\<lambda>(k, v) m. m(k := v)) kvs (map_of es)" for es
    by (induction kvs arbitrary: es) auto
  then show ?thesis by (simp add: spread_def)
qed

lemma prop_obj: "own_prop (obj kvs) k = fold (\<lambda>(k, v) m. m(k := v)) kvs Map.empty k"
  by (simp add: obj_def prop_spread)

lemma map_of_entries: "map_of (entries j) = own_prop j"
  by (cases j) (auto simp: fun_eq_iff)

lemma nullish_iff: "nullish v \<longleftrightarrow> v = None \<or> v = Some JNull"
  by (cases v rule: nullish.cases) auto

lemma coalesce_simps [simp]:
  "coalesce None w = w" "coalesce (Some JNull) w = w"
  "\<not> nullish v \<Longrightarrow> coalesce v w = v"
  by (simp_all add: coalesce_def)

lemma truthy_not_nullish: "truthy v \<Longrightarrow> \<not> nullish v"
  by (cases v rule: truthy.cases) auto

lemma member_Inr: "member v k = Inr w \<longleftrightarrow> \<not> nullish v \<and> w = opt_member v k"
  by (cases "(v, k)" rule: member.cases) auto

lemma member_Inl: "member v k = Inl e \<longleftrightarrow> nullish v \<and> e = TypeError"
  by (cases "(v, k)" rule: member.cases) auto

lemma spread_not_nullish [simp]: "\<not> nullish (Some (spread j kvs))"
  by (simp add: spread_def)

lemma opt_member_Some [simp]: "\<not> nullish (Some j) \<Longrightarrow> opt_member (Some j) k = own_prop j k"
  by (cases j) auto

text \<open>What \<open>s + v\<close> appends to the string \<open>s\<close>; \<open>text_of\<close> gives the text of a value that is no string.\<close>

fun appended :: "(json \<Rightarrow> string) \<Rightarrow> jsval \<Rightarrow> string" where
  "appended text_of (Some (JStr t)) = t"
| "appended text_of None = ''undefined''"
| "appended text_of (Some j) = text_of j"

text \<open>An array of strings, the shape the panel expects of roles and permissions.\<close>

definition str_arr :: "string list \<Rightarrow> json" where
  "str_arr ss = JArr (map JStr ss)"

lemma includes_str_arr [simp]: "js_includes (Some (str_arr ss)) s = Inr (s \<in> set ss)"
  by (auto simp: str_arr_def)

lemma truthy_str_arr [simp]: "truthy (Some (str_arr ss))"
  by (simp add: str_arr_def)

end
