(* ===== verification/LocalStorage.thy ===== *)
theory LocalStorage
  imports Json
begin

text \<open>
  The browser's \<open>localStorage\<close> as the panel uses it. Every item the panel stores is the
  \<open>JSON.stringify\<close> of a value and every item it reads goes through \<open>JSON.parse\<close>, so an item
  is represented by what parsing it gives: a value, or a syntax error.
\<close>

datatype item = Valid json | Corrupt

type_synonym storage = "string \<rightharpoonup> item"

definition getItem :: "storage \<Rightarrow> string \<Rightarrow> item option" where
  "getItem st k = st k"

definition setItem :: "string \<Rightarrow> json \<Rightarrow> storage \<Rightarrow> storage" where
  "setItem k j st = st(k \<mapsto> Valid j)"

definition removeItem :: "string \<Rightarrow> storage \<Rightarrow> storage" where
  "removeItem k st = st(k := None)"

fun JSON_parse :: "item \<Rightarrow> json res" where
  "JSON_parse (Valid j) = Inr j"
| "JSON_parse Corrupt = Inl SyntaxError"

text \<open>
  What the stores and the API client rely on: reading a key gives the value last written
  under it, removal leaves nothing, and other keys are not touched.
\<close>

locale key_value =
  fixes get :: "'d \<Rightarrow> 'k \<Rightarrow> 'i option"
    and put :: "'k \<Rightarrow> 'v \<Rightarrow> 'd \<Rightarrow> 'd"
    and del :: "'k \<Rightarrow> 'd \<Rightarrow> 'd"
    and item :: "'v \<Rightarrow> 'i"
  assumes get_put: "get (put k v d) k' = (if k' = k then Some (item v) else get d k')"
    and get_del: "get (del k d) k' = (if k' = k then None else get d k')"
begin

lemma last_write_wins: "get (put k v (put k w d)) k' = get (put k v d) k'"
  by (simp add: get_put)

lemma writes_commute: "k \<noteq> k' \<Longrightarrow> get (put k v (put k' w d)) x = get (put k' w (put k v d)) x"
  by (simp add: get_put)

lemma other_keys_kept:
  "\<forall>(k', v)\<in>set kvs. k' \<noteq> k \<Longrightarrow> get (fold (\<lambda>(k', v) d. put k' v d) kvs d) k = get d k"
  by (induction kvs arbitrary: d) (auto simp: get_put)

end

interpretation ls: key_value getItem setItem removeItem Valid
  by unfold_locales (auto simp: getItem_def setItem_def removeItem_def)

lemma getItem_setItem [simp]: "getItem (setItem k j st) k = Some (Valid j)"
  by (simp add: ls.get_put)

lemma getItem_removeItem [simp]: "getItem (removeItem k st) k = None"
  by (simp add: ls.get_del)

end
