(* ===== verification/AuthStore.thy ===== *)
theory AuthStore
  imports LocalStorage
begin

text \<open>
  The authentication store of lib/stores/auth.store.ts (state, \<open>setTokens\<close>, \<open>setUser\<close>,
  \<open>logout\<close>, \<open>hasPermission\<close>, \<open>hasRole\<close>, \<open>partialize\<close>) and the session helpers of
  lib/auth/session.ts, with the token decoding they and the API client share.
  \<open>JSON.parse\<close> of the decoded token text is the parameter \<open>parse\<close>.
\<close>

section \<open>Decoding an access token\<close>

text \<open>\<open>atob\<close>: forgiving base64 decoding over the alphabet \<open>A-Z a-z 0-9 + /\<close>. White space is
  dropped, at most two trailing \<open>=\<close> are dropped from a text of full groups, and then a length
  of one more than a multiple of four or a foreign character is an error.\<close>

definition b64_val :: "char \<Rightarrow> nat option" where
  "b64_val c = (let n = code_unit c in
     if 65 \<le> n \<and> n \<le> 90 then Some (n - 65)
     else if 97 \<le> n \<and> n \<le> 122 then Some (n - 71)
     else if 48 \<le> n \<and> n \<le> 57 then Some (n + 4)
     else if n = 43 then Some 62
     else if n = 47 then Some 63
     else None)"

fun b64_bytes :: "nat list \<Rightarrow> nat list" where
  "b64_bytes (a # b # c # d # vs) =
     (a * 4 + b div 16) # (b mod 16 * 16 + c div 4) # (c mod 4 * 64 + d) # b64_bytes vs"
| "b64_bytes [a, b, c] = [a * 4 + b div 16, b mod 16 * 16 + c div 4]"
| "b64_bytes [a, b] = [a * 4 + b div 16]"
| "b64_bytes _ = []"

definition b64_strip :: "string \<Rightarrow> string" where
  "b64_strip s =
    (let t = filter (\<lambda>c. code_unit c \<notin> {9, 10, 12, 13, 32}) s in
     if length t mod 4 = 0 then
       (if endsWith t ''=='' then take (length t - 2) t
        else if endsWith t ''='' then take (length t - 1) t else t)
     else t)"

fun all_some :: "'a option list \<Rightarrow> 'a list option" where
  "all_some [] = Some []"
| "all_some (x # xs) =
     (case x of None \<Rightarrow> None | Some a \<Rightarrow> map_option ((#) a) (all_some xs))"

definition atob :: "string \<Rightarrow> string res" where
  "atob s =
    (let t = b64_strip s in
     if length t mod 4 = 1 then Inl InvalidCharacterError
     else case all_some (map b64_val t) of
            None \<Rightarrow> Inl InvalidCharacterError
          | Some vs \<Rightarrow> Inr (map char_of (b64_bytes vs)))"

text \<open>\<open>token.split(".")[1]\<close>, which \<open>atob\<close> turns into the text \<open>undefined\<close> when absent.\<close>

definition payload_segment :: "string \<Rightarrow> string" where
  "payload_segment tok = (case split_on (CHR ''.'') tok of _ # p # _ \<Rightarrow> p | _ \<Rightarrow> ''undefined'')"

definition user_of_payload :: "json \<Rightarrow> json res" where
  "user_of_payload p =
    (if p = JNull then Inl TypeError
     else Inr (obj
      [(''id'', own_prop p ''sub''),
       (''email'', own_prop p ''email''),
       (''username'', own_prop p ''username''),
       (''orgId'', own_prop p ''org''),
       (''roles'', coalesce (own_prop p ''roles'') (Some (JArr []))),
       (''permissions'', coalesce (own_prop p ''perms'') (Some (JArr [])))]))"

definition decode_user :: "(string \<Rightarrow> json res) \<Rightarrow> jsval \<Rightarrow> json res" where
  "decode_user parse tok =
    (case tok of
       Some (JStr t) \<Rightarrow>
         bind_res (atob (payload_segment t)) (\<lambda>src. bind_res (parse src) user_of_payload)
     | _ \<Rightarrow> Inl TypeError)"

section \<open>The store\<close>

record auth_state =
  accessToken :: json
  refreshToken :: json
  user :: json
  isAuthenticated :: bool

definition auth_init :: auth_state where
  "auth_init = \<lparr>accessToken = JNull, refreshToken = JNull, user = JNull, isAuthenticated = False\<rparr>"

definition setTokens ::
  "(string \<Rightarrow> json res) \<Rightarrow> string \<Rightarrow> string \<Rightarrow> auth_state \<Rightarrow> auth_state" where
  "setTokens parse acc ref s =
    (case decode_user parse (Some (JStr acc)) of
       Inr u \<Rightarrow> s\<lparr>accessToken := JStr acc, refreshToken := JStr ref, isAuthenticated := True,
                 user := u\<rparr>
     | Inl e \<Rightarrow> s\<lparr>accessToken := JStr acc, refreshToken := JStr ref, isAuthenticated := True\<rparr>)"

definition setUser :: "json \<Rightarrow> auth_state \<Rightarrow> auth_state" where
  "setUser u s = s\<lparr>user := u\<rparr>"

text \<open>\<open>logout\<close> also sends the browser to the login page.\<close>

definition logout :: "auth_state \<Rightarrow> auth_state \<times> string" where
  "logout s =
    (s\<lparr>accessToken := JNull, refreshToken := JNull, user := JNull, isAuthenticated := False\<rparr>,
     ''/login'')"

definition hasPermission :: "auth_state \<Rightarrow> string \<Rightarrow> bool res" where
  "hasPermission s perm =
    (let ps = opt_member (Some (user s)) ''permissions'' in
     if \<not> truthy ps then Inr False
     else bind_res (js_includes ps ''super:*'')
            (\<lambda>b. if b then Inr True else js_includes ps perm))"

definition hasRole :: "auth_state \<Rightarrow> string \<Rightarrow> bool res" where
  "hasRole s r =
    (let rs = opt_member (Some (user s)) ''roles'' in
     if \<not> truthy rs then Inr False
     else bind_res (js_includes rs ''super_admin'')
            (\<lambda>b. if b then Inr True else js_includes rs r))"

definition partialize :: "auth_state \<Rightarrow> json" where
  "partialize s = obj
    [(''accessToken'', Some (accessToken s)),
     (''refreshToken'', Some (refreshToken s)),
     (''user'', Some (user s)),
     (''isAuthenticated'', Some (JBool (isAuthenticated s)))]"

text \<open>What the persist middleware keeps under the store's name: the item the API client reads.\<close>

definition auth_key :: string where
  "auth_key = ''xp-auth''"

definition persist_auth :: "auth_state \<Rightarrow> storage \<Rightarrow> storage" where
  "persist_auth s = setItem auth_key (obj [(''state'', Some (partialize s)), (''version'', Some (JNum 0))])"

section \<open>Session helpers\<close>

definition session_getAccessToken :: "auth_state \<Rightarrow> json" where
  "session_getAccessToken s = accessToken s"

definition session_isAuthenticated :: "auth_state \<Rightarrow> bool" where
  "session_isAuthenticated s = isAuthenticated s"

definition session_getCurrentUser :: "auth_state \<Rightarrow> json" where
  "session_getCurrentUser s = user s"

definition session_clearSession :: "auth_state \<Rightarrow> auth_state" where
  "session_clearSession s = fst (logout s)"

definition session_hasRole :: "auth_state \<Rightarrow> string \<Rightarrow> bool res" where
  "session_hasRole s r =
    (let rs = opt_member (Some (user s)) ''roles'' in
     if nullish rs then Inr False else js_includes rs r)"

definition session_hasPermission :: "auth_state \<Rightarrow> string \<Rightarrow> bool res" where
  "session_hasPermission s perm =
    (let rs = opt_member (Some (user s)) ''roles'' in
     if \<not> truthy rs then Inr False
     else bind_res (js_includes rs ''super_admin'')
            (\<lambda>b. if b then Inr True else js_includes rs perm))"

section \<open>Reading a token back\<close>

text \<open>The unpadded base64 text of a string, as a token's issuer writes it with the standard
  alphabet: the reference that \<open>atob\<close> has to invert.\<close>

definition b64_char :: "nat \<Rightarrow> char" where
  "b64_char n = (if n < 26 then char_of (n + 65) else if n < 52 then char_of (n + 71)
     else if n < 62 then char_of (n - 4) else if n = 62 then CHR ''+'' else CHR ''/'')"

fun b64_sextets :: "nat list \<Rightarrow> nat list" where
  "b64_sextets (a # b # c # bs) =
     a div 4 # (a mod 4 * 16 + b div 16) # (b mod 16 * 4 + c div 64) # c mod 64 # b64_sextets bs"
| "b64_sextets [a, b] = [a div 4, a mod 4 * 16 + b div 16, b mod 16 * 4]"
| "b64_sextets [a] = [a div 4, a mod 4 * 16]"
| "b64_sextets [] = []"

definition b64_encode :: "string \<Rightarrow> string" where
  "b64_encode s = map b64_char (b64_sextets (map code_unit s))"

lemma sextets_bound: "\<forall>b\<in>set bs. b < 256 \<Longrightarrow> \<forall>v\<in>set (b64_sextets bs). v < 64"
  by (induction bs rule: b64_sextets.induct) auto

lemma length_sextets: "length (b64_sextets bs) mod 4 \<noteq> 1"
  by (induction bs rule: b64_sextets.induct) auto

lemma shift_add:
  "x < 16 \<Longrightarrow> (k * 16 + x) div 16 = (k::nat)" "x < 16 \<Longrightarrow> (k * 16 + x) mod 16 = (x::nat)"
  "y < 4 \<Longrightarrow> (k * 4 + y) div 4 = (k::nat)" "y < 4 \<Longrightarrow> (k * 4 + y) mod 4 = (y::nat)"
  by simp_all

lemma bytes_sextets: "\<forall>b\<in>set bs. b < 256 \<Longrightarrow> b64_bytes (b64_sextets bs) = bs"
proof (induction bs rule: b64_sextets.induct)
  case (1 a b c bs)
  then have "b div 16 < 16" "c div 64 < 4" by auto
  with 1 show ?case by (simp add: shift_add)
next
  case (2 a b)
  then have "b div 16 < 16" by auto
  then show ?case by (simp add: shift_add)
qed simp_all

lemma code_unit_plus: "code_unit CHR ''+'' = 43" and code_unit_slash: "code_unit CHR ''/'' = 47"
  by (simp_all add: code_unit_def)

lemma code_unit_b64_char:
  "n < 64 \<Longrightarrow> code_unit (b64_char n) =
    (if n < 26 then n + 65 else if n < 52 then n + 71 else if n < 62 then n - 4
     else if n = 62 then 43 else 47)"
  by (simp add: b64_char_def code_unit_char_of code_unit_plus code_unit_slash)

lemma b64_charD:
  assumes "n < 64"
  shows "b64_val (b64_char n) = Some n" and "code_unit (b64_char n) \<notin> {9, 10, 12, 13, 32, 46, 61}"
proof -
  note u = code_unit_b64_char [OF assms]
  consider "n < 26" | "26 \<le> n" "n < 52" | "52 \<le> n" "n < 62" | "n = 62" | "n = 63"
    using assms by linarith
  then have "b64_val (b64_char n) = Some n \<and> code_unit (b64_char n) \<notin> {9, 10, 12, 13, 32, 46, 61}"
  proof cases
    case 3
    then have "n - 4 \<noteq> 47" "n - 4 \<noteq> 43" "48 \<le> n - 4" "n - 4 \<le> 57" by linarith+
    with 3 show ?thesis by (simp add: b64_val_def u Let_def)
  qed (simp_all add: b64_val_def code_unit_b64_char Let_def)
  then show "b64_val (b64_char n) = Some n" and "code_unit (b64_char n) \<notin> {9, 10, 12, 13, 32, 46, 61}"
    by simp_all
qed

lemma all_some_map: "(\<And>x. x \<in> set xs \<Longrightarrow> f x = Some (g x)) \<Longrightarrow> all_some (map f xs) = Some (map g xs)"
  by (induction xs) auto

lemma all_some_None: "x \<in> set xs \<Longrightarrow> f x = None \<Longrightarrow> all_some (map f xs) = None"
  by (induction xs) (auto split: option.splits)

lemma b64_strip_id:
  assumes "\<forall>c\<in>set s. code_unit c \<notin> {9, 10, 12, 13, 32, 61}"
  shows "b64_strip s = s"
proof -
  have f: "filter (\<lambda>c. code_unit c \<notin> {9, 10, 12, 13, 32}) s = s"
    using assms by (simp add: filter_id_conv)
  have "\<not> endsWith s (CHR ''='' # e)" for e
    using assms by (auto simp: endsWith_def suffix_def code_unit_def)
  moreover have "\<not> endsWith s ''=''"
    using assms by (auto simp: endsWith_def suffix_def code_unit_def)
  ultimately show ?thesis using f by (simp add: b64_strip_def)
qed

lemma atob_encode: "atob (b64_encode src) = Inr src"
proof -
  let ?vs = "b64_sextets (map code_unit src)"
  have b: "\<forall>b\<in>set (map code_unit src). b < 256" by (auto simp: code_unit_less)
  note vs = sextets_bound [OF b]
  have "b64_strip (b64_encode src) = b64_encode src"
    by (rule b64_strip_id) (use vs b64_charD(2) in \<open>fastforce simp: b64_encode_def\<close>)
  moreover have "all_some (map b64_val (b64_encode src)) = Some ?vs"
    using all_some_map [of ?vs "b64_val \<circ> b64_char" id] vs
    by (simp add: b64_encode_def b64_charD(1))
  moreover have "length (b64_encode src) mod 4 \<noteq> 1"
    using length_sextets by (simp add: b64_encode_def)
  moreover have "map char_of (b64_bytes ?vs) = src"
    by (simp add: bytes_sextets [OF b] o_def)
  ultimately show ?thesis by (simp add: atob_def)
qed

lemma encode_no_dot: "CHR ''.'' \<notin> set (b64_encode src)"
proof -
  have b: "\<forall>b\<in>set (map code_unit src). b < 256" by (auto simp: code_unit_less)
  have "b64_char n \<noteq> CHR ''.''" if "n < 64" for n
    using b64_charD(2) [OF that] by (auto simp: code_unit_def)
  then show ?thesis using sextets_bound [OF b] by (fastforce simp: b64_encode_def)
qed

lemma payload_segment_token:
  "CHR ''.'' \<notin> set h \<Longrightarrow> CHR ''.'' \<notin> set p \<Longrightarrow>
   payload_segment (h @ CHR ''.'' # p @ CHR ''.'' # sg) = p"
  by (simp add: payload_segment_def split_on_append_sep)

text \<open>The characters of base64url that standard base64 lacks make \<open>atob\<close> fail.\<close>

lemma mem_b64_strip:
  assumes "c \<in> set s" and "code_unit c \<notin> {9, 10, 12, 13, 32, 61}"
  shows "c \<in> set (b64_strip s)"
proof -
  let ?t = "filter (\<lambda>c. code_unit c \<notin> {9, 10, 12, 13, 32}) s"
  have t: "c \<in> set ?t" using assms by simp
  have "c \<in> set (take (length ?t - 2) ?t)" if "endsWith ?t ''==''"
  proof -
    from that obtain u where "?t = u @ ''==''" by (auto simp: endsWith_def suffix_def)
    moreover have "c \<in> set (u @ ''=='')" using t calculation by metis
    ultimately show ?thesis using assms(2) by (auto simp: code_unit_def)
  qed
  moreover have "c \<in> set (take (length ?t - 1) ?t)" if "endsWith ?t ''=''"
  proof -
    from that obtain u where "?t = u @ ''=''" by (auto simp: endsWith_def suffix_def)
    moreover have "c \<in> set (u @ ''='')" using t calculation by metis
    ultimately show ?thesis using assms(2) by (auto simp: code_unit_def)
  qed
  ultimately show ?thesis using t by (simp add: b64_strip_def Let_def)
qed

lemma atob_foreign:
  assumes "c \<in> set s" and "c = CHR ''-'' \<or> c = CHR ''_''"
  shows "atob s = Inl InvalidCharacterError"
proof -
  have v: "b64_val c = None" and u: "code_unit c \<notin> {9, 10, 12, 13, 32, 61}"
    using assms(2) by (auto simp: b64_val_def code_unit_def)
  show ?thesis
    using all_some_None [of c "b64_strip s" b64_val] mem_b64_strip [OF assms(1) u] v
    by (simp add: atob_def Let_def)
qed

section \<open>Facts about users\<close>

lemma user_of_payload_props:
  assumes "user_of_payload p = Inr u"
  shows "u \<noteq> JNull"
    and "own_prop u ''permissions'' = coalesce (own_prop p ''perms'') (Some (JArr []))"
    and "own_prop u ''roles'' = coalesce (own_prop p ''roles'') (Some (JArr []))"
  using assms by (auto simp: user_of_payload_def prop_obj obj_def spread_def split: if_splits)

lemma opt_member_user: "u \<noteq> JNull \<Longrightarrow> opt_member (Some u) k = own_prop u k"
  by (cases u) auto

lemma hasPermission_arr:
  "opt_member (Some (user s)) ''permissions'' = Some (str_arr ps) \<Longrightarrow>
   hasPermission s a = Inr (''super:*'' \<in> set ps \<or> a \<in> set ps)"
  by (simp add: hasPermission_def)

lemma hasRole_arr:
  "opt_member (Some (user s)) ''roles'' = Some (str_arr rs) \<Longrightarrow>
   hasRole s r = Inr (''super_admin'' \<in> set rs \<or> r \<in> set rs)"
  by (simp add: hasRole_def)

lemma session_hasPermission_is_hasRole: "session_hasPermission s p = hasRole s p"
  by (simp add: session_hasPermission_def hasRole_def)

section \<open>The store as a component\<close>

datatype auth_event = SetTokens string string | SetUser json | Logout

fun auth_step :: "(string \<Rightarrow> json res) \<Rightarrow> auth_event \<Rightarrow> auth_state \<Rightarrow> auth_state" where
  "auth_step parse (SetTokens a r) s = setTokens parse a r s"
| "auth_step parse (SetUser u) s = setUser u s"
| "auth_step parse Logout s = fst (logout s)"

definition auth_inv :: "auth_state \<Rightarrow> bool" where
  "auth_inv s \<longleftrightarrow> (isAuthenticated s \<longleftrightarrow> accessToken s \<noteq> JNull) \<and>
     (isAuthenticated s \<longleftrightarrow> refreshToken s \<noteq> JNull)"

lemma setTokens_fields [simp]:
  "accessToken (setTokens parse a r s) = JStr a"
  "refreshToken (setTokens parse a r s) = JStr r"
  "isAuthenticated (setTokens parse a r s)"
  by (auto simp: setTokens_def split: sum.splits)

lemma setTokens_user:
  "user (setTokens parse a r s) =
    (case decode_user parse (Some (JStr a)) of Inr u \<Rightarrow> u | Inl _ \<Rightarrow> user s)"
  by (auto simp: setTokens_def split: sum.splits)

interpretation auth: component "auth_step parse" auth_inv for parse
proof
  fix s e
  show "auth_inv s \<Longrightarrow> auth_inv (auth_step parse e s)"
    by (cases e) (auto simp: auth_inv_def setUser_def logout_def)
qed

section \<open>Properties\<close>

text \<open>Property C3: a token whose payload segment is the standard base64 of a text is decoded to
  exactly the user that text describes: \<open>setTokens\<close> stores the user built from what
  \<open>JSON.parse\<close> gives for the text.\<close>

theorem token_roundtrip:
  assumes "CHR ''.'' \<notin> set h" and "parse src = Inr p" and "user_of_payload p = Inr u"
  shows "setTokens parse (h @ CHR ''.'' # b64_encode src @ CHR ''.'' # sg) r s =
    \<lparr>accessToken = JStr (h @ CHR ''.'' # b64_encode src @ CHR ''.'' # sg),
     refreshToken = JStr r, user = u, isAuthenticated = True\<rparr>"
  using assms encode_no_dot [of src]
  by (simp add: setTokens_def decode_user_def payload_segment_token atob_encode)

theorem token_roundtrip_witness:
  "setTokens (\<lambda>t. if t = ''{}'' then Inr (JObj []) else Inl SyntaxError)
     (''h'' @ CHR ''.'' # b64_encode ''{}'' @ CHR ''.'' # ''s'') ''r'' auth_init =
    \<lparr>accessToken = JStr ''h.e30.s'', refreshToken = JStr ''r'',
     user = JObj [(''roles'', JArr []), (''permissions'', JArr [])], isAuthenticated = True\<rparr>"
proof -
  have e: "b64_encode ''{}'' = ''e30''" by code_simp
  have u: "user_of_payload (JObj []) = Inr (JObj [(''roles'', JArr []), (''permissions'', JArr [])])"
    by code_simp
  show ?thesis
    using token_roundtrip [of "''h''" "\<lambda>t. if t = ''{}'' then Inr (JObj []) else Inl SyntaxError"
        "''{}''" "JObj []", OF _ _ u, of "''s''" "''r''" auth_init]
    by (simp add: e)
qed

text \<open>Property C4: the permission check after sign-in: once \<open>setTokens\<close> has decoded a payload
  whose \<open>perms\<close> claim is a list of strings, \<open>hasPermission\<close> answers exactly for the listed
  permissions and for everything when \<open>super:*\<close> is listed, whatever user was there before.\<close>

theorem hasPermission_after_setTokens:
  assumes "decode_user parse (Some (JStr tok)) = user_of_payload p" and "p \<noteq> JNull"
    and "own_prop p ''perms'' = Some (str_arr ps)"
  shows "hasPermission (setTokens parse tok r s) a = Inr (''super:*'' \<in> set ps \<or> a \<in> set ps)"
proof -
  from assms(2) obtain u where u: "user_of_payload p = Inr u" by (simp add: user_of_payload_def)
  have "own_prop u ''permissions'' = Some (str_arr ps)"
    using user_of_payload_props(2) [OF u] assms(3) truthy_not_nullish [OF truthy_str_arr] by simp
  then show ?thesis
    using user_of_payload_props(1) [OF u] assms(1) u
    by (simp add: hasPermission_arr setTokens_user opt_member_user)
qed

theorem hasPermission_after_setTokens_witness:
  "hasPermission (setTokens (\<lambda>_. Inr (JObj [(''perms'', str_arr [''dns:read''])])) ''h.e30.s'' ''r'' auth_init)
     ''dns:read'' = Inr (''super:*'' \<in> set [''dns:read''] \<or> ''dns:read'' \<in> set [''dns:read''])"
proof -
  have a: "atob (payload_segment ''h.e30.s'') = Inr ''{}''" by code_simp
  show ?thesis
    by (rule hasPermission_after_setTokens [where p = "JObj [(''perms'', str_arr [''dns:read''])]"])
      (simp_all add: decode_user_def a)
qed

text \<open>Property C38: tokens are base64url, but \<open>atob\<close> reads base64: whenever the payload segment
  uses one of the two characters in which the alphabets differ, \<open>setTokens\<close> signs the session in
  and keeps the user (roles and permissions) that was in the store before.\<close>

theorem setTokens_base64url_keeps_user:
  assumes "CHR ''-'' \<in> set (payload_segment tok) \<or> CHR ''_'' \<in> set (payload_segment tok)"
  shows "setTokens parse tok r s =
    \<lparr>accessToken = JStr tok, refreshToken = JStr r, user = user s, isAuthenticated = True\<rparr>"
proof -
  have "atob (payload_segment tok) = Inl InvalidCharacterError"
    using assms atob_foreign by blast
  then show ?thesis by (simp add: setTokens_def decode_user_def)
qed

theorem setTokens_base64url_keeps_user_witness:
  "setTokens (\<lambda>_. Inr (JObj [])) ''h.e30_.s'' ''r'' auth_init =
    \<lparr>accessToken = JStr ''h.e30_.s'', refreshToken = JStr ''r'', user = JNull, isAuthenticated = True\<rparr>"
  using setTokens_base64url_keeps_user [of "''h.e30_.s''" "\<lambda>_. Inr (JObj [])" "''r''" auth_init]
  by (simp add: payload_segment_def auth_init_def)

text \<open>In every run of the store from its initial state, \<open>isAuthenticated\<close> is set exactly when an
  access token and a refresh token are stored.\<close>

lemma auth_run_consistent:
  "auth_inv (fold (auth_step parse) es auth_init)"
  by (rule auth.run_inv) (simp add: auth_inv_def auth_init_def)

text \<open>The abstract session: what is known from the history of the store, read from its latest event back.
  The tokens are those of the last sign-in unless a sign-out came after it; the user is the last one
  that was set or that a token gave, a sign-out forgetting it.\<close>

fun tokens_given :: "auth_event list \<Rightarrow> (string \<times> string) option" where
  "tokens_given [] = None"
| "tokens_given (SetTokens a r # es) = Some (a, r)"
| "tokens_given (SetUser u # es) = tokens_given es"
| "tokens_given (Logout # es) = None"

fun user_known :: "(string \<Rightarrow> json res) \<Rightarrow> auth_event list \<Rightarrow> json" where
  "user_known parse [] = JNull"
| "user_known parse (SetTokens a r # es) =
     (case decode_user parse (Some (JStr a)) of Inr u \<Rightarrow> u | Inl _ \<Rightarrow> user_known parse es)"
| "user_known parse (SetUser u # es) = u"
| "user_known parse (Logout # es) = JNull"

definition abs_session :: "auth_state \<Rightarrow> (json \<times> json) option \<times> json" where
  "abs_session s = (if isAuthenticated s then Some (accessToken s, refreshToken s) else None, user s)"

text \<open>Property C12: the store refines the abstract session: after any sequence of operations what it
  holds is what the history says, and no token is left in it when the history gives none.\<close>

theorem session_refines_history:
  "abs_session (fold (auth_step parse) es auth_init) =
     (map_option (map_prod JStr JStr) (tokens_given (rev es)), user_known parse (rev es)) \<and>
   (tokens_given (rev es) = None \<longleftrightarrow> accessToken (fold (auth_step parse) es auth_init) = JNull) \<and>
   (tokens_given (rev es) = None \<longleftrightarrow> refreshToken (fold (auth_step parse) es auth_init) = JNull)"
proof -
  have abs: "abs_session (fold (auth_step parse) es auth_init) =
      (map_option (map_prod JStr JStr) (tokens_given (rev es)), user_known parse (rev es))"
  proof (induction es rule: rev_induct)
    case (snoc e es)
    then show ?case
      by (cases e) (auto simp: abs_session_def setTokens_user setUser_def logout_def split: sum.splits if_splits)
  qed (simp add: abs_session_def auth_init_def)
  moreover have "auth_inv (fold (auth_step parse) es auth_init)"
    by (rule auth.run_inv) (simp add: auth_inv_def auth_init_def)
  ultimately show ?thesis
    by (cases "tokens_given (rev es)") (simp_all add: abs_session_def auth_inv_def split: if_splits)
qed

text \<open>After \<open>logout\<close> no permission and no role is granted by the store or by the
  session helpers, no token is readable, and the persisted item carries no usable token.\<close>

theorem logout_revokes:
  "hasPermission (fst (logout s)) a = Inr False \<and> hasRole (fst (logout s)) a = Inr False \<and>
   session_hasPermission (fst (logout s)) a = Inr False \<and> session_hasRole (fst (logout s)) a = Inr False \<and>
   session_getAccessToken (fst (logout s)) = JNull \<and> \<not> session_isAuthenticated (fst (logout s)) \<and>
   \<not> truthy (own_prop (partialize (fst (logout s))) ''accessToken'') \<and>
   \<not> truthy (own_prop (partialize (fst (logout s))) ''refreshToken'') \<and> snd (logout s) = ''/login''"
  by (simp add: logout_def hasPermission_def hasRole_def session_hasPermission_def
      session_hasRole_def session_getAccessToken_def session_isAuthenticated_def partialize_def prop_obj)

text \<open>\<open>hasPermission\<close> of lib/auth/session.ts looks the permission up among the
  roles: for a user whose roles and permissions are lists of strings the two checks of that name
  agree on a permission only when membership in the two lists happens to agree.\<close>

theorem session_hasPermission_checks_roles:
  assumes "opt_member (Some (user s)) ''roles'' = Some (str_arr rs)"
    and "opt_member (Some (user s)) ''permissions'' = Some (str_arr ps)"
  shows "session_hasPermission s p = Inr (''super_admin'' \<in> set rs \<or> p \<in> set rs) \<and>
         hasPermission s p = Inr (''super:*'' \<in> set ps \<or> p \<in> set ps)"
  using assms by (simp add: hasRole_arr hasPermission_arr session_hasPermission_is_hasRole)

theorem session_hasPermission_checks_roles_witness:
  "session_hasPermission (auth_init\<lparr>user := JObj [(''roles'', str_arr [''user'']), (''permissions'', str_arr [''dns:read''])]\<rparr>)
     ''dns:read'' = Inr False \<and>
   hasPermission (auth_init\<lparr>user := JObj [(''roles'', str_arr [''user'']), (''permissions'', str_arr [''dns:read''])]\<rparr>)
     ''dns:read'' = Inr True"
  using session_hasPermission_checks_roles
    [of "auth_init\<lparr>user := JObj [(''roles'', str_arr [''user'']), (''permissions'', str_arr [''dns:read''])]\<rparr>"
        "[''user'']" "[''dns:read'']" "''dns:read''"]
  by simp

end
