(* ===== verification/ApiClient.thy ===== *)
theory ApiClient
  imports AuthStore "HOL-Library.Multiset"
begin

text \<open>
  The shared HTTP client of lib/api/client.ts: the request interceptor that attaches the access
  token and the response interceptor that refreshes it, with the module variables
  \<open>isRefreshing\<close> and \<open>refreshQueue\<close>. The interceptors are translated step by step; everything
  between two awaits is one atomic step, as in JavaScript. The network, other users of the
  storage and the axios transport are the environment: the steps of \<open>client_step\<close>.
\<close>

section \<open>Requests in flight\<close>

text \<open>A request config: the caller's promise it answers (a retried request settles the promise of
  its original), the token of its \<open>Authorization: Bearer\<close> header, and the \<open>_retry\<close> mark.\<close>

record config =
  cid :: nat
  bearer :: "jsval option"
  retry :: bool

datatype outcome = Resolved | Rejected

record api_error =
  err_config :: config
  err_status :: "nat option"
  err_data :: jsval

text \<open>The client: the module variables, the storage, the requests on the wire (in sending order),
  the refresh call that is awaited (the request that started it and the stored state it read),
  the settled promises, the number of requests issued and the last navigation.\<close>

record client =
  isRefreshing :: bool
  refreshQueue :: "config list"
  disk :: storage
  wire :: "config list"
  awaiting :: "(config \<times> json) option"
  settled :: "nat \<rightharpoonup> outcome"
  issued :: nat
  location :: "string option"

definition client_init :: "storage \<Rightarrow> client" where
  "client_init d = \<lparr>isRefreshing = False, refreshQueue = [], disk = d, wire = [], awaiting = None,
     settled = Map.empty, issued = 0, location = None\<rparr>"

section \<open>The request interceptor\<close>

text \<open>\<open>const { state } = JSON.parse(stored)\<close>, with a missing item as an error of its own.\<close>

definition stored_state :: "storage \<Rightarrow> jsval res" where
  "stored_state d =
    (case getItem d auth_key of
       None \<Rightarrow> Inl (AppError ''no stored auth'')
     | Some it \<Rightarrow> bind_res (JSON_parse it) (\<lambda>j. member (Some j) ''state''))"

definition attach :: "storage \<Rightarrow> config \<Rightarrow> config" where
  "attach d c =
    (case stored_state d of
       Inl _ \<Rightarrow> c
     | Inr state \<Rightarrow>
         (let tok = opt_member state ''accessToken'' in
          if truthy tok then c\<lparr>bearer := Some tok\<rparr> else c))"

definition send :: "config \<Rightarrow> client \<Rightarrow> client" where
  "send c w = w\<lparr>wire := wire w @ [attach (disk w) c]\<rparr>"

section \<open>The response interceptor\<close>

definition settle :: "outcome \<Rightarrow> config \<Rightarrow> client \<Rightarrow> client" where
  "settle r c w = w\<lparr>settled := (settled w)(cid c \<mapsto> r)\<rparr>"

definition is403Perms :: "api_error \<Rightarrow> bool res" where
  "is403Perms e =
    (if err_status e = Some 403 then
       (let m = opt_member (opt_member (err_data e) ''error'') ''message'' in
        if nullish m then Inr False else js_includes m ''insufficient permissions'')
     else Inr False)"

text \<open>The \<open>catch\<close> and \<open>finally\<close> blocks, and the rejection after them.\<close>

definition refresh_failed :: "config \<Rightarrow> client \<Rightarrow> client" where
  "refresh_failed c w =
    settle Rejected c
      (w\<lparr>refreshQueue := [], disk := removeItem auth_key (disk w), location := Some ''/login'',
         isRefreshing := False, awaiting := None\<rparr>)"

text \<open>The first half of the \<open>try\<close> block, up to the awaited \<open>axios.post\<close>.\<close>

definition start_refresh :: "config \<Rightarrow> client \<Rightarrow> client" where
  "start_refresh c w =
    (let c' = c\<lparr>retry := True\<rparr>; w' = w\<lparr>isRefreshing := True\<rparr> in
     case stored_state (disk w') of
       Inl _ \<Rightarrow> refresh_failed c' w'
     | Inr state \<Rightarrow>
         (case state of
            Some st \<Rightarrow>
              if truthy (opt_member state ''refreshToken'') then w'\<lparr>awaiting := Some (c', st)\<rparr>
              else refresh_failed c' w'
          | None \<Rightarrow> refresh_failed c' w'))"

definition on_error :: "api_error \<Rightarrow> client \<Rightarrow> client" where
  "on_error e w =
    (let c = err_config e in
     case is403Perms e of
       Inl _ \<Rightarrow> settle Rejected c w
     | Inr perms \<Rightarrow>
         if (err_status e = Some 401 \<or> perms) \<and> \<not> retry c then
           (if isRefreshing w then w\<lparr>refreshQueue := refreshQueue w @ [c]\<rparr>
            else start_refresh c w)
         else settle Rejected c w)"

text \<open>The tokens of the refresh response \<open>{ data: { accessToken, refreshToken } }\<close>; the stored
  refresh token stands in for a missing one.\<close>

definition response_tokens :: "jsval \<Rightarrow> json \<Rightarrow> (jsval \<times> jsval) res" where
  "response_tokens body st =
    bind_res (member body ''data'') (\<lambda>d.
    bind_res (member d ''accessToken'') (\<lambda>newToken.
    bind_res (member d ''refreshToken'') (\<lambda>r.
      Inr (newToken, coalesce r (opt_member (Some st) ''refreshToken'')))))"

definition refreshed_state :: "(string \<Rightarrow> json res) \<Rightarrow> json \<Rightarrow> jsval \<Rightarrow> jsval \<Rightarrow> json" where
  "refreshed_state parse st newToken newRefresh =
    (let newUser = (case decode_user parse newToken of
                      Inr u \<Rightarrow> Some u | Inl _ \<Rightarrow> opt_member (Some st) ''user'')
     in spread st
          [(''accessToken'', newToken), (''refreshToken'', newRefresh), (''user'', newUser),
           (''isAuthenticated'', Some (JBool True))])"

text \<open>The second half of the \<open>try\<close> block: store the new state, send the queued requests in
  order, then the original one.\<close>

definition on_refresh_ok :: "(string \<Rightarrow> json res) \<Rightarrow> jsval \<Rightarrow> client \<Rightarrow> client" where
  "on_refresh_ok parse body w =
    (case awaiting w of
       None \<Rightarrow> w
     | Some (c, st) \<Rightarrow>
         (case response_tokens body st of
            Inl _ \<Rightarrow> refresh_failed c w
          | Inr (tok, newRefresh) \<Rightarrow>
              (let w1 = w\<lparr>disk := setItem auth_key
                            (obj [(''state'', Some (refreshed_state parse st tok newRefresh)),
                                  (''version'', Some (JNum 0))]) (disk w)\<rparr>;
                   w2 = fold (\<lambda>q. send (q\<lparr>bearer := Some tok\<rparr>)) (refreshQueue w) w1;
                   w3 = send (c\<lparr>bearer := Some tok\<rparr>) (w2\<lparr>refreshQueue := []\<rparr>)
               in w3\<lparr>isRefreshing := False, awaiting := None\<rparr>)))"

definition on_refresh_error :: "client \<Rightarrow> client" where
  "on_refresh_error w = (case awaiting w of None \<Rightarrow> w | Some (c, st) \<Rightarrow> refresh_failed c w)"

section \<open>Steps of the client and its environment\<close>

definition issue :: "client \<Rightarrow> client" where
  "issue w = send \<lparr>cid = issued w, bearer = None, retry = False\<rparr> (w\<lparr>issued := Suc (issued w)\<rparr>)"

definition take_off_wire :: "config \<Rightarrow> client \<Rightarrow> client" where
  "take_off_wire c w = w\<lparr>wire := remove1 c (wire w)\<rparr>"

inductive client_step :: "(string \<Rightarrow> json res) \<Rightarrow> client \<Rightarrow> client \<Rightarrow> bool"
  for parse :: "string \<Rightarrow> json res" where
  new_request: "client_step parse w (issue w)"
| success: "c \<in> set (wire w) \<Longrightarrow> client_step parse w (settle Resolved c (take_off_wire c w))"
| failure: "err_config e \<in> set (wire w) \<Longrightarrow>
     client_step parse w (on_error e (take_off_wire (err_config e) w))"
| refresh_ok: "awaiting w \<noteq> None \<Longrightarrow> client_step parse w (on_refresh_ok parse body w)"
| refresh_error: "awaiting w \<noteq> None \<Longrightarrow> client_step parse w (on_refresh_error w)"
| storage_write: "client_step parse w (w\<lparr>disk := d\<rparr>)"

inductive reachable :: "(string \<Rightarrow> json res) \<Rightarrow> client \<Rightarrow> bool"
  for parse :: "string \<Rightarrow> json res" where
  start: "reachable parse (client_init d)"
| step: "reachable parse w \<Longrightarrow> client_step parse w w' \<Longrightarrow> reachable parse w'"

section \<open>Bookkeeping of promises\<close>

text \<open>The promises still to be settled: on the wire, queued, or waiting for the refresh call.\<close>

definition live :: "client \<Rightarrow> nat multiset" where
  "live w = mset (map cid (wire w)) + mset (map cid (refreshQueue w)) +
     (case awaiting w of None \<Rightarrow> {#} | Some (c, st) \<Rightarrow> {#cid c#})"

definition flags_ok :: "client \<Rightarrow> bool" where
  "flags_ok w \<longleftrightarrow> (isRefreshing w \<longleftrightarrow> awaiting w \<noteq> None) \<and> (refreshQueue w \<noteq> [] \<longrightarrow> isRefreshing w)"

definition books_ok :: "client \<Rightarrow> bool" where
  "books_ok w \<longleftrightarrow> (\<forall>i. count (live w) i \<le> 1) \<and> set_mset (live w) \<inter> dom (settled w) = {} \<and>
     (\<forall>i \<in> set_mset (live w) \<union> dom (settled w). i < issued w)"

text \<open>A request issued, not settled, and nowhere any more from where it could be.\<close>

definition orphans :: "client \<Rightarrow> nat set" where
  "orphans w = {i. i < issued w} - set_mset (live w) - dom (settled w)"

lemma attach_fields [simp]: "cid (attach d c) = cid c" "retry (attach d c) = retry c"
  by (auto simp: attach_def Let_def split: sum.splits)

lemma send_fields [simp]:
  "isRefreshing (send c w) = isRefreshing w" "refreshQueue (send c w) = refreshQueue w"
  "disk (send c w) = disk w" "wire (send c w) = wire w @ [attach (disk w) c]"
  "awaiting (send c w) = awaiting w" "settled (send c w) = settled w"
  "issued (send c w) = issued w" "location (send c w) = location w"
  by (simp_all add: send_def)

lemma settle_fields [simp]:
  "isRefreshing (settle r c w) = isRefreshing w" "refreshQueue (settle r c w) = refreshQueue w"
  "disk (settle r c w) = disk w" "wire (settle r c w) = wire w"
  "awaiting (settle r c w) = awaiting w" "settled (settle r c w) = (settled w)(cid c \<mapsto> r)"
  "issued (settle r c w) = issued w" "location (settle r c w) = location w"
  "live (settle r c w) = live w"
  by (simp_all add: settle_def live_def)

lemma send_all_fields:
  fixes qs :: "config list" and f :: "config \<Rightarrow> config"
  shows "fold (\<lambda>q. send (f q)) qs w = w\<lparr>wire := wire w @ map (\<lambda>q. attach (disk w) (f q)) qs\<rparr>"
  by (induction qs arbitrary: w) (auto simp: send_def)

lemma live_issue: "live (issue w) = add_mset (issued w) (live w)"
  by (simp add: issue_def live_def)

lemma live_take_off: "c \<in> set (wire w) \<Longrightarrow> live w = add_mset (cid c) (live (take_off_wire c w))"
proof -
  assume "c \<in> set (wire w)"
  then have "mset (wire w) = add_mset c (mset (remove1 c (wire w)))" by simp
  then have "mset (map cid (wire w)) = add_mset (cid c) (mset (map cid (remove1 c (wire w))))"
    by (metis image_mset_add_mset mset_map)
  then show ?thesis by (simp add: live_def take_off_wire_def)
qed

lemma take_off_fields [simp]:
  "isRefreshing (take_off_wire c w) = isRefreshing w" "refreshQueue (take_off_wire c w) = refreshQueue w"
  "disk (take_off_wire c w) = disk w" "awaiting (take_off_wire c w) = awaiting w"
  "settled (take_off_wire c w) = settled w" "issued (take_off_wire c w) = issued w"
  "location (take_off_wire c w) = location w" "flags_ok (take_off_wire c w) = flags_ok w"
  by (simp_all add: take_off_wire_def flags_ok_def)

section \<open>What a step does to the books\<close>

text \<open>Every step issues one request, moves promises around, or settles one promise; only a failed
  refresh also drops the promises of the queue.\<close>

definition moves :: "client \<Rightarrow> client \<Rightarrow> bool" where
  "moves w w' \<longleftrightarrow> live w' = live w \<and> settled w' = settled w \<and> issued w' = issued w"

definition settles :: "nat multiset \<Rightarrow> client \<Rightarrow> client \<Rightarrow> bool" where
  "settles dropped w w' \<longleftrightarrow> (\<exists>i r. live w = live w' + dropped + {#i#} \<and>
     settled w' = (settled w)(i \<mapsto> r) \<and> issued w' = issued w)"

definition logged_out :: "client \<Rightarrow> bool" where
  "logged_out w \<longleftrightarrow> location w = Some ''/login'' \<and> getItem (disk w) auth_key = None \<and>
     refreshQueue w = [] \<and> \<not> isRefreshing w"

lemma live_refresh_failed:
  "live (refresh_failed c w) = mset (map cid (wire w))"
  by (simp add: refresh_failed_def live_def)

lemma refresh_failed_logged_out: "logged_out (refresh_failed c w)"
  by (simp add: logged_out_def refresh_failed_def)

lemma refresh_failed_fields [simp]:
  "issued (refresh_failed c w) = issued w"
  "settled (refresh_failed c w) = (settled w)(cid c \<mapsto> Rejected)"
  "flags_ok (refresh_failed c w)"
  by (simp_all add: refresh_failed_def flags_ok_def)

lemma refresh_failed_awaiting:
  "awaiting w = Some (c, st) \<Longrightarrow> settles (mset (map cid (refreshQueue w))) w (refresh_failed c w)"
proof -
  assume "awaiting w = Some (c, st)"
  then have "live w = live (refresh_failed c w) + mset (map cid (refreshQueue w)) + {#cid c#}"
    by (simp add: live_refresh_failed) (simp add: live_def)
  then show ?thesis unfolding settles_def by (intro exI [of _ "cid c"] exI [of _ Rejected]) simp
qed

lemma idle_fields:
  assumes "flags_ok w" and "\<not> isRefreshing w"
  shows "awaiting w = None" and "refreshQueue w = []"
  using assms unfolding flags_ok_def by blast+

lemma flags_ok_disk [simp]: "flags_ok (w\<lparr>disk := d\<rparr>) = flags_ok w"
  by (simp add: flags_ok_def)

lemma start_refresh_cases:
  assumes "flags_ok w" and "\<not> isRefreshing w"
  obtains st where "awaiting (start_refresh c w) = Some (c\<lparr>retry := True\<rparr>, st)"
      "live (start_refresh c w) = add_mset (cid c) (live w)"
      "settled (start_refresh c w) = settled w" "issued (start_refresh c w) = issued w"
      "flags_ok (start_refresh c w)"
  | "start_refresh c w = refresh_failed (c\<lparr>retry := True\<rparr>) (w\<lparr>isRefreshing := True\<rparr>)"
proof (cases "stored_state (disk w)")
  case (Inr state)
  show ?thesis
  proof (cases "\<exists>st. state = Some st \<and> truthy (opt_member state ''refreshToken'')")
    case True
    with Inr assms idle_fields [OF assms] show ?thesis
      by (auto simp: start_refresh_def live_def flags_ok_def intro!: that(1))
  next
    case False
    with Inr show ?thesis
      by (auto simp: start_refresh_def Let_def split: option.splits intro!: that(2))
  qed
qed (auto simp: start_refresh_def intro!: that(2))

lemma settles_failed_start:
  assumes "flags_ok w" and "\<not> isRefreshing w"
  shows "live (refresh_failed (c\<lparr>retry := True\<rparr>) (w\<lparr>isRefreshing := True\<rparr>)) = live w"
  using idle_fields [OF assms] by (simp add: live_refresh_failed) (simp add: live_def)

lemma on_error_cases:
  obtains "on_error e w = settle Rejected (err_config e) w"
  | "isRefreshing w" "on_error e w = w\<lparr>refreshQueue := refreshQueue w @ [err_config e]\<rparr>"
  | "\<not> isRefreshing w" "on_error e w = start_refresh (err_config e) w"
proof (cases "is403Perms e")
  case (Inr perms)
  then show ?thesis
    using that by (cases "(err_status e = Some 401 \<or> perms) \<and> \<not> retry (err_config e)")
      (cases "isRefreshing w", auto simp: on_error_def Let_def)
qed (use that in \<open>simp add: on_error_def\<close>)

lemma on_error_effect:
  assumes "err_config e \<in> set (wire w)" and "flags_ok w"
  defines "w' \<equiv> on_error e (take_off_wire (err_config e) w)"
  shows "(moves w w' \<or> settles {#} w w') \<and> flags_ok w'"
proof -
  let ?c = "err_config e" and ?v = "take_off_wire (err_config e) w"
  note lv = live_take_off [OF assms(1)]
  have v: "flags_ok ?v" using assms(2) by simp
  consider "w' = settle Rejected ?c ?v"
    | "isRefreshing ?v" "w' = ?v\<lparr>refreshQueue := refreshQueue ?v @ [?c]\<rparr>"
    | "\<not> isRefreshing ?v" "w' = start_refresh ?c ?v"
    unfolding w'_def by (rule on_error_cases [of e ?v]) blast+
  then show ?thesis
  proof cases
    case 1
    with lv v show ?thesis by (auto simp: settles_def flags_ok_def)
  next
    case 2
    then have "live w' = add_mset (cid ?c) (live ?v)" by (simp add: live_def)
    with 2 lv v show ?thesis by (simp add: moves_def flags_ok_def)
  next
    case 3
    show ?thesis
      using start_refresh_cases [OF v 3(1), of ?c]
    proof cases
      case (1 st)
      with 3 lv show ?thesis by (simp add: moves_def)
    next
      case 2
      with 3 lv settles_failed_start [OF v 3(1), of ?c] show ?thesis
        by (auto simp: settles_def)
    qed
  qed
qed

lemma on_refresh_ok_effect:
  fixes parse :: "string \<Rightarrow> json res" and body :: jsval
  assumes "awaiting w = Some (c, st)"
  defines "w' \<equiv> on_refresh_ok parse body w"
  shows "(moves w w' \<or> settles (mset (map cid (refreshQueue w))) w w' \<and> logged_out w') \<and> flags_ok w'"
proof (cases "response_tokens body st")
  case (Inl e)
  then have "w' = refresh_failed c w" by (simp add: w'_def on_refresh_ok_def assms(1))
  then show ?thesis
    using refresh_failed_awaiting [OF assms(1)] refresh_failed_logged_out [of c w] by simp
next
  case (Inr toks)
  obtain tok r where t: "toks = (tok, r)" by (cases toks)
  have "moves w w' \<and> flags_ok w'"
    using Inr assms(1)
    by (simp add: w'_def on_refresh_ok_def t Let_def send_all_fields moves_def live_def flags_ok_def
        o_def ac_simps)
  then show ?thesis by simp
qed

lemma client_step_effect:
  assumes "client_step parse w w'" and "flags_ok w"
  shows "flags_ok w' \<and>
    ((live w' = add_mset (issued w) (live w) \<and> settled w' = settled w \<and> issued w' = Suc (issued w)) \<or>
     moves w w' \<or> settles {#} w w' \<or>
     settles (mset (map cid (refreshQueue w))) w w' \<and> logged_out w')"
  using assms(1)
proof cases
  case new_request
  with assms(2) have "flags_ok w'" by (auto simp: issue_def flags_ok_def)
  with new_request show ?thesis by (simp add: live_issue) (simp add: issue_def)
next
  case (success c)
  with live_take_off [OF success(2)] assms(2) have "settles {#} w w'" "flags_ok w'"
    by (auto simp: settles_def flags_ok_def)
  then show ?thesis by blast
next
  case (failure e)
  with on_error_effect [OF failure(2) assms(2)] show ?thesis by blast
next
  case (refresh_ok body)
  then show ?thesis using on_refresh_ok_effect [of w _ _ parse body] by fastforce
next
  case refresh_error
  then obtain c st where a: "awaiting w = Some (c, st)" by auto
  with refresh_error have "w' = refresh_failed c w" by (simp add: on_refresh_error_def)
  with refresh_failed_awaiting [OF a] refresh_failed_logged_out [of c w] show ?thesis by simp
next
  case (storage_write d)
  with assms(2) have "flags_ok w'" by simp
  moreover have "moves w w'" using storage_write by (simp add: moves_def live_def)
  ultimately show ?thesis by blast
qed

section \<open>Invariants of reachable states\<close>

lemma books_settles:
  assumes "settles m w w'" and "books_ok w"
  shows "books_ok w'" and "orphans w' = orphans w \<union> set_mset m"
proof -
  from assms(1) obtain i r where l: "live w = live w' + m + {#i#}"
    and st: "settled w' = (settled w)(i \<mapsto> r)" and n: "issued w' = issued w"
    by (auto simp: settles_def)
  have once: "count (live w') j + count m j + (if j = i then 1 else 0) \<le> 1" for j
    using assms(2) by (auto simp: books_ok_def l dest: spec [of _ j])
  have dis: "j \<notin># m \<and> j \<noteq> i" if "j \<in># live w'" for j
  proof -
    from that obtain k where "count (live w') j = Suc k" by (metis count_eq_zero_iff not0_implies_Suc)
    with once [of j] have "count m j = 0 \<and> j \<noteq> i" by (simp split: if_splits)
    then show ?thesis by (simp add: count_eq_zero_iff)
  qed
  have dis2: "j \<noteq> i" if "j \<in># m" for j
  proof -
    from that obtain k where "count m j = Suc k" by (metis count_eq_zero_iff not0_implies_Suc)
    with once [of j] show ?thesis by (simp split: if_splits)
  qed
  have ns: "j \<notin> dom (settled w)" "j < issued w" if "j \<in># live w' + m + {#i#}" for j
    using assms(2) that by (auto simp: books_ok_def l)
  show "books_ok w'"
    unfolding books_ok_def
  proof (intro conjI ballI allI)
    show "count (live w') j \<le> 1" for j using once [of j] by simp
    show "set_mset (live w') \<inter> dom (settled w') = {}"
      using dis ns by (auto simp: st)
    show "j < issued w'" if "j \<in> set_mset (live w') \<union> dom (settled w')" for j
      using that ns assms(2) by (auto simp: st n books_ok_def)
  qed
  show "orphans w' = orphans w \<union> set_mset m"
    using dis dis2 ns by (auto simp: orphans_def l st n)
qed

lemma books_moves: "moves w w' \<Longrightarrow> books_ok w \<Longrightarrow> books_ok w' \<and> orphans w' = orphans w"
  by (simp add: moves_def books_ok_def orphans_def)

lemma books_issue:
  assumes "live w' = add_mset (issued w) (live w)" and "settled w' = settled w"
    and "issued w' = Suc (issued w)" and "books_ok w"
  shows "books_ok w' \<and> orphans w' = orphans w"
proof -
  have "issued w \<notin># live w" "issued w \<notin> dom (settled w)"
    using assms(4) by (auto simp: books_ok_def)
  then show ?thesis
    using assms by (auto simp: books_ok_def orphans_def not_in_iff less_Suc_eq dest: spec)
qed

lemma client_step_inv:
  assumes "client_step parse w w'" and "flags_ok w" and "books_ok w"
  shows "flags_ok w' \<and> books_ok w' \<and>
    (orphans w' = orphans w \<or>
     orphans w' = orphans w \<union> cid ` set (refreshQueue w) \<and> logged_out w')"
proof -
  have f: "flags_ok w'" using client_step_effect [OF assms(1,2)] by blast
  consider "live w' = add_mset (issued w) (live w)" "settled w' = settled w" "issued w' = Suc (issued w)"
    | "moves w w'" | "settles {#} w w'"
    | "settles (mset (map cid (refreshQueue w))) w w'" "logged_out w'"
    using client_step_effect [OF assms(1,2)] by blast
  then show ?thesis
  proof cases
    case 1
    with books_issue [OF 1 assms(3)] f show ?thesis by blast
  next
    case 2
    with books_moves [OF 2 assms(3)] f show ?thesis by blast
  next
    case 3
    with books_settles [OF 3 assms(3)] f show ?thesis by simp
  next
    case 4
    with books_settles [OF 4(1) assms(3)] f show ?thesis by simp
  qed
qed

lemma reachable_inv: "reachable parse w \<Longrightarrow> flags_ok w \<and> books_ok w"
proof (induction rule: reachable.induct)
  case (start d)
  show ?case by (simp add: client_init_def flags_ok_def books_ok_def live_def)
next
  case (step w w')
  then show ?case using client_step_inv by blast
qed

lemma orphan_stays: "client_step parse w w' \<Longrightarrow> flags_ok w \<Longrightarrow> books_ok w \<Longrightarrow> i \<in> orphans w \<Longrightarrow> i \<in> orphans w'"
  using client_step_inv by blast

lemma reachable_steps: "(client_step parse)\<^sup>*\<^sup>* w w' \<Longrightarrow> reachable parse w \<Longrightarrow> reachable parse w'"
  by (induction rule: rtranclp_induct) (auto intro: reachable.step)

lemma orphan_for_ever:
  "(client_step parse)\<^sup>*\<^sup>* w w' \<Longrightarrow> reachable parse w \<Longrightarrow> i \<in> orphans w \<Longrightarrow> i \<in> orphans w'"
proof (induction rule: rtranclp_induct)
  case (step v v')
  have "flags_ok v \<and> books_ok v"
    by (rule reachable_inv [OF reachable_steps [OF step.hyps(1) step.prems(1)]])
  with step.IH [OF step.prems] step.hyps(2) show ?case using orphan_stays by blast
qed

section \<open>Sending with the new token\<close>

lemma attach_stored:
  assumes "getItem d auth_key = Some (Valid j)" and "own_prop j ''state'' = Some st"
    and "\<not> nullish (Some j)"
  shows "attach d c = (let tok = opt_member (Some st) ''accessToken'' in
           if truthy tok then c\<lparr>bearer := Some tok\<rparr> else c)"
proof -
  have "stored_state d = Inr (Some st)" using assms by (simp add: stored_state_def member_Inr)
  then show ?thesis by (simp add: attach_def)
qed

lemma stored_item [simp]:
  "\<not> nullish (Some (obj kvs))" "own_prop (obj [(''state'', Some st), (''version'', v)]) ''state'' = Some st"
  by (simp_all add: obj_def spread_def)

lemma refreshed_state_tokens [simp]:
  "opt_member (Some (refreshed_state parse st tok r)) ''accessToken'' = tok"
  "opt_member (Some (refreshed_state parse st tok r)) ''refreshToken'' = r"
  "opt_member (Some (refreshed_state parse st tok r)) ''isAuthenticated'' = Some (JBool True)"
  by (simp_all add: refreshed_state_def Let_def prop_spread)

lemma attach_refreshed:
  "attach (setItem auth_key (obj [(''state'', Some (refreshed_state parse st tok r)), (''version'', v)]) d)
     (c\<lparr>bearer := Some tok\<rparr>) = c\<lparr>bearer := Some tok\<rparr>"
  using attach_stored [OF getItem_setItem stored_item(2) stored_item(1)] by (simp add: Let_def)

section \<open>Properties\<close>


definition stored_session :: storage where
  "stored_session = setItem auth_key (obj [(''state'', Some (obj
     [(''accessToken'', Some (JStr ''t1'')), (''refreshToken'', Some (JStr ''r1''))])),
     (''version'', Some (JNum 0))]) Map.empty"

definition err401 :: "config \<Rightarrow> api_error" where
  "err401 c = \<lparr>err_config = c, err_status = Some 401, err_data = None\<rparr>"

text \<open>A run used by the witnesses: two requests are sent and both answered with 401; the first
  starts a refresh, the second is queued.\<close>

definition two_requests :: client where
  "two_requests = issue (issue (client_init stored_session))"

definition req :: "nat \<Rightarrow> config" where
  "req i = \<lparr>cid = i, bearer = Some (Some (JStr ''t1'')), retry = False\<rparr>"

definition refreshing_world :: client where
  "refreshing_world =
     on_error (err401 (req 1)) (take_off_wire (req 1)
       (on_error (err401 (req 0)) (take_off_wire (req 0) two_requests)))"

lemma two_requests_wire: "wire two_requests = [req 0, req 1]"
  by code_simp

lemma refreshing_world_reachable: "reachable parse refreshing_world"
proof -
  have "reachable parse two_requests"
    unfolding two_requests_def by (intro reachable.step [OF _ new_request] reachable.start)
  then have "reachable parse (on_error (err401 (req 0)) (take_off_wire (req 0) two_requests))"
    using reachable.step [OF _ failure [of "err401 (req 0)"]] two_requests_wire
    by (simp add: err401_def)
  moreover have "req 1 \<in> set (wire (on_error (err401 (req 0)) (take_off_wire (req 0) two_requests)))"
    by code_simp
  ultimately show ?thesis
    unfolding refreshing_world_def
    using reachable.step [OF _ failure [of "err401 (req 1)"]] by (simp add: err401_def)
qed

lemma refreshing_world_queue: "refreshQueue refreshing_world = [req 1]"
  by code_simp




text \<open>Property C2: when the refresh call returns tokens, the new state is stored, the queue is
  emptied, refreshing ends, and exactly the queued requests followed by the one that started the
  refresh go out again, in the order they failed, each with the new token.\<close>

theorem refresh_resends_queue:
  fixes parse :: "string \<Rightarrow> json res"
  assumes "awaiting w = Some (c, st)" and "response_tokens body st = Inr (tok, r)"
  defines "w' \<equiv> on_refresh_ok parse body w"
  shows "wire w' = wire w @ map (\<lambda>q. q\<lparr>bearer := Some tok\<rparr>) (refreshQueue w @ [c]) \<and>
    refreshQueue w' = [] \<and> \<not> isRefreshing w' \<and> awaiting w' = None \<and>
    stored_state (disk w') = Inr (Some (refreshed_state parse st tok r)) \<and>
    settled w' = settled w"
  using assms(1,2)
  by (simp add: w'_def on_refresh_ok_def Let_def send_all_fields attach_refreshed
      stored_state_def member_Inr)

definition session_state :: json where
  "session_state = obj [(''accessToken'', Some (JStr ''t1'')), (''refreshToken'', Some (JStr ''r1''))]"

definition refresh_body :: jsval where
  "refresh_body = Some (JObj [(''data'', JObj [(''accessToken'', JStr ''t2'')])])"

lemma refreshing_world_awaiting:
  "awaiting refreshing_world = Some ((req 0)\<lparr>retry := True\<rparr>, session_state)"
  by code_simp

lemma refresh_body_tokens: "response_tokens refresh_body session_state = Inr (Some (JStr ''t2''), Some (JStr ''r1''))"
  by code_simp

theorem refresh_resends_queue_witness:
  "map cid (wire (on_refresh_ok (\<lambda>_. Inl SyntaxError) refresh_body refreshing_world)) = [1, 0] \<and>
   map bearer (wire (on_refresh_ok (\<lambda>_. Inl SyntaxError) refresh_body refreshing_world)) =
     [Some (Some (JStr ''t2'')), Some (Some (JStr ''t2''))]"
proof -
  have "wire refreshing_world = []" by code_simp
  then show ?thesis
    using refresh_resends_queue [OF refreshing_world_awaiting refresh_body_tokens,
        of "\<lambda>_. Inl SyntaxError"] refreshing_world_queue
    by (simp add: req_def)
qed



text \<open>Property C6: no request is lost except by a failed refresh, and that loses exactly the
  queued requests: in every other step the issued promises that are neither settled nor pending
  anywhere stay the same.\<close>

theorem only_failed_refresh_loses:
  assumes "reachable parse w" and "client_step parse w w'"
  shows "orphans w' = orphans w \<or>
    orphans w' = orphans w \<union> cid ` set (refreshQueue w) \<and> logged_out w'"
  using client_step_inv [OF assms(2)] reachable_inv [OF assms(1)] by blast

theorem only_failed_refresh_loses_witness:
  "orphans (issue refreshing_world) = orphans refreshing_world \<or>
   orphans (issue refreshing_world) = orphans refreshing_world \<union> cid ` set (refreshQueue refreshing_world) \<and>
   logged_out (issue refreshing_world)"
  using only_failed_refresh_loses [OF refreshing_world_reachable new_request] .

text \<open>Property C7: when the refresh call fails, the request that started it is rejected, the stored
  session is removed and the browser is sent to the login page; but every queued request hangs:
  its promise is never settled, whatever happens afterwards.\<close>

theorem failed_refresh_hangs_queue:
  assumes "reachable parse w" and "awaiting w = Some (c, st)" and "q \<in> set (refreshQueue w)"
    and "(client_step parse)\<^sup>*\<^sup>* (on_refresh_error w) w'"
  shows "settled w' (cid q) = None \<and> settled (on_refresh_error w) (cid c) = Some Rejected \<and>
    logged_out (on_refresh_error w)"
proof -
  have r: "on_refresh_error w = refresh_failed c w" using assms(2) by (simp add: on_refresh_error_def)
  have s: "client_step parse w (on_refresh_error w)" using assms(2) by (intro refresh_error) simp
  have "settles (mset (map cid (refreshQueue w))) w (on_refresh_error w)"
    using refresh_failed_awaiting [OF assms(2)] r by simp
  then have "cid q \<in> orphans (on_refresh_error w)"
    using books_settles(2) reachable_inv [OF assms(1)] assms(3) by fastforce
  then have "cid q \<in> orphans w'"
    using orphan_for_ever [OF assms(4) reachable.step [OF assms(1) s]] by simp
  then have "settled w' (cid q) = None" by (auto simp: orphans_def)
  with r refresh_failed_logged_out [of c w] show ?thesis by simp
qed

theorem failed_refresh_hangs_queue_witness:
  "settled (on_refresh_error refreshing_world) 1 = None \<and>
   settled (on_refresh_error refreshing_world) 0 = Some Rejected"
  using failed_refresh_hangs_queue [OF refreshing_world_reachable [of "\<lambda>_. Inl SyntaxError"]
      refreshing_world_awaiting, of "req 1", OF _ rtranclp.rtrancl_refl]
    refreshing_world_queue by (simp add: req_def)

text \<open>After a failed refresh no request carries a token: the request interceptor adds
  no header until something stores a session again.\<close>

theorem no_token_after_logout:
  assumes "logged_out w"
  shows "wire (issue w) = wire w @ [\<lparr>cid = issued w, bearer = None, retry = False\<rparr>]"
  using assms by (simp add: issue_def attach_def stored_state_def logged_out_def)

theorem no_token_after_logout_witness:
  "wire (issue (on_refresh_error refreshing_world)) =
   wire (on_refresh_error refreshing_world) @ [\<lparr>cid = 2, bearer = None, retry = False\<rparr>]"
proof -
  have "logged_out (on_refresh_error refreshing_world)"
    using refreshing_world_awaiting by (simp add: on_refresh_error_def refresh_failed_logged_out)
  moreover have "issued (on_refresh_error refreshing_world) = 2" by code_simp
  ultimately show ?thesis
    using no_token_after_logout [of "on_refresh_error refreshing_world"] by simp
qed



end
