(* ===== verification/Permissions.thy ===== *)
theory Permissions
  imports Json
begin

text \<open>
  Role-based access control in the browser: the role table and \<open>canDo\<close> of
  lib/utils/permissions.ts and the \<open>usePermissions\<close> hook of lib/hooks/usePermissions.ts.
\<close>

section \<open>The role table\<close>

definition ROLE_PERMISSIONS :: "(string \<times> string list) list" where
  "ROLE_PERMISSIONS =
    [(''super_admin'', [''super:*'']),
     (''admin'',
      [''domains:read'', ''domains:write'', ''domains:delete'',
       ''dns:read'', ''dns:write'',
       ''mail:read'', ''mail:write'',
       ''files:read'', ''files:write'',
       ''db:read'', ''db:write'',
       ''backup:read'', ''backup:write'', ''backup:restore'',
       ''security:read'', ''security:write'',
       ''monitoring:read'', ''monitoring:write'',
       ''billing:read'', ''billing:write'',
       ''devops:read'', ''devops:write'',
       ''docker:read'', ''docker:write'',
       ''ai:use'',
       ''marketplace:read'', ''marketplace:install'',
       ''admin:users'', ''admin:servers'']),
     (''reseller'',
      [''domains:read'', ''domains:write'',
       ''dns:read'', ''dns:write'',
       ''mail:read'', ''mail:write'',
       ''db:read'', ''db:write'',
       ''backup:read'', ''backup:write'',
       ''monitoring:read'',
       ''billing:read'', ''billing:write'',
       ''ai:use'',
       ''marketplace:read'', ''marketplace:install'',
       ''admin:users'']),
     (''user'',
      [''domains:read'', ''domains:write'',
       ''dns:read'', ''dns:write'',
       ''mail:read'', ''mail:write'',
       ''files:read'', ''files:write'',
       ''db:read'', ''db:write'',
       ''backup:read'', ''backup:write'', ''backup:restore'',
       ''monitoring:read'',
       ''billing:read'',
       ''ai:use'',
       ''marketplace:read'', ''marketplace:install'']),
     (''developer'',
      [''domains:read'', ''domains:write'',
       ''dns:read'', ''dns:write'',
       ''mail:read'', ''mail:write'',
       ''files:read'', ''files:write'',
       ''db:read'', ''db:write'',
       ''backup:read'', ''backup:write'', ''backup:restore'',
       ''monitoring:read'',
       ''billing:read'',
       ''devops:read'', ''devops:write'',
       ''docker:read'', ''docker:write'',
       ''ai:use'',
       ''marketplace:read'', ''marketplace:install'']),
     (''auditor'',
      [''domains:read'', ''dns:read'', ''mail:read'',
       ''db:read'', ''backup:read'', ''security:read'',
       ''monitoring:read'', ''billing:read'',
       ''devops:read'', ''docker:read'', ''marketplace:read''])]"

section \<open>Checking a role\<close>

text \<open>
  \<open>ROLE_PERMISSIONS[role] ?? []\<close> is the role's list, or \<open>[]\<close> for an unknown role; for the
  name of an inherited property it is that property, whose \<open>includes\<close> is no function.
\<close>

definition canDo :: "string \<Rightarrow> string \<Rightarrow> bool res" where
  "canDo role action =
    (case obj_get ROLE_PERMISSIONS role of
       Inherited \<Rightarrow> Inl TypeError
     | found \<Rightarrow>
         (let perms = (case found of Own ps \<Rightarrow> ps | _ \<Rightarrow> []) in
          if ''super:*'' \<in> set perms then Inr True
          else if action \<in> set perms then Inr True
          else (let ns = hd (split_on (CHR '':'') action) in
                Inr (ns @ '':*'' \<in> set perms))))"

definition rolesCanDo :: "string list \<Rightarrow> string \<Rightarrow> bool res" where
  "rolesCanDo roles action = some_res (\<lambda>r. canDo r action) roles"

text \<open>\<open>labels[role] ?? role\<close>; for an inherited property the result is not a string at all,
  here \<open>None\<close>.\<close>

definition role_labels :: "(string \<times> string) list" where
  "role_labels =
    [(''super_admin'', ''Super Admin''), (''admin'', ''Admin''), (''reseller'', ''Reseller''),
     (''user'', ''User''), (''developer'', ''Developer''), (''auditor'', ''Auditor'')]"

definition roleLabel :: "string \<Rightarrow> string option" where
  "roleLabel role = (case obj_get role_labels role of
     Own l \<Rightarrow> Some l | Missing \<Rightarrow> Some role | Inherited \<Rightarrow> None)"

section \<open>The usePermissions hook\<close>

record permissions_view =
  role :: string
  isAdmin :: bool
  isSuperAdmin :: bool
  isReseller :: bool
  roles :: "string list"

definition usePermissions :: "string list \<Rightarrow> permissions_view" where
  "usePermissions rs =
    (let sa = ''super_admin'' \<in> set rs;
         ad = sa \<or> ''admin'' \<in> set rs;
         re = ad \<or> ''reseller'' \<in> set rs
     in \<lparr>role = (if sa then ''super_admin'' else if ad then ''admin'' else if re then ''reseller''
                 else case rs of [] \<Rightarrow> ''user'' | r # _ \<Rightarrow> r),
         isAdmin = ad, isSuperAdmin = sa, isReseller = re, roles = rs\<rparr>)"

definition can :: "permissions_view \<Rightarrow> string \<Rightarrow> bool res" where
  "can v action = (if isSuperAdmin v then Inr True
                   else some_res (\<lambda>r. canDo r action) (roles v))"

definition canAny :: "permissions_view \<Rightarrow> string list \<Rightarrow> bool res" where
  "canAny v actions = some_res (can v) actions"

definition canAll :: "permissions_view \<Rightarrow> string list \<Rightarrow> bool res" where
  "canAll v actions = every_res (can v) actions"

section \<open>What the table grants\<close>

text \<open>The specification: a role's permission set; the super administrator has every one.\<close>

definition granted :: "string \<Rightarrow> string set" where
  "granted r = (if r = ''super_admin'' then UNIV
                else case map_of ROLE_PERMISSIONS r of Some ps \<Rightarrow> set ps | None \<Rightarrow> {})"

definition inherited_name :: "string \<Rightarrow> bool" where
  "inherited_name r \<longleftrightarrow> r \<in> set object_prototype"

definition read_only :: "string \<Rightarrow> bool" where
  "read_only action \<longleftrightarrow> endsWith action '':read''"

lemma table_keys_own: "inherited_name r \<Longrightarrow> map_of ROLE_PERMISSIONS r = None"
  by (auto simp: inherited_name_def object_prototype_def ROLE_PERMISSIONS_def)

text \<open>No entry of the table but \<open>super:*\<close> ends with \<open>:*\<close>; so the namespace branch of \<open>canDo\<close>
  never decides for a role other than the super administrator.\<close>

definition no_wildcard :: "string list \<Rightarrow> bool" where
  "no_wildcard ps = list_all (\<lambda>p. \<not> endsWith p '':*'') ps"

lemma no_wildcard_table:
  "list_all (\<lambda>(r, ps). r = ''super_admin'' \<or> no_wildcard ps) ROLE_PERMISSIONS"
  by code_simp

lemma no_wildcardD: "no_wildcard ps \<Longrightarrow> ns @ '':*'' \<notin> set ps"
  by (auto simp: no_wildcard_def list_all_iff endsWith_def suffix_def)

lemma table_no_wildcard:
  assumes "map_of ROLE_PERMISSIONS r = Some ps" and "r \<noteq> ''super_admin''"
  shows "no_wildcard ps"
  using map_of_SomeD [OF assms(1)] assms(2) no_wildcard_table by (auto simp: list_all_iff)

lemma super_entry [simp]: "map_of ROLE_PERMISSIONS ''super_admin'' = Some [''super:*'']"
  by (simp add: ROLE_PERMISSIONS_def)

lemma canDo_inherited: "inherited_name r \<Longrightarrow> canDo r a = Inl TypeError"
  using table_keys_own [of r] by (auto simp: canDo_def obj_get_def inherited_name_def)

lemma canDo_granted: "\<not> inherited_name r \<Longrightarrow> canDo r a = Inr (a \<in> granted r)"
proof (cases "map_of ROLE_PERMISSIONS r")
  case None
  moreover assume "\<not> inherited_name r"
  moreover have "r \<noteq> ''super_admin''" using None by auto
  ultimately show ?thesis by (simp add: canDo_def obj_get_def granted_def inherited_name_def)
next
  case (Some ps)
  show ?thesis
  proof (cases "r = ''super_admin''")
    case True
    then show ?thesis by (simp add: canDo_def obj_get_def granted_def)
  next
    case False
    note nw = no_wildcardD [OF table_no_wildcard [OF Some False]]
    have "''super:*'' \<notin> set ps" using nw [of "''super''"] by simp
    with Some False nw show ?thesis by (simp add: canDo_def obj_get_def granted_def)
  qed
qed

lemma rolesCanDo_granted:
  "\<forall>r\<in>set rs. \<not> inherited_name r \<Longrightarrow> rolesCanDo rs a = Inr (\<exists>r\<in>set rs. a \<in> granted r)"
  unfolding rolesCanDo_def by (rule some_res_total) (simp add: canDo_granted)

section \<open>The hook agrees with the table\<close>

text \<open>
  The interface the pages use: a check of one action that may throw. \<open>any\<close> and \<open>all\<close> are what
  \<open>canAny\<close> and \<open>canAll\<close> build on it; where the check is total they are the quantifiers.
\<close>

locale authorizer =
  fixes check :: "'s \<Rightarrow> string \<Rightarrow> bool res" and any :: "'s \<Rightarrow> string list \<Rightarrow> bool res"
    and all :: "'s \<Rightarrow> string list \<Rightarrow> bool res"
  assumes any_some: "any s as = some_res (check s) as"
    and all_every: "all s as = every_res (check s) as"
begin

lemma any_total:
  "(\<And>a. a \<in> set as \<Longrightarrow> check s a = Inr (p a)) \<Longrightarrow> any s as = Inr (\<exists>a\<in>set as. p a)"
  by (simp add: any_some some_res_total)

lemma all_total:
  "(\<And>a. a \<in> set as \<Longrightarrow> check s a = Inr (p a)) \<Longrightarrow> all s as = Inr (\<forall>a\<in>set as. p a)"
  by (simp add: all_every every_res_total)

lemma all_imp_each: "all s as = Inr True \<Longrightarrow> a \<in> set as \<Longrightarrow> check s a = Inr True"
  by (simp add: all_every every_res_True)

lemma all_imp_any: "all s as = Inr True \<Longrightarrow> as \<noteq> [] \<Longrightarrow> any s as = Inr True"
  by (cases as) (auto simp: all_every any_some split: sum.splits if_splits)

end

interpretation perms: authorizer can canAny canAll
  by unfold_locales (simp_all add: canAny_def canAll_def)

lemma usePermissions_fields [simp]:
  "isSuperAdmin (usePermissions rs) = (''super_admin'' \<in> set rs)"
  "isAdmin (usePermissions rs) = (''super_admin'' \<in> set rs \<or> ''admin'' \<in> set rs)"
  "isReseller (usePermissions rs) = (''super_admin'' \<in> set rs \<or> ''admin'' \<in> set rs \<or> ''reseller'' \<in> set rs)"
  "roles (usePermissions rs) = rs"
  by (auto simp: usePermissions_def Let_def)

lemma can_granted:
  assumes "\<forall>r\<in>set rs. \<not> inherited_name r"
  shows "can (usePermissions rs) a = Inr (\<exists>r\<in>set rs. a \<in> granted r)"
proof (cases "''super_admin'' \<in> set rs")
  case True
  then show ?thesis by (auto simp: can_def granted_def intro!: bexI [of _ "''super_admin''"])
next
  case False
  then show ?thesis
    using rolesCanDo_granted [OF assms] by (simp add: can_def rolesCanDo_def)
qed

lemma admin_dominates:
  "list_all (\<lambda>(r, ps). r = ''super_admin'' \<or> set ps \<subseteq> granted ''admin'') ROLE_PERMISSIONS"
  by (simp add: ROLE_PERMISSIONS_def granted_def)

lemma auditor_reads: "list_all read_only (the (map_of ROLE_PERMISSIONS ''auditor''))"
  by code_simp

lemma granted_not_inherited: "inherited_name r \<Longrightarrow> granted r = {}"
  using table_keys_own [of r] by (auto simp: granted_def)

lemma granted_subset_admin: "r \<noteq> ''super_admin'' \<Longrightarrow> granted r \<subseteq> granted ''admin''"
  using admin_dominates by (auto simp: granted_def list_all_iff dest!: map_of_SomeD split: option.splits)

section \<open>Properties\<close>

text \<open>Property C5: \<open>canDo\<close> computes the role table: for the name of a property every object
  inherits it throws, and for any other role it returns whether the table grants the action, the
  super administrator being granted every action and an unknown role none.\<close>

theorem canDo_correct:
  "canDo r a = (if inherited_name r then Inl TypeError else Inr (a \<in> granted r))"
  by (simp add: canDo_inherited canDo_granted)

text \<open>The privilege order of the table: an administrator can do whatever any role but
  the super administrator can, and an auditor can only read.\<close>

theorem privilege_order:
  assumes "canDo r a = Inr True" and "r \<noteq> ''super_admin''"
  shows "canDo ''admin'' a = Inr True \<and> (r = ''auditor'' \<longrightarrow> read_only a)"
proof -
  have ni: "\<not> inherited_name r" using assms(1) canDo_inherited [of r a] by auto
  with assms(1) have g: "a \<in> granted r" by (simp add: canDo_granted)
  have "\<not> inherited_name ''admin''" by code_simp
  then have "canDo ''admin'' a = Inr True"
    using g granted_subset_admin [OF assms(2)] by (auto simp: canDo_granted)
  moreover have "read_only a" if "r = ''auditor''"
    using g that auditor_reads by (auto simp: granted_def list_all_iff split: option.splits)
  ultimately show ?thesis by blast
qed

theorem privilege_order_witness:
  "canDo ''admin'' ''dns:read'' = Inr True \<and> read_only ''dns:read''"
proof -
  have "canDo ''auditor'' ''dns:read'' = Inr True" by code_simp
  from privilege_order [OF this] show ?thesis by simp
qed

text \<open>Property C14: the \<open>can\<close>, \<open>canAny\<close> and \<open>canAll\<close> of the hook decide as the table says for the
  user's roles: an action is allowed when one of the roles is granted it, so \<open>canAny\<close> and
  \<open>canAll\<close> never throw and are the two quantifiers.\<close>

theorem hook_correct:
  assumes "\<forall>r\<in>set rs. \<not> inherited_name r"
  shows "can (usePermissions rs) a = rolesCanDo rs a \<and>
    canAny (usePermissions rs) as = Inr (\<exists>a\<in>set as. \<exists>r\<in>set rs. a \<in> granted r) \<and>
    canAll (usePermissions rs) as = Inr (\<forall>a\<in>set as. \<exists>r\<in>set rs. a \<in> granted r)"
  using assms by (simp add: can_granted rolesCanDo_granted perms.any_total perms.all_total)

theorem hook_correct_witness:
  "canAll (usePermissions [''user'', ''auditor'']) [''files:write'', ''security:read''] = Inr True"
proof -
  have "\<forall>r\<in>set [''user'', ''auditor'']. \<not> inherited_name r" by code_simp
  note h = hook_correct [OF this, of "''x''" "[''files:write'', ''security:read'']"]
  have "''files:write'' \<in> granted ''user''" "''security:read'' \<in> granted ''auditor''"
    by (simp_all add: granted_def ROLE_PERMISSIONS_def)
  with h show ?thesis by simp
qed

end
