(* ===== verification/Url.thy ===== *)
theory Url
  imports Json
begin

text \<open>
  URLs: \<open>encodeURIComponent\<close>, the one escaping function the panel uses, translated on Latin-1
  strings (a code unit of 128 or more is two UTF-8 bytes), and the reference reader of a query
  string: what the server makes of the URL. The lemmas show that an escaped value comes back
  unchanged and cannot add, hide or change another parameter of the query.
\<close>

section \<open>encodeURIComponent\<close>

definition unreserved :: "char \<Rightarrow> bool" where
  "unreserved c \<longleftrightarrow> is_upper c \<or> is_lower c \<or> is_digit c \<or> c \<in> set ''-_.!~*'' \<or>
     code_unit c \<in> {39, 40, 41}"

definition hex_digit :: "nat \<Rightarrow> char" where
  "hex_digit n = char_of (if n < 10 then 48 + n else 55 + n)"

definition percent :: "nat \<Rightarrow> string" where
  "percent b = [CHR ''%'', hex_digit (b div 16), hex_digit (b mod 16)]"

definition utf8_bytes :: "char \<Rightarrow> nat list" where
  "utf8_bytes c = (let n = code_unit c in
     if n < 128 then [n] else [192 + n div 64, 128 + n mod 64])"

definition encode_char :: "char \<Rightarrow> string" where
  "encode_char c = (if unreserved c then [c] else concat (map percent (utf8_bytes c)))"

definition encodeURIComponent :: "string \<Rightarrow> string" where
  "encodeURIComponent s = concat (map encode_char s)"

section \<open>The reader of a query string\<close>

definition hex_value :: "char \<Rightarrow> nat option" where
  "hex_value c = (let n = code_unit c in
     if is_digit c then Some (n - 48)
     else if 65 \<le> n \<and> n \<le> 70 then Some (n - 55)
     else if 97 \<le> n \<and> n \<le> 102 then Some (n - 87) else None)"

text \<open>Bytes of an escaped string; \<open>+\<close> stands for a space in a query.\<close>

fun unescape :: "string \<Rightarrow> nat list option" where
  "unescape [] = Some []"
| "unescape (c # s) =
     (if c = CHR ''%'' then
        (case s of
           h # l # t \<Rightarrow>
             (case (hex_value h, hex_value l) of
                (Some a, Some b) \<Rightarrow> map_option (Cons (16 * a + b)) (unescape t)
              | _ \<Rightarrow> None)
         | _ \<Rightarrow> None)
      else map_option (Cons (if c = CHR ''+'' then 32 else code_unit c)) (unescape s))"

fun utf8_decode :: "nat list \<Rightarrow> string option" where
  "utf8_decode [] = Some []"
| "utf8_decode (b # bs) =
     (if b < 128 then map_option (Cons (char_of b)) (utf8_decode bs)
      else case bs of
        [] \<Rightarrow> None
      | c # cs \<Rightarrow>
          if 194 \<le> b \<and> b \<le> 195 \<and> 128 \<le> c \<and> c < 192
          then map_option (Cons (char_of ((b - 192) * 64 + (c - 128)))) (utf8_decode cs)
          else None)"

definition decode :: "string \<Rightarrow> string option" where
  "decode s = Option.bind (unescape s) utf8_decode"

text \<open>One \<open>key=value\<close> pair, and a whole URL: its path and the pairs of its query.\<close>

definition key_value_pair :: "string \<Rightarrow> (string \<times> string) option" where
  "key_value_pair p =
    (case (decode (takeWhile (\<lambda>c. c \<noteq> CHR ''='') p), decode (tl (dropWhile (\<lambda>c. c \<noteq> CHR ''='') p))) of
       (Some k, Some v) \<Rightarrow> Some (k, v) | _ \<Rightarrow> None)"

definition url_path :: "string \<Rightarrow> string" where
  "url_path u = takeWhile (\<lambda>c. c \<noteq> CHR ''?'') u"

definition query :: "string \<Rightarrow> (string \<times> string) option list" where
  "query u = (case dropWhile (\<lambda>c. c \<noteq> CHR ''?'') u of
     [] \<Rightarrow> [] | _ # q \<Rightarrow> map key_value_pair (split_on (CHR ''&'') q))"

text \<open>The segments of a path, as a router splits it.\<close>

definition segments :: "string \<Rightarrow> string list" where
  "segments u = split_on (CHR ''/'') (url_path u)"

section \<open>Escaping is invertible\<close>

lemma hex_digit_less: "n < 16 \<Longrightarrow> (if n < 10 then 48 + n else 55 + n) < (256::nat)"
  by auto

lemma code_unit_hex_digit: "n < 16 \<Longrightarrow> code_unit (hex_digit n) = (if n < 10 then 48 + n else 55 + n)"
  unfolding hex_digit_def by (rule code_unit_char_of) auto

lemma hex_value_digit [simp]: "n < 16 \<Longrightarrow> hex_value (hex_digit n) = Some n"
  by (auto simp: hex_value_def is_digit_def code_unit_hex_digit Let_def)

lemma unescape_percent [simp]: "b < 256 \<Longrightarrow> unescape (percent b @ s) = map_option (Cons b) (unescape s)"
  by (simp add: percent_def)

lemma unreserved_plain: "unreserved c \<Longrightarrow> c \<notin> set ''%+&=?/# ''"
  by (auto simp: unreserved_def is_upper_def is_lower_def is_digit_def code_unit_def Let_def)

lemma unreserved_less: "unreserved c \<Longrightarrow> code_unit c < 128"
  by (auto simp: unreserved_def is_upper_def is_lower_def is_digit_def Let_def code_unit_def)

lemma utf8_bytes_less: "b \<in> set (utf8_bytes c) \<Longrightarrow> b < 256"
proof -
  have "code_unit c div 64 < 4" using code_unit_less [of c] by (simp add: div_less_iff_less_mult del: code_unit_less)
  then show "b \<in> set (utf8_bytes c) \<Longrightarrow> b < 256" by (auto simp: utf8_bytes_def Let_def split: if_splits)
qed

lemma unescape_percents:
  "\<forall>b \<in> set bs. b < 256 \<Longrightarrow>
   unescape (concat (map percent bs) @ s) = map_option ((@) bs) (unescape s)"
  by (induction bs) (cases "unescape s"; auto)+

lemma unescape_encode_char:
  "unescape (encode_char c @ s) = map_option ((@) (utf8_bytes c)) (unescape s)"
proof (cases "unreserved c")
  case True
  with unreserved_plain [OF True] unreserved_less [OF True] show ?thesis
    by (cases "unescape s") (auto simp: encode_char_def utf8_bytes_def Let_def)
next
  case False
  then show ?thesis using utf8_bytes_less by (auto simp: encode_char_def intro: unescape_percents)
qed

lemma unescape_encode: "unescape (encodeURIComponent s) = Some (concat (map utf8_bytes s))"
  by (induction s) (simp_all add: encodeURIComponent_def unescape_encode_char)

lemma utf8_decode_bytes: "utf8_decode (utf8_bytes c @ bs) = map_option (Cons c) (utf8_decode bs)"
proof (cases "code_unit c < 128")
  case True
  then show ?thesis by (simp add: utf8_bytes_def)
next
  case False
  have "code_unit c div 64 < 4" using code_unit_less [of c] by (simp add: div_less_iff_less_mult del: code_unit_less)
  moreover have "2 \<le> code_unit c div 64" using False by (simp add: le_div_geq div_le_mono)
  ultimately have "code_unit c div 64 \<in> {2, 3}" by auto
  moreover have "64 * (code_unit c div 64) + code_unit c mod 64 = code_unit c" by simp
  ultimately show ?thesis using False by (auto simp: utf8_bytes_def Let_def)
qed

lemma utf8_decode_encode: "utf8_decode (concat (map utf8_bytes s)) = Some s"
  by (induction s) (simp_all add: utf8_decode_bytes)

lemma decode_encode [simp]: "decode (encodeURIComponent s) = Some s"
  by (simp add: decode_def unescape_encode utf8_decode_encode)

lemma hex_digit_upper: "n < 16 \<Longrightarrow> unreserved (hex_digit n)"
  by (auto simp: unreserved_def is_digit_def is_upper_def code_unit_hex_digit Let_def)

lemma set_percent: "b < 256 \<Longrightarrow> x \<in> set (percent b) \<Longrightarrow> unreserved x \<or> x = CHR ''%''"
  by (auto simp: percent_def intro: hex_digit_upper)

lemma encode_chars: "x \<in> set (encodeURIComponent s) \<Longrightarrow> unreserved x \<or> x = CHR ''%''"
proof -
  assume "x \<in> set (encodeURIComponent s)"
  then obtain c where x: "x \<in> set (encode_char c)" by (auto simp: encodeURIComponent_def)
  show ?thesis
  proof (cases "unreserved c")
    case True
    with x show ?thesis by (simp add: encode_char_def)
  next
    case False
    with x obtain b where "b \<in> set (utf8_bytes c)" "x \<in> set (percent b)" by (auto simp: encode_char_def)
    then show ?thesis using set_percent utf8_bytes_less by blast
  qed
qed

lemma encode_plain: "c \<in> set ''+&=?/# '' \<Longrightarrow> c \<notin> set (encodeURIComponent s)"
  using encode_chars [of c s] unreserved_plain [of c] by auto

lemma encode_unreserved: "list_all unreserved s \<Longrightarrow> encodeURIComponent s = s"
  by (induction s) (simp_all add: encodeURIComponent_def encode_char_def)

lemma decode_unreserved: "list_all unreserved s \<Longrightarrow> decode s = Some s"
  using decode_encode [of s] by (simp add: encode_unreserved)

text \<open>The keys the client writes are lower-case letters and underscores.\<close>

lemma key_chars: "list_all unreserved ''abcdefghijklmnopqrstuvwxyz_''"
  by code_simp

lemma unreserved_key [simp]: "c \<in> set ''abcdefghijklmnopqrstuvwxyz_'' \<Longrightarrow> unreserved c"
  using key_chars unfolding list_all_iff by blast

section \<open>Queries\<close>

text \<open>A query as the client builds it: literal keys and escaped values.\<close>

definition pair :: "string \<times> string \<Rightarrow> string" where
  "pair kv = fst kv @ CHR ''='' # encodeURIComponent (snd kv)"

lemma unreserved_notin: "list_all unreserved k \<Longrightarrow> c \<in> set ''%+&=?/# '' \<Longrightarrow> c \<notin> set k"
  using unreserved_plain [of c] by (auto simp only: list_all_iff)

lemma takeWhile_plain: "c \<notin> set k \<Longrightarrow> takeWhile (\<lambda>x. x \<noteq> c) (k @ c # v) = k"
  by (induction k) auto

lemma dropWhile_plain: "c \<notin> set k \<Longrightarrow> dropWhile (\<lambda>x. x \<noteq> c) (k @ c # v) = c # v"
  by (induction k) auto

lemma takeWhile_all: "c \<notin> set k \<Longrightarrow> takeWhile (\<lambda>x. x \<noteq> c) k = k"
  by (induction k) auto

lemma dropWhile_all: "c \<notin> set k \<Longrightarrow> dropWhile (\<lambda>x. x \<noteq> c) k = []"
  by (induction k) auto

lemma key_value_pair_pair [simp]:
  assumes "list_all unreserved k"
  shows "key_value_pair (pair (k, v)) = Some (k, v)"
  using unreserved_notin [OF assms, of "CHR ''=''"] assms
  by (simp add: key_value_pair_def pair_def takeWhile_plain dropWhile_plain decode_unreserved)

lemma amp_notin_pair: "list_all unreserved k \<Longrightarrow> CHR ''&'' \<notin> set (pair (k, v))"
  using unreserved_notin [of k "CHR ''&''"] encode_plain [of "CHR ''&''" v] by (auto simp: pair_def)

lemma query_rendered:
  assumes "CHR ''?'' \<notin> set p" and "kvs \<noteq> []" and "\<forall>(k, v) \<in> set kvs. list_all unreserved k"
  shows "query (p @ CHR ''?'' # join_on (CHR ''&'') (map pair kvs)) = map Some kvs"
proof -
  have "split_on (CHR ''&'') (join_on (CHR ''&'') (map pair kvs)) = map pair kvs"
    using assms(2,3) amp_notin_pair by (intro split_join) auto
  moreover have "key_value_pair (pair kv) = Some kv" if "kv \<in> set kvs" for kv
    using assms(3) that by (cases kv) auto
  ultimately show ?thesis using assms(1) by (simp add: query_def dropWhile_plain)
qed

lemma url_path_rendered: "CHR ''?'' \<notin> set p \<Longrightarrow> url_path (p @ CHR ''?'' # q) = p"
  by (simp add: url_path_def takeWhile_plain)

lemma url_path_plain: "CHR ''?'' \<notin> set p \<Longrightarrow> url_path p = p"
  by (simp add: url_path_def takeWhile_all)

lemma query_plain: "CHR ''?'' \<notin> set p \<Longrightarrow> query p = []"
  by (simp add: query_def dropWhile_all)

text \<open>The queries with one and two parameters, in the shape the request functions build them.\<close>

lemma query_1:
  "CHR ''?'' \<notin> set p \<Longrightarrow> list_all unreserved k \<Longrightarrow>
   query (p @ CHR ''?'' # k @ CHR ''='' # encodeURIComponent v) = [Some (k, v)]"
  using query_rendered [of p "[(k, v)]"] by (simp add: pair_def)

lemma query_2:
  "CHR ''?'' \<notin> set p \<Longrightarrow> list_all unreserved k \<Longrightarrow> list_all unreserved k' \<Longrightarrow>
   query (p @ CHR ''?'' # k @ CHR ''='' # encodeURIComponent v @ CHR ''&'' # k' @ CHR ''='' #
     encodeURIComponent v') = [Some (k, v), Some (k', v')]"
  using query_rendered [of p "[(k, v), (k', v')]"] by (simp add: pair_def)

end
