(* ===== verification/ApiBase.thy ===== *)
theory ApiBase
  imports Url
begin

text \<open>
  The requests the modules of lib/api hand to the shared client: a verb, the URL under the API
  root, the query parameters and the body. Each module is a datatype of its calls (the functions
  of its API object, with their arguments) and the request each call makes. The locale is the
  contract of a module: calls that differ send requests that differ, every request stays under
  the path of the module's service, and a read has no body.
\<close>

datatype verb = GET | POST | PUT | PATCH | DELETE

record request =
  verb :: verb
  url :: string
  params :: "(string \<times> jsval) list"
  body :: jsval

text \<open>\<open>api.get(u)\<close>, \<open>api.get(u, { params })\<close>, \<open>api.post(u, data)\<close> and so on.\<close>

abbreviation get_ps :: "string \<Rightarrow> (string \<times> jsval) list \<Rightarrow> request" where
  "get_ps u ps \<equiv> \<lparr>verb = GET, url = u, params = ps, body = None\<rparr>"

abbreviation get_req :: "string \<Rightarrow> request" where
  "get_req u \<equiv> get_ps u []"

abbreviation send_req :: "verb \<Rightarrow> string \<Rightarrow> jsval \<Rightarrow> request" where
  "send_req v u b \<equiv> \<lparr>verb = v, url = u, params = [], body = b\<rparr>"

abbreviation delete_req :: "string \<Rightarrow> request" where
  "delete_req u \<equiv> send_req DELETE u None"

text \<open>The URL on the wire: axios puts the base URL \<open>${API_BASE}/api/v1\<close> in front.\<close>

definition full_url :: "string \<Rightarrow> request \<Rightarrow> string" where
  "full_url API_BASE r = API_BASE @ ''/api/v1'' @ url r"

text \<open>The ids are written into the path as they are, so a call is only understood when its ids
  have no separator.\<close>

definition plain_id :: "string \<Rightarrow> bool" where
  "plain_id s \<longleftrightarrow> CHR ''/'' \<notin> set s \<and> CHR ''?'' \<notin> set s"

text \<open>An optional value given as the code tests it: an empty string counts as absent.\<close>

definition given :: "string option \<Rightarrow> bool" where
  "given v \<longleftrightarrow> v \<noteq> Some []"

section \<open>Comparing URLs\<close>

lemma sep_eq: "c \<notin> set a \<Longrightarrow> c \<notin> set b \<Longrightarrow> a @ c # x = b @ c # y \<longleftrightarrow> a = b \<and> x = y"
  by (metis takeWhile_plain same_append_eq list.inject)

lemma sep_neq: "c \<notin> set b \<Longrightarrow> a @ c # x \<noteq> b" "c \<notin> set b \<Longrightarrow> b \<noteq> a @ c # x"
  by auto

lemma plain_id_sep:
  "plain_id a \<Longrightarrow> plain_id b \<Longrightarrow> a @ CHR ''/'' # x = b @ CHR ''/'' # y \<longleftrightarrow> a = b \<and> x = y"
  "plain_id a \<Longrightarrow> b @ CHR ''/'' # x = a \<longleftrightarrow> False"
  "plain_id a \<Longrightarrow> a = b @ CHR ''/'' # x \<longleftrightarrow> False"
  by (auto simp: plain_id_def sep_eq sep_neq)

lemma plain_id_parts:
  "plain_id (c # s) \<longleftrightarrow> c \<noteq> CHR ''/'' \<and> c \<noteq> CHR ''?'' \<and> plain_id s"
  "plain_id (a @ b) \<longleftrightarrow> plain_id a \<and> plain_id b"
  by (auto simp: plain_id_def)

lemma encode_eq [simp]: "encodeURIComponent a = encodeURIComponent b \<longleftrightarrow> a = b"
  by (metis decode_encode option.inject)

lemma encode_sep [simp]:
  "encodeURIComponent a @ CHR ''&'' # x = encodeURIComponent b @ CHR ''&'' # y \<longleftrightarrow> a = b \<and> x = y"
  "encodeURIComponent a @ CHR ''&'' # x = encodeURIComponent b \<longleftrightarrow> False"
  "encodeURIComponent b = encodeURIComponent a @ CHR ''&'' # x \<longleftrightarrow> False"
  using encode_plain [of "CHR ''&''"] by (simp_all add: sep_eq sep_neq)

lemma obj_1 [simp]: "obj [(k, Some v)] = JObj [(k, v)]"
  by (simp add: obj_def spread_def set_prop_def)

lemma obj_2 [simp]: "k \<noteq> k' \<Longrightarrow> obj [(k, Some v), (k', Some v')] = JObj [(k, v), (k', v')]"
  by (simp add: obj_def spread_def set_prop_def)

lemma obj_3 [simp]:
  "distinct [k1, k2, k3] \<Longrightarrow>
   obj [(k1, Some v1), (k2, Some v2), (k3, Some v3)] = JObj [(k1, v1), (k2, v2), (k3, v3)]"
  by (auto simp: obj_def spread_def set_prop_def)

lemma obj_2_opt:
  "k \<noteq> k' \<Longrightarrow> obj [(k, Some v), (k', w)] = JObj ((k, v) # (case w of None \<Rightarrow> [] | Some v' \<Rightarrow> [(k', v')]))"
  by (simp add: obj_def spread_def set_prop_def split: option.splits)

lemma map_option_JStr_eq [simp]: "map_option JStr a = map_option JStr b \<longleftrightarrow> a = b"
  by (cases a; cases b) auto

lemmas url_simps = plain_id_sep plain_id_parts given_def

section \<open>The contract of a module\<close>

locale rest_module =
  fixes req :: "'c \<Rightarrow> request" and ok :: "'c \<Rightarrow> bool" and base :: string
  assumes req_inj: "ok c \<Longrightarrow> ok d \<Longrightarrow> req c = req d \<Longrightarrow> c = d"
    and req_base: "startsWith (url (req c)) base"
    and get_no_body: "verb (req c) = GET \<Longrightarrow> body (req c) = None"
begin

lemma wire_url: "startsWith (full_url h (req c)) (h @ ''/api/v1'' @ base)"
  using req_base by (simp add: full_url_def startsWith_def)

lemma wire_inj:
  assumes "ok c" and "ok d" and "verb (req c) = verb (req d)" and "full_url h (req c) = full_url h (req d)"
    and "params (req c) = params (req d)" and "body (req c) = body (req d)"
  shows "c = d"
  using assms req_inj by (simp add: full_url_def)

lemma read_wire_inj:
  assumes "ok c" and "ok d" and "verb (req c) = GET" and "verb (req d) = GET"
    and "full_url h (req c) = full_url h (req d)" and "params (req c) = params (req d)"
  shows "c = d"
  using assms by (intro wire_inj) (auto simp: get_no_body)

end

end
