(* ===== verification/ApiAuth.thy ===== *)
theory ApiAuth
  imports ApiBase
begin

text \<open>
  lib/api/auth.api.ts and passkey.api.ts: the requests, and for authApi what each call returns of
  the response (\<open>data\<close>, a part of it, or nothing). The URLs the modules build for navigation and
  streaming are here too.
\<close>

section \<open>auth.api.ts\<close>

datatype auth_call =
    Login string string
  | Register json
  | Refresh string
  | LogoutCall
  | Me
  | SetupTOTP
  | ConfirmTOTP string
  | VerifyMFA json
  | DisableMFA string
  | ListSessions
  | RevokeSession string
  | RevokeAllSessions
  | UpdateProfile json
  | ForgotPassword string
  | ResetPassword string string

fun auth_request :: "auth_call \<Rightarrow> request" where
  "auth_request (Login email password) =
     send_req POST ''/auth/login''
       (Some (obj [(''email'', Some (JStr email)), (''password'', Some (JStr password))]))"
| "auth_request (Register input) = send_req POST ''/auth/register'' (Some input)"
| "auth_request (Refresh refresh) =
     send_req POST ''/auth/refresh'' (Some (obj [(''refreshToken'', Some (JStr refresh))]))"
| "auth_request LogoutCall = send_req POST ''/auth/logout'' None"
| "auth_request Me = get_req ''/auth/me''"
| "auth_request SetupTOTP = send_req POST ''/auth/mfa/totp/setup'' None"
| "auth_request (ConfirmTOTP code) =
     send_req POST ''/auth/mfa/totp/confirm'' (Some (obj [(''code'', Some (JStr code))]))"
| "auth_request (VerifyMFA input) = send_req POST ''/auth/mfa/verify'' (Some input)"
| "auth_request (DisableMFA code) =
     send_req POST ''/auth/mfa/disable'' (Some (obj [(''code'', Some (JStr code))]))"
| "auth_request ListSessions = get_req ''/auth/sessions''"
| "auth_request (RevokeSession i) = delete_req (''/auth/sessions/'' @ i)"
| "auth_request RevokeAllSessions = delete_req ''/auth/sessions''"
| "auth_request (UpdateProfile input) = send_req PATCH ''/auth/me'' (Some input)"
| "auth_request (ForgotPassword email) =
     send_req POST ''/auth/forgot-password'' (Some (obj [(''email'', Some (JStr email))]))"
| "auth_request (ResetPassword token password) =
     send_req POST ''/auth/reset-password''
       (Some (obj [(''token'', Some (JStr token)), (''password'', Some (JStr password))]))"

fun auth_ok :: "auth_call \<Rightarrow> bool" where
  "auth_ok (RevokeSession i) = (plain_id i)"
| "auth_ok _ = True"

lemma auth_call_inj: "auth_ok c \<Longrightarrow> auth_ok d \<Longrightarrow> auth_request c = auth_request d \<Longrightarrow> c = d"
  by (cases c; cases d) (auto simp: url_simps split: option.splits if_splits)

lemma auth_call_base: "startsWith (url (auth_request c)) ''/auth/''"
  by (cases c) (auto simp: startsWith_def split: option.splits)

lemma auth_call_reads: "verb (auth_request c) = GET \<Longrightarrow> body (auth_request c) = None"
  by (cases c) auto

interpretation auth_api: rest_module auth_request auth_ok "''/auth/''"
  by unfold_locales (blast intro: auth_call_inj auth_call_base auth_call_reads)+

text \<open>What the caller gets, from \<open>data\<close>, the body of the response.\<close>

fun auth_result :: "auth_call \<Rightarrow> jsval \<Rightarrow> jsval res" where
  "auth_result LogoutCall d = Inr None"
| "auth_result (RevokeSession _) d = Inr None"
| "auth_result Me d = member d ''data''"
| "auth_result SetupTOTP d = member d ''data''"
| "auth_result ListSessions d = member d ''sessions''"
| "auth_result _ d = Inr d"

definition api_origin :: "string option \<Rightarrow> string" where
  "api_origin env = (case env of None \<Rightarrow> ''http://localhost:8080''
     | Some e \<Rightarrow> if e = [] then ''http://localhost:8080'' else e)"

datatype oauth_provider = Github | Google | Gitlab

fun provider_name :: "oauth_provider \<Rightarrow> string" where
  "provider_name Github = ''github''"
| "provider_name Google = ''google''"
| "provider_name Gitlab = ''gitlab''"

definition oauthRedirect :: "string option \<Rightarrow> oauth_provider \<Rightarrow> string" where
  "oauthRedirect env p = api_origin env @ ''/api/v1/auth/oauth/'' @ provider_name p"

text \<open>\<open>chatStreamUrl\<close> and \<open>getContainerLogs\<close> default to the page's own origin.\<close>

definition chatStreamUrl :: "string option \<Rightarrow> string" where
  "chatStreamUrl env = (case env of None \<Rightarrow> [] | Some e \<Rightarrow> e) @ ''/api/v1/ai/chat''"

definition getContainerLogs :: "string option \<Rightarrow> string \<Rightarrow> string" where
  "getContainerLogs env i = (case env of None \<Rightarrow> [] | Some e \<Rightarrow> e) @ ''/api/v1/docker/containers/'' @ i @ ''/logs''"

section \<open>passkey.api.ts\<close>

text \<open>The credential of the browser is spread into the body.\<close>

datatype passkey_call =
    ListPasskeys
  | DeletePasskey string
  | BeginRegistration
  | FinishRegistration json "string option"
  | BeginAuthentication string
  | FinishAuthentication json string

fun passkey_request :: "passkey_call \<Rightarrow> request" where
  "passkey_request ListPasskeys = get_req ''/auth/passkeys''"
| "passkey_request (DeletePasskey i) = delete_req (''/auth/passkeys/'' @ i)"
| "passkey_request BeginRegistration = get_req ''/auth/passkeys/register/begin''"
| "passkey_request (FinishRegistration credential deviceName) =
     send_req POST ''/auth/passkeys/register/finish''
       (Some (spread credential [(''device_name'', map_option JStr deviceName)]))"
| "passkey_request (BeginAuthentication email) =
     send_req POST ''/auth/passkeys/authenticate/begin'' (Some (obj [(''email'', Some (JStr email))]))"
| "passkey_request (FinishAuthentication credential email) =
     send_req POST ''/auth/passkeys/authenticate/finish''
       (Some (spread credential [(''email'', Some (JStr email))]))"

fun lacks :: "string \<Rightarrow> json \<Rightarrow> bool" where
  "lacks k (JObj kvs) = (k \<notin> fst ` set kvs)"
| "lacks k _ = False"

fun passkey_ok :: "passkey_call \<Rightarrow> bool" where
  "passkey_ok (DeletePasskey i) = plain_id i"
| "passkey_ok (FinishRegistration c _) = lacks ''device_name'' c"
| "passkey_ok (FinishAuthentication c _) = lacks ''email'' c"
| "passkey_ok _ = True"

lemma spread_lacks:
  assumes "lacks k c"
  shows "spread c [(k, v)] = JObj (entries c @ (case v of None \<Rightarrow> [] | Some j \<Rightarrow> [(k, j)]))"
proof -
  obtain kvs where c: "c = JObj kvs" and k: "k \<notin> fst ` set kvs" using assms by (cases c) auto
  have "filter (\<lambda>(k', _). k' \<noteq> k) kvs = kvs" using k by (force simp: filter_id_conv)
  with c show ?thesis by (simp add: spread_def set_prop_def split: option.splits)
qed

lemma spread_lacks_inj:
  assumes "spread c [(k, v)] = spread d [(k, w)]" and "lacks k c" and "lacks k d"
  shows "c = d \<and> v = w"
proof -
  obtain as bs where c: "c = JObj as" "k \<notin> fst ` set as" and d: "d = JObj bs" "k \<notin> fst ` set bs"
    using assms(2,3) by (cases c; cases d) auto
  have eq: "as @ (case v of None \<Rightarrow> [] | Some j \<Rightarrow> [(k, j)]) = bs @ (case w of None \<Rightarrow> [] | Some j \<Rightarrow> [(k, j)])"
    using assms(1) spread_lacks [OF assms(2)] spread_lacks [OF assms(3)] c d by simp
  with c d show ?thesis by (cases v; cases w) (auto simp: image_iff)
qed

lemma passkey_inj: "passkey_ok c \<Longrightarrow> passkey_ok d \<Longrightarrow> passkey_request c = passkey_request d \<Longrightarrow> c = d"
  by (cases c; cases d) (auto simp: url_simps dest!: spread_lacks_inj)

lemma passkey_base: "startsWith (url (passkey_request c)) ''/auth/passkeys''"
  by (cases c) (auto simp: startsWith_def)

lemma passkey_reads: "verb (passkey_request c) = GET \<Longrightarrow> body (passkey_request c) = None"
  by (cases c) auto

interpretation passkey: rest_module passkey_request passkey_ok "''/auth/passkeys''"
  by unfold_locales (blast intro: passkey_inj passkey_base passkey_reads)+

end
