(* ===== verification/ApiFiles.thy ===== *)
theory ApiFiles
  imports ApiBase LocalStorage AuthStore
begin

text \<open>
  The file manager's API module, lib/api/files.api.ts. Every path goes through
  \<open>encodeURIComponent\<close> or the request body, so any path the file system has arrives unchanged.
  \<open>upload\<close> does not go through the shared client: it builds its own headers and error.
\<close>

record FileInfo =
  fname :: string
  fpath :: string
  fsize :: nat
  is_dir :: bool
  fmode :: string
  modified_at :: string
  mime_type :: "string option"
  extension :: "string option"

datatype archive_format = Zip | TarGz | Tar | Gz | Bz2

fun format_name :: "archive_format \<Rightarrow> string" where
  "format_name Zip = ''zip''"
| "format_name TarGz = ''tar.gz''"
| "format_name Tar = ''tar''"
| "format_name Gz = ''gz''"
| "format_name Bz2 = ''bz2''"

datatype files_call =
    ListFiles string
  | SearchFiles string string
  | ReadFile string
  | WriteFile string string
  | NewFile string
  | DeleteFile string
  | Mkdir string
  | CopyFile string string
  | MoveFile string string
  | RenameFile string string
  | ChmodFile string string
  | CompressFiles "string list" string archive_format
  | ExtractFile string "string option"

fun files_request :: "files_call \<Rightarrow> request" where
  "files_request (ListFiles path) = get_req (''/files/list?path='' @ encodeURIComponent path)"
| "files_request (SearchFiles path q) =
     get_req (''/files/search?path='' @ encodeURIComponent path @ ''&q='' @ encodeURIComponent q)"
| "files_request (ReadFile path) = get_req (''/files/read?path='' @ encodeURIComponent path)"
| "files_request (WriteFile path content) =
     send_req PUT ''/files/write'' (Some (obj [(''path'', Some (JStr path)), (''content'', Some (JStr content))]))"
| "files_request (NewFile path) = send_req POST ''/files/newfile'' (Some (obj [(''path'', Some (JStr path))]))"
| "files_request (DeleteFile path) = delete_req (''/files/delete?path='' @ encodeURIComponent path)"
| "files_request (Mkdir path) = send_req POST ''/files/mkdir'' (Some (obj [(''path'', Some (JStr path))]))"
| "files_request (CopyFile source destination) =
     send_req POST ''/files/copy''
       (Some (obj [(''source'', Some (JStr source)), (''destination'', Some (JStr destination))]))"
| "files_request (MoveFile source destination) =
     send_req POST ''/files/move''
       (Some (obj [(''source'', Some (JStr source)), (''destination'', Some (JStr destination))]))"
| "files_request (RenameFile path new_name) =
     send_req POST ''/files/rename''
       (Some (obj [(''path'', Some (JStr path)), (''new_name'', Some (JStr new_name))]))"
| "files_request (ChmodFile path mode) =
     send_req PUT ''/files/chmod'' (Some (obj [(''path'', Some (JStr path)), (''mode'', Some (JStr mode))]))"
| "files_request (CompressFiles paths output format) =
     send_req POST ''/files/compress''
       (Some (obj [(''paths'', Some (str_arr paths)), (''output'', Some (JStr output)),
         (''format'', Some (JStr (format_name format)))]))"
| "files_request (ExtractFile path destination) =
     send_req POST ''/files/extract''
       (Some (obj [(''path'', Some (JStr path)), (''destination'', map_option JStr destination)]))"

definition downloadUrl :: "string \<Rightarrow> string \<Rightarrow> string" where
  "downloadUrl API_URL path = API_URL @ ''/api/v1/files/download?path='' @ encodeURIComponent path"

section \<open>Upload\<close>

text \<open>The form's entries (the path, then the files), the \<open>Authorization\<close> header read from the
  storage, and what becomes of the response: \<open>resp.ok\<close> and its body, which may fail to parse.
  The thrown error carries its message and the response data.\<close>

definition upload_form :: "string \<Rightarrow> 'f list \<Rightarrow> (string \<times> (string + 'f)) list" where
  "upload_form path files = (''path'', Inl path) # map (\<lambda>f. (''files'', Inr f)) files"

definition upload_token :: "storage \<Rightarrow> jsval" where
  "upload_token d =
    (case getItem d auth_key of
       None \<Rightarrow> None
     | Some it \<Rightarrow>
         (case bind_res (JSON_parse it) (\<lambda>j. member (Some j) ''state'') of
            Inl _ \<Rightarrow> None
          | Inr st \<Rightarrow> (let t = opt_member st ''accessToken'' in if truthy t then t else None)))"

record upload_error =
  message :: jsval
  response_data :: json

definition upload_failed :: json where
  "upload_failed = obj [(''error'', Some (obj [(''message'', Some (JStr ''Upload failed''))]))]"

definition upload_response :: "bool \<Rightarrow> json res \<Rightarrow> (js_error + upload_error) + json" where
  "upload_response resp_ok parsed =
    (if \<not> resp_ok then
       (let err = (case parsed of Inl _ \<Rightarrow> upload_failed | Inr j \<Rightarrow> j) in
        Inl (Inr \<lparr>message = coalesce (opt_member (opt_member (Some err) ''error'') ''message'')
                            (Some (JStr ''Upload failed'')),
                  response_data = err\<rparr>))
     else (case parsed of Inl e \<Rightarrow> Inl (Inl e) | Inr j \<Rightarrow> Inr j))"

section \<open>The module keeps the contract\<close>

lemma format_name_eq [simp]: "format_name f = format_name g \<longleftrightarrow> f = g"
  by (cases f; cases g) auto

lemma str_arr_eq [simp]: "str_arr a = str_arr b \<longleftrightarrow> a = b"
  by (auto simp: str_arr_def inj_map_eq_map inj_def)

lemma files_request_inj: "files_request c = files_request d \<Longrightarrow> c = d"
  by (cases c; cases d) (auto simp: obj_2_opt split: option.splits)

interpretation files: rest_module files_request "\<lambda>_. True" "''/files/''"
proof unfold_locales
  fix c d assume "files_request c = files_request d" then show "c = d" by (rule files_request_inj)
next
  fix c show "startsWith (url (files_request c)) ''/files/''" by (cases c) (simp_all add: startsWith_def)
next
  fix c show "verb (files_request c) = GET \<Longrightarrow> body (files_request c) = None" by (cases c) simp_all
qed

lemma files_queries:
  "query (''/files/list?path='' @ encodeURIComponent p) = [Some (''path'', p)]"
  "query (''/files/read?path='' @ encodeURIComponent p) = [Some (''path'', p)]"
  "query (''/files/delete?path='' @ encodeURIComponent p) = [Some (''path'', p)]"
  "query (''/files/search?path='' @ encodeURIComponent p @ ''&q='' @ encodeURIComponent q) =
     [Some (''path'', p), Some (''q'', q)]"
  using query_1 [of "''/files/list''" "''path''" p] query_1 [of "''/files/read''" "''path''" p]
    query_1 [of "''/files/delete''" "''path''" p]
    query_2 [of "''/files/search''" "''path''" "''q''" p q] by simp_all

text \<open>The parameters a call asks the server for, as the caller means them.\<close>

fun meant_query :: "files_call \<Rightarrow> (string \<times> string) list" where
  "meant_query (ListFiles p) = [(''path'', p)]"
| "meant_query (SearchFiles p q) = [(''path'', p), (''q'', q)]"
| "meant_query (ReadFile p) = [(''path'', p)]"
| "meant_query (DeleteFile p) = [(''path'', p)]"
| "meant_query _ = []"

section \<open>Properties\<close>

text \<open>Whatever characters a path or a search term has, the server reads exactly the
  parameters the caller gave from the URL of the request, no more and no fewer, under the route
  of the call; calls that put the path into the body have no query at all.\<close>

theorem files_query_roundtrip:
  "query (url (files_request c)) = map Some (meant_query c)"
  by (cases c) (simp_all add: files_queries [simplified] query_plain)

text \<open>Two calls of the file API that are not the same call, with the same arguments,
  differ on the wire in the verb, the URL or the body.\<close>

theorem files_calls_distinct:
  assumes "c \<noteq> d"
  shows "verb (files_request c) \<noteq> verb (files_request d) \<or>
    full_url h (files_request c) \<noteq> full_url h (files_request d) \<or>
    body (files_request c) \<noteq> body (files_request d)"
proof -
  have "params (files_request e) = []" for e by (cases e) simp_all
  then show ?thesis using assms files.wire_inj [of c d h] by auto
qed

theorem files_calls_distinct_witness:
  "url (files_request (ListFiles ''/a&path=/b'')) \<noteq> url (files_request (ListFiles ''/a''))"
  using files_calls_distinct [of "ListFiles ''/a&path=/b''" "ListFiles ''/a''" "[]"]
  by (auto simp: full_url_def)

text \<open>An upload sends the token the shared client would send, and none when the
  session is missing or unreadable; a failed upload always reports a message, the server's or
  the default, and never succeeds.\<close>

theorem upload_reports:
  "(upload_token d \<noteq> None \<longrightarrow> truthy (upload_token d)) \<and>
   (getItem d auth_key = None \<or> getItem d auth_key = Some Corrupt \<longrightarrow> upload_token d = None) \<and>
   (\<forall>parsed. \<exists>err. upload_response False parsed = Inl (Inr err) \<and> \<not> nullish (message err)) \<and>
   (\<forall>e. upload_response False (Inl e) =
     Inl (Inr \<lparr>message = Some (JStr ''Upload failed''), response_data = upload_failed\<rparr>)) \<and>
   upload_response True parsed = map_sum Inl id parsed"
proof -
  have "upload_token d \<noteq> None \<Longrightarrow> truthy (upload_token d)"
    by (auto simp: upload_token_def Let_def split: option.splits sum.splits if_splits)
  moreover have "getItem d auth_key = None \<or> getItem d auth_key = Some Corrupt \<Longrightarrow> upload_token d = None"
    by (auto simp: upload_token_def)
  ultimately show ?thesis
    by (auto simp: upload_response_def upload_failed_def coalesce_def Let_def split: sum.splits)
qed

theorem upload_reports_witness:
  "upload_token (removeItem auth_key d) = None"
  using upload_reports [of "removeItem auth_key d"] by (auto simp: getItem_def removeItem_def)

end
