(* ===== verification/ApiServices.thy ===== *)
theory ApiServices
  imports ApiBase
begin

text \<open>
  The API modules of the panel's services in lib/api: backups, billing, the assistant, cron,
  databases, pipelines, DNS, Docker, mail, marketplace, monitoring, notifications and security.
  A request body the module passes on as the caller built it is a \<open>json\<close> argument.
  \<open>_ok\<close> says which calls the server can tell apart: ids without a separator.
\<close>

section \<open>Unions of the type definitions\<close>

datatype container_action = CStart | CStop | CRestart | CPause | CUnpause

fun container_action_name :: "container_action \<Rightarrow> string" where
  "container_action_name CStart = ''start''"
| "container_action_name CStop = ''stop''"
| "container_action_name CRestart = ''restart''"
| "container_action_name CPause = ''pause''"
| "container_action_name CUnpause = ''unpause''"

datatype compose_action = ComposeUp | ComposeDown | ComposeRestart

fun compose_action_name :: "compose_action \<Rightarrow> string" where
  "compose_action_name ComposeUp = ''up''"
| "compose_action_name ComposeDown = ''down''"
| "compose_action_name ComposeRestart = ''restart''"

datatype dmarc_policy = DmarcNone | DmarcQuarantine | DmarcReject

fun dmarc_policy_name :: "dmarc_policy \<Rightarrow> string" where
  "dmarc_policy_name DmarcNone = ''none''"
| "dmarc_policy_name DmarcQuarantine = ''quarantine''"
| "dmarc_policy_name DmarcReject = ''reject''"

lemma container_action_name_eq [simp]: "container_action_name a = container_action_name b \<longleftrightarrow> a = b"
  by (cases a; cases b) simp_all

lemma compose_action_name_eq [simp]: "compose_action_name a = compose_action_name b \<longleftrightarrow> a = b"
  by (cases a; cases b) simp_all

lemma dmarc_policy_name_eq [simp]: "dmarc_policy_name p = dmarc_policy_name q \<longleftrightarrow> p = q"
  by (cases p; cases q) simp_all

lemma action_names_sep: "CHR ''/'' \<notin> set (container_action_name a)"
  by (cases a) simp_all

lemma compose_names_sep: "CHR ''/'' \<notin> set (compose_action_name a)"
  by (cases a) simp_all

section \<open>The modules\<close>

text \<open>backup.api.ts\<close>

datatype backup_call =
    ListBackups
  | CreateBackup json
  | DeleteBackup string
  | RestoreBackup string
  | ListSchedules
  | CreateSchedule json
  | DeleteSchedule string
  | ListDestinations
  | CreateDestination json
  | DeleteDestination string

fun backup_request :: "backup_call \<Rightarrow> request" where
  "backup_request ListBackups = get_req ''/backups''"
| "backup_request (CreateBackup data) = send_req POST ''/backups'' (Some data)"
| "backup_request (DeleteBackup i) = delete_req (''/backups/'' @ i)"
| "backup_request (RestoreBackup i) = send_req POST (''/backups/'' @ i @ ''/restore'') None"
| "backup_request ListSchedules = get_req ''/backups/schedules''"
| "backup_request (CreateSchedule data) = send_req POST ''/backups/schedules'' (Some data)"
| "backup_request (DeleteSchedule i) = delete_req (''/backups/schedules/'' @ i)"
| "backup_request ListDestinations = get_req ''/backups/destinations''"
| "backup_request (CreateDestination data) = send_req POST ''/backups/destinations'' (Some data)"
| "backup_request (DeleteDestination i) = delete_req (''/backups/destinations/'' @ i)"

fun backup_ok :: "backup_call \<Rightarrow> bool" where
  "backup_ok (DeleteBackup i) = (plain_id i)"
| "backup_ok (RestoreBackup i) = (plain_id i)"
| "backup_ok (DeleteSchedule i) = (plain_id i)"
| "backup_ok (DeleteDestination i) = (plain_id i)"
| "backup_ok _ = True"

lemma backup_inj: "backup_ok c \<Longrightarrow> backup_ok d \<Longrightarrow> backup_request c = backup_request d \<Longrightarrow> c = d"
  by (cases c; cases d) (auto simp: url_simps split: option.splits if_splits)

lemma backup_base: "startsWith (url (backup_request c)) ''/backups''"
  by (cases c) (auto simp: startsWith_def split: option.splits)

lemma backup_reads: "verb (backup_request c) = GET \<Longrightarrow> body (backup_request c) = None"
  by (cases c) auto

interpretation backup: rest_module backup_request backup_ok "''/backups''"
  by unfold_locales (blast intro: backup_inj backup_base backup_reads)+

text \<open>billing.api.ts: a cancellation names its date in the body of the DELETE.\<close>

datatype billing_call =
    ListPlans
  | GetSubscription
  | CreateSubscription json
  | CancelSubscription bool
  | ListInvoices
  | GetUsage

fun billing_request :: "billing_call \<Rightarrow> request" where
  "billing_request ListPlans = get_req ''/billing/plans''"
| "billing_request GetSubscription = get_req ''/billing/subscription''"
| "billing_request (CreateSubscription data) = send_req POST ''/billing/subscription'' (Some data)"
| "billing_request (CancelSubscription atPeriodEnd) =
     send_req DELETE ''/billing/subscription''
       (Some (obj [(''at_period_end'', Some (JBool atPeriodEnd))]))"
| "billing_request ListInvoices = get_req ''/billing/invoices''"
| "billing_request GetUsage = get_req ''/billing/usage''"


lemma billing_inj: "billing_request c = billing_request d \<Longrightarrow> c = d"
  by (cases c; cases d) (auto simp: url_simps split: option.splits if_splits)

lemma billing_base: "startsWith (url (billing_request c)) ''/billing/''"
  by (cases c) (auto simp: startsWith_def split: option.splits)

lemma billing_reads: "verb (billing_request c) = GET \<Longrightarrow> body (billing_request c) = None"
  by (cases c) auto

interpretation billing: rest_module billing_request "\<lambda>_. True" "''/billing/''"
  by unfold_locales (blast intro: billing_inj billing_base billing_reads)+

text \<open>ai.api.ts\<close>

datatype ai_call =
    ListConversations
  | GetConversation string
  | DeleteConversation string
  | Chat json
  | Analyze json

fun ai_request :: "ai_call \<Rightarrow> request" where
  "ai_request ListConversations = get_req ''/ai/conversations''"
| "ai_request (GetConversation i) = get_req (''/ai/conversations/'' @ i)"
| "ai_request (DeleteConversation i) = delete_req (''/ai/conversations/'' @ i)"
| "ai_request (Chat data) = send_req POST ''/ai/chat'' (Some data)"
| "ai_request (Analyze data) = send_req POST ''/ai/analyze'' (Some data)"

fun ai_ok :: "ai_call \<Rightarrow> bool" where
  "ai_ok (GetConversation i) = (plain_id i)"
| "ai_ok (DeleteConversation i) = (plain_id i)"
| "ai_ok _ = True"

lemma ai_inj: "ai_ok c \<Longrightarrow> ai_ok d \<Longrightarrow> ai_request c = ai_request d \<Longrightarrow> c = d"
  by (cases c; cases d) (auto simp: url_simps split: option.splits if_splits)

lemma ai_base: "startsWith (url (ai_request c)) ''/ai/''"
  by (cases c) (auto simp: startsWith_def split: option.splits)

lemma ai_reads: "verb (ai_request c) = GET \<Longrightarrow> body (ai_request c) = None"
  by (cases c) auto

interpretation ai: rest_module ai_request ai_ok "''/ai/''"
  by unfold_locales (blast intro: ai_inj ai_base ai_reads)+

text \<open>cron.api.ts\<close>

datatype cron_call =
    ListCron
  | CreateCron json
  | UpdateCron string json
  | DeleteCron string
  | ToggleCron string

fun cron_request :: "cron_call \<Rightarrow> request" where
  "cron_request ListCron = get_req ''/webserver/cron''"
| "cron_request (CreateCron d) = send_req POST ''/webserver/cron'' (Some d)"
| "cron_request (UpdateCron i d) = send_req PUT (''/webserver/cron/'' @ i) (Some d)"
| "cron_request (DeleteCron i) = delete_req (''/webserver/cron/'' @ i)"
| "cron_request (ToggleCron i) =
     send_req POST (''/webserver/cron/'' @ i @ ''/toggle'') (Some (JObj []))"

fun cron_ok :: "cron_call \<Rightarrow> bool" where
  "cron_ok (UpdateCron i _) = (plain_id i)"
| "cron_ok (DeleteCron i) = (plain_id i)"
| "cron_ok (ToggleCron i) = (plain_id i)"
| "cron_ok _ = True"

lemma cron_inj: "cron_ok c \<Longrightarrow> cron_ok d \<Longrightarrow> cron_request c = cron_request d \<Longrightarrow> c = d"
  by (cases c; cases d) (auto simp: url_simps split: option.splits if_splits)

lemma cron_base: "startsWith (url (cron_request c)) ''/webserver/cron''"
  by (cases c) (auto simp: startsWith_def split: option.splits)

lemma cron_reads: "verb (cron_request c) = GET \<Longrightarrow> body (cron_request c) = None"
  by (cases c) auto

interpretation cron: rest_module cron_request cron_ok "''/webserver/cron''"
  by unfold_locales (blast intro: cron_inj cron_base cron_reads)+

text \<open>databases.api.ts\<close>

datatype databases_call =
    ListDatabases
  | CreateDatabase json
  | DeleteDatabase string
  | ListDBUsers
  | CreateDBUser json
  | DeleteDBUser string

fun databases_request :: "databases_call \<Rightarrow> request" where
  "databases_request ListDatabases = get_req ''/databases''"
| "databases_request (CreateDatabase data) = send_req POST ''/databases'' (Some data)"
| "databases_request (DeleteDatabase i) = delete_req (''/databases/'' @ i)"
| "databases_request ListDBUsers = get_req ''/database-users''"
| "databases_request (CreateDBUser data) = send_req POST ''/database-users'' (Some data)"
| "databases_request (DeleteDBUser i) = delete_req (''/database-users/'' @ i)"

fun databases_ok :: "databases_call \<Rightarrow> bool" where
  "databases_ok (DeleteDatabase i) = (plain_id i)"
| "databases_ok (DeleteDBUser i) = (plain_id i)"
| "databases_ok _ = True"

lemma databases_inj: "databases_ok c \<Longrightarrow> databases_ok d \<Longrightarrow> databases_request c = databases_request d \<Longrightarrow> c = d"
  by (cases c; cases d) (auto simp: url_simps split: option.splits if_splits)

lemma databases_base: "startsWith (url (databases_request c)) ''/database''"
  by (cases c) (auto simp: startsWith_def split: option.splits)

lemma databases_reads: "verb (databases_request c) = GET \<Longrightarrow> body (databases_request c) = None"
  by (cases c) auto

interpretation databases: rest_module databases_request databases_ok "''/database''"
  by unfold_locales (blast intro: databases_inj databases_base databases_reads)+

text \<open>devops.api.ts\<close>

datatype devops_call =
    ListPipelines
  | GetPipeline string
  | CreatePipeline json
  | UpdatePipeline string json
  | DeletePipeline string
  | TriggerRun string
  | ListRuns string
  | ListDeployments

fun devops_request :: "devops_call \<Rightarrow> request" where
  "devops_request ListPipelines = get_req ''/devops/pipelines''"
| "devops_request (GetPipeline i) = get_req (''/devops/pipelines/'' @ i)"
| "devops_request (CreatePipeline data) = send_req POST ''/devops/pipelines'' (Some data)"
| "devops_request (UpdatePipeline i data) = send_req PUT (''/devops/pipelines/'' @ i) (Some data)"
| "devops_request (DeletePipeline i) = delete_req (''/devops/pipelines/'' @ i)"
| "devops_request (TriggerRun i) =
     send_req POST (''/devops/pipelines/'' @ i @ ''/run'') (Some (JObj []))"
| "devops_request (ListRuns pipelineId) = get_req (''/devops/pipelines/'' @ pipelineId @ ''/runs'')"
| "devops_request ListDeployments = get_req ''/devops/deployments''"

fun devops_ok :: "devops_call \<Rightarrow> bool" where
  "devops_ok (GetPipeline i) = (plain_id i)"
| "devops_ok (UpdatePipeline i _) = (plain_id i)"
| "devops_ok (DeletePipeline i) = (plain_id i)"
| "devops_ok (TriggerRun i) = (plain_id i)"
| "devops_ok (ListRuns pipelineId) = (plain_id pipelineId)"
| "devops_ok _ = True"

lemma devops_inj: "devops_ok c \<Longrightarrow> devops_ok d \<Longrightarrow> devops_request c = devops_request d \<Longrightarrow> c = d"
  by (cases c; cases d) (auto simp: url_simps split: option.splits if_splits)

lemma devops_base: "startsWith (url (devops_request c)) ''/devops/''"
  by (cases c) (auto simp: startsWith_def split: option.splits)

lemma devops_reads: "verb (devops_request c) = GET \<Longrightarrow> body (devops_request c) = None"
  by (cases c) auto

interpretation devops: rest_module devops_request devops_ok "''/devops/''"
  by unfold_locales (blast intro: devops_inj devops_base devops_reads)+

text \<open>dns.api.ts: the domain of a propagation check is escaped, the record type is not.\<close>

datatype dns_call =
    ListZones
  | GetZone string
  | CreateZone json
  | DeleteZone string
  | ListRecords string
  | CreateRecord string json
  | UpdateRecord string string json
  | DeleteRecord string string
  | ListTemplates
  | CheckPropagation string string

fun dns_request :: "dns_call \<Rightarrow> request" where
  "dns_request ListZones = get_req ''/dns/zones''"
| "dns_request (GetZone i) = get_req (''/dns/zones/'' @ i)"
| "dns_request (CreateZone data) = send_req POST ''/dns/zones'' (Some data)"
| "dns_request (DeleteZone i) = delete_req (''/dns/zones/'' @ i)"
| "dns_request (ListRecords zoneId) = get_req (''/dns/zones/'' @ zoneId @ ''/records'')"
| "dns_request (CreateRecord zoneId data) =
     send_req POST (''/dns/zones/'' @ zoneId @ ''/records'') (Some data)"
| "dns_request (UpdateRecord zoneId recordId data) =
     send_req PUT (''/dns/zones/'' @ zoneId @ ''/records/'' @ recordId) (Some data)"
| "dns_request (DeleteRecord zoneId recordId) =
     delete_req (''/dns/zones/'' @ zoneId @ ''/records/'' @ recordId)"
| "dns_request ListTemplates = get_req ''/dns/templates''"
| "dns_request (CheckPropagation domain type) =
     get_req (''/dns/propagation?domain='' @ encodeURIComponent domain @ ''&type='' @ type)"

fun dns_ok :: "dns_call \<Rightarrow> bool" where
  "dns_ok (GetZone i) = (plain_id i)"
| "dns_ok (DeleteZone i) = (plain_id i)"
| "dns_ok (ListRecords zoneId) = (plain_id zoneId)"
| "dns_ok (CreateRecord zoneId _) = (plain_id zoneId)"
| "dns_ok (UpdateRecord zoneId recordId _) = (plain_id zoneId \<and> plain_id recordId)"
| "dns_ok (DeleteRecord zoneId recordId) = (plain_id zoneId \<and> plain_id recordId)"
| "dns_ok _ = True"

lemma dns_inj: "dns_ok c \<Longrightarrow> dns_ok d \<Longrightarrow> dns_request c = dns_request d \<Longrightarrow> c = d"
  by (cases c; cases d) (auto simp: url_simps split: option.splits if_splits)

lemma dns_base: "startsWith (url (dns_request c)) ''/dns/''"
  by (cases c) (auto simp: startsWith_def split: option.splits)

lemma dns_reads: "verb (dns_request c) = GET \<Longrightarrow> body (dns_request c) = None"
  by (cases c) auto

interpretation dns: rest_module dns_request dns_ok "''/dns/''"
  by unfold_locales (blast intro: dns_inj dns_base dns_reads)+

text \<open>docker.api.ts\<close>

datatype docker_call =
    ListContainers
  | CreateContainer json
  | ContainerAction string container_action
  | DeleteContainer string
  | ListImages
  | PullImage string
  | RemoveImage string
  | ListComposeProjects
  | CreateComposeProject json
  | ComposeAction string compose_action
  | DeleteComposeProject string

fun docker_request :: "docker_call \<Rightarrow> request" where
  "docker_request ListContainers = get_req ''/docker/containers''"
| "docker_request (CreateContainer data) = send_req POST ''/docker/containers'' (Some data)"
| "docker_request (ContainerAction i act) =
     send_req POST (''/docker/containers/'' @ i @ ''/'' @ container_action_name act)
       (Some (JObj []))"
| "docker_request (DeleteContainer i) = delete_req (''/docker/containers/'' @ i)"
| "docker_request ListImages = get_req ''/docker/images''"
| "docker_request (PullImage img) =
     send_req POST ''/docker/images/pull'' (Some (obj [(''image'', Some (JStr img))]))"
| "docker_request (RemoveImage i) = delete_req (''/docker/images/'' @ i)"
| "docker_request ListComposeProjects = get_req ''/docker/compose''"
| "docker_request (CreateComposeProject data) = send_req POST ''/docker/compose'' (Some data)"
| "docker_request (ComposeAction i act) =
     send_req POST (''/docker/compose/'' @ i @ ''/'' @ compose_action_name act) (Some (JObj []))"
| "docker_request (DeleteComposeProject i) = delete_req (''/docker/compose/'' @ i)"

fun docker_ok :: "docker_call \<Rightarrow> bool" where
  "docker_ok (ContainerAction i _) = (plain_id i)"
| "docker_ok (DeleteContainer i) = (plain_id i)"
| "docker_ok (RemoveImage i) = (plain_id i)"
| "docker_ok (ComposeAction i _) = (plain_id i)"
| "docker_ok (DeleteComposeProject i) = (plain_id i)"
| "docker_ok _ = True"

lemma docker_inj: "docker_ok c \<Longrightarrow> docker_ok d \<Longrightarrow> docker_request c = docker_request d \<Longrightarrow> c = d"
  by (cases c; cases d) (auto simp: url_simps action_names_sep compose_names_sep split: option.splits if_splits)

lemma docker_base: "startsWith (url (docker_request c)) ''/docker/''"
  by (cases c) (auto simp: startsWith_def split: option.splits)

lemma docker_reads: "verb (docker_request c) = GET \<Longrightarrow> body (docker_request c) = None"
  by (cases c) auto

interpretation docker: rest_module docker_request docker_ok "''/docker/''"
  by unfold_locales (blast intro: docker_inj docker_base docker_reads)+

text \<open>mail.api.ts: a domain is escaped in a query, not in a path.\<close>

datatype mail_call =
    ListMailboxes
  | CreateMailbox json
  | UpdateMailbox string json
  | ChangePassword string string
  | SuspendMailbox string
  | UnsuspendMailbox string
  | DeleteMailbox string
  | ListForwarders
  | CreateForwarder json
  | DeleteForwarder string
  | ListDKIM
  | GetDKIM string
  | GenerateDKIM json
  | DeleteDKIM string
  | GetCatchAll "string option"
  | SetCatchAll json
  | DeleteCatchAll string
  | ListAliases "string option"
  | CreateAlias json
  | DeleteAlias string
  | GetDMARCRecord string "dmarc_policy option"

fun mail_request :: "mail_call \<Rightarrow> request" where
  "mail_request ListMailboxes = get_req ''/mail/mailboxes''"
| "mail_request (CreateMailbox data) = send_req POST ''/mail/mailboxes'' (Some data)"
| "mail_request (UpdateMailbox i data) = send_req PATCH (''/mail/mailboxes/'' @ i) (Some data)"
| "mail_request (ChangePassword i password) =
     send_req PUT (''/mail/mailboxes/'' @ i @ ''/password'')
       (Some (obj [(''password'', Some (JStr password))]))"
| "mail_request (SuspendMailbox i) =
     send_req PUT (''/mail/mailboxes/'' @ i @ ''/suspend'') (Some (JObj []))"
| "mail_request (UnsuspendMailbox i) =
     send_req PUT (''/mail/mailboxes/'' @ i @ ''/unsuspend'') (Some (JObj []))"
| "mail_request (DeleteMailbox i) = delete_req (''/mail/mailboxes/'' @ i)"
| "mail_request ListForwarders = get_req ''/mail/forwarders''"
| "mail_request (CreateForwarder data) = send_req POST ''/mail/forwarders'' (Some data)"
| "mail_request (DeleteForwarder i) = delete_req (''/mail/forwarders/'' @ i)"
| "mail_request ListDKIM = get_req ''/mail/dkim''"
| "mail_request (GetDKIM domain) = get_req (''/mail/dkim/'' @ domain)"
| "mail_request (GenerateDKIM data) = send_req POST ''/mail/dkim'' (Some data)"
| "mail_request (DeleteDKIM domain) = delete_req (''/mail/dkim/'' @ domain)"
| "mail_request (GetCatchAll domain) =
     get_req (''/mail/catchall''
       @ (case domain of None \<Rightarrow> [] | Some v \<Rightarrow> if v = [] then [] else
       ''?domain='' @ encodeURIComponent v))"
| "mail_request (SetCatchAll data) = send_req POST ''/mail/catchall'' (Some data)"
| "mail_request (DeleteCatchAll domain) =
     delete_req (''/mail/catchall?domain='' @ encodeURIComponent domain)"
| "mail_request (ListAliases domain) =
     get_req (''/mail/aliases''
       @ (case domain of None \<Rightarrow> [] | Some v \<Rightarrow> if v = [] then [] else
       ''?domain='' @ encodeURIComponent v))"
| "mail_request (CreateAlias data) = send_req POST ''/mail/aliases'' (Some data)"
| "mail_request (DeleteAlias i) = delete_req (''/mail/aliases/'' @ i)"
| "mail_request (GetDMARCRecord domain policy) =
     get_req (''/mail/dmarc?domain='' @ encodeURIComponent domain @
       (case policy of None \<Rightarrow> [] | Some p \<Rightarrow> ''&policy='' @ dmarc_policy_name p))"

fun mail_ok :: "mail_call \<Rightarrow> bool" where
  "mail_ok (UpdateMailbox i _) = (plain_id i)"
| "mail_ok (ChangePassword i _) = (plain_id i)"
| "mail_ok (SuspendMailbox i) = (plain_id i)"
| "mail_ok (UnsuspendMailbox i) = (plain_id i)"
| "mail_ok (DeleteMailbox i) = (plain_id i)"
| "mail_ok (DeleteForwarder i) = (plain_id i)"
| "mail_ok (GetDKIM domain) = (plain_id domain)"
| "mail_ok (DeleteDKIM domain) = (plain_id domain)"
| "mail_ok (GetCatchAll domain) = (given domain)"
| "mail_ok (ListAliases domain) = (given domain)"
| "mail_ok (DeleteAlias i) = (plain_id i)"
| "mail_ok _ = True"

lemma mail_inj: "mail_ok c \<Longrightarrow> mail_ok d \<Longrightarrow> mail_request c = mail_request d \<Longrightarrow> c = d"
  by (cases c; cases d) (auto simp: url_simps split: option.splits if_splits)

lemma mail_base: "startsWith (url (mail_request c)) ''/mail/''"
  by (cases c) (auto simp: startsWith_def split: option.splits)

lemma mail_reads: "verb (mail_request c) = GET \<Longrightarrow> body (mail_request c) = None"
  by (cases c) auto

interpretation mail: rest_module mail_request mail_ok "''/mail/''"
  by unfold_locales (blast intro: mail_inj mail_base mail_reads)+

text \<open>marketplace.api.ts\<close>

datatype marketplace_call =
    ListApps "(string \<times> jsval) list"
  | GetApp string
  | InstallApp json
  | ListInstallations
  | UninstallApp string

fun marketplace_request :: "marketplace_call \<Rightarrow> request" where
  "marketplace_request (ListApps filters) = get_ps ''/marketplace/apps'' filters"
| "marketplace_request (GetApp slug) = get_req (''/marketplace/apps/'' @ slug)"
| "marketplace_request (InstallApp data) = send_req POST ''/marketplace/install'' (Some data)"
| "marketplace_request ListInstallations = get_req ''/marketplace/installations''"
| "marketplace_request (UninstallApp i) = delete_req (''/marketplace/installations/'' @ i)"

fun marketplace_ok :: "marketplace_call \<Rightarrow> bool" where
  "marketplace_ok (GetApp slug) = (plain_id slug)"
| "marketplace_ok (UninstallApp i) = (plain_id i)"
| "marketplace_ok _ = True"

lemma marketplace_inj: "marketplace_ok c \<Longrightarrow> marketplace_ok d \<Longrightarrow> marketplace_request c = marketplace_request d \<Longrightarrow> c = d"
  by (cases c; cases d) (auto simp: url_simps split: option.splits if_splits)

lemma marketplace_base: "startsWith (url (marketplace_request c)) ''/marketplace/''"
  by (cases c) (auto simp: startsWith_def split: option.splits)

lemma marketplace_reads: "verb (marketplace_request c) = GET \<Longrightarrow> body (marketplace_request c) = None"
  by (cases c) auto

interpretation marketplace: rest_module marketplace_request marketplace_ok "''/marketplace/''"
  by unfold_locales (blast intro: marketplace_inj marketplace_base marketplace_reads)+

text \<open>monitoring.api.ts\<close>

datatype monitoring_call =
    GetCurrentMetrics "string option"
  | ListServers
  | RegisterServer json
  | DeleteServer string
  | GetServerMetrics string "string option"
  | ListAlertRules
  | CreateAlertRule json
  | DeleteAlertRule string
  | ListIncidents
  | AcknowledgeIncident string
  | ResolveIncident string

fun monitoring_request :: "monitoring_call \<Rightarrow> request" where
  "monitoring_request (GetCurrentMetrics serverId) =
     get_req (''/monitoring/metrics/current''
       @ (case serverId of None \<Rightarrow> [] | Some v \<Rightarrow> if v = [] then [] else
       ''?server_id='' @ v))"
| "monitoring_request ListServers = get_req ''/monitoring/servers''"
| "monitoring_request (RegisterServer d) = send_req POST ''/monitoring/servers'' (Some d)"
| "monitoring_request (DeleteServer i) = delete_req (''/monitoring/servers/'' @ i)"
| "monitoring_request (GetServerMetrics i period) =
     get_ps (''/monitoring/servers/'' @ i @ ''/metrics'') [(''period'', map_option JStr period)]"
| "monitoring_request ListAlertRules = get_req ''/monitoring/alerts/rules''"
| "monitoring_request (CreateAlertRule data) =
     send_req POST ''/monitoring/alerts/rules'' (Some data)"
| "monitoring_request (DeleteAlertRule i) = delete_req (''/monitoring/alerts/rules/'' @ i)"
| "monitoring_request ListIncidents = get_req ''/monitoring/incidents''"
| "monitoring_request (AcknowledgeIncident i) =
     send_req PUT (''/monitoring/incidents/'' @ i @ ''/acknowledge'') (Some (JObj []))"
| "monitoring_request (ResolveIncident i) =
     send_req PUT (''/monitoring/incidents/'' @ i @ ''/resolve'') (Some (JObj []))"

fun monitoring_ok :: "monitoring_call \<Rightarrow> bool" where
  "monitoring_ok (GetCurrentMetrics serverId) = (given serverId)"
| "monitoring_ok (DeleteServer i) = (plain_id i)"
| "monitoring_ok (GetServerMetrics i _) = (plain_id i)"
| "monitoring_ok (DeleteAlertRule i) = (plain_id i)"
| "monitoring_ok (AcknowledgeIncident i) = (plain_id i)"
| "monitoring_ok (ResolveIncident i) = (plain_id i)"
| "monitoring_ok _ = True"

lemma monitoring_inj: "monitoring_ok c \<Longrightarrow> monitoring_ok d \<Longrightarrow> monitoring_request c = monitoring_request d \<Longrightarrow> c = d"
  by (cases c; cases d) (auto simp: url_simps split: option.splits if_splits)

lemma monitoring_base: "startsWith (url (monitoring_request c)) ''/monitoring/''"
  by (cases c) (auto simp: startsWith_def split: option.splits)

lemma monitoring_reads: "verb (monitoring_request c) = GET \<Longrightarrow> body (monitoring_request c) = None"
  by (cases c) auto

interpretation monitoring: rest_module monitoring_request monitoring_ok "''/monitoring/''"
  by unfold_locales (blast intro: monitoring_inj monitoring_base monitoring_reads)+

text \<open>notifications.api.ts\<close>

datatype notifications_call =
    ListNotifications "(string \<times> jsval) list"
  | MarkRead string
  | MarkAllRead
  | DeleteNotification string
  | DeleteAllNotifications
  | GetUnreadCount

fun notifications_request :: "notifications_call \<Rightarrow> request" where
  "notifications_request (ListNotifications filters) = get_ps ''/notifications'' filters"
| "notifications_request (MarkRead i) = send_req PATCH (''/notifications/'' @ i @ ''/read'') None"
| "notifications_request MarkAllRead = send_req POST ''/notifications/read-all'' None"
| "notifications_request (DeleteNotification i) = delete_req (''/notifications/'' @ i)"
| "notifications_request DeleteAllNotifications = delete_req ''/notifications''"
| "notifications_request GetUnreadCount = get_req ''/notifications/unread-count''"

fun notifications_ok :: "notifications_call \<Rightarrow> bool" where
  "notifications_ok (MarkRead i) = (plain_id i)"
| "notifications_ok (DeleteNotification i) = (plain_id i)"
| "notifications_ok _ = True"

lemma notifications_inj: "notifications_ok c \<Longrightarrow> notifications_ok d \<Longrightarrow> notifications_request c = notifications_request d \<Longrightarrow> c = d"
  by (cases c; cases d) (auto simp: url_simps split: option.splits if_splits)

lemma notifications_base: "startsWith (url (notifications_request c)) ''/notifications''"
  by (cases c) (auto simp: startsWith_def split: option.splits)

lemma notifications_reads: "verb (notifications_request c) = GET \<Longrightarrow> body (notifications_request c) = None"
  by (cases c) auto

interpretation notifications: rest_module notifications_request notifications_ok "''/notifications''"
  by unfold_locales (blast intro: notifications_inj notifications_base notifications_reads)+

text \<open>security.api.ts\<close>

datatype security_call =
    GetScore
  | ListFirewallRules
  | CreateFirewallRule json
  | DeleteFirewallRule string
  | ListEvents
  | ListBlocklist
  | BlockIP json
  | UnblockIP string
  | ListGeoIPBlocks
  | AddGeoIPBlock json
  | RemoveGeoIPBlock string
  | LookupGeoIP string

fun security_request :: "security_call \<Rightarrow> request" where
  "security_request GetScore = get_req ''/security/score''"
| "security_request ListFirewallRules = get_req ''/security/firewall''"
| "security_request (CreateFirewallRule data) = send_req POST ''/security/firewall'' (Some data)"
| "security_request (DeleteFirewallRule i) = delete_req (''/security/firewall/'' @ i)"
| "security_request ListEvents = get_req ''/security/events''"
| "security_request ListBlocklist = get_req ''/security/blocklist''"
| "security_request (BlockIP data) = send_req POST ''/security/blocklist'' (Some data)"
| "security_request (UnblockIP i) = delete_req (''/security/blocklist/'' @ i)"
| "security_request ListGeoIPBlocks = get_req ''/security/geoip''"
| "security_request (AddGeoIPBlock data) = send_req POST ''/security/geoip'' (Some data)"
| "security_request (RemoveGeoIPBlock countryCode) =
     delete_req (''/security/geoip/'' @ countryCode)"
| "security_request (LookupGeoIP ip) =
     get_req (''/security/geoip/lookup?ip='' @ encodeURIComponent ip)"

fun security_ok :: "security_call \<Rightarrow> bool" where
  "security_ok (DeleteFirewallRule i) = (plain_id i)"
| "security_ok (UnblockIP i) = (plain_id i)"
| "security_ok (RemoveGeoIPBlock countryCode) = (plain_id countryCode)"
| "security_ok _ = True"

lemma security_inj: "security_ok c \<Longrightarrow> security_ok d \<Longrightarrow> security_request c = security_request d \<Longrightarrow> c = d"
  by (cases c; cases d) (auto simp: url_simps split: option.splits if_splits)

lemma security_base: "startsWith (url (security_request c)) ''/security/''"
  by (cases c) (auto simp: startsWith_def split: option.splits)

lemma security_reads: "verb (security_request c) = GET \<Longrightarrow> body (security_request c) = None"
  by (cases c) auto

interpretation security: rest_module security_request security_ok "''/security/''"
  by unfold_locales (blast intro: security_inj security_base security_reads)+

end
