(* ===== verification/ApiHosting.thy ===== *)
theory ApiHosting
  imports ApiBase
begin

text \<open>
  The API modules of hosting: lib/api/hosting.api.ts (FTP accounts, subdomains, redirects, error
  pages, directory privacy, SSH keys, remote MySQL, CSRs, mail features, bandwidth, ModSecurity),
  webserver.api.ts and domains.api.ts, whose certificate, vhost and PHP objects address the same
  routes as webserver.api.ts.
\<close>

text \<open>ftpApi\<close>

datatype ftp_call =
    ListFtp
  | CreateFtp json
  | UpdateFtpPassword string string
  | DeleteFtp string
  | ToggleFtp string

fun ftp_request :: "ftp_call \<Rightarrow> request" where
  "ftp_request ListFtp = get_req ''/webserver/ftp''"
| "ftp_request (CreateFtp d) = send_req POST ''/webserver/ftp'' (Some d)"
| "ftp_request (UpdateFtpPassword i password) =
     send_req PUT (''/webserver/ftp/'' @ i @ ''/password'')
       (Some (obj [(''password'', Some (JStr password))]))"
| "ftp_request (DeleteFtp i) = delete_req (''/webserver/ftp/'' @ i)"
| "ftp_request (ToggleFtp i) =
     send_req POST (''/webserver/ftp/'' @ i @ ''/toggle'') (Some (JObj []))"

fun ftp_ok :: "ftp_call \<Rightarrow> bool" where
  "ftp_ok (UpdateFtpPassword i _) = (plain_id i)"
| "ftp_ok (DeleteFtp i) = (plain_id i)"
| "ftp_ok (ToggleFtp i) = (plain_id i)"
| "ftp_ok _ = True"

lemma ftp_inj: "ftp_ok c \<Longrightarrow> ftp_ok d \<Longrightarrow> ftp_request c = ftp_request d \<Longrightarrow> c = d"
  by (cases c; cases d) (auto simp: url_simps split: option.splits if_splits)

lemma ftp_base: "startsWith (url (ftp_request c)) ''/webserver/ftp''"
  by (cases c) (auto simp: startsWith_def split: option.splits)

lemma ftp_reads: "verb (ftp_request c) = GET \<Longrightarrow> body (ftp_request c) = None"
  by (cases c) auto

interpretation ftp: rest_module ftp_request ftp_ok "''/webserver/ftp''"
  by unfold_locales (blast intro: ftp_inj ftp_base ftp_reads)+

text \<open>subdomainApi\<close>

datatype subdomain_call =
    ListSubdomains "string option"
  | CreateSubdomain json
  | DeleteSubdomain string

fun subdomain_request :: "subdomain_call \<Rightarrow> request" where
  "subdomain_request (ListSubdomains domain) =
     get_ps ''/webserver/subdomains'' [(''domain'', map_option JStr domain)]"
| "subdomain_request (CreateSubdomain d) = send_req POST ''/webserver/subdomains'' (Some d)"
| "subdomain_request (DeleteSubdomain i) = delete_req (''/webserver/subdomains/'' @ i)"

fun subdomain_ok :: "subdomain_call \<Rightarrow> bool" where
  "subdomain_ok (DeleteSubdomain i) = (plain_id i)"
| "subdomain_ok _ = True"

lemma subdomain_inj: "subdomain_ok c \<Longrightarrow> subdomain_ok d \<Longrightarrow> subdomain_request c = subdomain_request d \<Longrightarrow> c = d"
  by (cases c; cases d) (auto simp: url_simps split: option.splits if_splits)

lemma subdomain_base: "startsWith (url (subdomain_request c)) ''/webserver/subdomains''"
  by (cases c) (auto simp: startsWith_def split: option.splits)

lemma subdomain_reads: "verb (subdomain_request c) = GET \<Longrightarrow> body (subdomain_request c) = None"
  by (cases c) auto

interpretation subdomain: rest_module subdomain_request subdomain_ok "''/webserver/subdomains''"
  by unfold_locales (blast intro: subdomain_inj subdomain_base subdomain_reads)+

text \<open>redirectApi\<close>

datatype redirect_call =
    ListRedirects
  | CreateRedirect json
  | DeleteRedirect string

fun redirect_request :: "redirect_call \<Rightarrow> request" where
  "redirect_request ListRedirects = get_req ''/webserver/redirects''"
| "redirect_request (CreateRedirect d) = send_req POST ''/webserver/redirects'' (Some d)"
| "redirect_request (DeleteRedirect i) = delete_req (''/webserver/redirects/'' @ i)"

fun redirect_ok :: "redirect_call \<Rightarrow> bool" where
  "redirect_ok (DeleteRedirect i) = (plain_id i)"
| "redirect_ok _ = True"

lemma redirect_inj: "redirect_ok c \<Longrightarrow> redirect_ok d \<Longrightarrow> redirect_request c = redirect_request d \<Longrightarrow> c = d"
  by (cases c; cases d) (auto simp: url_simps split: option.splits if_splits)

lemma redirect_base: "startsWith (url (redirect_request c)) ''/webserver/redirects''"
  by (cases c) (auto simp: startsWith_def split: option.splits)

lemma redirect_reads: "verb (redirect_request c) = GET \<Longrightarrow> body (redirect_request c) = None"
  by (cases c) auto

interpretation redirect: rest_module redirect_request redirect_ok "''/webserver/redirects''"
  by unfold_locales (blast intro: redirect_inj redirect_base redirect_reads)+

text \<open>errorPageApi\<close>

datatype error_page_call =
    ListErrorPages string
  | UpsertErrorPage json

fun error_page_request :: "error_page_call \<Rightarrow> request" where
  "error_page_request (ListErrorPages domain) =
     get_ps ''/webserver/error-pages'' [(''domain'', Some (JStr domain))]"
| "error_page_request (UpsertErrorPage d) = send_req POST ''/webserver/error-pages'' (Some d)"


lemma error_page_inj: "error_page_request c = error_page_request d \<Longrightarrow> c = d"
  by (cases c; cases d) (auto simp: url_simps split: option.splits if_splits)

lemma error_page_base: "startsWith (url (error_page_request c)) ''/webserver/error-pages''"
  by (cases c) (auto simp: startsWith_def split: option.splits)

lemma error_page_reads: "verb (error_page_request c) = GET \<Longrightarrow> body (error_page_request c) = None"
  by (cases c) auto

interpretation error_page: rest_module error_page_request "\<lambda>_. True" "''/webserver/error-pages''"
  by unfold_locales (blast intro: error_page_inj error_page_base error_page_reads)+

text \<open>privacyApi\<close>

datatype privacy_call =
    ListPrivacy string
  | CreatePrivacy json
  | DeletePrivacy string

fun privacy_request :: "privacy_call \<Rightarrow> request" where
  "privacy_request (ListPrivacy domain) =
     get_ps ''/webserver/privacy'' [(''domain'', Some (JStr domain))]"
| "privacy_request (CreatePrivacy d) = send_req POST ''/webserver/privacy'' (Some d)"
| "privacy_request (DeletePrivacy i) = delete_req (''/webserver/privacy/'' @ i)"

fun privacy_ok :: "privacy_call \<Rightarrow> bool" where
  "privacy_ok (DeletePrivacy i) = (plain_id i)"
| "privacy_ok _ = True"

lemma privacy_inj: "privacy_ok c \<Longrightarrow> privacy_ok d \<Longrightarrow> privacy_request c = privacy_request d \<Longrightarrow> c = d"
  by (cases c; cases d) (auto simp: url_simps split: option.splits if_splits)

lemma privacy_base: "startsWith (url (privacy_request c)) ''/webserver/privacy''"
  by (cases c) (auto simp: startsWith_def split: option.splits)

lemma privacy_reads: "verb (privacy_request c) = GET \<Longrightarrow> body (privacy_request c) = None"
  by (cases c) auto

interpretation privacy: rest_module privacy_request privacy_ok "''/webserver/privacy''"
  by unfold_locales (blast intro: privacy_inj privacy_base privacy_reads)+

text \<open>sshKeyApi\<close>

datatype ssh_key_call =
    ListSSHKeys
  | AddSSHKey json
  | DeleteSSHKey string

fun ssh_key_request :: "ssh_key_call \<Rightarrow> request" where
  "ssh_key_request ListSSHKeys = get_req ''/webserver/ssh-keys''"
| "ssh_key_request (AddSSHKey d) = send_req POST ''/webserver/ssh-keys'' (Some d)"
| "ssh_key_request (DeleteSSHKey i) = delete_req (''/webserver/ssh-keys/'' @ i)"

fun ssh_key_ok :: "ssh_key_call \<Rightarrow> bool" where
  "ssh_key_ok (DeleteSSHKey i) = (plain_id i)"
| "ssh_key_ok _ = True"

lemma ssh_key_inj: "ssh_key_ok c \<Longrightarrow> ssh_key_ok d \<Longrightarrow> ssh_key_request c = ssh_key_request d \<Longrightarrow> c = d"
  by (cases c; cases d) (auto simp: url_simps split: option.splits if_splits)

lemma ssh_key_base: "startsWith (url (ssh_key_request c)) ''/webserver/ssh-keys''"
  by (cases c) (auto simp: startsWith_def split: option.splits)

lemma ssh_key_reads: "verb (ssh_key_request c) = GET \<Longrightarrow> body (ssh_key_request c) = None"
  by (cases c) auto

interpretation ssh_key: rest_module ssh_key_request ssh_key_ok "''/webserver/ssh-keys''"
  by unfold_locales (blast intro: ssh_key_inj ssh_key_base ssh_key_reads)+

text \<open>mysqlRemoteApi\<close>

datatype mysql_remote_call =
    ListMySQLRemote
  | AddMySQLRemote json
  | DeleteMySQLRemote string

fun mysql_remote_request :: "mysql_remote_call \<Rightarrow> request" where
  "mysql_remote_request ListMySQLRemote = get_req ''/webserver/mysql-remote''"
| "mysql_remote_request (AddMySQLRemote d) = send_req POST ''/webserver/mysql-remote'' (Some d)"
| "mysql_remote_request (DeleteMySQLRemote i) = delete_req (''/webserver/mysql-remote/'' @ i)"

fun mysql_remote_ok :: "mysql_remote_call \<Rightarrow> bool" where
  "mysql_remote_ok (DeleteMySQLRemote i) = (plain_id i)"
| "mysql_remote_ok _ = True"

lemma mysql_remote_inj: "mysql_remote_ok c \<Longrightarrow> mysql_remote_ok d \<Longrightarrow> mysql_remote_request c = mysql_remote_request d \<Longrightarrow> c = d"
  by (cases c; cases d) (auto simp: url_simps split: option.splits if_splits)

lemma mysql_remote_base: "startsWith (url (mysql_remote_request c)) ''/webserver/mysql-remote''"
  by (cases c) (auto simp: startsWith_def split: option.splits)

lemma mysql_remote_reads: "verb (mysql_remote_request c) = GET \<Longrightarrow> body (mysql_remote_request c) = None"
  by (cases c) auto

interpretation mysql_remote: rest_module mysql_remote_request mysql_remote_ok "''/webserver/mysql-remote''"
  by unfold_locales (blast intro: mysql_remote_inj mysql_remote_base mysql_remote_reads)+

text \<open>sslCsrApi\<close>

datatype ssl_csr_call =
    GenerateCSR json
  | ImportSSL json

fun ssl_csr_request :: "ssl_csr_call \<Rightarrow> request" where
  "ssl_csr_request (GenerateCSR d) = send_req POST ''/webserver/ssl/csr'' (Some d)"
| "ssl_csr_request (ImportSSL d) = send_req POST ''/webserver/ssl/import'' (Some d)"


lemma ssl_csr_inj: "ssl_csr_request c = ssl_csr_request d \<Longrightarrow> c = d"
  by (cases c; cases d) (auto simp: url_simps split: option.splits if_splits)

lemma ssl_csr_base: "startsWith (url (ssl_csr_request c)) ''/webserver/ssl/''"
  by (cases c) (auto simp: startsWith_def split: option.splits)

lemma ssl_csr_reads: "verb (ssl_csr_request c) = GET \<Longrightarrow> body (ssl_csr_request c) = None"
  by (cases c) auto

interpretation ssl_csr: rest_module ssl_csr_request "\<lambda>_. True" "''/webserver/ssl/''"
  by unfold_locales (blast intro: ssl_csr_inj ssl_csr_base ssl_csr_reads)+

text \<open>autoresponderApi\<close>

datatype autoresponder_call =
    ListAutoresponders
  | CreateAutoresponder json
  | UpdateAutoresponder string json
  | DeleteAutoresponder string

fun autoresponder_request :: "autoresponder_call \<Rightarrow> request" where
  "autoresponder_request ListAutoresponders = get_req ''/mail/autoresponders''"
| "autoresponder_request (CreateAutoresponder d) = send_req POST ''/mail/autoresponders'' (Some d)"
| "autoresponder_request (UpdateAutoresponder i d) =
     send_req PUT (''/mail/autoresponders/'' @ i) (Some d)"
| "autoresponder_request (DeleteAutoresponder i) = delete_req (''/mail/autoresponders/'' @ i)"

fun autoresponder_ok :: "autoresponder_call \<Rightarrow> bool" where
  "autoresponder_ok (UpdateAutoresponder i _) = (plain_id i)"
| "autoresponder_ok (DeleteAutoresponder i) = (plain_id i)"
| "autoresponder_ok _ = True"

lemma autoresponder_inj: "autoresponder_ok c \<Longrightarrow> autoresponder_ok d \<Longrightarrow> autoresponder_request c = autoresponder_request d \<Longrightarrow> c = d"
  by (cases c; cases d) (auto simp: url_simps split: option.splits if_splits)

lemma autoresponder_base: "startsWith (url (autoresponder_request c)) ''/mail/autoresponders''"
  by (cases c) (auto simp: startsWith_def split: option.splits)

lemma autoresponder_reads: "verb (autoresponder_request c) = GET \<Longrightarrow> body (autoresponder_request c) = None"
  by (cases c) auto

interpretation autoresponder: rest_module autoresponder_request autoresponder_ok "''/mail/autoresponders''"
  by unfold_locales (blast intro: autoresponder_inj autoresponder_base autoresponder_reads)+

text \<open>emailFilterApi\<close>

datatype email_filter_call =
    ListEmailFilters string
  | CreateEmailFilter json
  | UpdateEmailFilter string json
  | DeleteEmailFilter string

fun email_filter_request :: "email_filter_call \<Rightarrow> request" where
  "email_filter_request (ListEmailFilters mailbox) =
     get_ps ''/mail/filters'' [(''mailbox'', Some (JStr mailbox))]"
| "email_filter_request (CreateEmailFilter d) = send_req POST ''/mail/filters'' (Some d)"
| "email_filter_request (UpdateEmailFilter i d) = send_req PUT (''/mail/filters/'' @ i) (Some d)"
| "email_filter_request (DeleteEmailFilter i) = delete_req (''/mail/filters/'' @ i)"

fun email_filter_ok :: "email_filter_call \<Rightarrow> bool" where
  "email_filter_ok (UpdateEmailFilter i _) = (plain_id i)"
| "email_filter_ok (DeleteEmailFilter i) = (plain_id i)"
| "email_filter_ok _ = True"

lemma email_filter_inj: "email_filter_ok c \<Longrightarrow> email_filter_ok d \<Longrightarrow> email_filter_request c = email_filter_request d \<Longrightarrow> c = d"
  by (cases c; cases d) (auto simp: url_simps split: option.splits if_splits)

lemma email_filter_base: "startsWith (url (email_filter_request c)) ''/mail/filters''"
  by (cases c) (auto simp: startsWith_def split: option.splits)

lemma email_filter_reads: "verb (email_filter_request c) = GET \<Longrightarrow> body (email_filter_request c) = None"
  by (cases c) auto

interpretation email_filter: rest_module email_filter_request email_filter_ok "''/mail/filters''"
  by unfold_locales (blast intro: email_filter_inj email_filter_base email_filter_reads)+

text \<open>mailQueueApi\<close>

datatype mail_queue_call =
    ListMailQueue
  | FlushMailQueue
  | DeleteMailQueueEntry string
  | DeleteMailQueue

fun mail_queue_request :: "mail_queue_call \<Rightarrow> request" where
  "mail_queue_request ListMailQueue = get_req ''/mail/queue''"
| "mail_queue_request FlushMailQueue = send_req POST ''/mail/queue/flush'' (Some (JObj []))"
| "mail_queue_request (DeleteMailQueueEntry i) = delete_req (''/mail/queue/'' @ i)"
| "mail_queue_request DeleteMailQueue = delete_req ''/mail/queue''"

fun mail_queue_ok :: "mail_queue_call \<Rightarrow> bool" where
  "mail_queue_ok (DeleteMailQueueEntry i) = (plain_id i)"
| "mail_queue_ok _ = True"

lemma mail_queue_inj: "mail_queue_ok c \<Longrightarrow> mail_queue_ok d \<Longrightarrow> mail_queue_request c = mail_queue_request d \<Longrightarrow> c = d"
  by (cases c; cases d) (auto simp: url_simps split: option.splits if_splits)

lemma mail_queue_base: "startsWith (url (mail_queue_request c)) ''/mail/queue''"
  by (cases c) (auto simp: startsWith_def split: option.splits)

lemma mail_queue_reads: "verb (mail_queue_request c) = GET \<Longrightarrow> body (mail_queue_request c) = None"
  by (cases c) auto

interpretation mail_queue: rest_module mail_queue_request mail_queue_ok "''/mail/queue''"
  by unfold_locales (blast intro: mail_queue_inj mail_queue_base mail_queue_reads)+

text \<open>bandwidthApi\<close>

datatype bandwidth_call =
    GetDomainBandwidth string "string option"
  | GetDomainDiskUsage string

fun bandwidth_request :: "bandwidth_call \<Rightarrow> request" where
  "bandwidth_request (GetDomainBandwidth domain period) =
     get_ps (''/monitoring/bandwidth/'' @ domain) [(''period'', map_option JStr period)]"
| "bandwidth_request (GetDomainDiskUsage domain) = get_req (''/monitoring/disk/'' @ domain)"

fun bandwidth_ok :: "bandwidth_call \<Rightarrow> bool" where
  "bandwidth_ok (GetDomainBandwidth domain _) = (plain_id domain)"
| "bandwidth_ok (GetDomainDiskUsage domain) = (plain_id domain)"

lemma bandwidth_inj: "bandwidth_ok c \<Longrightarrow> bandwidth_ok d \<Longrightarrow> bandwidth_request c = bandwidth_request d \<Longrightarrow> c = d"
  by (cases c; cases d) (auto simp: url_simps split: option.splits if_splits)

lemma bandwidth_base: "startsWith (url (bandwidth_request c)) ''/monitoring/''"
  by (cases c) (auto simp: startsWith_def split: option.splits)

lemma bandwidth_reads: "verb (bandwidth_request c) = GET \<Longrightarrow> body (bandwidth_request c) = None"
  by (cases c) auto

interpretation bandwidth: rest_module bandwidth_request bandwidth_ok "''/monitoring/''"
  by unfold_locales (blast intro: bandwidth_inj bandwidth_base bandwidth_reads)+

text \<open>modsecApi\<close>

datatype modsec_call =
    GetModsecStatus
  | SetModsecMode string
  | ListModsecRules
  | ToggleModsecRule json

fun modsec_request :: "modsec_call \<Rightarrow> request" where
  "modsec_request GetModsecStatus = get_req ''/security/modsec/status''"
| "modsec_request (SetModsecMode mode) =
     send_req PUT ''/security/modsec/mode'' (Some (obj [(''mode'', Some (JStr mode))]))"
| "modsec_request ListModsecRules = get_req ''/security/modsec/rules''"
| "modsec_request (ToggleModsecRule d) = send_req POST ''/security/modsec/rules/toggle'' (Some d)"


lemma modsec_inj: "modsec_request c = modsec_request d \<Longrightarrow> c = d"
  by (cases c; cases d) (auto simp: url_simps split: option.splits if_splits)

lemma modsec_base: "startsWith (url (modsec_request c)) ''/security/modsec/''"
  by (cases c) (auto simp: startsWith_def split: option.splits)

lemma modsec_reads: "verb (modsec_request c) = GET \<Longrightarrow> body (modsec_request c) = None"
  by (cases c) auto

interpretation modsec: rest_module modsec_request "\<lambda>_. True" "''/security/modsec/''"
  by unfold_locales (blast intro: modsec_inj modsec_base modsec_reads)+

text \<open>webserver.api.ts\<close>

datatype webserver_call =
    ListVhosts
  | GetVhost string
  | CreateVhost json
  | UpdateVhost string json
  | DeleteVhost string
  | ListSSL
  | GetSSL string
  | IssueSSL json
  | RenewSSL string
  | DeleteSSL string
  | ToggleAutoRenew string bool
  | ListPHPVersions
  | UpdatePHP string json
  | GetPHPIni string
  | UpdatePHPIni string json
  | GetOPcacheStatus string
  | ResetOPcache string

fun webserver_request :: "webserver_call \<Rightarrow> request" where
  "webserver_request ListVhosts = get_req ''/webserver/vhosts''"
| "webserver_request (GetVhost i) = get_req (''/webserver/vhosts/'' @ i)"
| "webserver_request (CreateVhost data) = send_req POST ''/webserver/vhosts'' (Some data)"
| "webserver_request (UpdateVhost i data) = send_req PUT (''/webserver/vhosts/'' @ i) (Some data)"
| "webserver_request (DeleteVhost i) = delete_req (''/webserver/vhosts/'' @ i)"
| "webserver_request ListSSL = get_req ''/webserver/ssl''"
| "webserver_request (GetSSL i) = get_req (''/webserver/ssl/'' @ i)"
| "webserver_request (IssueSSL rq) = send_req POST ''/webserver/ssl/issue'' (Some rq)"
| "webserver_request (RenewSSL i) = send_req POST (''/webserver/ssl/renew/'' @ i) None"
| "webserver_request (DeleteSSL i) = delete_req (''/webserver/ssl/'' @ i)"
| "webserver_request (ToggleAutoRenew i auto_renew) =
     send_req PUT (''/webserver/ssl/'' @ i @ ''/auto-renew'')
       (Some (obj [(''auto_renew'', Some (JBool auto_renew))]))"
| "webserver_request ListPHPVersions = get_req ''/webserver/php''"
| "webserver_request (UpdatePHP vhostId php_version) =
     send_req PUT (''/webserver/php/'' @ vhostId)
       (Some (obj [(''php_version'', Some php_version)]))"
| "webserver_request (GetPHPIni vhostId) = get_req (''/webserver/php/'' @ vhostId @ ''/ini'')"
| "webserver_request (UpdatePHPIni vhostId settings) =
     send_req PUT (''/webserver/php/'' @ vhostId @ ''/ini'') (Some settings)"
| "webserver_request (GetOPcacheStatus vhostId) =
     get_req (''/webserver/php/'' @ vhostId @ ''/opcache'')"
| "webserver_request (ResetOPcache vhostId) =
     send_req POST (''/webserver/php/'' @ vhostId @ ''/opcache/reset'') (Some (JObj []))"

fun webserver_ok :: "webserver_call \<Rightarrow> bool" where
  "webserver_ok (GetVhost i) = (plain_id i)"
| "webserver_ok (UpdateVhost i _) = (plain_id i)"
| "webserver_ok (DeleteVhost i) = (plain_id i)"
| "webserver_ok (GetSSL i) = (plain_id i)"
| "webserver_ok (RenewSSL i) = (plain_id i)"
| "webserver_ok (DeleteSSL i) = (plain_id i)"
| "webserver_ok (ToggleAutoRenew i _) = (plain_id i)"
| "webserver_ok (UpdatePHP vhostId _) = (plain_id vhostId)"
| "webserver_ok (GetPHPIni vhostId) = (plain_id vhostId)"
| "webserver_ok (UpdatePHPIni vhostId _) = (plain_id vhostId)"
| "webserver_ok (GetOPcacheStatus vhostId) = (plain_id vhostId)"
| "webserver_ok (ResetOPcache vhostId) = (plain_id vhostId)"
| "webserver_ok _ = True"

lemma webserver_inj: "webserver_ok c \<Longrightarrow> webserver_ok d \<Longrightarrow> webserver_request c = webserver_request d \<Longrightarrow> c = d"
  by (cases c; cases d) (auto simp: url_simps split: option.splits if_splits)

lemma webserver_base: "startsWith (url (webserver_request c)) ''/webserver/''"
  by (cases c) (auto simp: startsWith_def split: option.splits)

lemma webserver_reads: "verb (webserver_request c) = GET \<Longrightarrow> body (webserver_request c) = None"
  by (cases c) auto

interpretation webserver: rest_module webserver_request webserver_ok "''/webserver/''"
  by unfold_locales (blast intro: webserver_inj webserver_base webserver_reads)+

text \<open>domainsApi\<close>

datatype domains_call =
    ListDomains
  | GetDomain string
  | CreateDomain json
  | DeleteDomain string
  | SuspendDomain string
  | UnsuspendDomain string

fun domains_request :: "domains_call \<Rightarrow> request" where
  "domains_request ListDomains = get_req ''/domains''"
| "domains_request (GetDomain i) = get_req (''/domains/'' @ i)"
| "domains_request (CreateDomain data) = send_req POST ''/domains'' (Some data)"
| "domains_request (DeleteDomain i) = delete_req (''/domains/'' @ i)"
| "domains_request (SuspendDomain i) = send_req POST (''/domains/'' @ i @ ''/suspend'') None"
| "domains_request (UnsuspendDomain i) = send_req POST (''/domains/'' @ i @ ''/unsuspend'') None"

fun domains_ok :: "domains_call \<Rightarrow> bool" where
  "domains_ok (GetDomain i) = (plain_id i)"
| "domains_ok (DeleteDomain i) = (plain_id i)"
| "domains_ok (SuspendDomain i) = (plain_id i)"
| "domains_ok (UnsuspendDomain i) = (plain_id i)"
| "domains_ok _ = True"

lemma domains_inj: "domains_ok c \<Longrightarrow> domains_ok d \<Longrightarrow> domains_request c = domains_request d \<Longrightarrow> c = d"
  by (cases c; cases d) (auto simp: url_simps split: option.splits if_splits)

lemma domains_base: "startsWith (url (domains_request c)) ''/domains''"
  by (cases c) (auto simp: startsWith_def split: option.splits)

lemma domains_reads: "verb (domains_request c) = GET \<Longrightarrow> body (domains_request c) = None"
  by (cases c) auto

interpretation domains: rest_module domains_request domains_ok "''/domains''"
  by unfold_locales (blast intro: domains_inj domains_base domains_reads)+

text \<open>sslApi of domains.api.ts\<close>

datatype domain_ssl_call =
    ListDomainSSL
  | IssueDomainSSL json
  | RenewDomainSSL string
  | DeleteDomainSSL string

fun domain_ssl_request :: "domain_ssl_call \<Rightarrow> request" where
  "domain_ssl_request ListDomainSSL = get_req ''/webserver/ssl''"
| "domain_ssl_request (IssueDomainSSL data) = send_req POST ''/webserver/ssl/issue'' (Some data)"
| "domain_ssl_request (RenewDomainSSL i) = send_req POST (''/webserver/ssl/renew/'' @ i) None"
| "domain_ssl_request (DeleteDomainSSL i) = delete_req (''/webserver/ssl/'' @ i)"

fun domain_ssl_ok :: "domain_ssl_call \<Rightarrow> bool" where
  "domain_ssl_ok (RenewDomainSSL i) = (plain_id i)"
| "domain_ssl_ok (DeleteDomainSSL i) = (plain_id i)"
| "domain_ssl_ok _ = True"

lemma domain_ssl_inj: "domain_ssl_ok c \<Longrightarrow> domain_ssl_ok d \<Longrightarrow> domain_ssl_request c = domain_ssl_request d \<Longrightarrow> c = d"
  by (cases c; cases d) (auto simp: url_simps split: option.splits if_splits)

lemma domain_ssl_base: "startsWith (url (domain_ssl_request c)) ''/webserver/ssl''"
  by (cases c) (auto simp: startsWith_def split: option.splits)

lemma domain_ssl_reads: "verb (domain_ssl_request c) = GET \<Longrightarrow> body (domain_ssl_request c) = None"
  by (cases c) auto

interpretation domain_ssl: rest_module domain_ssl_request domain_ssl_ok "''/webserver/ssl''"
  by unfold_locales (blast intro: domain_ssl_inj domain_ssl_base domain_ssl_reads)+

text \<open>vhostApi of domains.api.ts\<close>

datatype domain_vhost_call =
    ListDomainVhosts
  | CreateDomainVhost json
  | DeleteDomainVhost string

fun domain_vhost_request :: "domain_vhost_call \<Rightarrow> request" where
  "domain_vhost_request ListDomainVhosts = get_req ''/webserver/vhosts''"
| "domain_vhost_request (CreateDomainVhost data) = send_req POST ''/webserver/vhosts'' (Some data)"
| "domain_vhost_request (DeleteDomainVhost i) = delete_req (''/webserver/vhosts/'' @ i)"

fun domain_vhost_ok :: "domain_vhost_call \<Rightarrow> bool" where
  "domain_vhost_ok (DeleteDomainVhost i) = (plain_id i)"
| "domain_vhost_ok _ = True"

lemma domain_vhost_inj: "domain_vhost_ok c \<Longrightarrow> domain_vhost_ok d \<Longrightarrow> domain_vhost_request c = domain_vhost_request d \<Longrightarrow> c = d"
  by (cases c; cases d) (auto simp: url_simps split: option.splits if_splits)

lemma domain_vhost_base: "startsWith (url (domain_vhost_request c)) ''/webserver/vhosts''"
  by (cases c) (auto simp: startsWith_def split: option.splits)

lemma domain_vhost_reads: "verb (domain_vhost_request c) = GET \<Longrightarrow> body (domain_vhost_request c) = None"
  by (cases c) auto

interpretation domain_vhost: rest_module domain_vhost_request domain_vhost_ok "''/webserver/vhosts''"
  by unfold_locales (blast intro: domain_vhost_inj domain_vhost_base domain_vhost_reads)+

text \<open>phpApi of domains.api.ts\<close>

datatype domain_php_call =
    GetPHPConfig string
  | UpdatePHPConfig string json

fun domain_php_request :: "domain_php_call \<Rightarrow> request" where
  "domain_php_request (GetPHPConfig vhostId) = get_req (''/webserver/php/'' @ vhostId)"
| "domain_php_request (UpdatePHPConfig vhostId data) =
     send_req PUT (''/webserver/php/'' @ vhostId) (Some data)"

fun domain_php_ok :: "domain_php_call \<Rightarrow> bool" where
  "domain_php_ok (GetPHPConfig vhostId) = (plain_id vhostId)"
| "domain_php_ok (UpdatePHPConfig vhostId _) = (plain_id vhostId)"

lemma domain_php_inj: "domain_php_ok c \<Longrightarrow> domain_php_ok d \<Longrightarrow> domain_php_request c = domain_php_request d \<Longrightarrow> c = d"
  by (cases c; cases d) (auto simp: url_simps split: option.splits if_splits)

lemma domain_php_base: "startsWith (url (domain_php_request c)) ''/webserver/php/''"
  by (cases c) (auto simp: startsWith_def split: option.splits)

lemma domain_php_reads: "verb (domain_php_request c) = GET \<Longrightarrow> body (domain_php_request c) = None"
  by (cases c) auto

interpretation domain_php: rest_module domain_php_request domain_php_ok "''/webserver/php/''"
  by unfold_locales (blast intro: domain_php_inj domain_php_base domain_php_reads)+

end
