(* ===== verification/ApiCatalog.thy ===== *)
theory ApiCatalog
  imports ApiAuth ApiFiles ApiServices ApiHosting
begin

text \<open>
  The whole client side of the API: every call of every module, the request it makes, and the
  path prefix its module owns. The properties of all modules at once.
\<close>

datatype api_call =
    AuthApi auth_call
  | PasskeyApi passkey_call
  | FilesApi files_call
  | BackupApi backup_call
  | BillingApi billing_call
  | AiApi ai_call
  | CronApi cron_call
  | DatabasesApi databases_call
  | DevopsApi devops_call
  | DnsApi dns_call
  | DockerApi docker_call
  | MailApi mail_call
  | MarketplaceApi marketplace_call
  | MonitoringApi monitoring_call
  | NotificationsApi notifications_call
  | SecurityApi security_call
  | FtpApi ftp_call
  | SubdomainApi subdomain_call
  | RedirectApi redirect_call
  | ErrorPageApi error_page_call
  | PrivacyApi privacy_call
  | SshKeyApi ssh_key_call
  | MysqlRemoteApi mysql_remote_call
  | SslCsrApi ssl_csr_call
  | AutoresponderApi autoresponder_call
  | EmailFilterApi email_filter_call
  | MailQueueApi mail_queue_call
  | BandwidthApi bandwidth_call
  | ModsecApi modsec_call
  | WebserverApi webserver_call
  | DomainsApi domains_call
  | DomainSslApi domain_ssl_call
  | DomainVhostApi domain_vhost_call
  | DomainPhpApi domain_php_call

fun api_request :: "api_call \<Rightarrow> request" where
  "api_request (AuthApi c) = auth_request c"
| "api_request (PasskeyApi c) = passkey_request c"
| "api_request (FilesApi c) = files_request c"
| "api_request (BackupApi c) = backup_request c"
| "api_request (BillingApi c) = billing_request c"
| "api_request (AiApi c) = ai_request c"
| "api_request (CronApi c) = cron_request c"
| "api_request (DatabasesApi c) = databases_request c"
| "api_request (DevopsApi c) = devops_request c"
| "api_request (DnsApi c) = dns_request c"
| "api_request (DockerApi c) = docker_request c"
| "api_request (MailApi c) = mail_request c"
| "api_request (MarketplaceApi c) = marketplace_request c"
| "api_request (MonitoringApi c) = monitoring_request c"
| "api_request (NotificationsApi c) = notifications_request c"
| "api_request (SecurityApi c) = security_request c"
| "api_request (FtpApi c) = ftp_request c"
| "api_request (SubdomainApi c) = subdomain_request c"
| "api_request (RedirectApi c) = redirect_request c"
| "api_request (ErrorPageApi c) = error_page_request c"
| "api_request (PrivacyApi c) = privacy_request c"
| "api_request (SshKeyApi c) = ssh_key_request c"
| "api_request (MysqlRemoteApi c) = mysql_remote_request c"
| "api_request (SslCsrApi c) = ssl_csr_request c"
| "api_request (AutoresponderApi c) = autoresponder_request c"
| "api_request (EmailFilterApi c) = email_filter_request c"
| "api_request (MailQueueApi c) = mail_queue_request c"
| "api_request (BandwidthApi c) = bandwidth_request c"
| "api_request (ModsecApi c) = modsec_request c"
| "api_request (WebserverApi c) = webserver_request c"
| "api_request (DomainsApi c) = domains_request c"
| "api_request (DomainSslApi c) = domain_ssl_request c"
| "api_request (DomainVhostApi c) = domain_vhost_request c"
| "api_request (DomainPhpApi c) = domain_php_request c"

fun api_ok :: "api_call \<Rightarrow> bool" where
  "api_ok (AuthApi c) = auth_ok c"
| "api_ok (PasskeyApi c) = passkey_ok c"
| "api_ok (BackupApi c) = backup_ok c"
| "api_ok (AiApi c) = ai_ok c"
| "api_ok (CronApi c) = cron_ok c"
| "api_ok (DatabasesApi c) = databases_ok c"
| "api_ok (DevopsApi c) = devops_ok c"
| "api_ok (DnsApi c) = dns_ok c"
| "api_ok (DockerApi c) = docker_ok c"
| "api_ok (MailApi c) = mail_ok c"
| "api_ok (MarketplaceApi c) = marketplace_ok c"
| "api_ok (MonitoringApi c) = monitoring_ok c"
| "api_ok (NotificationsApi c) = notifications_ok c"
| "api_ok (SecurityApi c) = security_ok c"
| "api_ok (FtpApi c) = ftp_ok c"
| "api_ok (SubdomainApi c) = subdomain_ok c"
| "api_ok (RedirectApi c) = redirect_ok c"
| "api_ok (PrivacyApi c) = privacy_ok c"
| "api_ok (SshKeyApi c) = ssh_key_ok c"
| "api_ok (MysqlRemoteApi c) = mysql_remote_ok c"
| "api_ok (AutoresponderApi c) = autoresponder_ok c"
| "api_ok (EmailFilterApi c) = email_filter_ok c"
| "api_ok (MailQueueApi c) = mail_queue_ok c"
| "api_ok (BandwidthApi c) = bandwidth_ok c"
| "api_ok (WebserverApi c) = webserver_ok c"
| "api_ok (DomainsApi c) = domains_ok c"
| "api_ok (DomainSslApi c) = domain_ssl_ok c"
| "api_ok (DomainVhostApi c) = domain_vhost_ok c"
| "api_ok (DomainPhpApi c) = domain_php_ok c"
| "api_ok _ = True"

text \<open>The module of a call, by the path its routes start with.\<close>

fun api_base :: "api_call \<Rightarrow> string" where
  "api_base (AuthApi c) = ''/auth/''"
| "api_base (PasskeyApi c) = ''/auth/passkeys''"
| "api_base (FilesApi c) = ''/files/''"
| "api_base (BackupApi c) = ''/backups''"
| "api_base (BillingApi c) = ''/billing/''"
| "api_base (AiApi c) = ''/ai/''"
| "api_base (CronApi c) = ''/webserver/cron''"
| "api_base (DatabasesApi c) = ''/database''"
| "api_base (DevopsApi c) = ''/devops/''"
| "api_base (DnsApi c) = ''/dns/''"
| "api_base (DockerApi c) = ''/docker/''"
| "api_base (MailApi c) = ''/mail/''"
| "api_base (MarketplaceApi c) = ''/marketplace/''"
| "api_base (MonitoringApi c) = ''/monitoring/''"
| "api_base (NotificationsApi c) = ''/notifications''"
| "api_base (SecurityApi c) = ''/security/''"
| "api_base (FtpApi c) = ''/webserver/ftp''"
| "api_base (SubdomainApi c) = ''/webserver/subdomains''"
| "api_base (RedirectApi c) = ''/webserver/redirects''"
| "api_base (ErrorPageApi c) = ''/webserver/error-pages''"
| "api_base (PrivacyApi c) = ''/webserver/privacy''"
| "api_base (SshKeyApi c) = ''/webserver/ssh-keys''"
| "api_base (MysqlRemoteApi c) = ''/webserver/mysql-remote''"
| "api_base (SslCsrApi c) = ''/webserver/ssl/''"
| "api_base (AutoresponderApi c) = ''/mail/autoresponders''"
| "api_base (EmailFilterApi c) = ''/mail/filters''"
| "api_base (MailQueueApi c) = ''/mail/queue''"
| "api_base (BandwidthApi c) = ''/monitoring/''"
| "api_base (ModsecApi c) = ''/security/modsec/''"
| "api_base (WebserverApi c) = ''/webserver/''"
| "api_base (DomainsApi c) = ''/domains''"
| "api_base (DomainSslApi c) = ''/webserver/ssl''"
| "api_base (DomainVhostApi c) = ''/webserver/vhosts''"
| "api_base (DomainPhpApi c) = ''/webserver/php/''"

fun api_module :: "api_call \<Rightarrow> nat" where
  "api_module (AuthApi c) = 0"
| "api_module (PasskeyApi c) = 1"
| "api_module (FilesApi c) = 2"
| "api_module (BackupApi c) = 3"
| "api_module (BillingApi c) = 4"
| "api_module (AiApi c) = 5"
| "api_module (CronApi c) = 6"
| "api_module (DatabasesApi c) = 7"
| "api_module (DevopsApi c) = 8"
| "api_module (DnsApi c) = 9"
| "api_module (DockerApi c) = 10"
| "api_module (MailApi c) = 11"
| "api_module (MarketplaceApi c) = 12"
| "api_module (MonitoringApi c) = 13"
| "api_module (NotificationsApi c) = 14"
| "api_module (SecurityApi c) = 15"
| "api_module (FtpApi c) = 16"
| "api_module (SubdomainApi c) = 17"
| "api_module (RedirectApi c) = 18"
| "api_module (ErrorPageApi c) = 19"
| "api_module (PrivacyApi c) = 20"
| "api_module (SshKeyApi c) = 21"
| "api_module (MysqlRemoteApi c) = 22"
| "api_module (SslCsrApi c) = 23"
| "api_module (AutoresponderApi c) = 24"
| "api_module (EmailFilterApi c) = 25"
| "api_module (MailQueueApi c) = 26"
| "api_module (BandwidthApi c) = 27"
| "api_module (ModsecApi c) = 28"
| "api_module (WebserverApi c) = 29"
| "api_module (DomainsApi c) = 30"
| "api_module (DomainSslApi c) = 31"
| "api_module (DomainVhostApi c) = 32"
| "api_module (DomainPhpApi c) = 33"

lemmas module_injs =
  auth_api.req_inj
  passkey.req_inj
  files.req_inj
  backup.req_inj
  billing.req_inj
  ai.req_inj
  cron.req_inj
  databases.req_inj
  devops.req_inj
  dns.req_inj
  docker.req_inj
  mail.req_inj
  marketplace.req_inj
  monitoring.req_inj
  notifications.req_inj
  security.req_inj
  ftp.req_inj
  subdomain.req_inj
  redirect.req_inj
  error_page.req_inj
  privacy.req_inj
  ssh_key.req_inj
  mysql_remote.req_inj
  ssl_csr.req_inj
  autoresponder.req_inj
  email_filter.req_inj
  mail_queue.req_inj
  bandwidth.req_inj
  modsec.req_inj
  webserver.req_inj
  domains.req_inj
  domain_ssl.req_inj
  domain_vhost.req_inj
  domain_php.req_inj

lemmas module_bases =
  auth_api.req_base
  passkey.req_base
  files.req_base
  backup.req_base
  billing.req_base
  ai.req_base
  cron.req_base
  databases.req_base
  devops.req_base
  dns.req_base
  docker.req_base
  mail.req_base
  marketplace.req_base
  monitoring.req_base
  notifications.req_base
  security.req_base
  ftp.req_base
  subdomain.req_base
  redirect.req_base
  error_page.req_base
  privacy.req_base
  ssh_key.req_base
  mysql_remote.req_base
  ssl_csr.req_base
  autoresponder.req_base
  email_filter.req_base
  mail_queue.req_base
  bandwidth.req_base
  modsec.req_base
  webserver.req_base
  domains.req_base
  domain_ssl.req_base
  domain_vhost.req_base
  domain_php.req_base

lemmas module_reads =
  auth_api.get_no_body
  passkey.get_no_body
  files.get_no_body
  backup.get_no_body
  billing.get_no_body
  ai.get_no_body
  cron.get_no_body
  databases.get_no_body
  devops.get_no_body
  dns.get_no_body
  docker.get_no_body
  mail.get_no_body
  marketplace.get_no_body
  monitoring.get_no_body
  notifications.get_no_body
  security.get_no_body
  ftp.get_no_body
  subdomain.get_no_body
  redirect.get_no_body
  error_page.get_no_body
  privacy.get_no_body
  ssh_key.get_no_body
  mysql_remote.get_no_body
  ssl_csr.get_no_body
  autoresponder.get_no_body
  email_filter.get_no_body
  mail_queue.get_no_body
  bandwidth.get_no_body
  modsec.get_no_body
  webserver.get_no_body
  domains.get_no_body
  domain_ssl.get_no_body
  domain_vhost.get_no_body
  domain_php.get_no_body

lemma api_request_inj:
  assumes "api_module c = api_module d" and "api_ok c" and "api_ok d" and "api_request c = api_request d"
  shows "c = d"
proof (cases c)
  case (AuthApi x)
  with assms(1) obtain y where "d = AuthApi y" by (cases d) auto
  with AuthApi assms show ?thesis by (auto intro: auth_api.req_inj)
next
  case (PasskeyApi x)
  with assms(1) obtain y where "d = PasskeyApi y" by (cases d) auto
  with PasskeyApi assms show ?thesis by (auto intro: passkey.req_inj)
next
  case (FilesApi x)
  with assms(1) obtain y where "d = FilesApi y" by (cases d) auto
  with FilesApi assms show ?thesis by (auto intro: files.req_inj)
next
  case (BackupApi x)
  with assms(1) obtain y where "d = BackupApi y" by (cases d) auto
  with BackupApi assms show ?thesis by (auto intro: backup.req_inj)
next
  case (BillingApi x)
  with assms(1) obtain y where "d = BillingApi y" by (cases d) auto
  with BillingApi assms show ?thesis by (auto intro: billing.req_inj)
next
  case (AiApi x)
  with assms(1) obtain y where "d = AiApi y" by (cases d) auto
  with AiApi assms show ?thesis by (auto intro: ai.req_inj)
next
  case (CronApi x)
  with assms(1) obtain y where "d = CronApi y" by (cases d) auto
  with CronApi assms show ?thesis by (auto intro: cron.req_inj)
next
  case (DatabasesApi x)
  with assms(1) obtain y where "d = DatabasesApi y" by (cases d) auto
  with DatabasesApi assms show ?thesis by (auto intro: databases.req_inj)
next
  case (DevopsApi x)
  with assms(1) obtain y where "d = DevopsApi y" by (cases d) auto
  with DevopsApi assms show ?thesis by (auto intro: devops.req_inj)
next
  case (DnsApi x)
  with assms(1) obtain y where "d = DnsApi y" by (cases d) auto
  with DnsApi assms show ?thesis by (auto intro: dns.req_inj)
next
  case (DockerApi x)
  with assms(1) obtain y where "d = DockerApi y" by (cases d) auto
  with DockerApi assms show ?thesis by (auto intro: docker.req_inj)
next
  case (MailApi x)
  with assms(1) obtain y where "d = MailApi y" by (cases d) auto
  with MailApi assms show ?thesis by (auto intro: mail.req_inj)
next
  case (MarketplaceApi x)
  with assms(1) obtain y where "d = MarketplaceApi y" by (cases d) auto
  with MarketplaceApi assms show ?thesis by (auto intro: marketplace.req_inj)
next
  case (MonitoringApi x)
  with assms(1) obtain y where "d = MonitoringApi y" by (cases d) auto
  with MonitoringApi assms show ?thesis by (auto intro: monitoring.req_inj)
next
  case (NotificationsApi x)
  with assms(1) obtain y where "d = NotificationsApi y" by (cases d) auto
  with NotificationsApi assms show ?thesis by (auto intro: notifications.req_inj)
next
  case (SecurityApi x)
  with assms(1) obtain y where "d = SecurityApi y" by (cases d) auto
  with SecurityApi assms show ?thesis by (auto intro: security.req_inj)
next
  case (FtpApi x)
  with assms(1) obtain y where "d = FtpApi y" by (cases d) auto
  with FtpApi assms show ?thesis by (auto intro: ftp.req_inj)
next
  case (SubdomainApi x)
  with assms(1) obtain y where "d = SubdomainApi y" by (cases d) auto
  with SubdomainApi assms show ?thesis by (auto intro: subdomain.req_inj)
next
  case (RedirectApi x)
  with assms(1) obtain y where "d = RedirectApi y" by (cases d) auto
  with RedirectApi assms show ?thesis by (auto intro: redirect.req_inj)
next
  case (ErrorPageApi x)
  with assms(1) obtain y where "d = ErrorPageApi y" by (cases d) auto
  with ErrorPageApi assms show ?thesis by (auto intro: error_page.req_inj)
next
  case (PrivacyApi x)
  with assms(1) obtain y where "d = PrivacyApi y" by (cases d) auto
  with PrivacyApi assms show ?thesis by (auto intro: privacy.req_inj)
next
  case (SshKeyApi x)
  with assms(1) obtain y where "d = SshKeyApi y" by (cases d) auto
  with SshKeyApi assms show ?thesis by (auto intro: ssh_key.req_inj)
next
  case (MysqlRemoteApi x)
  with assms(1) obtain y where "d = MysqlRemoteApi y" by (cases d) auto
  with MysqlRemoteApi assms show ?thesis by (auto intro: mysql_remote.req_inj)
next
  case (SslCsrApi x)
  with assms(1) obtain y where "d = SslCsrApi y" by (cases d) auto
  with SslCsrApi assms show ?thesis by (auto intro: ssl_csr.req_inj)
next
  case (AutoresponderApi x)
  with assms(1) obtain y where "d = AutoresponderApi y" by (cases d) auto
  with AutoresponderApi assms show ?thesis by (auto intro: autoresponder.req_inj)
next
  case (EmailFilterApi x)
  with assms(1) obtain y where "d = EmailFilterApi y" by (cases d) auto
  with EmailFilterApi assms show ?thesis by (auto intro: email_filter.req_inj)
next
  case (MailQueueApi x)
  with assms(1) obtain y where "d = MailQueueApi y" by (cases d) auto
  with MailQueueApi assms show ?thesis by (auto intro: mail_queue.req_inj)
next
  case (BandwidthApi x)
  with assms(1) obtain y where "d = BandwidthApi y" by (cases d) auto
  with BandwidthApi assms show ?thesis by (auto intro: bandwidth.req_inj)
next
  case (ModsecApi x)
  with assms(1) obtain y where "d = ModsecApi y" by (cases d) auto
  with ModsecApi assms show ?thesis by (auto intro: modsec.req_inj)
next
  case (WebserverApi x)
  with assms(1) obtain y where "d = WebserverApi y" by (cases d) auto
  with WebserverApi assms show ?thesis by (auto intro: webserver.req_inj)
next
  case (DomainsApi x)
  with assms(1) obtain y where "d = DomainsApi y" by (cases d) auto
  with DomainsApi assms show ?thesis by (auto intro: domains.req_inj)
next
  case (DomainSslApi x)
  with assms(1) obtain y where "d = DomainSslApi y" by (cases d) auto
  with DomainSslApi assms show ?thesis by (auto intro: domain_ssl.req_inj)
next
  case (DomainVhostApi x)
  with assms(1) obtain y where "d = DomainVhostApi y" by (cases d) auto
  with DomainVhostApi assms show ?thesis by (auto intro: domain_vhost.req_inj)
next
  case (DomainPhpApi x)
  with assms(1) obtain y where "d = DomainPhpApi y" by (cases d) auto
  with DomainPhpApi assms show ?thesis by (auto intro: domain_php.req_inj)
qed

lemma api_request_base: "startsWith (url (api_request c)) (api_base c)"
  by (cases c) (simp_all add: module_bases)

lemma api_request_read: "verb (api_request c) = GET \<Longrightarrow> body (api_request c) = None"
  by (cases c) (auto dest: module_reads)

interpretation api: rest_module api_request "\<lambda>c. api_ok c \<and> api_module c = i" "''/''" for i
proof unfold_locales
  fix c d
  assume "api_ok c \<and> api_module c = i" "api_ok d \<and> api_module d = i" "api_request c = api_request d"
  then show "c = d" using api_request_inj by auto
next
  fix c
  have "startsWith (api_base c) ''/''" by (cases c) (simp_all add: startsWith_def)
  with api_request_base [of c] show "startsWith (url (api_request c)) ''/''"
    by (auto simp: startsWith_def intro: prefix_order.trans)
next
  fix c show "verb (api_request c) = GET \<Longrightarrow> body (api_request c) = None" by (rule api_request_read)
qed

section \<open>Properties\<close>



text \<open>Every request goes to the API root, under the path of the module that makes it,
  and a request that only reads carries no body.\<close>

theorem api_calls_routed:
  "startsWith (full_url h (api_request c)) (h @ ''/api/v1'' @ api_base c) \<and>
   (verb (api_request c) = GET \<longrightarrow> body (api_request c) = None)"
  using api_request_base [of c] api_request_read [of c] by (auto simp: full_url_def startsWith_def)

theorem api_calls_routed_witness:
  "body (api_request (DnsApi ListZones)) = None \<and>
   startsWith (full_url [] (api_request (DnsApi ListZones))) ''/api/v1/dns/''"
  using api_calls_routed [of "[]" "DnsApi ListZones"] by simp

text \<open>The ids are not escaped, so an id with a separator reaches a route it was not
  meant for: deleting the backup named \<open>schedules/\<close> and an id is deleting that schedule.\<close>

theorem unescaped_id_changes_route:
  "api_request (BackupApi (DeleteBackup (''schedules/'' @ i))) = api_request (BackupApi (DeleteSchedule i)) \<and>
   \<not> api_ok (BackupApi (DeleteBackup (''schedules/'' @ i)))"
  by (simp add: plain_id_def)

end
