(* ===== verification/Stores.thy ===== *)
theory Stores
  imports LocalStorage
begin

text \<open>
  The two small zustand stores: lib/stores/ui.store.ts (layout, palette, locale) and
  lib/stores/server.store.ts (the active server and the five most recent ones), with what each
  persists under its own key. The locale is the contract of a bounded history, which the recent
  servers and the metrics history share.
\<close>

section \<open>Bounded histories\<close>

locale bounded_history =
  fixes push :: "'a \<Rightarrow> 'a list \<Rightarrow> 'a list" and bound :: nat
  assumes push_length: "length h \<le> bound \<Longrightarrow> length (push x h) \<le> bound"
    and push_new: "x \<in> set (push x h)"
    and push_old: "set (push x h) \<subseteq> insert x (set h)"
begin

lemma run_length: "length h \<le> bound \<Longrightarrow> length (fold push xs h) \<le> bound"
  by (induction xs arbitrary: h) (auto intro: push_length)

lemma run_old: "set (fold push xs h) \<subseteq> set xs \<union> set h"
proof (induction xs arbitrary: h)
  case (Cons x xs)
  then show ?case using push_old [of x h] by fastforce
qed simp

lemma run_last: "xs \<noteq> [] \<Longrightarrow> last xs \<in> set (fold push xs h)"
  by (induction xs rule: rev_induct) (auto intro: push_new)

end

section \<open>ui.store.ts\<close>

datatype locale_code = En | Ar

fun locale_name :: "locale_code \<Rightarrow> string" where
  "locale_name En = ''en''"
| "locale_name Ar = ''ar''"

record ui_state =
  sidebarCollapsed :: bool
  commandPaletteOpen :: bool
  uiActiveServerId :: "string option"
  ui_locale :: locale_code

definition ui_init :: ui_state where
  "ui_init = \<lparr>sidebarCollapsed = False, commandPaletteOpen = False, uiActiveServerId = None, ui_locale = En\<rparr>"

datatype ui_action =
    ToggleSidebar
  | SetSidebarCollapsed bool
  | ToggleCommandPalette
  | SetCommandPaletteOpen bool
  | SetUiActiveServer "string option"
  | SetLocale locale_code

fun ui_step :: "ui_action \<Rightarrow> ui_state \<Rightarrow> ui_state" where
  "ui_step ToggleSidebar s = s\<lparr>sidebarCollapsed := \<not> sidebarCollapsed s\<rparr>"
| "ui_step (SetSidebarCollapsed v) s = s\<lparr>sidebarCollapsed := v\<rparr>"
| "ui_step ToggleCommandPalette s = s\<lparr>commandPaletteOpen := \<not> commandPaletteOpen s\<rparr>"
| "ui_step (SetCommandPaletteOpen v) s = s\<lparr>commandPaletteOpen := v\<rparr>"
| "ui_step (SetUiActiveServer i) s = s\<lparr>uiActiveServerId := i\<rparr>"
| "ui_step (SetLocale l) s = s\<lparr>ui_locale := l\<rparr>"

definition ui_partialize :: "ui_state \<Rightarrow> json" where
  "ui_partialize s = obj [(''sidebarCollapsed'', Some (JBool (sidebarCollapsed s))),
     (''activeServerId'', Some (case uiActiveServerId s of None \<Rightarrow> JNull | Some i \<Rightarrow> JStr i)),
     (''locale'', Some (JStr (locale_name (ui_locale s))))]"

definition persist_ui :: "ui_state \<Rightarrow> storage \<Rightarrow> storage" where
  "persist_ui s d = setItem ''xp-ui'' (obj [(''state'', Some (ui_partialize s)), (''version'', Some (JNum 0))]) d"

section \<open>server.store.ts\<close>

datatype server_status = ServerActive | ServerOffline | ServerMaintenance

record ActiveServer =
  server_id :: string
  hostname :: string
  ip :: string
  server_status :: server_status
  datacenter :: "string option"
  os_type :: "string option"

record server_store =
  activeServer :: "ActiveServer option"
  recentServers :: "ActiveServer list"

definition server_init :: server_store where
  "server_init = \<lparr>activeServer = None, recentServers = []\<rparr>"

text \<open>\<open>[server, ...recent.filter(s => s.id !== server.id)].slice(0, 5)\<close>.\<close>

definition push_recent :: "ActiveServer \<Rightarrow> ActiveServer list \<Rightarrow> ActiveServer list" where
  "push_recent srv recent = slice (srv # filter (\<lambda>s. server_id s \<noteq> server_id srv) recent) 0 5"

datatype server_action =
    SetActiveServer "ActiveServer option"
  | AddRecentServer ActiveServer
  | ClearActiveServer

fun server_step :: "server_action \<Rightarrow> server_store \<Rightarrow> server_store" where
  "server_step (SetActiveServer server) st =
     st\<lparr>activeServer := server,
        recentServers := (case server of Some s \<Rightarrow> push_recent s (recentServers st)
                          | None \<Rightarrow> recentServers st)\<rparr>"
| "server_step (AddRecentServer s) st = st\<lparr>recentServers := push_recent s (recentServers st)\<rparr>"
| "server_step ClearActiveServer st = st\<lparr>activeServer := None\<rparr>"

section \<open>Most recent first\<close>

text \<open>The specification: of the servers in the order they were used, latest first, the first
  five with different ids.\<close>

fun uniq_ids :: "ActiveServer list \<Rightarrow> ActiveServer list" where
  "uniq_ids [] = []"
| "uniq_ids (s # ss) = s # filter (\<lambda>t. server_id t \<noteq> server_id s) (uniq_ids ss)"

fun used :: "server_action \<Rightarrow> ActiveServer list" where
  "used (SetActiveServer (Some s)) = [s]"
| "used (SetActiveServer None) = []"
| "used (AddRecentServer s) = [s]"
| "used ClearActiveServer = []"

lemma distinct_map_filter: "distinct (map f xs) \<Longrightarrow> distinct (map f (filter P xs))"
  by (induction xs) auto

lemma distinct_uniq_ids: "distinct (map server_id (uniq_ids ss))"
  by (induction ss) (auto simp: distinct_map_filter)

lemma filter_take_one:
  assumes "distinct (map f xs)"
  shows "take n (filter (\<lambda>x. f x \<noteq> a) (take (Suc n) xs)) = take n (filter (\<lambda>x. f x \<noteq> a) xs)"
  using assms
proof (induction xs arbitrary: n)
  case (Cons x xs)
  show ?case
  proof (cases "f x = a")
    case True
    then have other: "f y \<noteq> a" if "y \<in> set xs" for y
      using Cons.prems that by (metis distinct.simps(2) image_eqI list.set_map list.simps(9))
    then have "filter (\<lambda>x. f x \<noteq> a) xs = xs" by (auto simp: filter_id_conv)
    moreover have "filter (\<lambda>x. f x \<noteq> a) (take n xs) = take n xs"
      using other by (auto simp: filter_id_conv dest: in_set_takeD)
    ultimately show ?thesis using True by simp
  next
    case False
    then show ?thesis
    proof (cases n)
      case (Suc k)
      then show ?thesis using False Cons.IH [of k] Cons.prems by simp
    qed simp
  qed
qed simp

lemma push_recent_take: "push_recent s r = take 5 (s # filter (\<lambda>t. server_id t \<noteq> server_id s) r)"
  by (simp add: push_recent_def)

lemma push_recent_uniq: "push_recent s (take 5 (uniq_ids ss)) = take 5 (uniq_ids (s # ss))"
  using filter_take_one [OF distinct_uniq_ids [of ss], of 4 "server_id s"]
  by (simp add: push_recent_take)

lemma push_recent_no_dup: "distinct (map server_id r) \<Longrightarrow> distinct (map server_id (push_recent s r))"
proof -
  assume "distinct (map server_id r)"
  then have "distinct (map server_id (s # filter (\<lambda>t. server_id t \<noteq> server_id s) r))"
    by (auto simp: distinct_map_filter)
  then show ?thesis unfolding push_recent_take take_map [symmetric] by (rule distinct_take)
qed

interpretation recent: bounded_history push_recent 5
  by unfold_locales (auto simp: push_recent_take dest: in_set_takeD)

lemma server_step_recent: "recentServers (server_step a st) = fold push_recent (used a) (recentServers st)"
  by (cases a rule: used.cases) auto

lemma server_run_recent:
  "recentServers (fold server_step as st) = fold push_recent (concat (map used as)) (recentServers st)"
  by (induction as arbitrary: st) (simp_all add: server_step_recent)

lemma fold_push_recent: "fold push_recent ss (take 5 (uniq_ids us)) = take 5 (uniq_ids (rev ss @ us))"
  by (induction ss arbitrary: us) (simp_all add: push_recent_uniq del: uniq_ids.simps)

definition server_inv :: "server_store \<Rightarrow> bool" where
  "server_inv st \<longleftrightarrow> length (recentServers st) \<le> 5 \<and> distinct (map server_id (recentServers st)) \<and>
     (\<forall>s. activeServer st = Some s \<longrightarrow> recentServers st \<noteq> [])"

lemma push_recent_nonempty: "push_recent s r \<noteq> []"
  by (simp add: push_recent_take)

lemma server_step_inv: "server_inv st \<Longrightarrow> server_inv (server_step a st)"
  by (cases a rule: used.cases)
    (auto simp: server_inv_def recent.push_length push_recent_no_dup push_recent_nonempty)

interpretation servers: component server_step server_inv
  by unfold_locales (rule server_step_inv)

section \<open>Persistence\<close>

definition persist_server :: "(ActiveServer \<Rightarrow> json) \<Rightarrow> server_store \<Rightarrow> storage \<Rightarrow> storage" where
  "persist_server enc st d = setItem ''xp-panel-server''
     (obj [(''state'', Some (obj
        [(''activeServer'', Some (case activeServer st of None \<Rightarrow> JNull | Some s \<Rightarrow> enc s)),
         (''recentServers'', Some (JArr (map enc (recentServers st))))])),
      (''version'', Some (JNum 0))]) d"

lemma persist_ui_other: "k \<noteq> ''xp-ui'' \<Longrightarrow> getItem (persist_ui s d) k = getItem d k"
  by (simp add: persist_ui_def ls.get_put)

lemma persist_server_other: "k \<noteq> ''xp-panel-server'' \<Longrightarrow> getItem (persist_server enc s d) k = getItem d k"
  by (simp add: persist_server_def ls.get_put)

section \<open>Properties\<close>

text \<open>After any sequence of operations the recent servers are exactly the five servers
  used last, latest first, each id once.\<close>

theorem recent_servers_exact:
  "recentServers (fold server_step as server_init) = take 5 (uniq_ids (rev (concat (map used as))))"
  using fold_push_recent [of "concat (map used as)" "[]"]
  by (simp add: server_run_recent server_init_def)

text \<open>Every run of the server store keeps at most five recent servers with different
  ids, and the active server, when there is one, is never without a history.\<close>

theorem server_store_invariant:
  "server_inv (fold server_step as server_init)"
  by (rule servers.run_inv) (simp add: server_inv_def server_init_def)

end
