(* ===== verification/Realtime.thy ===== *)
theory Realtime
  imports Stores
begin

text \<open>
  lib/hooks/useWebSocket.ts and useServerMetrics.ts: the WebSocket hook with its reconnection and
  the metrics feed built on it. The hook's refs and state, every socket it has created, and the
  pending reconnection timers are the state; the handlers are its operations. A handler keeps the
  options of the render that created it, so sockets and timers carry theirs. What the browser
  does with a socket (open, fail, close) and when timers fire are events.
\<close>

section \<open>State\<close>

datatype ws_status = WSConnecting | WSOpen | WSClosed | WSError

text \<open>\<open>readyState\<close>.\<close>

datatype phase = CONNECTING | OPEN | CLOSING | CLOSED

record ws_options =
  maxReconnects :: nat
  enabled :: bool

record socket =
  phase :: phase
  opts :: ws_options
  sent :: "string list"

record ws_hook =
  status :: ws_status
  sockets :: "socket list"
  wsRef :: "nat option"
  reconnects :: nat
  timers :: "(nat \<times> ws_options) list"
  timerRef :: "nat option"
  next_timer :: nat
  unmounted :: bool

definition ws_init :: ws_hook where
  "ws_init = \<lparr>status = WSConnecting, sockets = [], wsRef = None, reconnects = 0, timers = [],
     timerRef = None, next_timer = 0, unmounted = False\<rparr>"

section \<open>Operations\<close>

definition set_phase :: "nat \<Rightarrow> phase \<Rightarrow> ws_hook \<Rightarrow> ws_hook" where
  "set_phase i p w = w\<lparr>sockets := (sockets w)[i := (sockets w ! i)\<lparr>phase := p\<rparr>]\<rparr>"

definition connect :: "ws_options \<Rightarrow> ws_hook \<Rightarrow> ws_hook" where
  "connect opt w =
    (if \<not> enabled opt \<or> unmounted w then w
     else w\<lparr>status := WSConnecting,
            sockets := sockets w @ [\<lparr>phase = CONNECTING, opts = opt, sent = []\<rparr>],
            wsRef := Some (length (sockets w))\<rparr>)"

definition ws_onopen :: "ws_hook \<Rightarrow> ws_hook" where
  "ws_onopen w = (if unmounted w then w else w\<lparr>reconnects := 0, status := WSOpen\<rparr>)"

definition ws_onerror :: "ws_hook \<Rightarrow> ws_hook" where
  "ws_onerror w = (if unmounted w then w else w\<lparr>status := WSError\<rparr>)"

definition ws_onclose :: "ws_options \<Rightarrow> ws_hook \<Rightarrow> ws_hook" where
  "ws_onclose opt w =
    (if unmounted w then w
     else (let w = w\<lparr>status := WSClosed\<rparr> in
       if maxReconnects opt = 0 \<or> reconnects w < maxReconnects opt
       then w\<lparr>reconnects := reconnects w + 1, timers := timers w @ [(next_timer w, opt)],
              timerRef := Some (next_timer w), next_timer := next_timer w + 1\<rparr>
       else w))"

text \<open>\<open>onmessage\<close> hands on the parsed value, or the text as it came when it does not parse.\<close>

definition ws_onmessage :: "(string \<Rightarrow> json res) \<Rightarrow> string \<Rightarrow> ws_hook \<Rightarrow> json option" where
  "ws_onmessage parse data w =
    (if unmounted w then None
     else Some (case parse data of Inr j \<Rightarrow> j | Inl _ \<Rightarrow> JStr data))"

definition clearTimer :: "ws_hook \<Rightarrow> ws_hook" where
  "clearTimer w = (case timerRef w of None \<Rightarrow> w
     | Some t \<Rightarrow> w\<lparr>timers := filter (\<lambda>(t', _). t' \<noteq> t) (timers w)\<rparr>)"

definition closeCurrent :: "ws_hook \<Rightarrow> ws_hook" where
  "closeCurrent w = (case wsRef w of None \<Rightarrow> w
     | Some i \<Rightarrow> if phase (sockets w ! i) = CLOSED then w else set_phase i CLOSING w)"

text \<open>The effect and its cleanup.\<close>

definition run_effect :: "ws_options \<Rightarrow> ws_hook \<Rightarrow> ws_hook" where
  "run_effect opt w = (let w = w\<lparr>unmounted := False\<rparr> in if enabled opt then connect opt w else w)"

definition cleanup :: "ws_hook \<Rightarrow> ws_hook" where
  "cleanup w = closeCurrent (clearTimer (w\<lparr>unmounted := True\<rparr>))"

definition ws_disconnect :: "ws_hook \<Rightarrow> ws_hook" where
  "ws_disconnect w = (closeCurrent (clearTimer (w\<lparr>unmounted := True\<rparr>)))\<lparr>status := WSClosed\<rparr>"

definition ws_send :: "string \<Rightarrow> ws_hook \<Rightarrow> ws_hook" where
  "ws_send data w = (case wsRef w of None \<Rightarrow> w
     | Some i \<Rightarrow> if phase (sockets w ! i) = OPEN
         then w\<lparr>sockets := (sockets w)[i := (sockets w ! i)\<lparr>sent := sent (sockets w ! i) @ [data]\<rparr>]\<rparr>
         else w)"

section \<open>Events\<close>

text \<open>A socket opens only while connecting, fails and closes only while it is not closed; a timer
  fires only while pending. An event that cannot happen changes nothing.\<close>

datatype ws_event =
    Opened nat
  | Failed nat
  | ClosedBy nat
  | TimerFires nat
  | Send string
  | Disconnect
  | Rerun ws_options

fun ws_step :: "ws_event \<Rightarrow> ws_hook \<Rightarrow> ws_hook" where
  "ws_step (Opened i) w =
     (if i < length (sockets w) \<and> phase (sockets w ! i) = CONNECTING
      then ws_onopen (set_phase i OPEN w) else w)"
| "ws_step (Failed i) w =
     (if i < length (sockets w) \<and> phase (sockets w ! i) \<noteq> CLOSED then ws_onerror w else w)"
| "ws_step (ClosedBy i) w =
     (if i < length (sockets w) \<and> phase (sockets w ! i) \<noteq> CLOSED
      then ws_onclose (opts (sockets w ! i)) (set_phase i CLOSED w) else w)"
| "ws_step (TimerFires t) w =
     (case map_of (timers w) t of None \<Rightarrow> w
      | Some opt \<Rightarrow> connect opt (w\<lparr>timers := filter (\<lambda>(t', _). t' \<noteq> t) (timers w)\<rparr>))"
| "ws_step (Send data) w = ws_send data w"
| "ws_step Disconnect w = ws_disconnect w"
| "ws_step (Rerun opt) w = run_effect opt (cleanup w)"

definition mounted :: "ws_options \<Rightarrow> ws_hook" where
  "mounted opt = run_effect opt ws_init"

fun is_rerun :: "ws_event \<Rightarrow> bool" where
  "is_rerun (Rerun _) = True"
| "is_rerun _ = False"

fun is_opened :: "ws_event \<Rightarrow> bool" where
  "is_opened (Opened _) = True"
| "is_opened _ = False"

section \<open>One connection at a time, as long as the effect does not run again\<close>

definition alive :: "ws_hook \<Rightarrow> nat" where
  "alive w = length (filter (\<lambda>s. phase s \<noteq> CLOSED) (sockets w)) + length (timers w)"

definition uniform :: "ws_options \<Rightarrow> ws_hook \<Rightarrow> bool" where
  "uniform opt w \<longleftrightarrow> map opts (sockets w) = replicate (length (sockets w)) opt"

definition single :: "ws_options \<Rightarrow> ws_hook \<Rightarrow> bool" where
  "single opt w \<longleftrightarrow> alive w \<le> 1 \<and> (\<forall>t \<in> set (timers w). snd t = opt) \<and>
     uniform opt w \<and>
     (\<forall>i. wsRef w = Some i \<longrightarrow> i < length (sockets w)) \<and>
     (0 < maxReconnects opt \<longrightarrow> reconnects w \<le> maxReconnects opt)"

lemma filter_update_length:
  "i < length xs \<Longrightarrow> length (filter P (xs[i := y])) + (if P (xs ! i) then 1 else 0) =
     length (filter P xs) + (if P y then 1 else 0)"
proof (induction xs arbitrary: i)
  case (Cons x xs)
  then show ?case by (cases i) auto
qed simp

lemma alive_set_phase:
  assumes "i < length (sockets w)"
  shows "alive (set_phase i p w) + (if phase (sockets w ! i) = CLOSED then 0 else 1) =
    alive w + (if p = CLOSED then 0 else 1)"
  using filter_update_length [OF assms, of "\<lambda>s. phase s \<noteq> CLOSED" "(sockets w ! i)\<lparr>phase := p\<rparr>"]
  by (auto simp: alive_def set_phase_def split: if_splits)

lemma set_phase_simps [simp]:
  "timers (set_phase i p w) = timers w" "wsRef (set_phase i p w) = wsRef w"
  "status (set_phase i p w) = status w" "reconnects (set_phase i p w) = reconnects w"
  "unmounted (set_phase i p w) = unmounted w" "next_timer (set_phase i p w) = next_timer w"
  "timerRef (set_phase i p w) = timerRef w" "length (sockets (set_phase i p w)) = length (sockets w)"
  by (simp_all add: set_phase_def)

lemma map_opts_update: "opts y = opts (xs ! i) \<Longrightarrow> map opts (xs[i := y]) = map opts xs"
  by (cases "i < length xs") (simp_all add: map_update list_update_same_conv list_update_beyond)

lemma map_opts_set_phase [simp]: "map opts (sockets (set_phase i p w)) = map opts (sockets w)"
  by (simp add: set_phase_def map_opts_update)

lemma map_opts_send [simp]: "map opts (sockets (ws_send d w)) = map opts (sockets w)"
  by (auto simp: ws_send_def map_opts_update split: option.splits)

lemma ws_send_simps [simp]:
  "timers (ws_send d w) = timers w" "wsRef (ws_send d w) = wsRef w" "status (ws_send d w) = status w"
  "reconnects (ws_send d w) = reconnects w" "unmounted (ws_send d w) = unmounted w"
  "length (sockets (ws_send d w)) = length (sockets w)"
  by (auto simp: ws_send_def split: option.splits)

lemma alive_send:
  assumes "\<forall>i. wsRef w = Some i \<longrightarrow> i < length (sockets w)"
  shows "alive (ws_send d w) = alive w"
proof (cases "wsRef w")
  case (Some i)
  then show ?thesis
    using assms filter_update_length [of i "sockets w" "\<lambda>s. phase s \<noteq> CLOSED"
        "(sockets w ! i)\<lparr>sent := sent (sockets w ! i) @ [d]\<rparr>"]
    by (auto simp: alive_def ws_send_def split: if_splits)
qed (simp add: ws_send_def)

lemma closeCurrent_simps [simp]:
  "timers (closeCurrent w) = timers w" "wsRef (closeCurrent w) = wsRef w"
  "reconnects (closeCurrent w) = reconnects w" "unmounted (closeCurrent w) = unmounted w"
  "map opts (sockets (closeCurrent w)) = map opts (sockets w)"
  "length (sockets (closeCurrent w)) = length (sockets w)"
  by (auto simp: closeCurrent_def split: option.splits)

lemma alive_closeCurrent:
  "\<forall>i. wsRef w = Some i \<longrightarrow> i < length (sockets w) \<Longrightarrow> alive (closeCurrent w) = alive w"
  using alive_set_phase [of _ w CLOSING] by (fastforce simp: closeCurrent_def split: option.splits)

lemma clearTimer_simps [simp]:
  "sockets (clearTimer w) = sockets w" "wsRef (clearTimer w) = wsRef w"
  "reconnects (clearTimer w) = reconnects w" "unmounted (clearTimer w) = unmounted w"
  "set (timers (clearTimer w)) \<subseteq> set (timers w)" "length (timers (clearTimer w)) \<le> length (timers w)"
  by (auto simp: clearTimer_def split: option.splits)

lemma alive_clearTimer: "alive (clearTimer w) \<le> alive w"
  by (simp add: alive_def)

lemma timer_removed:
  assumes "map_of ts t = Some opt"
  shows "length (filter (\<lambda>(t', _). t' \<noteq> t) ts) < length ts" and "(t, opt) \<in> set ts"
proof -
  from assms show *: "(t, opt) \<in> set ts" by (rule map_of_SomeD)
  then show "length (filter (\<lambda>(t', _). t' \<noteq> t) ts) < length ts"
    by (intro length_filter_less [of "(t, opt)"]) auto
qed

lemma uniform_nth: "uniform opt w \<Longrightarrow> i < length (sockets w) \<Longrightarrow> opts (sockets w ! i) = opt"
  by (metis uniform_def nth_map nth_replicate)

lemma uniform_connect: "uniform opt w \<Longrightarrow> uniform opt (connect opt w)"
  by (simp add: connect_def uniform_def replicate_append_same)

lemma connect_simps [simp]:
  "timers (connect opt w) = timers w" "reconnects (connect opt w) = reconnects w"
  "unmounted (connect opt w) = unmounted w"
  by (simp_all add: connect_def)

lemma connect_ref:
  "\<forall>i. wsRef w = Some i \<longrightarrow> i < length (sockets w) \<Longrightarrow> wsRef (connect opt w) = Some i \<Longrightarrow>
   i < length (sockets (connect opt w))"
  by (auto simp: connect_def split: if_splits)

lemma uniform_same [simp]:
  "uniform opt (set_phase i p w) = uniform opt w" "uniform opt (ws_send d w) = uniform opt w"
  "uniform opt (closeCurrent w) = uniform opt w" "uniform opt (clearTimer w) = uniform opt w"
  "uniform opt (w\<lparr>status := st\<rparr>) = uniform opt w" "uniform opt (w\<lparr>unmounted := b\<rparr>) = uniform opt w"
  "uniform opt (w\<lparr>timers := ts\<rparr>) = uniform opt w" "uniform opt (w\<lparr>reconnects := n\<rparr>) = uniform opt w"
  "uniform opt (w\<lparr>timerRef := r\<rparr>) = uniform opt w" "uniform opt (w\<lparr>next_timer := n\<rparr>) = uniform opt w"
  by (simp_all add: uniform_def)

lemma single_Opened: "single opt w \<Longrightarrow> single opt (ws_step (Opened i) w)"
  using alive_set_phase [of i w OPEN] by (auto simp: single_def ws_onopen_def alive_def)

lemma single_Failed: "single opt w \<Longrightarrow> single opt (ws_step (Failed i) w)"
  by (auto simp: single_def ws_onerror_def alive_def)

lemma single_ClosedBy: "single opt w \<Longrightarrow> single opt (ws_step (ClosedBy i) w)"
proof (cases "i < length (sockets w) \<and> phase (sockets w ! i) \<noteq> CLOSED")
  case True
  assume s: "single opt w"
  with True have "opts (sockets w ! i) = opt" by (simp add: single_def uniform_nth)
  moreover have "Suc (alive (set_phase i CLOSED w)) = alive w" using alive_set_phase [of i w CLOSED] True by simp
  then have "alive (ws_onclose opt (set_phase i CLOSED w)) \<le> alive w"
    by (auto simp: ws_onclose_def Let_def alive_def)
  ultimately show ?thesis using s True by (auto simp: single_def ws_onclose_def Let_def)
qed auto

lemma single_TimerFires: "single opt w \<Longrightarrow> single opt (ws_step (TimerFires t) w)"
proof (cases "map_of (timers w) t")
  case (Some opt')
  assume s: "single opt w"
  with timer_removed(2) [OF Some] have opt: "opt' = opt" by (auto simp: single_def)
  let ?w = "w\<lparr>timers := filter (\<lambda>(t', _). t' \<noteq> t) (timers w)\<rparr>"
  have less: "Suc (alive ?w) \<le> alive w" using timer_removed(1) [OF Some] by (simp add: alive_def)
  have "alive (connect opt ?w) \<le> Suc (alive ?w)" by (simp add: connect_def alive_def)
  with less have "alive (connect opt ?w) \<le> alive w" by linarith
  moreover have "uniform opt (connect opt ?w)"
    using s by (intro uniform_connect) (simp add: single_def)
  ultimately show ?thesis using s Some opt connect_ref [of ?w opt] by (auto simp: single_def)
qed simp

lemma single_Disconnect: "single opt w \<Longrightarrow> single opt (ws_disconnect w)"
proof -
  assume s: "single opt w"
  let ?w = "w\<lparr>unmounted := True\<rparr>"
  have "alive (closeCurrent (clearTimer ?w)) = alive (clearTimer ?w)"
    using s by (intro alive_closeCurrent) (auto simp: single_def)
  moreover have "alive ?w = alive w" "alive (ws_disconnect w) = alive (closeCurrent (clearTimer ?w))"
    by (simp_all add: alive_def ws_disconnect_def)
  ultimately have "alive (ws_disconnect w) \<le> alive w" using alive_clearTimer [of ?w] by linarith
  moreover have "set (timers (ws_disconnect w)) \<subseteq> set (timers w)"
    using clearTimer_simps(5) [of ?w] by (simp add: ws_disconnect_def)
  ultimately show ?thesis using s by (auto simp: single_def ws_disconnect_def)
qed

lemma single_step: "single opt w \<Longrightarrow> \<not> is_rerun e \<Longrightarrow> single opt (ws_step e w)"
  by (cases e) (auto simp del: ws_step.simps(1-4) intro: single_Opened single_Failed single_ClosedBy
      single_TimerFires single_Disconnect, simp add: single_def alive_send)

lemma single_run: "single opt w \<Longrightarrow> list_all (\<lambda>e. \<not> is_rerun e) es \<Longrightarrow> single opt (fold ws_step es w)"
  by (induction es arbitrary: w) (auto intro: single_step)

lemma single_mounted: "single opt (mounted opt)"
  by (simp add: mounted_def run_effect_def connect_def ws_init_def single_def alive_def uniform_def Let_def)

section \<open>Attempts are bounded, and disconnecting is final\<close>

text \<open>Until a socket opens, every socket after the first was paid for with the reconnection count.\<close>

definition attempts :: "ws_hook \<Rightarrow> bool" where
  "attempts w \<longleftrightarrow> length (sockets w) + length (timers w) \<le> reconnects w + 1"

lemma length_connect: "length (sockets (connect opt w)) \<le> Suc (length (sockets w))"
  by (simp add: connect_def)

lemma attempts_step: "attempts w \<Longrightarrow> \<not> is_rerun e \<Longrightarrow> \<not> is_opened e \<Longrightarrow> attempts (ws_step e w)"
proof (cases e)
  case (TimerFires t)
  assume a: "attempts w"
  show ?thesis
  proof (cases "map_of (timers w) t")
    case (Some opt')
    with timer_removed(1) [OF Some] a TimerFires
      length_connect [of opt' "w\<lparr>timers := filter (\<lambda>(t', _). t' \<noteq> t) (timers w)\<rparr>"]
    show ?thesis by (simp add: attempts_def)
  qed (use a TimerFires in simp)
next
  case Disconnect
  then show "attempts w \<Longrightarrow> ?thesis"
    using clearTimer_simps(6) [of "w\<lparr>unmounted := True\<rparr>"] by (simp add: attempts_def ws_disconnect_def)
qed (auto simp: attempts_def ws_onerror_def ws_onclose_def Let_def)

lemma attempts_run:
  "attempts w \<Longrightarrow> list_all (\<lambda>e. \<not> is_rerun e \<and> \<not> is_opened e) es \<Longrightarrow> attempts (fold ws_step es w)"
  by (induction es arbitrary: w) (auto intro: attempts_step)

lemma attempts_mounted: "attempts (mounted opt)"
  by (simp add: mounted_def run_effect_def connect_def ws_init_def attempts_def Let_def)

definition disconnected :: "nat \<Rightarrow> ws_hook \<Rightarrow> bool" where
  "disconnected n w \<longleftrightarrow> unmounted w \<and> status w = WSClosed \<and> length (sockets w) = n"

lemma closeCurrent_status [simp]: "status (closeCurrent w) = status w"
  by (auto simp: closeCurrent_def split: option.splits)

lemma clearTimer_status [simp]: "status (clearTimer w) = status w"
  by (auto simp: clearTimer_def split: option.splits)

lemma disconnected_step: "disconnected n w \<Longrightarrow> \<not> is_rerun e \<Longrightarrow> disconnected n (ws_step e w)"
  by (cases e) (auto simp: disconnected_def ws_onopen_def ws_onerror_def ws_onclose_def ws_disconnect_def
      connect_def split: option.splits)

lemma disconnected_run:
  "disconnected n w \<Longrightarrow> list_all (\<lambda>e. \<not> is_rerun e) es \<Longrightarrow> disconnected n (fold ws_step es w)"
  by (induction es arbitrary: w) (auto intro: disconnected_step)

section \<open>useServerMetrics\<close>

text \<open>The history: \<open>[...prev.slice(-(historySize - 1)), data]\<close>.\<close>

definition push_metric :: "nat \<Rightarrow> 'm \<Rightarrow> 'm list \<Rightarrow> 'm list" where
  "push_metric historySize data prev = slice_from prev (- (int historySize - 1)) @ [data]"

text \<open>\<open>useServerMetrics\<close> passes \<open>useWebSocket\<close> callbacks it creates anew on every render. They
  are dependencies of \<open>connect\<close> and so of the effect: a render caused by a state update runs the
  cleanup and the effect again.\<close>

record 'm metrics_hook =
  hook :: ws_hook
  live :: "'m option"
  history :: "'m list"
  connected :: bool

definition metrics_rerender :: "ws_options \<Rightarrow> 'm metrics_hook \<Rightarrow> 'm metrics_hook" where
  "metrics_rerender opt v = (let h = run_effect opt (cleanup (hook v)) in
     v\<lparr>hook := h, connected := (connected v \<and> status h = WSOpen)\<rparr>)"

definition metrics_onopen :: "nat \<Rightarrow> 'm metrics_hook \<Rightarrow> 'm metrics_hook" where
  "metrics_onopen i v = v\<lparr>hook := ws_step (Opened i) (hook v), connected := True\<rparr>"

definition metrics_onmessage :: "nat \<Rightarrow> 'm \<Rightarrow> 'm metrics_hook \<Rightarrow> 'm metrics_hook" where
  "metrics_onmessage historySize data v =
     v\<lparr>live := Some data, history := push_metric historySize data (history v)\<rparr>"

lemma push_metric_2: "push_metric (Suc (Suc n)) x h = drop (length h - Suc n) h @ [x]"
  using slice_from_neg [of "Suc n" h] by (simp add: push_metric_def)

interpretation metrics: bounded_history "push_metric (Suc (Suc n))" "Suc (Suc n)" for n
  by unfold_locales (auto simp: push_metric_2 dest: in_set_dropD)

lemma push_metric_run:
  "fold (push_metric (Suc (Suc n))) xs [] = drop (length xs - Suc (Suc n)) xs"
proof (induction xs rule: rev_induct)
  case (snoc x xs)
  let ?d = "drop (length xs - Suc (Suc n)) xs"
  have "drop (length ?d - Suc n) ?d = drop (length xs - Suc n) xs"
    by (cases "length xs < Suc (Suc n)") (simp_all add: Suc_diff_Suc)
  with snoc show ?case by (simp add: push_metric_2)
qed simp

lemma push_metric_one: "fold (push_metric 1) xs h = h @ xs"
  by (induction xs arbitrary: h) (simp_all add: push_metric_def)

section \<open>Properties\<close>

text \<open>Property C23: while the effect does not run again, a hook mounted once never has more than one
  connection: at any time at most one socket is not closed or one reconnection is pending, and the
  number of consecutive reconnections stays within \<open>maxReconnects\<close>.\<close>

theorem one_connection:
  assumes "list_all (\<lambda>e. \<not> is_rerun e) es"
  shows "alive (fold ws_step es (mounted opt)) \<le> 1 \<and>
    (0 < maxReconnects opt \<longrightarrow> reconnects (fold ws_step es (mounted opt)) \<le> maxReconnects opt)"
  using single_run [OF single_mounted assms] by (simp add: single_def)

theorem one_connection_witness:
  "alive (fold ws_step [ClosedBy 0, TimerFires 0, Opened 1, ClosedBy 1]
     (mounted \<lparr>maxReconnects = 0, enabled = True\<rparr>)) \<le> 1"
  using one_connection [of "[ClosedBy 0, TimerFires 0, Opened 1, ClosedBy 1]"
      "\<lparr>maxReconnects = 0, enabled = True\<rparr>"] by simp

text \<open>Property C24: with a bound on reconnections, a server that never accepts a connection is tried
  at most \<open>maxReconnects + 1\<close> times.\<close>

theorem bounded_attempts:
  assumes "0 < maxReconnects opt" and "list_all (\<lambda>e. \<not> is_rerun e \<and> \<not> is_opened e) es"
  shows "length (sockets (fold ws_step es (mounted opt))) \<le> maxReconnects opt + 1"
proof -
  have "list_all (\<lambda>e. \<not> is_rerun e) es" using assms(2) by (auto simp: list_all_iff)
  from single_run [OF single_mounted this] have "reconnects (fold ws_step es (mounted opt)) \<le> maxReconnects opt"
    using assms(1) by (simp add: single_def)
  with attempts_run [OF attempts_mounted assms(2), of opt] show ?thesis by (simp add: attempts_def)
qed

theorem bounded_attempts_witness:
  "length (sockets (fold ws_step [ClosedBy 0, TimerFires 0, ClosedBy 1, TimerFires 1, ClosedBy 2]
     (mounted \<lparr>maxReconnects = 2, enabled = True\<rparr>))) \<le> 3"
  using bounded_attempts [of "\<lparr>maxReconnects = 2, enabled = True\<rparr>"
      "[ClosedBy 0, TimerFires 0, ClosedBy 1, TimerFires 1, ClosedBy 2]"] by simp

text \<open>After \<open>disconnect\<close> nothing the browser or a timer does opens a socket, delivers a
  message or changes the status again.\<close>

theorem disconnect_final:
  assumes "list_all (\<lambda>e. \<not> is_rerun e) es"
  shows "status (fold ws_step es (ws_disconnect w)) = WSClosed \<and>
    length (sockets (fold ws_step es (ws_disconnect w))) = length (sockets w) \<and>
    ws_onmessage parse data (fold ws_step es (ws_disconnect w)) = None"
proof -
  have "disconnected (length (sockets w)) (ws_disconnect w)"
    by (simp add: disconnected_def ws_disconnect_def)
  from disconnected_run [OF this assms] show ?thesis by (simp add: disconnected_def ws_onmessage_def)
qed

theorem disconnect_final_witness:
  "status (fold ws_step [ClosedBy 0, TimerFires 0] (ws_disconnect (mounted \<lparr>maxReconnects = 0, enabled = True\<rparr>))) =
     WSClosed"
  using disconnect_final [of "[ClosedBy 0, TimerFires 0]"] by simp

text \<open>When the effect runs again the old socket is only told to close; its close event
  comes after the flag was reset, counts as a lost connection and schedules a reconnection, so the
  hook ends up with two open sockets, both delivering messages.\<close>

theorem rerun_duplicates_connection:
  assumes "enabled opt"
  shows "map phase (sockets (fold ws_step
     [Opened 0, Rerun opt, ClosedBy 0, TimerFires 0, Opened 1, Opened 2] (mounted opt))) =
     [CLOSED, OPEN, OPEN]"
proof -
  have "maxReconnects opt = 0 \<or> 0 < maxReconnects opt" by auto
  then show ?thesis
    using assms by (auto simp: mounted_def ws_init_def run_effect_def connect_def set_phase_def ws_onopen_def
        ws_onclose_def cleanup_def clearTimer_def closeCurrent_def Let_def)
qed

theorem rerun_duplicates_connection_witness:
  "map phase (sockets (fold ws_step
     [Opened 0, Rerun \<lparr>maxReconnects = 3, enabled = True\<rparr>, ClosedBy 0, TimerFires 0, Opened 1, Opened 2]
     (mounted \<lparr>maxReconnects = 3, enabled = True\<rparr>))) = [CLOSED, OPEN, OPEN]"
  by (rule rerun_duplicates_connection) simp

text \<open>The metrics feed loses its connection by opening it: the state updates of its own
  \<open>onopen\<close> render the component, the new callbacks run the effect again, and the socket that has
  just opened is closed and replaced by one that is still connecting.\<close>

theorem metrics_open_tears_down:
  fixes v :: "'m metrics_hook"
  assumes "enabled opt" and "\<not> unmounted (hook v)" and "wsRef (hook v) = Some i"
    and "i < length (sockets (hook v))" and "phase (sockets (hook v) ! i) = CONNECTING"
  defines "u \<equiv> metrics_rerender opt (metrics_onopen i v)"
  shows "phase (sockets (hook u) ! i) = CLOSING \<and> phase (last (sockets (hook u))) = CONNECTING \<and>
    length (sockets (hook u)) = Suc (length (sockets (hook v))) \<and> status (hook u) = WSConnecting \<and> \<not> connected u"
proof -
  have clr: "sockets (clearTimer w) = sockets w" "wsRef (clearTimer w) = wsRef w" for w by simp_all
  show ?thesis
    using assms(1-5) unfolding u_def
    by (simp add: metrics_rerender_def metrics_onopen_def run_effect_def cleanup_def connect_def
        closeCurrent_def set_phase_def ws_onopen_def Let_def nth_append)
qed

theorem metrics_open_tears_down_witness:
  "\<not> connected (metrics_rerender \<lparr>maxReconnects = 0, enabled = True\<rparr> (metrics_onopen 0
     \<lparr>hook = mounted \<lparr>maxReconnects = 0, enabled = True\<rparr>, live = None, history = ([] :: nat list),
       connected = False\<rparr>))"
  by (rule metrics_open_tears_down [THEN conjunct2, THEN conjunct2, THEN conjunct2, THEN conjunct2])
    (simp_all add: mounted_def ws_init_def run_effect_def connect_def)

text \<open>The metrics history holds exactly the latest \<open>historySize\<close> measurements in their
  order, except that a size of one keeps all of them: \<open>slice(-0)\<close> is the whole array.\<close>

theorem metrics_history_exact:
  assumes "0 < historySize"
  shows "fold (push_metric historySize) xs [] =
    (if historySize = 1 then xs else drop (length xs - historySize) xs)"
proof (cases "historySize = 1")
  case True
  then show ?thesis using push_metric_one [of xs "[]"] by simp
next
  case False
  with assms obtain n where "historySize = Suc (Suc n)" by (metis One_nat_def gr0_implies_Suc not0_implies_Suc)
  with push_metric_run [of n xs] show ?thesis by simp
qed

theorem metrics_history_exact_witness:
  "fold (push_metric 3) [1, 2, 3, 4, 5 :: nat] [] = [3, 4, 5]"
  using metrics_history_exact [of 3 "[1, 2, 3, 4, 5 :: nat]"] by simp

end
