(* ===== verification/Navigation.thy ===== *)
theory Navigation
  imports Stores AuthStore
begin

text \<open>
  Getting around the panel: the route guard of components/layout/AppShell.tsx, the menu of
  Sidebar.tsx, the breadcrumbs of Topbar.tsx, the command palette of CommandPalette.tsx with the
  shortcut hook useCommandPalette.ts, and the voice control of useVoiceControl.ts.
\<close>

section \<open>AppShell.tsx\<close>

datatype shell_view = Spinner | Panel

definition shell_render :: "auth_state \<Rightarrow> shell_view" where
  "shell_render s = (if isAuthenticated s then Panel else Spinner)"

definition shell_redirect :: "auth_state \<Rightarrow> string option" where
  "shell_redirect s = (if isAuthenticated s then None else Some ''/login'')"

section \<open>Sidebar.tsx\<close>

text \<open>The menu: its sections with the path and the label of each entry.\<close>

definition navSections :: "(string \<times> (string \<times> string) list) list" where
  "navSections =
    [(''Overview'',
       [(''/dashboard'', ''Dashboard''), (''/monitoring'', ''Monitoring''), (''/ai'', ''AI Assistant'')]),
     (''Hosting'',
       [(''/domains'', ''Domains''), (''/subdomains'', ''Subdomains''), (''/email'', ''Email''),
        (''/email/autoresponders'', ''Autoresponders''), (''/email/filters'', ''Email Filters''),
        (''/email/queue'', ''Mail Queue''), (''/email/webmail'', ''Webmail''),
        (''/files'', ''File Manager''), (''/databases'', ''Databases''), (''/php'', ''PHP''),
        (''/webserver'', ''Web Server''), (''/ssl'', ''SSL / TLS'')]),
     (''Domain Tools'',
       [(''/redirects'', ''Redirects''), (''/cron'', ''Cron Jobs''), (''/ftp'', ''FTP Accounts''),
        (''/ssh-keys'', ''SSH Keys''), (''/terminal'', ''SSH Terminal'')]),
     (''Infrastructure'',
       [(''/backups'', ''Backups''), (''/docker'', ''Docker''), (''/devops'', ''DevOps'')]),
     (''Security'',
       [(''/security'', ''Security''), (''/security/geoip'', ''GeoIP Blocking''),
        (''/security/waf'', ''WAF / ModSec'')]),
     (''Business'',
       [(''/billing'', ''Billing''), (''/marketplace'', ''Marketplace''), (''/reseller'', ''Reseller''),
        (''/reseller/users'', ''Reseller Users''), (''/reseller/packages'', ''Packages'')]),
     (''Analytics'',
       [(''/monitoring/servers'', ''Servers''), (''/monitoring/bandwidth'', ''Bandwidth''),
        (''/monitoring/disk'', ''Disk Usage''), (''/monitoring/geomap'', ''GeoMap''),
        (''/notifications'', ''Notifications'')]),
     (''Tools'',
       [(''/dns/propagation'', ''DNS Propagation''), (''/email/dmarc'', ''DMARC'')]),
     (''System'',
       [(''/admin/servers'', ''Servers''), (''/settings'', ''Settings'')])]"

definition isActive :: "string \<Rightarrow> string \<Rightarrow> bool" where
  "isActive pathname href =
    (if href = ''/dashboard'' then pathname = ''/dashboard'' else startsWith pathname href)"

definition nav_hrefs :: "string list" where
  "nav_hrefs = map fst (concat (map snd navSections))"

section \<open>Topbar.tsx\<close>

definition breadcrumbMap :: "(string \<times> string) list" where
  "breadcrumbMap =
    [(''/dashboard'', ''Dashboard''), (''/domains'', ''Domains''), (''/email'', ''Email''),
     (''/files'', ''File Manager''), (''/databases'', ''Databases''), (''/php'', ''PHP''),
     (''/webserver'', ''Web Server''), (''/ssl'', ''SSL / TLS''), (''/backups'', ''Backups''),
     (''/docker'', ''Docker''), (''/devops'', ''DevOps''), (''/security'', ''Security''),
     (''/monitoring'', ''Monitoring''), (''/billing'', ''Billing''),
     (''/marketplace'', ''Marketplace''), (''/reseller'', ''Reseller''), (''/ai'', ''AI Assistant''),
     (''/settings'', ''Settings''), (''/admin/servers'', ''Servers'')]"

definition crumb_path :: "string list \<Rightarrow> nat \<Rightarrow> string" where
  "crumb_path segs i = ''/'' @ join_on (CHR ''/'') (take (i + 1) segs)"

text \<open>A path starts with \<open>/\<close>, so the lookup never meets an inherited property.\<close>

definition breadcrumbs :: "string \<Rightarrow> (string \<times> string) list" where
  "breadcrumbs pathname =
    (let segs = filter_Boolean (split_on (CHR ''/'') pathname) in
     map (\<lambda>(i, seg). let path = crumb_path segs i in
            (case map_of breadcrumbMap path of Some l \<Rightarrow> l | None \<Rightarrow> seg, path))
         (enumerate 0 segs))"

definition toggle_locale :: "ui_state \<Rightarrow> ui_state" where
  "toggle_locale s = ui_step (SetLocale (if ui_locale s = En then Ar else En)) s"

definition toggle_theme :: "string \<Rightarrow> string" where
  "toggle_theme theme = (if theme = ''dark'' then ''light'' else ''dark'')"

section \<open>CommandPalette.tsx\<close>

record command =
  cmd_id :: string
  cmd_label :: string
  cmd_href :: string
  cmd_category :: string

abbreviation nav_cmd :: "string \<Rightarrow> string \<Rightarrow> string \<Rightarrow> command" where
  "nav_cmd i l h \<equiv> \<lparr>cmd_id = i, cmd_label = l, cmd_href = h, cmd_category = ''Navigation''\<rparr>"

definition commands :: "command list" where
  "commands =
    [nav_cmd ''dashboard'' ''Dashboard'' ''/dashboard'', nav_cmd ''domains'' ''Domains'' ''/domains'',
     nav_cmd ''email'' ''Email'' ''/email'', nav_cmd ''files'' ''File Manager'' ''/files'',
     nav_cmd ''databases'' ''Databases'' ''/databases'', nav_cmd ''php'' ''PHP Settings'' ''/php'',
     nav_cmd ''ssl'' ''SSL / TLS'' ''/ssl'', nav_cmd ''backups'' ''Backups'' ''/backups'',
     nav_cmd ''docker'' ''Docker'' ''/docker'', nav_cmd ''devops'' ''DevOps Pipelines'' ''/devops'',
     nav_cmd ''security'' ''Security'' ''/security'', nav_cmd ''monitoring'' ''Monitoring'' ''/monitoring'',
     nav_cmd ''geomap'' ''GeoMap'' ''/monitoring/geomap'', nav_cmd ''billing'' ''Billing'' ''/billing'',
     nav_cmd ''marketplace'' ''Marketplace'' ''/marketplace'', nav_cmd ''ai'' ''AI Assistant'' ''/ai'',
     \<lparr>cmd_id = ''servers'', cmd_label = ''Servers'', cmd_href = ''/admin/servers'', cmd_category = ''Admin''\<rparr>,
     nav_cmd ''settings'' ''Settings'' ''/settings'']"

definition filtered :: "string \<Rightarrow> command list" where
  "filtered query =
    (if trim query \<noteq> [] then
       filter (\<lambda>c. str_includes (toLowerCase (cmd_label c)) (toLowerCase query) \<or>
                   str_includes (toLowerCase (cmd_category c)) (toLowerCase query)) commands
     else commands)"

text \<open>The palette's state with the navigations it asked for. An effect resets the selection when
  the query changes.\<close>

record palette =
  is_open :: bool
  query :: string
  selectedIdx :: int
  pushed :: "string list"

definition palette_init :: palette where
  "palette_init = \<lparr>is_open = False, query = [], selectedIdx = 0, pushed = []\<rparr>"

definition setQuery :: "string \<Rightarrow> palette \<Rightarrow> palette" where
  "setQuery q p = (if q = query p then p else p\<lparr>query := q, selectedIdx := 0\<rparr>)"

datatype palette_key = CtrlK | Escape | ArrowDown | ArrowUp | Enter | OtherKey

definition navigate :: "string \<Rightarrow> palette \<Rightarrow> palette" where
  "navigate href p = setQuery [] (p\<lparr>pushed := pushed p @ [href], is_open := False\<rparr>)"

text \<open>\<open>filtered[selectedIdx]\<close> is \<open>undefined\<close> outside the list.\<close>

definition selectedCommand :: "palette \<Rightarrow> command option" where
  "selectedCommand p = (let fs = filtered (query p); i = selectedIdx p in
     if 0 \<le> i \<and> i < int (length fs) then Some (fs ! nat i) else None)"

definition palette_keydown :: "palette_key \<Rightarrow> palette \<Rightarrow> palette" where
  "palette_keydown k p =
    (case k of
       CtrlK \<Rightarrow> setQuery [] (p\<lparr>is_open := \<not> is_open p\<rparr>)
     | Escape \<Rightarrow> if is_open p then p\<lparr>is_open := False\<rparr> else p
     | ArrowDown \<Rightarrow> if is_open p
         then p\<lparr>selectedIdx := min (selectedIdx p + 1) (int (length (filtered (query p))) - 1)\<rparr> else p
     | ArrowUp \<Rightarrow> if is_open p then p\<lparr>selectedIdx := max (selectedIdx p - 1) 0\<rparr> else p
     | Enter \<Rightarrow> if is_open p
         then (case selectedCommand p of Some c \<Rightarrow> navigate (cmd_href c) p | None \<Rightarrow> p) else p
     | OtherKey \<Rightarrow> p)"

text \<open>What the user can do: press a key, type a query, click the backdrop, point at or click the
  i-th result shown.\<close>

datatype palette_event = Key palette_key | Type string | Backdrop | Hover nat | Click nat

fun palette_step :: "palette_event \<Rightarrow> palette \<Rightarrow> palette" where
  "palette_step (Key k) p = palette_keydown k p"
| "palette_step (Type q) p = (if is_open p then setQuery q p else p)"
| "palette_step Backdrop p = p\<lparr>is_open := False\<rparr>"
| "palette_step (Hover i) p =
     (if is_open p \<and> i < length (filtered (query p)) then p\<lparr>selectedIdx := int i\<rparr> else p)"
| "palette_step (Click i) p =
     (if is_open p \<and> i < length (filtered (query p))
      then navigate (cmd_href (filtered (query p) ! i)) p else p)"

text \<open>useCommandPalette.ts: the global shortcut, \<open>None\<close> when the key is not one of its own.\<close>

definition shortcut :: "bool \<Rightarrow> bool \<Rightarrow> string \<Rightarrow> bool option" where
  "shortcut metaKey ctrlKey key =
    (if key = ''Escape'' then Some False
     else if (metaKey \<or> ctrlKey) \<and> key = ''k'' then Some True else None)"

section \<open>useVoiceControl.ts\<close>

text \<open>A pattern \<open>/a|b/i\<close> is the list of its alternatives.\<close>

definition voice_commands :: "(string list \<times> string) list" where
  "voice_commands =
    [([''go to dashboard''], ''/dashboard''), ([''go to domains''], ''/domains''), ([''go to dns''], ''/dns''),
     ([''go to email''], ''/email''), ([''go to files''], ''/files''), ([''go to databases''], ''/databases''),
     ([''go to backups''], ''/backups''), ([''go to monitoring''], ''/monitoring''),
     ([''go to security''], ''/security''), ([''go to docker''], ''/docker''), ([''go to billing''], ''/billing''),
     ([''go to ai'', ''open assistant''], ''/ai''), ([''go to marketplace''], ''/marketplace''),
     ([''go to settings''], ''/settings''), ([''open threat map'', ''go to geomap''], ''/monitoring/geomap''),
     ([''open pipelines'', ''go to devops''], ''/devops'')]"

definition matches :: "string list \<Rightarrow> string \<Rightarrow> bool" where
  "matches alternatives text \<longleftrightarrow> list_ex (str_includes (toLowerCase text)) alternatives"

record voice =
  isListening :: bool
  isSupported :: bool
  transcript :: string
  voice_error :: "string option"
  heard :: "string list"
  went :: "string list"

fun first_match :: "(string list \<times> string) list \<Rightarrow> string \<Rightarrow> string option" where
  "first_match [] text = None"
| "first_match ((alts, href) # cs) text = (if matches alts text then Some href else first_match cs text)"

definition processTranscript :: "string \<Rightarrow> voice \<Rightarrow> voice" where
  "processTranscript text v =
    (let v = v\<lparr>transcript := text\<rparr> in
     case first_match voice_commands text of
       Some href \<Rightarrow> v\<lparr>heard := heard v @ [text], went := went v @ [href]\<rparr>
     | None \<Rightarrow> v)"

definition startListening :: "voice \<Rightarrow> voice" where
  "startListening v = (if isSupported v then v
     else v\<lparr>voice_error := Some ''Speech recognition not supported''\<rparr>)"

definition stopListening :: "voice \<Rightarrow> voice" where
  "stopListening v = v\<lparr>isListening := False\<rparr>"

datatype voice_event = OnStart | OnEnd | OnError string | OnResult string bool | Toggle

fun voice_step :: "voice_event \<Rightarrow> voice \<Rightarrow> voice" where
  "voice_step OnStart v = v\<lparr>isListening := True, voice_error := None, transcript := []\<rparr>"
| "voice_step OnEnd v = v\<lparr>isListening := False\<rparr>"
| "voice_step (OnError e) v = v\<lparr>voice_error := Some e, isListening := False\<rparr>"
| "voice_step (OnResult text isFinal) v =
     (let v = v\<lparr>transcript := text\<rparr> in if isFinal then processTranscript text v else v)"
| "voice_step Toggle v = (if isListening v then stopListening v else startListening v)"

section \<open>The selection of the palette\<close>

definition palette_inv :: "palette \<Rightarrow> bool" where
  "palette_inv p \<longleftrightarrow> set (pushed p) \<subseteq> set (map cmd_href commands) \<and>
     (if filtered (query p) = [] then selectedIdx p \<in> {- 1, 0}
      else 0 \<le> selectedIdx p \<and> selectedIdx p < int (length (filtered (query p))))"

lemma filtered_blank: "trim q = [] \<Longrightarrow> filtered q = commands"
  by (simp add: filtered_def)

lemma set_filtered: "set (filtered q) \<subseteq> set commands"
  by (auto simp: filtered_def)

lemma commands_nonempty [simp]: "commands \<noteq> []"
  by (simp add: commands_def)

lemma palette_inv_setQuery: "palette_inv p \<Longrightarrow> palette_inv (setQuery q p)"
  by (auto simp: palette_inv_def setQuery_def)

lemma palette_inv_navigate: "palette_inv p \<Longrightarrow> c \<in> set (filtered (query p)) \<Longrightarrow> palette_inv (navigate (cmd_href c) p)"
  using set_filtered [of "query p"]
  unfolding navigate_def by (intro palette_inv_setQuery) (auto simp: palette_inv_def)

lemma selectedCommand_in: "selectedCommand p = Some c \<Longrightarrow> c \<in> set (filtered (query p))"
  by (auto simp: selectedCommand_def Let_def split: if_splits)

lemma palette_inv_open: "palette_inv p \<Longrightarrow> palette_inv (p\<lparr>is_open := b\<rparr>)"
  by (auto simp: palette_inv_def split: if_splits)

lemma palette_inv_keydown: "palette_inv p \<Longrightarrow> palette_inv (palette_keydown k p)"
proof (cases k)
  case CtrlK
  then show "palette_inv p \<Longrightarrow> ?thesis"
    by (simp add: palette_keydown_def palette_inv_setQuery palette_inv_open)
next
  case Enter
  then show "palette_inv p \<Longrightarrow> ?thesis"
    by (auto simp: palette_keydown_def intro: palette_inv_navigate selectedCommand_in split: option.splits)
next
  case ArrowDown
  then show "palette_inv p \<Longrightarrow> ?thesis"
    by (auto simp: palette_keydown_def palette_inv_def split: if_splits)
qed (auto simp: palette_keydown_def palette_inv_def split: if_splits)

lemma palette_inv_step: "palette_inv p \<Longrightarrow> palette_inv (palette_step e p)"
proof (cases e)
  case (Click i)
  then show "palette_inv p \<Longrightarrow> ?thesis" by (auto intro: palette_inv_navigate)
next
  case (Hover i)
  then show "palette_inv p \<Longrightarrow> ?thesis" by (auto simp: palette_inv_def)
qed (simp_all add: palette_inv_keydown palette_inv_setQuery palette_inv_open)

interpretation palette: component palette_step palette_inv
  by unfold_locales (rule palette_inv_step)

lemma palette_init_inv: "palette_inv palette_init"
  by (simp add: palette_inv_def palette_init_def filtered_def trim_def)

section \<open>Paths\<close>

lemma filter_Boolean_all: "[] \<notin> set ws \<Longrightarrow> filter_Boolean ws = ws"
  by (auto simp: filter_Boolean_def filter_id_conv)

lemma segments_of_path:
  assumes "ws \<noteq> []" and "\<forall>w \<in> set ws. w \<noteq> [] \<and> CHR ''/'' \<notin> set w"
  shows "filter_Boolean (split_on (CHR ''/'') (CHR ''/'' # join_on (CHR ''/'') ws)) = ws"
  using assms split_join [of ws "CHR ''/''"] filter_Boolean_all [of ws]
  by (auto simp: filter_Boolean_def)

lemma map_snd_breadcrumbs:
  "map snd (breadcrumbs p) = map (crumb_path (filter_Boolean (split_on (CHR ''/'') p)))
     [0..<length (filter_Boolean (split_on (CHR ''/'') p))]"
  by (auto simp: breadcrumbs_def Let_def enumerate_eq_zip zip_map_fst_snd intro!: nth_equalityI)

text \<open>The entries of the menu that lie below another entry.\<close>

definition nested_entries :: "(string \<times> string) list" where
  "nested_entries = [(g, h). g \<leftarrow> nav_hrefs, h \<leftarrow> nav_hrefs, g \<noteq> h, startsWith h g]"

lemma nested_parents: "map fst nested_entries =
    replicate 4 ''/monitoring'' @ replicate 5 ''/email'' @ replicate 2 ''/security'' @ replicate 2 ''/reseller''"
  by code_simp

section \<open>Properties\<close>

text \<open>Property C33: whatever the user types, presses and points at, the selection of the palette is a
  result that is shown, so with the palette open and any result left Enter goes to a page of the
  list, closes the palette and clears the query.\<close>

theorem palette_enter_navigates:
  assumes "p = fold palette_step es palette_init" and "is_open p" and "filtered (query p) \<noteq> []"
  shows "\<exists>c \<in> set (filtered (query p)). selectedCommand p = Some c \<and>
    pushed (palette_keydown Enter p) = pushed p @ [cmd_href c] \<and>
    \<not> is_open (palette_keydown Enter p) \<and> query (palette_keydown Enter p) = []"
proof -
  have "palette_inv p" using palette.run_inv [OF palette_init_inv, of es] assms(1) by simp
  with assms(3) have "0 \<le> selectedIdx p" "selectedIdx p < int (length (filtered (query p)))"
    by (simp_all add: palette_inv_def)
  then have sel: "selectedCommand p = Some (filtered (query p) ! nat (selectedIdx p))"
    by (simp add: selectedCommand_def Let_def)
  then show ?thesis
    using assms(2) selectedCommand_in [OF sel]
    by (intro bexI [of _ "filtered (query p) ! nat (selectedIdx p)"])
      (auto simp: palette_keydown_def navigate_def setQuery_def)
qed

theorem palette_enter_navigates_witness:
  "\<exists>c \<in> set commands. pushed (palette_keydown Enter
     (fold palette_step [Key CtrlK, Key ArrowDown] palette_init)) = [cmd_href c]"
proof -
  have blank: "filtered [] = commands" by (simp add: filtered_def trim_def)
  define p where "p = fold palette_step [Key CtrlK, Key ArrowDown] palette_init"
  have p: "is_open p" "query p = []" "pushed p = []"
    by (simp_all add: p_def palette_keydown_def palette_init_def setQuery_def)
  then have "filtered (query p) \<noteq> []" by (simp add: blank)
  from palette_enter_navigates [OF p_def p(1) this] p
  have "\<exists>c \<in> set commands. pushed (palette_keydown Enter p) = [cmd_href c]"
    by (auto simp: blank)
  then show ?thesis unfolding p_def .
qed

text \<open>On a page with the path \<open>/w1/.../wn\<close> there is one breadcrumb per segment and the
  i-th leads to \<open>/w1/.../wi\<close>; the last is the page itself.\<close>

theorem breadcrumbs_paths:
  assumes "ws \<noteq> []" and "\<forall>w \<in> set ws. w \<noteq> [] \<and> CHR ''/'' \<notin> set w"
    and "p = CHR ''/'' # join_on (CHR ''/'') ws"
  shows "map snd (breadcrumbs p) = map (\<lambda>i. CHR ''/'' # join_on (CHR ''/'') (take (Suc i) ws)) [0..<length ws] \<and>
    snd (last (breadcrumbs p)) = p"
proof -
  have eq: "map snd (breadcrumbs p) = map (\<lambda>i. CHR ''/'' # join_on (CHR ''/'') (take (Suc i) ws)) [0..<length ws]"
    using segments_of_path [OF assms(1,2)] assms(3) by (simp add: map_snd_breadcrumbs crumb_path_def)
  have "length (map snd (breadcrumbs p)) = length ws" unfolding eq by simp
  then have ne: "breadcrumbs p \<noteq> []" using assms(1) by auto
  have "snd (last (breadcrumbs p)) = last (map snd (breadcrumbs p))" by (rule last_map [OF ne, symmetric])
  also have "\<dots> = CHR ''/'' # join_on (CHR ''/'') ws"
    unfolding eq using assms(1) by (simp add: last_conv_nth)
  finally have "snd (last (breadcrumbs p)) = p" unfolding assms(3) .
  with eq show ?thesis by (rule conjI)
qed

theorem breadcrumbs_paths_witness:
  "map snd (breadcrumbs ''/monitoring/geomap'') = [''/monitoring'', ''/monitoring/geomap'']"
  using breadcrumbs_paths [of "[''monitoring'', ''geomap'']" "''/monitoring/geomap''"] by simp

text \<open>Two different menu entries are highlighted together only on pages below both, and
  then the path of one begins with the other's: an entry and one of its subpages.\<close>

theorem sidebar_highlights_nested:
  assumes "isActive pathname g" and "isActive pathname h" and "g \<noteq> h" and "g \<in> set nav_hrefs" and "h \<in> set nav_hrefs"
  shows "(g, h) \<in> set nested_entries \<or> (h, g) \<in> set nested_entries"
proof -
  have "prefix g pathname" "prefix h pathname"
    using assms(1,2) by (auto simp: isActive_def startsWith_def split: if_splits)
  then have "prefix g h \<or> prefix h g" using prefix_same_cases by blast
  then show ?thesis using assms(3-5) by (auto simp: nested_entries_def startsWith_def)
qed

theorem sidebar_highlights_nested_witness:
  "(''/email'', ''/email/queue'') \<in> set nested_entries \<or> (''/email/queue'', ''/email'') \<in> set nested_entries"
  by (rule sidebar_highlights_nested [of "''/email/queue''"])
    (simp_all add: isActive_def startsWith_def nav_hrefs_def navSections_def)

text \<open>The voice control navigates only on the final result of a recognition, to the page
  of the first command the text contains; and every phrase of the table, said alone, leads to its
  own page.\<close>

theorem voice_navigation:
  "went (voice_step e v) = went v @
     (case e of OnResult text True \<Rightarrow> (case first_match voice_commands text of None \<Rightarrow> [] | Some h \<Rightarrow> [h]) | _ \<Rightarrow> []) \<and>
   list_all (\<lambda>(alts, h). list_all (\<lambda>a. first_match voice_commands a = Some h) alts) voice_commands"
proof -
  have "list_all (\<lambda>(alts, h). list_all (\<lambda>a. first_match voice_commands a = Some h) alts) voice_commands"
    by code_simp
  moreover have "went (voice_step e v) = went v @
     (case e of OnResult text True \<Rightarrow> (case first_match voice_commands text of None \<Rightarrow> [] | Some h \<Rightarrow> [h]) | _ \<Rightarrow> [])"
    by (cases e) (auto simp: processTranscript_def startListening_def stopListening_def Let_def split: option.splits bool.splits)
  ultimately show ?thesis by blast
qed

text \<open>The panel is only shown to a session with a token: after any run of the
  authentication store the shell renders the page exactly when an access token is held, and
  otherwise redirects to the login page.\<close>

theorem shell_guard:
  "(shell_render (fold (auth_step parse) es auth_init) = Panel \<longleftrightarrow>
      accessToken (fold (auth_step parse) es auth_init) \<noteq> JNull) \<and>
   (shell_redirect s = Some ''/login'' \<longleftrightarrow> shell_render s = Spinner)"
  using auth.run_inv [of auth_init parse es]
  by (auto simp: shell_render_def shell_redirect_def auth_inv_def auth_init_def)

end
