(* ===== verification/FilePaths.thy ===== *)
theory FilePaths
  imports Navigation
begin

text \<open>
  Paths in the file manager: \<open>joinPath\<close> of components/files/FileExplorer.tsx, the toolbar's
  \<open>goUp\<close>, address bar and breadcrumb (FileToolbar.tsx), the name of a path's last component, the
  output path of CompressDialog.tsx and the tree of FileTree.tsx.
\<close>

section \<open>Functions\<close>

definition joinPath :: "string \<Rightarrow> string \<Rightarrow> string" where
  "joinPath base name = (if endsWith base ''/'' then base else base @ ''/'') @ name"

definition parts :: "string \<Rightarrow> string list" where
  "parts path = filter_Boolean (split_on (CHR ''/'') path)"

text \<open>\<open>a ? '/' : '/' + b || '/'\<close>: a sum is never empty, so the \<open>||\<close> is never taken.\<close>

definition goUp :: "string \<Rightarrow> string" where
  "goUp currentPath =
    (let ps = parts currentPath in
     if ps = [] then ''/''
     else (let up = ''/'' @ join_on (CHR ''/'') (slice ps 0 (- 1)) in if up = [] then ''/'' else up))"

definition baseName :: "string \<Rightarrow> string" where
  "baseName path = last (split_on (CHR ''/'') path)"

text \<open>The address bar: what typing a path and committing it navigates to.\<close>

definition commitAddress :: "string \<Rightarrow> string" where
  "commitAddress val = (let clean = (if startsWith val ''/'' then val else ''/'' @ val) in
     if clean = [] then ''/'' else clean)"

text \<open>The breadcrumb buttons: the label, the path and whether a click navigates.\<close>

definition pathCrumbs :: "string \<Rightarrow> (string \<times> string \<times> bool) list" where
  "pathCrumbs path = (let ps = parts path in
     map (\<lambda>(i, p). (p, ''/'' @ join_on (CHR ''/'') (take (i + 1) ps), i + 1 \<noteq> length ps)) (enumerate 0 ps))"

definition outputPath :: "string \<Rightarrow> string \<Rightarrow> string \<Rightarrow> string" where
  "outputPath currentPath name format =
     (if endsWith currentPath ''/'' then currentPath else currentPath @ ''/'') @ name @ ''.'' @ format"

definition defaultArchiveName :: "string list \<Rightarrow> string" where
  "defaultArchiveName paths = (case paths of [p] \<Rightarrow> baseName p | _ \<Rightarrow> ''archive'')"

text \<open>FileTree.tsx: whether a directory node starts open, and the quick links that are shown.\<close>

definition treeNodeOpen :: "string \<Rightarrow> string \<Rightarrow> bool" where
  "treeNodeOpen currentPath path \<longleftrightarrow> currentPath = path \<or> startsWith currentPath (path @ ''/'')"

definition QUICK_LINKS :: "(string \<times> string) list" where
  "QUICK_LINKS = [(''public_html'', ''/public_html''), (''www'', ''/www''), (''mail'', ''/mail''),
     (''logs'', ''/logs''), (''tmp'', ''/tmp'')]"

definition quickLinks :: "string list \<Rightarrow> (string \<times> string) list" where
  "quickLinks rootPaths = filter (\<lambda>(l, p). p \<in> set rootPaths) QUICK_LINKS"

section \<open>Canonical paths\<close>

text \<open>The paths the server lists: \<open>/\<close> and the names on the way, none empty or with a slash.\<close>

definition path_of :: "string list \<Rightarrow> string" where
  "path_of ns = CHR ''/'' # join_on (CHR ''/'') ns"

definition name_ok :: "string \<Rightarrow> bool" where
  "name_ok n \<longleftrightarrow> n \<noteq> [] \<and> CHR ''/'' \<notin> set n"

lemma parts_path_of [simp]: "list_all name_ok ns \<Longrightarrow> parts (path_of ns) = ns"
proof (cases "ns = []")
  case False
  assume "list_all name_ok ns"
  then have "\<forall>w \<in> set ns. w \<noteq> [] \<and> CHR ''/'' \<notin> set w" by (auto simp: list_all_iff name_ok_def)
  with False show ?thesis by (simp add: parts_def path_of_def segments_of_path del: split_on.simps)
qed (simp add: parts_def path_of_def filter_Boolean_def)

lemma join_on_snoc: "ns \<noteq> [] \<Longrightarrow> join_on c (ns @ [n]) = join_on c ns @ c # n"
  by (induction c ns rule: join_on.induct) auto

lemma join_on_last: "ns \<noteq> [] \<Longrightarrow> \<exists>s. join_on c ns = s @ last ns"
proof (induction ns rule: rev_induct)
  case (snoc n ns)
  then show ?case by (cases "ns = []") (auto simp: join_on_snoc)
qed simp

lemma path_not_slash:
  assumes "list_all name_ok ns" and "ns \<noteq> []"
  shows "\<not> endsWith (path_of ns) ''/''"
proof -
  obtain s where s: "join_on (CHR ''/'') ns = s @ last ns" using join_on_last [OF assms(2)] by blast
  have "name_ok (last ns)" using assms by (auto simp: list_all_iff)
  then have "last ns \<noteq> []" "last (last ns) \<noteq> CHR ''/''" by (auto simp: name_ok_def dest: last_in_set)
  then show ?thesis using s by (auto simp: endsWith_def path_of_def suffix_def) (metis last_appendR last_snoc append_is_Nil_conv last_ConsR not_Cons_self2)
qed

lemma joinPath_path_of:
  assumes "list_all name_ok ns"
  shows "joinPath (path_of ns) n = path_of (ns @ [n])"
proof (cases "ns = []")
  case True
  then show ?thesis by (simp add: joinPath_def path_of_def endsWith_def)
next
  case False
  with path_not_slash [OF assms False] show ?thesis
    by (simp add: joinPath_def path_of_def join_on_snoc)
qed

lemma baseName_path_of:
  assumes "list_all name_ok ns" and "CHR ''/'' \<notin> set n"
  shows "baseName (path_of (ns @ [n])) = n"
proof -
  have "split_on (CHR ''/'') (join_on (CHR ''/'') (ns @ [n])) = ns @ [n]"
    using assms by (intro split_join) (auto simp: list_all_iff name_ok_def)
  then show ?thesis by (simp add: baseName_def path_of_def)
qed

section \<open>Properties\<close>

text \<open>Going into an entry and going up again are inverse: for a canonical directory and
  a valid name, the joined path is the canonical path of the entry, its last component is the name,
  and its parent is the directory.\<close>

theorem join_then_up:
  assumes "list_all name_ok ns" and "name_ok n"
  shows "joinPath (path_of ns) n = path_of (ns @ [n]) \<and>
    goUp (joinPath (path_of ns) n) = path_of ns \<and> baseName (joinPath (path_of ns) n) = n"
proof -
  have "parts (path_of (ns @ [n])) = ns @ [n]" using assms by simp
  then have "goUp (path_of (ns @ [n])) = path_of ns"
    by (simp add: goUp_def slice_0_minus_1 path_of_def)
  moreover have "baseName (path_of (ns @ [n])) = n"
    using assms by (intro baseName_path_of) (auto simp: name_ok_def)
  ultimately show ?thesis using joinPath_path_of [OF assms(1)] by simp
qed

theorem join_then_up_witness:
  "goUp (joinPath ''/var/www'' ''index.html'') = ''/var/www''"
  using join_then_up [of "[''var'', ''www'']" "''index.html''", THEN conjunct2, THEN conjunct1]
  by (simp add: path_of_def name_ok_def)

end
