(* ===== verification/Format.thy ===== *)
theory Format
  imports Prelude
begin

text \<open>
  lib/utils/format.ts: how the panel prints sizes, durations, ages and long texts. Numbers are
  exact here: byte counts and seconds are natural numbers, a quotient by a power of 1024 is a
  rational (dividing a double by a power of two loses nothing), and \<open>toFixed\<close> rounds half up as
  the language defines it. \<open>Math.log\<close> is a parameter of \<open>formatBytes\<close>, \<open>toLocaleDateString\<close> of
  \<open>formatRelative\<close>; \<open>formatDate\<close> and \<open>formatNumber\<close> are the locale's alone.
\<close>

section \<open>Printing numbers\<close>

definition digit :: "nat \<Rightarrow> char" where
  "digit n = char_of (48 + n)"

fun show_nat :: "nat \<Rightarrow> string" where
  "show_nat n = (if n < 10 then [digit n] else show_nat (n div 10) @ [digit (n mod 10)])"

declare show_nat.simps [simp del]

definition show_int :: "int \<Rightarrow> string" where
  "show_int i = (if i < 0 then CHR ''-'' # show_nat (nat (- i)) else show_nat (nat i))"

text \<open>\<open>x.toFixed(d)\<close> as the integer it is in units of \<open>10^-d\<close>.\<close>

definition toFixed :: "rat \<Rightarrow> nat \<Rightarrow> int" where
  "toFixed x d = \<lfloor>x * 10 ^ d + 1 / 2\<rfloor>"

fun digits :: "nat \<Rightarrow> nat \<Rightarrow> nat list" where
  "digits 0 n = []"
| "digits (Suc d) n = digits d (n div 10) @ [n mod 10]"

definition strip_zeros :: "nat list \<Rightarrow> nat list" where
  "strip_zeros ds = rev (dropWhile (\<lambda>x. x = 0) (rev ds))"

text \<open>The number \<open>n / 10^d\<close> as a template literal prints it: no trailing zeros.\<close>

definition show_decimal :: "nat \<Rightarrow> nat \<Rightarrow> string" where
  "show_decimal n d = (let fs = strip_zeros (digits d (n mod 10 ^ d)) in
     show_nat (n div 10 ^ d) @ (if fs = [] then [] else CHR ''.'' # map digit fs))"

section \<open>The functions\<close>

definition sizes :: "string list" where
  "sizes = [''B'', ''KB'', ''MB'', ''GB'', ''TB'', ''PB'']"

text \<open>\<open>log1024 b\<close> is \<open>Math.floor(Math.log(b) / Math.log(k))\<close>; past the table the unit prints
  \<open>undefined\<close>.\<close>

definition formatBytes :: "(nat \<Rightarrow> nat) \<Rightarrow> nat \<Rightarrow> nat \<Rightarrow> string" where
  "formatBytes log1024 bytes decimals =
    (if bytes = 0 then ''0 B''
     else let i = log1024 bytes in
       show_decimal (nat (toFixed (of_nat bytes / 1024 ^ i) decimals)) decimals @ '' '' @
       (if i < length sizes then sizes ! i else ''undefined''))"

definition formatDuration :: "nat \<Rightarrow> string" where
  "formatDuration seconds =
    (if seconds < 60 then show_nat seconds @ ''s''
     else if seconds < 3600 then show_nat (seconds div 60) @ ''m '' @ show_nat (seconds mod 60) @ ''s''
     else (let h = seconds div 3600; m = (seconds mod 3600) div 60 in
       show_nat h @ ''h '' @ show_nat m @ ''m''))"

text \<open>Times in milliseconds; \<open>diff\<close> is their difference in seconds.\<close>

definition formatRelative :: "(int \<Rightarrow> string) \<Rightarrow> int \<Rightarrow> int \<Rightarrow> string" where
  "formatRelative toLocaleDateString now time =
    (let diff = of_int (now - time) / (1000 :: rat) in
     if diff < 60 then ''just now''
     else if diff < 3600 then show_int \<lfloor>diff / 60\<rfloor> @ ''m ago''
     else if diff < 86400 then show_int \<lfloor>diff / 3600\<rfloor> @ ''h ago''
     else if diff < 604800 then show_int \<lfloor>diff / 86400\<rfloor> @ ''d ago''
     else toLocaleDateString time)"

definition truncate :: "string \<Rightarrow> int \<Rightarrow> string" where
  "truncate str maxLen =
    (if int (length str) \<le> maxLen then str else slice str 0 (maxLen - 3) @ ''...'')"

definition getUsageColor :: "rat \<Rightarrow> string" where
  "getUsageColor pct = (if pct < 60 then ''text-green-500''
     else if pct < 80 then ''text-yellow-500'' else ''text-red-500'')"

definition getUsageBgColor :: "rat \<Rightarrow> string" where
  "getUsageBgColor pct = (if pct < 60 then ''bg-green-500''
     else if pct < 80 then ''bg-yellow-500'' else ''bg-red-500'')"

section \<open>Reading printed numbers\<close>

definition digit_value :: "char \<Rightarrow> nat" where
  "digit_value c = code_unit c - 48"

definition read_nat :: "string \<Rightarrow> nat" where
  "read_nat s = foldl (\<lambda>a c. 10 * a + digit_value c) 0 s"

fun fraction :: "nat list \<Rightarrow> rat" where
  "fraction [] = 0"
| "fraction (x # xs) = (of_nat x + fraction xs) / 10"

definition read_decimal :: "string \<Rightarrow> rat" where
  "read_decimal s = of_nat (read_nat (takeWhile (\<lambda>c. c \<noteq> CHR ''.'') s)) +
     fraction (map digit_value (tl (dropWhile (\<lambda>c. c \<noteq> CHR ''.'') s)))"

lemma code_unit_digit: "n < 10 \<Longrightarrow> code_unit (digit n) = 48 + n"
  by (simp add: digit_def code_unit_def)

lemma digit_value_digit [simp]: "n < 10 \<Longrightarrow> digit_value (digit n) = n"
  by (simp add: digit_value_def code_unit_digit)

lemma is_digit_digit [simp]: "n < 10 \<Longrightarrow> is_digit (digit n)"
  by (simp add: is_digit_def code_unit_digit)

lemma show_nat_digits: "c \<in> set (show_nat n) \<Longrightarrow> is_digit c"
proof (induction n rule: show_nat.induct)
  case (1 n)
  then show ?case by (subst (asm) (2) show_nat.simps) (auto split: if_splits)
qed

lemma read_show_nat [simp]: "read_nat (show_nat n) = n"
proof (induction n rule: show_nat.induct)
  case (1 n)
  then show ?case by (subst show_nat.simps) (auto simp: read_nat_def)
qed

lemma show_nat_eq [simp]: "show_nat a = show_nat b \<longleftrightarrow> a = b"
  by (metis read_show_nat)

lemma digits_less: "x \<in> set (digits d n) \<Longrightarrow> x < 10"
  by (induction d arbitrary: n) auto

lemma length_digits [simp]: "length (digits d n) = d"
  by (induction d arbitrary: n) auto

lemma fraction_snoc: "fraction (xs @ [x]) = fraction xs + of_nat x / 10 ^ Suc (length xs)"
  by (induction xs) (simp_all add: field_simps)

lemma fraction_digits: "fraction (digits d n) = of_nat (n mod 10 ^ d) / 10 ^ d"
proof (induction d arbitrary: n)
  case (Suc d)
  have "n mod 10 ^ Suc d = 10 * (n div 10 mod 10 ^ d) + n mod 10"
    by (simp add: mod_mult2_eq)
  moreover have "fraction (digits (Suc d) n) =
      of_nat (n div 10 mod 10 ^ d) / 10 ^ d + of_nat (n mod 10) / 10 ^ Suc d"
    by (simp add: fraction_snoc Suc)
  ultimately show ?case by (simp add: add_divide_distrib)
qed simp

lemma fraction_strip: "fraction (strip_zeros ds) = fraction ds"
proof (induction ds rule: rev_induct)
  case (snoc x xs)
  then show ?case by (cases "x = 0") (simp_all add: strip_zeros_def fraction_snoc)
qed (simp add: strip_zeros_def)

lemma strip_less: "\<forall>x \<in> set ds. x < 10 \<Longrightarrow> x \<in> set (strip_zeros ds) \<Longrightarrow> x < 10"
  by (auto simp: strip_zeros_def dest: set_dropWhileD)

lemma dot_not_digit: "\<not> is_digit (CHR ''.'')"
  by code_simp

lemma takeWhile_digits: "\<forall>c \<in> set a. is_digit c \<Longrightarrow> \<not> is_digit x \<Longrightarrow> takeWhile (\<lambda>c. c \<noteq> x) (a @ x # b) = a"
  by (induction a) auto

lemma dropWhile_digits: "\<forall>c \<in> set a. is_digit c \<Longrightarrow> \<not> is_digit x \<Longrightarrow> dropWhile (\<lambda>c. c \<noteq> x) (a @ x # b) = x # b"
  by (induction a) auto

lemma takeWhile_no_dot: "\<forall>c \<in> set a. is_digit c \<Longrightarrow> takeWhile (\<lambda>c. c \<noteq> CHR ''.'') a = a"
  using dot_not_digit by (induction a) auto

lemma dropWhile_no_dot: "\<forall>c \<in> set a. is_digit c \<Longrightarrow> dropWhile (\<lambda>c. c \<noteq> CHR ''.'') a = []"
  using dot_not_digit by (induction a) auto

lemma read_show_decimal [simp]: "read_decimal (show_decimal n d) = of_nat n / 10 ^ d"
proof -
  let ?fs = "strip_zeros (digits d (n mod 10 ^ d))"
  have fr: "fraction ?fs = of_nat (n mod 10 ^ d) / 10 ^ d"
    by (simp add: fraction_strip fraction_digits)
  have "x < 10" if "x \<in> set ?fs" for x
    using strip_less [OF _ that] digits_less by blast
  then have "map digit_value (map digit ?fs) = ?fs" by (auto intro!: map_idI)
  moreover have "\<forall>c \<in> set (show_nat (n div 10 ^ d)). is_digit c" using show_nat_digits by blast
  ultimately have "read_decimal (show_decimal n d) = of_nat (n div 10 ^ d) + fraction ?fs"
    using dot_not_digit
    by (cases "?fs = []") (auto simp: read_decimal_def show_decimal_def Let_def takeWhile_digits
        dropWhile_digits takeWhile_no_dot dropWhile_no_dot)
  moreover have "(of_nat (n div 10 ^ d * 10 ^ d + n mod 10 ^ d) :: rat) =
      of_nat (n div 10 ^ d) * 10 ^ d + of_nat (n mod 10 ^ d)"
    by (simp only: of_nat_add of_nat_mult of_nat_power of_nat_numeral)
  then have eq: "(of_nat n :: rat) = of_nat (n div 10 ^ d) * 10 ^ d + of_nat (n mod 10 ^ d)"
    by (simp only: div_mult_mod_eq)
  ultimately show ?thesis using fr by (subst eq) (simp add: add_divide_distrib)
qed

text \<open>\<open>toFixed\<close> is within half a unit of the last place.\<close>

lemma toFixed_close: "\<bar>of_int (toFixed x d) / 10 ^ d - x\<bar> \<le> 1 / (2 * 10 ^ d)"
proof -
  have "of_int (toFixed x d) \<le> x * 10 ^ d + 1 / 2" "x * 10 ^ d + 1 / 2 < of_int (toFixed x d) + 1"
    unfolding toFixed_def by linarith+
  then have "\<bar>of_int (toFixed x d) - x * 10 ^ d\<bar> \<le> 1 / 2" by linarith
  then have "\<bar>of_int (toFixed x d) - x * 10 ^ d\<bar> / 10 ^ d \<le> 1 / 2 / 10 ^ d"
    by (intro divide_right_mono) auto
  moreover have "\<bar>of_int (toFixed x d) - x * 10 ^ d\<bar> / 10 ^ d = \<bar>of_int (toFixed x d) / 10 ^ d - x\<bar>"
  proof -
    have "of_int (toFixed x d) / 10 ^ d - x = (of_int (toFixed x d) - x * 10 ^ d) / 10 ^ d"
      by (simp add: diff_divide_distrib)
    then show ?thesis by (simp only: abs_divide) simp
  qed
  ultimately show ?thesis by simp
qed

lemma toFixed_nonneg: "0 \<le> x \<Longrightarrow> 0 \<le> toFixed x d"
  by (simp add: toFixed_def)

section \<open>Lengths and durations\<close>

lemma sep_digits:
  assumes "\<forall>c \<in> set a. is_digit c" "\<forall>c \<in> set b. is_digit c" "\<not> is_digit x" "\<not> is_digit y"
    and "a @ x # u = b @ y # v"
  shows "a = b \<and> x = y \<and> u = v"
  using assms
proof (induction a arbitrary: b)
  case Nil
  then show ?case by (cases b) auto
next
  case (Cons c a)
  then show ?case by (cases b) auto
qed

lemma units_not_digits: "\<not> is_digit CHR ''s''" "\<not> is_digit CHR ''m''" "\<not> is_digit CHR ''h''" "\<not> is_digit CHR '' ''"
  by code_simp+

lemma show_sep:
  "\<not> is_digit x \<Longrightarrow> \<not> is_digit y \<Longrightarrow> show_nat a @ x # u = show_nat b @ y # v \<longleftrightarrow> a = b \<and> x = y \<and> u = v"
  using sep_digits [of "show_nat a" "show_nat b" x y u v] show_nat_digits by auto

lemma minutes_split: "(a::nat) div 60 = b div 60 \<Longrightarrow> a mod 60 = b mod 60 \<Longrightarrow> a = b"
  by (metis div_mult_mod_eq)

lemma hours_minutes:
  "(a::nat) div 3600 = b div 3600 \<and> a mod 3600 div 60 = b mod 3600 div 60 \<longleftrightarrow> a div 60 = b div 60"
proof -
  have q: "n div 3600 = n div 60 div 60" for n :: nat by (simp flip: div_mult2_eq)
  have r: "n mod 3600 div 60 = n div 60 mod 60" for n :: nat
    using mod_mult2_eq [of n 60 60] by simp
  show ?thesis unfolding q r using minutes_split [of "a div 60" "b div 60"] by auto
qed

lemma short_duration: "n < 60 \<Longrightarrow> formatDuration n = show_nat n @ CHR ''s'' # []"
  by (simp add: formatDuration_def)

lemma medium_duration:
  "60 \<le> n \<Longrightarrow> n < 3600 \<Longrightarrow>
   formatDuration n = show_nat (n div 60) @ CHR ''m'' # CHR '' '' # show_nat (n mod 60) @ CHR ''s'' # []"
  by (simp add: formatDuration_def)

lemma long_duration:
  "3600 \<le> n \<Longrightarrow>
   formatDuration n = show_nat (n div 3600) @ CHR ''h'' # CHR '' '' # show_nat (n mod 3600 div 60) @ CHR ''m'' # []"
  by (simp add: formatDuration_def)

lemmas duration_shapes = short_duration medium_duration long_duration
     show_sep [OF units_not_digits(1) units_not_digits(1)] show_sep [OF units_not_digits(1) units_not_digits(2)]
    show_sep [OF units_not_digits(1) units_not_digits(3)] show_sep [OF units_not_digits(2) units_not_digits(1)]
    show_sep [OF units_not_digits(2) units_not_digits(2)] show_sep [OF units_not_digits(2) units_not_digits(3)]
    show_sep [OF units_not_digits(3) units_not_digits(1)] show_sep [OF units_not_digits(3) units_not_digits(2)]
    show_sep [OF units_not_digits(3) units_not_digits(3)]

lemma show_int_nonneg: "0 \<le> i \<Longrightarrow> show_int i = show_nat (nat i)"
  by (simp add: show_int_def)

section \<open>Properties\<close>

text \<open>Property C40: a printed size is right. Given the exponent the logarithm should return, the
  number printed (read back from the digits) is the count of units of \<open>1024^i\<close> bytes up to half
  of the last decimal, it is between 1 and 1024, and the unit is the table's: every size below
  \<open>1024^6\<close> has one.\<close>

theorem formatBytes_accurate:
  assumes "0 < bytes" and "1024 ^ log1024 bytes \<le> bytes" and "bytes < 1024 ^ Suc (log1024 bytes)"
    and "bytes < 1024 ^ 6"
  shows "\<exists>number. formatBytes log1024 bytes d = number @ '' '' @ sizes ! log1024 bytes \<and>
    log1024 bytes < length sizes \<and>
    \<bar>read_decimal number - of_nat bytes / 1024 ^ log1024 bytes\<bar> \<le> 1 / (2 * 10 ^ d) \<and>
    1 \<le> read_decimal number \<and> read_decimal number \<le> 1024"
proof -
  let ?i = "log1024 bytes" and ?x = "of_nat bytes / 1024 ^ log1024 bytes :: rat"
  have "(1024::nat) ^ ?i < 1024 ^ 6" using assms(2,4) by linarith
  then have "?i < 6" by (rule power_less_imp_less_exp [rotated]) simp
  then have i: "?i < length sizes" by (simp add: sizes_def)
  have "(of_nat (1024 ^ ?i) :: rat) \<le> of_nat bytes" using assms(2) by (simp only: of_nat_le_iff)
  then have lo: "1 \<le> ?x" by (simp only: of_nat_power of_nat_numeral) (simp add: le_divide_eq)
  have "(of_nat bytes :: rat) \<le> of_nat (1024 * 1024 ^ ?i)" using assms(3) by (simp only: of_nat_le_iff power_Suc)
  then have "of_nat bytes \<le> (1024 * 1024 ^ ?i :: rat)" by (simp only: of_nat_mult of_nat_power of_nat_numeral)
  then have hi: "?x \<le> 1024" by (simp add: divide_le_eq)
  define m where "m = toFixed ?x d"
  have mono: "a \<le> b \<Longrightarrow> toFixed a d \<le> toFixed b d" for a b
    unfolding toFixed_def by (intro floor_mono add_right_mono mult_right_mono) auto
  have int: "toFixed (of_int k) d = k * 10 ^ d" for k
    unfolding toFixed_def by (rule floor_unique) (simp_all add: algebra_simps)
  have m: "10 ^ d \<le> m" "m \<le> 1024 * 10 ^ d"
    using mono [OF lo] mono [OF hi] int [of 1] int [of 1024] by (simp_all add: m_def)
  have nat: "of_nat (nat m) = (of_int m :: rat)"
    using m(1) by (metis int_nat_eq of_int_of_nat_eq order_trans zero_le_numeral zero_le_power)
  have b: "1 \<le> of_int m / (10 ^ d :: rat)" "of_int m / (10 ^ d :: rat) \<le> 1024"
  proof -
    have "of_int (10 ^ d) \<le> (of_int m :: rat)" "of_int m \<le> (of_int (1024 * 10 ^ d) :: rat)"
      using m by (simp_all only: of_int_le_iff)
    then show "1 \<le> of_int m / (10 ^ d :: rat)" "of_int m / (10 ^ d :: rat) \<le> 1024"
      by (simp_all add: le_divide_eq divide_le_eq)
  qed
  show ?thesis
    using i assms(1) toFixed_close [of ?x d] b nat
    by (intro exI [of _ "show_decimal (nat m) d"]) (auto simp: formatBytes_def Let_def m_def)
qed

theorem formatBytes_accurate_witness:
  "\<exists>number. formatBytes (\<lambda>_. 1) 1536 1 = number @ '' KB'' \<and> read_decimal number \<le> 1024"
  using formatBytes_accurate [of 1536 "\<lambda>_. 1" 1] by (auto simp: sizes_def)

text \<open>A printed duration tells durations under an hour apart to the second and longer
  ones to the minute, and nothing finer: seconds are left out from an hour on (3666 prints
  \<open>1h 1m\<close>, not \<open>1h 1m 6s\<close>).\<close>

theorem formatDuration_resolution:
  "formatDuration a = formatDuration b \<longleftrightarrow>
     (if a < 3600 \<or> b < 3600 then a = b else a div 60 = b div 60)"
proof -
  have ms: "a div 60 = b div 60 \<and> a mod 60 = b mod 60 \<longleftrightarrow> a = b" using minutes_split [of a b] by auto
  have three: "n < 60 \<or> (60 \<le> n \<and> n < 3600) \<or> 3600 \<le> n" for n :: nat by linarith
  show ?thesis
    using three [of a] three [of b]
    by (elim disjE conjE) (simp_all only: duration_shapes, simp_all add: ms hours_minutes)
qed

text \<open>\<open>truncate\<close> keeps to its limit exactly when the text already fits or the limit has
  room for the ellipsis; under a limit of less than three the slice counts from the end of the
  text and the result is longer than the limit.\<close>

theorem truncate_bound:
  "int (length (truncate s n)) \<le> n \<longleftrightarrow> int (length s) \<le> n \<or> 3 \<le> n"
proof (cases "int (length s) \<le> n")
  case False
  show ?thesis
  proof (cases "3 \<le> n")
    case True
    with False show ?thesis by (simp add: truncate_def min_def)
  next
    case small: False
    then have "slice s 0 (n - 3) = take (length s - nat (3 - n)) s" by (simp add: slice_0_neg)
    with False small show ?thesis by (simp add: truncate_def min_def)
  qed
qed (simp add: truncate_def)

text \<open>An age under a week is printed with the largest unit that fits, and the number
  printed is the number of whole units, at least one and less than the next unit holds; a time in
  the future or of the last minute is printed as just now.\<close>

theorem formatRelative_units:
  "formatRelative L now time =
    (let secs = (now - time) div 1000 in
     if secs < 60 then ''just now''
     else if secs < 3600 then show_nat (nat (secs div 60)) @ ''m ago''
     else if secs < 86400 then show_nat (nat (secs div 3600)) @ ''h ago''
     else if secs < 604800 then show_nat (nat (secs div 86400)) @ ''d ago''
     else L time)"
proof -
  define ms where "ms = now - time"
  have lt: "of_int ms / (1000 :: rat) < of_int k \<longleftrightarrow> ms div 1000 < k" for k
    by (metis floor_divide_of_int_eq floor_less_iff of_int_numeral)
  have fl: "\<lfloor>of_int ms / (1000 :: rat) / of_int k\<rfloor> = ms div 1000 div k" if "0 < k" for k
  proof -
    have "of_int ms / (1000 :: rat) / of_int k = of_int ms / of_int (1000 * k)" by simp
    then have "\<lfloor>of_int ms / (1000 :: rat) / of_int k\<rfloor> = ms div (1000 * k)"
      using floor_divide_of_int_eq [of ms "1000 * k", where 'a = rat] by simp
    also have "\<dots> = ms div 1000 div k" using that by (simp add: zdiv_zmult2_eq)
    finally show ?thesis .
  qed
  define secs where "secs = ms div 1000"
  have conds: "of_int ms / (1000 :: rat) < 60 \<longleftrightarrow> secs < 60" "of_int ms / (1000 :: rat) < 3600 \<longleftrightarrow> secs < 3600"
    "of_int ms / (1000 :: rat) < 86400 \<longleftrightarrow> secs < 86400" "of_int ms / (1000 :: rat) < 604800 \<longleftrightarrow> secs < 604800"
    using lt [of 60] lt [of 3600] lt [of 86400] lt [of 604800] by (simp_all only: of_int_numeral secs_def)
  have nums: "\<lfloor>of_int ms / (1000 :: rat) / 60\<rfloor> = secs div 60" "\<lfloor>of_int ms / (1000 :: rat) / 3600\<rfloor> = secs div 3600"
    "\<lfloor>of_int ms / (1000 :: rat) / 86400\<rfloor> = secs div 86400"
    using fl [of 60] fl [of 3600] fl [of 86400] by (simp_all only: of_int_numeral secs_def zero_less_numeral simp_thms)
  show ?thesis
    unfolding formatRelative_def Let_def ms_def [symmetric] conds nums secs_def [symmetric]
    by (simp add: show_int_nonneg pos_imp_zdiv_nonneg_iff)
qed

end
