(* ===== verification/FileExplorer.thy ===== *)
theory FileExplorer
  imports FilePaths ApiFiles Format "HOL-Library.Multiset"
begin

text \<open>
  The file manager: components/files/FileExplorer.tsx (its state and every handler),
  the selection and the row icons of FileList.tsx and the entries of ContextMenu.tsx. A request
  handed to the API module is recorded as the call it makes; what the server answers and what the
  user confirms or types are arguments of the handlers. \<open>localeCompare\<close> is a parameter.
\<close>

section \<open>The list of files\<close>

datatype sort_key = ByName | BySize | ByModified | ByExtension

datatype sort_dir = Asc | Desc







section \<open>Selection in the list\<close>

text \<open>\<open>toggleSelect\<close> with the keys held, the paths shown and the row clicked last; it returns the
  new selection and the new last row.\<close>

definition toggleSelect ::
  "string list \<Rightarrow> bool \<Rightarrow> bool \<Rightarrow> string \<Rightarrow> string list \<Rightarrow> string option \<Rightarrow> string list \<times> string option" where
  "toggleSelect paths shiftKey ctrlOrMeta path selected lastClick =
    (case (if shiftKey \<and> lastClick \<noteq> Some [] then lastClick else None) of
       Some l \<Rightarrow>
         (let a = indexOf paths l; b = indexOf paths path;
              range = slice paths (min a b) (max a b + 1)
          in new_Set (selected @ range))
     | None \<Rightarrow>
         if ctrlOrMeta
         then (if path \<in> set selected then filter (\<lambda>p. p \<noteq> path) selected else selected @ [path])
         else (if path \<in> set selected \<and> length selected = 1 then [] else [path]),
     Some path)"

definition selectAll :: "bool \<Rightarrow> string list \<Rightarrow> string list" where
  "selectAll checked paths = (if checked then paths else [])"

section \<open>The explorer\<close>

datatype clip_op = Copy | Cut

record explorer =
  currentPath :: string
  selected :: "string list"
  editingFile :: "(string \<times> string) option"
  showUpload :: bool
  showHidden :: bool
  searchQuery :: string
  sortKey :: sort_key
  sortDir :: sort_dir
  clipboard :: "(string list \<times> clip_op) option"
  ctxMenu :: "(nat \<times> nat \<times> FileInfo option) option"
  chmodTarget :: "FileInfo option"
  compressTarget :: "string list option"
  preview :: "FileInfo option"
  renaming :: "string option"
  calls :: "files_call list"
  invalidated :: "string list"
  toasts :: "string list"

definition explorer_init :: "string \<Rightarrow> explorer" where
  "explorer_init initialPath = \<lparr>currentPath = initialPath, selected = [], editingFile = None,
     showUpload = False, showHidden = False, searchQuery = [], sortKey = ByName, sortDir = Asc,
     clipboard = None, ctxMenu = None, chmodTarget = None, compressTarget = None, preview = None,
     renaming = None, calls = [], invalidated = [], toasts = []\<rparr>"

definition isSearching :: "explorer \<Rightarrow> bool" where
  "isSearching s \<longleftrightarrow> 1 < length (trim (searchQuery s))"

text \<open>The query that fills the list.\<close>

definition listing_call :: "explorer \<Rightarrow> files_call" where
  "listing_call s = (if isSearching s then SearchFiles (currentPath s) (searchQuery s)
                     else ListFiles (currentPath s))"

definition call :: "files_call \<Rightarrow> explorer \<Rightarrow> explorer" where
  "call c s = s\<lparr>calls := calls s @ [c]\<rparr>"

definition toast :: "string \<Rightarrow> explorer \<Rightarrow> explorer" where
  "toast m s = s\<lparr>toasts := toasts s @ [m]\<rparr>"

text \<open>\<open>invalidateQueries\<close> of the current directory, and of the tree.\<close>

definition refreshList :: "explorer \<Rightarrow> explorer" where
  "refreshList s = s\<lparr>invalidated := invalidated s @ [currentPath s]\<rparr>"

definition refreshTree :: "explorer \<Rightarrow> explorer" where
  "refreshTree s = s\<lparr>invalidated := invalidated s @ [''files-tree'']\<rparr>"

definition goTo :: "string \<Rightarrow> explorer \<Rightarrow> explorer" where
  "goTo path s = s\<lparr>currentPath := path, selected := [], searchQuery := [], ctxMenu := None\<rparr>"

definition image_exts :: "string list" where
  "image_exts = [''png'', ''jpg'', ''jpeg'', ''gif'', ''svg'', ''webp'', ''ico'', ''bmp'']"

definition text_exts :: "string list" where
  "text_exts = [''txt'', ''md'', ''log'', ''csv'', ''json'', ''yaml'', ''yml'', ''xml'', ''html'', ''htm'',
     ''css'', ''js'', ''ts'', ''tsx'', ''jsx'', ''go'', ''py'', ''php'', ''sh'', ''bash'', ''conf'', ''ini'',
     ''env'', ''htaccess'']"

definition ext_of :: "FileInfo \<Rightarrow> string" where
  "ext_of f = toLowerCase (case extension f of None \<Rightarrow> [] | Some e \<Rightarrow> e)"

text \<open>\<open>handleOpen\<close>; the content is what reading the file gives, \<open>None\<close> when that fails.\<close>

definition handleOpen :: "FileInfo \<Rightarrow> string option \<Rightarrow> explorer \<Rightarrow> explorer" where
  "handleOpen file content s =
    (if is_dir file then goTo (fpath file) s
     else (let ext = ext_of file;
               isImage = ext \<in> set image_exts;
               isText = ext \<in> set text_exts \<or> startsWith (fname file) ''.''
       in if isImage then s\<lparr>preview := Some file\<rparr>
          else if isText \<or> fsize file < 1024 * 1024 then
            (case content of
               Some c \<Rightarrow> (call (ReadFile (fpath file)) s)\<lparr>editingFile := Some (fpath file, c)\<rparr>
             | None \<Rightarrow> toast ''Cannot open file'' (call (ReadFile (fpath file)) s))
          else s\<lparr>preview := Some file\<rparr>))"

text \<open>The delete mutation: one request after the other; the first that fails ends it.\<close>

fun delete_items :: "(string \<Rightarrow> bool) \<Rightarrow> string list \<Rightarrow> explorer \<Rightarrow> explorer \<times> bool" where
  "delete_items ok [] s = (s, True)"
| "delete_items ok (p # ps) s =
     (if ok p then delete_items ok ps (call (DeleteFile p) s) else (call (DeleteFile p) s, False))"

definition deleteMutation :: "(string \<Rightarrow> bool) \<Rightarrow> string list \<Rightarrow> explorer \<Rightarrow> explorer" where
  "deleteMutation ok paths s =
    (case delete_items ok paths s of
       (s', True) \<Rightarrow> toast ''Deleted'' ((refreshTree (refreshList s'))\<lparr>selected := []\<rparr>)
     | (s', False) \<Rightarrow> toast ''Delete failed'' s')"

definition handleDelete :: "string list option \<Rightarrow> bool \<Rightarrow> (string \<Rightarrow> bool) \<Rightarrow> explorer \<Rightarrow> explorer" where
  "handleDelete paths confirmed ok s =
    (let targets = (case paths of Some ps \<Rightarrow> ps | None \<Rightarrow> selected s) in
     if targets = [] then s else if \<not> confirmed then s else deleteMutation ok targets s)"

text \<open>A mutation of one request, with what its success refreshes.\<close>

definition mutate :: "files_call \<Rightarrow> bool \<Rightarrow> bool \<Rightarrow> string \<Rightarrow> string \<Rightarrow> explorer \<Rightarrow> explorer" where
  "mutate c ok tree done failed s =
    (let s = call c s in
     if ok then toast done ((if tree then refreshTree else id) (refreshList s)) else toast failed s)"

definition handleNewFolder :: "string option \<Rightarrow> bool \<Rightarrow> explorer \<Rightarrow> explorer" where
  "handleNewFolder name ok s =
    (case name of None \<Rightarrow> s
     | Some n \<Rightarrow> if trim n = [] then s
         else mutate (Mkdir (joinPath (currentPath s) (trim n))) ok True
                ''Folder created'' ''Failed to create folder'' s)"

definition handleNewFile :: "string option \<Rightarrow> bool \<Rightarrow> explorer \<Rightarrow> explorer" where
  "handleNewFile name ok s =
    (case name of None \<Rightarrow> s
     | Some n \<Rightarrow> if trim n = [] then s
         else mutate (NewFile (joinPath (currentPath s) (trim n))) ok False
                ''File created'' ''Failed to create file'' s)"

definition handleRename :: "FileInfo \<Rightarrow> explorer \<Rightarrow> explorer" where
  "handleRename file s = s\<lparr>renaming := Some (fpath file), ctxMenu := None\<rparr>"

definition handleRenameSubmit :: "string \<Rightarrow> string \<Rightarrow> bool \<Rightarrow> explorer \<Rightarrow> explorer" where
  "handleRenameSubmit oldPath newName ok s =
    (if trim newName = [] then s\<lparr>renaming := None\<rparr>
     else (mutate (RenameFile oldPath (trim newName)) ok True ''Renamed'' ''Rename failed'' s)\<lparr>renaming := None\<rparr>)"

text \<open>The rename field of a row: leaving it and Enter submit the typed name, Escape submits the
  name the file had.\<close>

datatype rename_key = RenameEnter | RenameEscape | RenameBlur

definition renameField :: "FileInfo \<Rightarrow> string \<Rightarrow> rename_key \<Rightarrow> bool \<Rightarrow> explorer \<Rightarrow> explorer" where
  "renameField file val k ok s =
    (case k of
       RenameEscape \<Rightarrow> handleRenameSubmit (fpath file) (fname file) ok s
     | _ \<Rightarrow> handleRenameSubmit (fpath file) val ok s)"

definition handleCopy :: "string list \<Rightarrow> explorer \<Rightarrow> explorer" where
  "handleCopy paths s = toast (show_nat (length paths) @ '' item(s) copied to clipboard'')
     (s\<lparr>clipboard := Some (paths, Copy), ctxMenu := None\<rparr>)"

definition handleCut :: "string list \<Rightarrow> explorer \<Rightarrow> explorer" where
  "handleCut paths s = toast (show_nat (length paths) @ '' item(s) cut to clipboard'')
     (s\<lparr>clipboard := Some (paths, Cut), ctxMenu := None\<rparr>)"

text \<open>Pasting issues one request per path; the results of the mutations come later.\<close>

definition paste_call :: "clip_op \<Rightarrow> string \<Rightarrow> string \<Rightarrow> files_call" where
  "paste_call op dir src = (let dst = joinPath dir (baseName src) in
     if op = Copy then CopyFile src dst else MoveFile src dst)"

definition handlePaste :: "explorer \<Rightarrow> explorer" where
  "handlePaste s =
    (case clipboard s of None \<Rightarrow> s
     | Some (paths, op) \<Rightarrow>
         (let s' = s\<lparr>calls := calls s @ map (paste_call op (currentPath s)) paths\<rparr> in
          if op = Cut then s'\<lparr>clipboard := None\<rparr> else s'))"

definition pasteSettled :: "clip_op \<Rightarrow> bool \<Rightarrow> explorer \<Rightarrow> explorer" where
  "pasteSettled op ok s =
    (if op = Copy then (if ok then toast ''Copied'' (refreshList s) else toast ''Copy failed'' s)
     else (if ok then toast ''Moved'' (refreshTree (refreshList s)) else toast ''Move failed'' s))"

definition handleDownload :: "string \<Rightarrow> string list \<Rightarrow> explorer \<Rightarrow> (string \<times> string) list \<times> explorer" where
  "handleDownload API_URL paths s =
     (map (\<lambda>p. (downloadUrl API_URL p, baseName p)) paths, s\<lparr>ctxMenu := None\<rparr>)"

definition handleContextMenu :: "nat \<Rightarrow> nat \<Rightarrow> FileInfo option \<Rightarrow> explorer \<Rightarrow> explorer" where
  "handleContextMenu x y file s = s\<lparr>ctxMenu := Some (x, y, file)\<rparr>"

definition clickOutside :: "explorer \<Rightarrow> explorer" where
  "clickOutside s = s\<lparr>ctxMenu := None\<rparr>"

definition handleSort :: "sort_key \<Rightarrow> explorer \<Rightarrow> explorer" where
  "handleSort key s =
    (if sortKey s = key then s\<lparr>sortDir := (if sortDir s = Asc then Desc else Asc)\<rparr>
     else s\<lparr>sortKey := key, sortDir := Asc\<rparr>)"

text \<open>The targets of the context menu: the selection when the file is part of a larger one.\<close>

definition contextTarget :: "explorer \<Rightarrow> string list" where
  "contextTarget s =
    (case ctxMenu s of
       Some (_, _, Some f) \<Rightarrow>
         if fpath f \<in> set (selected s) \<and> 1 < length (selected s) then selected s else [fpath f]
     | _ \<Rightarrow> selected s)"

definition closeEditor :: "explorer \<Rightarrow> explorer" where
  "closeEditor s = refreshList (s\<lparr>editingFile := None\<rparr>)"

definition applyChmod :: "string \<Rightarrow> bool \<Rightarrow> explorer \<Rightarrow> explorer" where
  "applyChmod mode ok s =
    (case chmodTarget s of None \<Rightarrow> s
     | Some f \<Rightarrow> (mutate (ChmodFile (fpath f) mode) ok False (''Permissions set to '' @ mode)
                    ''Failed to change permissions'' s)\<lparr>chmodTarget := None\<rparr>)"

definition handleExtract :: "FileInfo \<Rightarrow> bool \<Rightarrow> explorer \<Rightarrow> explorer" where
  "handleExtract f ok s =
     (mutate (ExtractFile (fpath f) None) ok False ''Extracted'' ''Extract failed'' s)\<lparr>ctxMenu := None\<rparr>"

text \<open>The row of a file opens the menu on it, selecting it alone when it is not selected.\<close>

definition rowContextMenu :: "nat \<Rightarrow> nat \<Rightarrow> FileInfo \<Rightarrow> explorer \<Rightarrow> explorer" where
  "rowContextMenu x y f s =
     handleContextMenu x y (Some f) (if fpath f \<in> set (selected s) then s else s\<lparr>selected := [fpath f]\<rparr>)"

section \<open>The context menu's entries\<close>

definition archive_exts :: "string list" where
  "archive_exts = [''zip'', ''tar'', ''gz'', ''bz2'', ''rar'', ''7z'']"

text \<open>The entries in order, with whether they are enabled.\<close>

definition menu_items :: "string list \<Rightarrow> FileInfo option \<Rightarrow> bool \<Rightarrow> (string \<times> bool) list" where
  "menu_items targets file hasClipboard =
    (let multi = 1 < length targets; hasFile = (file \<noteq> None);
         n = '' ('' @ show_nat (length targets) @ '')'';
         isArchive = (case file of None \<Rightarrow> False
           | Some f \<Rightarrow> (case extension f of None \<Rightarrow> [] | Some e \<Rightarrow> e) \<in> set archive_exts);
         opn = (case file of Some f \<Rightarrow> if is_dir f then ''Open'' else ''Edit'' | None \<Rightarrow> ''Edit'') in
     (if hasFile \<and> \<not> multi then [(opn, True), (''Download'', True), (''Rename'', True)] else []) @
     [(if multi then ''Copy'' @ n else ''Copy'', hasFile \<or> targets \<noteq> []),
      (if multi then ''Cut'' @ n else ''Cut'', hasFile \<or> targets \<noteq> [])] @
     (if hasClipboard then [(''Paste here'', True)] else []) @
     [(''Compress...'', targets \<noteq> [])] @
     (if hasFile \<and> isArchive then [(''Extract here'', True)] else []) @
     (if hasFile \<and> \<not> multi then [(''Permissions (chmod)'', True)] else []) @
     [(''New file'', True), (''New folder'', True),
      (if multi then ''Delete'' @ n else ''Delete'', targets \<noteq> [])])"

section \<open>Row icons\<close>

datatype icon = IFolder | ICode | IImage | IArchive | IAudio | IVideo | IText | IFile

definition FileIcon :: "FileInfo \<Rightarrow> icon" where
  "FileIcon f =
    (if is_dir f then IFolder
     else (let ext = ext_of f in
       if ext \<in> set [''ts'', ''tsx'', ''js'', ''jsx'', ''go'', ''py'', ''php'', ''rb'', ''rs'', ''java'', ''c'', ''cpp'',
            ''h'', ''sh'', ''bash''] then ICode
       else if ext \<in> set image_exts then IImage
       else if ext \<in> set [''zip'', ''tar'', ''gz'', ''bz2'', ''rar'', ''7z'', ''xz''] then IArchive
       else if ext \<in> set [''mp3'', ''wav'', ''ogg'', ''flac'', ''aac''] then IAudio
       else if ext \<in> set [''mp4'', ''webm'', ''mov'', ''avi'', ''mkv''] then IVideo
       else if ext \<in> set [''txt'', ''md'', ''log'', ''csv'', ''json'', ''yaml'', ''yml'', ''xml'', ''html'', ''htm'',
            ''css'', ''env'', ''conf'', ''ini'', ''htaccess''] \<or> startsWith (fname f) ''.'' then IText
       else IFile))"

section \<open>Sorting\<close>









section \<open>Selections\<close>

lemma nth_indexOf: "x \<in> set xs \<Longrightarrow> \<exists>k. indexOf xs x = int k \<and> k < length xs \<and> xs ! k = x"
  using indexOf_in [of x xs] by blast

lemma set_slice_range:
  assumes "i < length xs" and "j < length xs"
  shows "set (slice xs (min (int i) (int j)) (max (int i) (int j) + 1)) = {xs ! k |k. min i j \<le> k \<and> k \<le> max i j}"
proof -
  have "rel_index (length xs) (min (int i) (int j)) = min i j"
    "rel_index (length xs) (max (int i) (int j) + 1) = Suc (max i j)"
    using assms by (auto simp: rel_index_def min_def max_def)
  then have "slice xs (min (int i) (int j)) (max (int i) (int j) + 1) =
      take (Suc (max i j) - min i j) (drop (min i j) xs)"
    by (simp add: slice_def Let_def)
  also have "\<dots> = map ((!) xs) [min i j..<Suc (max i j)]"
    using assms by (intro nth_equalityI) (auto simp del: upt_Suc)
  finally have "set (slice xs (min (int i) (int j)) (max (int i) (int j) + 1)) = (!) xs ` {min i j..<Suc (max i j)}"
    by (simp del: upt_Suc)
  then show ?thesis by auto
qed

lemma slice_from_last:
  assumes "j < length xs"
  shows "set (slice xs (- 1) (int j + 1)) = (if Suc j = length xs then {last xs} else {})"
proof -
  have "rel_index (length xs) (- 1) = length xs - 1" "rel_index (length xs) (int j + 1) = Suc j"
    using assms by (auto simp: rel_index_def)
  then have "slice xs (- 1) (int j + 1) = take (Suc j - (length xs - 1)) (drop (length xs - 1) xs)"
    by (simp add: slice_def Let_def)
  moreover have "drop (length xs - 1) xs = [last xs]"
    using assms by (metis append_butlast_last_id append_eq_conv_conj length_butlast length_greater_0_conv less_zeroE list.size(3))
  ultimately show ?thesis using assms by (cases "Suc j = length xs") auto
qed

section \<open>Deleting\<close>

lemma calls_call [simp]: "calls (call c s) = calls s @ [c]" "invalidated (call c s) = invalidated s"
  "selected (call c s) = selected s" "currentPath (call c s) = currentPath s"
  by (simp_all add: call_def)

lemma delete_items_run:
  "delete_items ok ps s = (s', b) \<Longrightarrow>
   calls s' = calls s @ map DeleteFile (if list_all ok ps then ps else takeWhile ok ps @ [ps ! length (takeWhile ok ps)]) \<and>
   b = list_all ok ps \<and> invalidated s' = invalidated s \<and> selected s' = selected s \<and> currentPath s' = currentPath s"
  by (induction ok ps s rule: delete_items.induct) (auto split: if_splits)

section \<open>Properties\<close>




text \<open>A shift-click adds exactly the rows between the last clicked row and the clicked one
  to the selection, in either direction. When the last clicked row is no longer listed its index
  is -1, the slice starts at the last row, and the clicked row is not selected unless it is last.\<close>

theorem shift_click_range:
  assumes "j < length paths" and "distinct paths" and "l \<noteq> []"
  shows "set (fst (toggleSelect paths True ctrl (paths ! j) sel (Some l))) = set sel \<union>
    (if l \<in> set paths
     then (let i = nat (indexOf paths l) in {paths ! k |k. min i j \<le> k \<and> k \<le> max i j})
     else (if Suc j = length paths then {paths ! j} else {}))"
proof -
  obtain k where k: "indexOf paths (paths ! j) = int k" "k < length paths" "paths ! k = paths ! j"
    using nth_indexOf [of "paths ! j" paths] assms(1) by auto
  then have kj: "indexOf paths (paths ! j) = int j" using assms(1,2) nth_eq_iff_index_eq by metis
  show ?thesis
  proof (cases "l \<in> set paths")
    case True
    then obtain i where i: "indexOf paths l = int i" "i < length paths" using nth_indexOf [of l paths] by auto
    with True kj assms show ?thesis using set_slice_range [of i paths j] by (simp add: toggleSelect_def Let_def)
  next
    case False
    have "last paths = paths ! j" if "Suc j = length paths"
      using that by (metis diff_Suc_1 last_conv_nth length_0_conv nat.distinct(1))
    with False kj assms slice_from_last [OF assms(1)] show ?thesis
      by (auto simp: toggleSelect_def Let_def indexOf_notin min_def max_def)
  qed
qed

theorem shift_click_range_witness:
  "set (fst (toggleSelect [''/a'', ''/b'', ''/c''] True False ''/a'' [] (Some ''/old/x''))) = {}"
  using shift_click_range [of 0 "[''/a'', ''/b'', ''/c'']" "''/old/x''" False "[]"] by simp

text \<open>Deleting asks the server for the chosen paths in order up to the first that fails,
  and for nothing without a confirmation. Only when all succeed is the selection cleared and the
  list fetched again: after a partial failure the list still shows what is gone.\<close>

theorem delete_in_order:
  "calls (handleDelete (Some ps) confirmed ok s) = calls s @ map DeleteFile
     (if \<not> confirmed then [] else if list_all ok ps then ps else takeWhile ok ps @ [ps ! length (takeWhile ok ps)]) \<and>
   (invalidated (handleDelete (Some ps) confirmed ok s) =
      (if confirmed \<and> ps \<noteq> [] \<and> list_all ok ps then invalidated s @ [currentPath s, ''files-tree''] else invalidated s)) \<and>
   selected (handleDelete (Some ps) confirmed ok s) =
      (if confirmed \<and> ps \<noteq> [] \<and> list_all ok ps then [] else selected s)"
proof -
  obtain s' b where d: "delete_items ok ps s = (s', b)" by (cases "delete_items ok ps s")
  show ?thesis
    using delete_items_run [OF d] d
    by (cases b) (auto simp: handleDelete_def deleteMutation_def toast_def refreshList_def refreshTree_def)
qed

text \<open>Property C26: pasting what was cut moves each path under the current directory once: every path is
  sent to the entry of its own name there, and the clipboard is empty afterwards, so a second paste
  asks for nothing; what was copied can be pasted again.\<close>

theorem paste_moves_once:
  assumes "list_all name_ok cur" and "list_all (\<lambda>(d, n). list_all name_ok d \<and> name_ok n) srcs"
    and "currentPath s = path_of cur" and "ps = map (\<lambda>(d, n). path_of (d @ [n])) srcs"
  shows "calls (handlePaste (handlePaste (handleCut ps s))) =
      calls s @ map (\<lambda>(d, n). MoveFile (path_of (d @ [n])) (path_of (cur @ [n]))) srcs \<and>
    handlePaste (handlePaste (handleCut ps s)) = handlePaste (handleCut ps s) \<and>
    calls (handlePaste (handlePaste (handleCopy ps s))) =
      (let once = map (\<lambda>(d, n). CopyFile (path_of (d @ [n])) (path_of (cur @ [n]))) srcs in calls s @ once @ once)"
proof -
  have "paste_call op (path_of cur) (path_of (d @ [n])) =
      (if op = Copy then CopyFile else MoveFile) (path_of (d @ [n])) (path_of (cur @ [n]))"
    if "(d, n) \<in> set srcs" for d n op
  proof -
    have "list_all name_ok d" "CHR ''/'' \<notin> set n" using that assms(2) by (auto simp: list_all_iff name_ok_def)
    then show ?thesis using assms(1) by (simp add: paste_call_def baseName_path_of joinPath_path_of)
  qed
  then show ?thesis
    using assms(3,4) by (auto simp: handlePaste_def handleCut_def handleCopy_def toast_def Let_def)
qed

theorem paste_moves_once_witness:
  "calls (handlePaste (handleCut [''/tmp/a.txt''] (explorer_init ''/var/www''))) =
     [MoveFile ''/tmp/a.txt'' ''/var/www/a.txt'']"
proof -
  let ?s = "explorer_init ''/var/www''"
  have pre: "list_all name_ok [''var'', ''www'']"
    "list_all (\<lambda>(d, n). list_all name_ok d \<and> name_ok n) [([''tmp''], ''a.txt'')]"
    "currentPath ?s = path_of [''var'', ''www'']"
    "[''/tmp/a.txt''] = map (\<lambda>(d, n). path_of (d @ [n])) [([''tmp''], ''a.txt'')]"
    by (simp_all add: name_ok_def path_of_def explorer_init_def)
  note twice = paste_moves_once [OF pre]
  have "calls (handlePaste (handleCut [''/tmp/a.txt''] ?s)) =
      calls ?s @ map (\<lambda>(d, n). MoveFile (path_of (d @ [n])) (path_of ([''var'', ''www''] @ [n]))) [([''tmp''], ''a.txt'')]"
    using twice by metis
  then show ?thesis by (simp add: path_of_def explorer_init_def)
qed

text \<open>Escape in the rename field does not cancel: it sends a rename to the name the file
  already has, whatever was typed.\<close>

theorem rename_escape_sends:
  assumes "trim (fname f) \<noteq> []"
  shows "calls (renameField f val RenameEscape ok s) = calls s @ [RenameFile (fpath f) (trim (fname f))]"
  using assms by (auto simp: renameField_def handleRenameSubmit_def mutate_def Let_def toast_def
      refreshList_def refreshTree_def)

theorem rename_escape_sends_witness:
  "calls (renameField \<lparr>fname = ''a'', fpath = ''/a'', fsize = 0, is_dir = False, fmode = ''-rw-r--r--'',
     modified_at = [], mime_type = None, extension = None\<rparr> ''b'' RenameEscape True (explorer_init ''/'')) =
   [RenameFile ''/a'' ''a'']"
proof -
  have "trim ''a'' = ''a''" by code_simp
  then show ?thesis
    using rename_escape_sends [of "\<lparr>fname = ''a'', fpath = ''/a'', fsize = 0, is_dir = False,
      fmode = ''-rw-r--r--'', modified_at = [], mime_type = None, extension = None\<rparr>" "''b''" True
      "explorer_init ''/''"] by (simp add: explorer_init_def)
qed

end
