(* ===== verification/FileNavigation.thy ===== *)
theory FileNavigation
  imports FileExplorer
begin

text \<open>
  Moving about in the file manager: the controls of components/files/FileToolbar.tsx and the rows of
  FileList.tsx, on the state of the explorer. The explorer keeps a path as a text; what it means is
  the list of directories on the way, and every control is an operation on that list.
\<close>

section \<open>The controls\<close>




section \<open>What they mean\<close>






lemma parts_nil [simp]: "parts [] = []" "parts ''/'' = []"
  by (simp_all add: parts_def filter_Boolean_def)

lemma parts_name [simp]: "name_ok n \<Longrightarrow> parts n = [n]"
  by (simp add: parts_def name_ok_def split_on_plain filter_Boolean_def)








lemma length_crumbs [simp]: "length (pathCrumbs p) = length (parts p)"
  by (simp add: pathCrumbs_def Let_def)




lemma currentPath_simps [simp]:
  "currentPath (goTo p s) = p" "currentPath (refreshList s) = currentPath s"
  "\<not> is_dir f \<Longrightarrow> currentPath (handleOpen f content s) = currentPath s"
  "is_dir f \<Longrightarrow> handleOpen f content s = goTo (fpath f) s"
  by (simp_all add: goTo_def refreshList_def handleOpen_def call_def toast_def Let_def split: option.splits)


section \<open>The refinement\<close>





end
