(* ===== verification/FileDialogs.thy ===== *)
theory FileDialogs
  imports FileExplorer
begin

text \<open>
  The dialogs of the file manager: permissions (ChmodDialog.tsx), upload (FileUpload.tsx),
  compression (CompressDialog.tsx), the editor (CodeEditor.tsx) and the preview
  (PreviewModal.tsx).
\<close>

section \<open>ChmodDialog.tsx\<close>

record perm =
  p_read :: bool
  p_write :: bool
  p_execute :: bool

type_synonym perms = "perm \<times> perm \<times> perm"

definition char_at :: "string \<Rightarrow> nat \<Rightarrow> char option" where
  "char_at s i = (if i < length s then Some (s ! i) else None)"

definition parse_chunk :: "string \<Rightarrow> perm" where
  "parse_chunk chunk = \<lparr>p_read = (char_at chunk 0 = Some (CHR ''r'')), p_write = (char_at chunk 1 = Some (CHR ''w'')),
     p_execute = (char_at chunk 2 = Some (CHR ''x'') \<or> char_at chunk 2 = Some (CHR ''s'') \<or>
       char_at chunk 2 = Some (CHR ''t''))\<rparr>"

text \<open>\<open>modeStr.replace(/^[d\-lscbp]/, '')\<close>.\<close>

definition strip_type :: "string \<Rightarrow> string" where
  "strip_type s = (case s of c # t \<Rightarrow> if c \<in> set ''d-lscbp'' then t else s | [] \<Rightarrow> [])"

definition parseMode :: "string \<Rightarrow> perms" where
  "parseMode s = (let t = strip_type s in
     (parse_chunk (slice t 0 3), parse_chunk (slice t 3 6), parse_chunk (slice t 6 9)))"

definition permToOctal :: "perm \<Rightarrow> nat" where
  "permToOctal p = (if p_read p then 4 else 0) + (if p_write p then 2 else 0) + (if p_execute p then 1 else 0)"

definition octal :: "perms \<Rightarrow> string" where
  "octal = (\<lambda>(u, g, t). show_nat (permToOctal u) @ show_nat (permToOctal g) @ show_nat (permToOctal t))"

definition modeStr :: "perm \<Rightarrow> string" where
  "modeStr p = (if p_read p then ''r'' else ''-'') @ (if p_write p then ''w'' else ''-'') @
     (if p_execute p then ''x'' else ''-'')"

text \<open>\<open>n & 4\<close>, \<open>n & 2\<close> and \<open>n & 1\<close> of a digit.\<close>

definition toPerm :: "nat \<Rightarrow> perm" where
  "toPerm n = \<lparr>p_read = odd (n div 4), p_write = odd (n div 2), p_execute = odd n\<rparr>"

definition setFromOctal :: "string \<Rightarrow> perms \<Rightarrow> perms" where
  "setFromOctal s ps =
    (if length s = 3 \<and> list_all is_digit s
     then (toPerm (digit_value (s ! 0)), toPerm (digit_value (s ! 1)), toPerm (digit_value (s ! 2)))
     else ps)"

definition PRESETS :: "string list" where
  "PRESETS = [''644'', ''755'', ''600'', ''777'', ''400'', ''664'']"

lemma permToOctal_less: "permToOctal p < 8"
  by (simp add: permToOctal_def)

lemma show_digit [simp]: "n < 10 \<Longrightarrow> show_nat n = [digit n]"
  by (subst show_nat.simps) simp

lemma toPerm_octal [simp]: "toPerm (permToOctal p) = p"
  by (cases p) (auto simp: toPerm_def permToOctal_def)

lemma setFromOctal_octal: "setFromOctal (octal ps) qs = ps"
proof -
  obtain u g t where "ps = (u, g, t)" by (cases ps)
  moreover have "permToOctal p < 10" for p using permToOctal_less [of p] by simp
  ultimately show ?thesis by (simp add: octal_def setFromOctal_def)
qed

lemma length_modeStr [simp]: "length (modeStr p) = 3"
  by (simp add: modeStr_def)

lemma parse_modeStr: "parse_chunk (modeStr p) = p"
  by (cases p) (auto simp: parse_chunk_def modeStr_def char_at_def)

lemma slice_mid: "0 \<le> a \<Longrightarrow> a \<le> b \<Longrightarrow> b \<le> int (length xs) \<Longrightarrow> slice xs a b = take (nat (b - a)) (drop (nat a) xs)"
  by (simp add: slice_def rel_index_def Let_def nat_diff_distrib)

lemma parseMode_modeStr:
  "c \<in> set ''d-lscbp'' \<Longrightarrow> parseMode (c # modeStr u @ modeStr g @ modeStr t) = (u, g, t)"
  by (auto simp: parseMode_def strip_type_def slice_mid parse_modeStr Let_def)

section \<open>FileUpload.tsx\<close>

datatype upload_status = Pending | Uploading | UploadDone | UploadError

record upload_item =
  file_id :: nat
  upload_status :: upload_status

definition addFiles :: "nat list \<Rightarrow> upload_item list \<Rightarrow> upload_item list" where
  "addFiles new prev = prev @ map (\<lambda>f. \<lparr>file_id = f, upload_status = Pending\<rparr>) new"

definition mark :: "nat list \<Rightarrow> upload_status \<Rightarrow> upload_item list \<Rightarrow> upload_item list" where
  "mark batch st files = map (\<lambda>f. if file_id f \<in> set batch then f\<lparr>upload_status := st\<rparr> else f) files"

definition pending :: "upload_item list \<Rightarrow> nat list" where
  "pending files = map file_id (filter (\<lambda>f. upload_status f = Pending) files)"

text \<open>The loop \<open>for (i = 0; i < pending.length; i += 5)\<close> by the batches it takes.\<close>

function batches :: "nat list \<Rightarrow> nat list list" where
  "batches fs = (if fs = [] then [] else take 5 fs # batches (drop 5 fs))"
  by auto
termination by (relation "measure length") auto

declare batches.simps [simp del]

text \<open>One batch: its files are shown as uploading, sent, and marked by the outcome.\<close>

definition upload_batch :: "(nat list \<Rightarrow> bool) \<Rightarrow> nat list \<Rightarrow> upload_item list \<Rightarrow> upload_item list" where
  "upload_batch ok batch files =
     mark batch (if ok batch then UploadDone else UploadError) (mark batch Uploading files)"

definition upload :: "(nat list \<Rightarrow> bool) \<Rightarrow> upload_item list \<Rightarrow> nat list list \<times> upload_item list" where
  "upload ok files =
    (if files = [] then ([], files)
     else (let bs = batches (pending files) in (bs, fold (upload_batch ok) bs files)))"

definition allDone :: "upload_item list \<Rightarrow> bool" where
  "allDone files \<longleftrightarrow> 0 < length files \<and>
     list_all (\<lambda>f. upload_status f = UploadDone \<or> upload_status f = UploadError) files"

lemma concat_batches: "concat (batches fs) = fs"
proof (induction fs rule: batches.induct)
  case (1 fs)
  then show ?case by (cases "fs = []") (simp_all add: batches.simps [of "[]"] batches.simps [of fs])
qed

lemma batches_size: "b \<in> set (batches fs) \<Longrightarrow> b \<noteq> [] \<and> length b \<le> 5"
proof (induction fs rule: batches.induct)
  case (1 fs)
  then show ?case by (subst (asm) (2) batches.simps) (auto split: if_splits)
qed

lemma mark_eq: "mark b st2 (mark b st1 fs) = mark b st2 fs"
  by (auto simp: mark_def)

lemma fold_upload:
  "fold (upload_batch ok) bs files = map (\<lambda>f. case find (\<lambda>b. file_id f \<in> set b) (rev bs) of
     None \<Rightarrow> f | Some b \<Rightarrow> f\<lparr>upload_status := (if ok b then UploadDone else UploadError)\<rparr>) files"
proof (induction bs rule: rev_induct)
  case (snoc b bs)
  then show ?case by (auto simp: upload_batch_def mark_eq mark_def split: option.splits)
qed simp

lemma distinct_concat_unique:
  "distinct (concat bs) \<Longrightarrow> b \<in> set bs \<Longrightarrow> b' \<in> set bs \<Longrightarrow> x \<in> set b \<Longrightarrow> x \<in> set b' \<Longrightarrow> b = b'"
  by (induction bs) auto

lemma find_SomeD: "find P xs = Some x \<Longrightarrow> x \<in> set xs \<and> P x"
  by (induction xs) (auto split: if_splits)

lemma pending_iff:
  assumes "distinct (map file_id files)" and "f \<in> set files"
  shows "file_id f \<in> set (pending files) \<longleftrightarrow> upload_status f = Pending"
proof -
  have inj: "inj_on file_id (set files)" using assms(1) by (simp add: distinct_map)
  have "f' = f" if "f' \<in> set files" "file_id f = file_id f'" for f'
    using inj_onD [OF inj that(2) assms(2) that(1)] by simp
  with assms(2) show ?thesis unfolding pending_def set_map set_filter image_iff by blast
qed

lemma upload_item_status:
  assumes "distinct (map file_id files)" and "f \<in> set files"
  shows "(case find (\<lambda>b. file_id f \<in> set b) (rev (batches (pending files))) of
       None \<Rightarrow> f | Some b \<Rightarrow> f\<lparr>upload_status := (if ok b then UploadDone else UploadError)\<rparr>) =
    (if upload_status f = Pending
     then f\<lparr>upload_status := (if \<exists>b \<in> set (batches (pending files)). file_id f \<in> set b \<and> ok b
       then UploadDone else UploadError)\<rparr> else f)"
proof -
  define bs where "bs = batches (pending files)"
  have d: "distinct (concat bs)"
    using assms(1) by (simp add: bs_def concat_batches pending_def distinct_map_filter)
  have mem: "(\<exists>b \<in> set bs. file_id f \<in> set b) \<longleftrightarrow> upload_status f = Pending"
    using pending_iff [OF assms] concat_batches [of "pending files"]
    unfolding bs_def by (metis UN_iff set_concat)
  show ?thesis unfolding bs_def [symmetric]
  proof (cases "find (\<lambda>b. file_id f \<in> set b) (rev bs)")
    case None
    with mem have "upload_status f \<noteq> Pending" by (auto simp: find_None_iff)
    with None show "(case find (\<lambda>b. file_id f \<in> set b) (rev bs) of
       None \<Rightarrow> f | Some b \<Rightarrow> f\<lparr>upload_status := (if ok b then UploadDone else UploadError)\<rparr>) =
      (if upload_status f = Pending then f\<lparr>upload_status := (if \<exists>b \<in> set bs. file_id f \<in> set b \<and> ok b
       then UploadDone else UploadError)\<rparr> else f)" by simp
  next
    case (Some b)
    then have b: "b \<in> set bs" "file_id f \<in> set b" using find_SomeD by fastforce+
    then have "upload_status f = Pending" using mem by blast
    moreover have "(\<exists>b \<in> set bs. file_id f \<in> set b \<and> ok b) \<longleftrightarrow> ok b"
      using b distinct_concat_unique [OF d b(1) _ b(2)] by blast
    ultimately show "(case find (\<lambda>b. file_id f \<in> set b) (rev bs) of
       None \<Rightarrow> f | Some b \<Rightarrow> f\<lparr>upload_status := (if ok b then UploadDone else UploadError)\<rparr>) =
      (if upload_status f = Pending then f\<lparr>upload_status := (if \<exists>b \<in> set bs. file_id f \<in> set b \<and> ok b
       then UploadDone else UploadError)\<rparr> else f)" using Some by simp
  qed
qed

section \<open>CompressDialog.tsx\<close>

definition handleCompress :: "string list \<Rightarrow> string \<Rightarrow> string \<Rightarrow> archive_format \<Rightarrow> files_call option" where
  "handleCompress paths dir name format =
    (if trim name = [] then None
     else Some (CompressFiles paths (outputPath dir name (format_name format)) format))"

section \<open>CodeEditor.tsx\<close>

definition languages :: "(string \<times> string) list" where
  "languages =
    [(''ts'', ''typescript''), (''tsx'', ''typescript''), (''js'', ''javascript''), (''jsx'', ''javascript''),
     (''go'', ''go''), (''py'', ''python''), (''php'', ''php''), (''rb'', ''ruby''), (''rs'', ''rust''),
     (''java'', ''java''), (''c'', ''c''), (''cpp'', ''cpp''), (''h'', ''c''),
     (''html'', ''html''), (''css'', ''css''), (''scss'', ''scss''), (''less'', ''less''),
     (''json'', ''json''), (''yaml'', ''yaml''), (''yml'', ''yaml''), (''toml'', ''toml''),
     (''xml'', ''xml''), (''md'', ''markdown''), (''sh'', ''shell''), (''bash'', ''shell''),
     (''sql'', ''sql''), (''conf'', ''ini''), (''ini'', ''ini''), (''env'', ''ini''), (''nginx'', ''nginx'')]"

text \<open>\<open>None\<close> when the extension names an inherited property and the result is no string.\<close>

definition getLanguage :: "string \<Rightarrow> string option" where
  "getLanguage path =
    (case obj_get languages (toLowerCase (last (split_on (CHR ''.'') path))) of
       Own l \<Rightarrow> Some l | Missing \<Rightarrow> Some ''plaintext'' | Inherited \<Rightarrow> None)"

text \<open>The editor with the file as the server has it and the content of a save under way.\<close>

record editor =
  content :: string
  isDirty :: bool
  initialContent :: string
  saving :: "string option"
  on_disk :: string

definition editor_open :: "string \<Rightarrow> editor" where
  "editor_open c = \<lparr>content = c, isDirty = False, initialContent = c, saving = None, on_disk = c\<rparr>"

datatype editor_event = Edit string | Save | SaveOk | SaveFailed

fun editor_step :: "editor_event \<Rightarrow> editor \<Rightarrow> editor" where
  "editor_step (Edit v) s = s\<lparr>content := v, isDirty := (v \<noteq> initialContent s)\<rparr>"
| "editor_step Save s = (if isDirty s \<and> saving s = None then s\<lparr>saving := Some (content s)\<rparr> else s)"
| "editor_step SaveOk s = (case saving s of None \<Rightarrow> s
     | Some c \<Rightarrow> s\<lparr>saving := None, on_disk := c, isDirty := False\<rparr>)"
| "editor_step SaveFailed s = s\<lparr>saving := None\<rparr>"

text \<open>Closing asks only when the content is marked as changed; the result says whether it closes.\<close>

definition handleClose :: "bool \<Rightarrow> editor \<Rightarrow> bool" where
  "handleClose confirmed s \<longleftrightarrow> \<not> (isDirty s \<and> \<not> confirmed)"

section \<open>PreviewModal.tsx\<close>

datatype preview_type = PImage | PText | PHtml | PUnsupported

definition getPreviewType :: "FileInfo \<Rightarrow> preview_type" where
  "getPreviewType f =
    (let ext = ext_of f in
     if ext \<in> set image_exts then PImage
     else if ext \<in> set [''html'', ''htm''] then PHtml
     else if ext \<in> set [''txt'', ''md'', ''log'', ''csv'', ''json'', ''yaml'', ''yml'', ''xml'', ''env'', ''conf'', ''ini'',
            ''js'', ''ts'', ''tsx'', ''jsx'', ''go'', ''py'', ''php'', ''sh'', ''bash'', ''sql''] \<or>
          startsWith (fname f) ''.'' then PText
     else PUnsupported)"

record image_view =
  zoom :: rat
  rotation :: nat

datatype image_event = ZoomOut | ZoomIn | Rotate | ResetView

fun image_step :: "image_event \<Rightarrow> image_view \<Rightarrow> image_view" where
  "image_step ZoomOut v = v\<lparr>zoom := max (1 / 10) (zoom v - 1 / 4)\<rparr>"
| "image_step ZoomIn v = v\<lparr>zoom := min 5 (zoom v + 1 / 4)\<rparr>"
| "image_step Rotate v = v\<lparr>rotation := (rotation v + 90) mod 360\<rparr>"
| "image_step ResetView v = v\<lparr>zoom := 1, rotation := 0\<rparr>"

definition image_inv :: "image_view \<Rightarrow> bool" where
  "image_inv v \<longleftrightarrow> 1 / 10 \<le> zoom v \<and> zoom v \<le> 5 \<and> rotation v < 360 \<and> 90 dvd rotation v"

lemma image_step_inv: "image_inv v \<Longrightarrow> image_inv (image_step e v)"
proof (cases e)
  case Rotate
  with dvd_mod [of 90 "rotation v + 90" 360] show "image_inv v \<Longrightarrow> ?thesis" by (simp add: image_inv_def)
qed (auto simp: image_inv_def)

interpretation image: component image_step image_inv
  by unfold_locales (rule image_step_inv)

section \<open>Properties\<close>

text \<open>Property C31: the permission dialog's two notations agree: a mode string in the form the dialog
  itself prints, after any of the type letters it knows, is read back to the same permissions, and
  so is the octal form.\<close>

theorem chmod_roundtrip:
  assumes "c \<in> set ''d-lscbp''"
  shows "parseMode (c # modeStr u @ modeStr g @ modeStr t) = (u, g, t) \<and>
    setFromOctal (octal (parseMode (c # modeStr u @ modeStr g @ modeStr t))) ps = (u, g, t)"
  using parseMode_modeStr [OF assms] setFromOctal_octal by simp

theorem chmod_roundtrip_witness:
  "octal (parseMode ''-rwxr-xr--'') = ''754'' \<and> parseMode ''-rwxr-xr--'' = setFromOctal ''754'' (toPerm 0, toPerm 0, toPerm 0)"
proof -
  have *: "octal (parseMode ''-rwxr-xr--'') = ''754''" by code_simp
  show ?thesis
    using chmod_roundtrip [of "CHR ''-''" "toPerm 7" "toPerm 5" "toPerm 4" "(toPerm 0, toPerm 0, toPerm 0)"] *
    by (simp add: modeStr_def toPerm_def)
qed

text \<open>The mode of a sticky directory as the file service prints it, with \<open>dt\<close> in front,
  is shifted by one: whatever its permissions are, the dialog shows none, and applying it unchanged
  would take every permission away.\<close>

theorem chmod_misreads_sticky:
  "octal (parseMode (''dt'' @ modeStr u @ modeStr g @ modeStr t)) = ''000''"
proof -
  have shape: "\<exists>a b c. modeStr p = [a, b, c] \<and> (a = CHR ''r'' \<or> a = CHR ''-'') \<and>
      (b = CHR ''w'' \<or> b = CHR ''-'') \<and> (c = CHR ''x'' \<or> c = CHR ''-'')" for p
    by (auto simp: modeStr_def)
  have none: "permToOctal (parse_chunk [a, b, c]) = 0"
    if "a \<noteq> CHR ''r''" "b \<noteq> CHR ''w''" "c \<noteq> CHR ''x''" "c \<noteq> CHR ''s''" "c \<noteq> CHR ''t''" for a b c
    using that by (simp add: parse_chunk_def char_at_def permToOctal_def)
  obtain a1 b1 c1 a2 b2 c2 a3 b3 c3 where m: "modeStr u = [a1, b1, c1]" "modeStr g = [a2, b2, c2]" "modeStr t = [a3, b3, c3]"
    and c: "a1 = CHR ''r'' \<or> a1 = CHR ''-''" "b1 = CHR ''w'' \<or> b1 = CHR ''-''" "c1 = CHR ''x'' \<or> c1 = CHR ''-''"
      "a2 = CHR ''r'' \<or> a2 = CHR ''-''" "b2 = CHR ''w'' \<or> b2 = CHR ''-''" "c2 = CHR ''x'' \<or> c2 = CHR ''-''"
      "a3 = CHR ''r'' \<or> a3 = CHR ''-''" "b3 = CHR ''w'' \<or> b3 = CHR ''-''" "c3 = CHR ''x'' \<or> c3 = CHR ''-''"
    using shape [of u] shape [of g] shape [of t] by blast
  have "permToOctal (parse_chunk [CHR ''t'', a1, b1]) = 0" "permToOctal (parse_chunk [c1, a2, b2]) = 0"
    "permToOctal (parse_chunk [c2, a3, b3]) = 0"
    using c by (auto intro!: none)
  moreover have zero: "digit 0 = CHR ''0''" by code_simp
  ultimately show ?thesis
    by (simp add: m parseMode_def strip_type_def slice_mid octal_def Let_def zero)
qed

text \<open>Property C30: an upload sends every pending file exactly once, in order, in batches of at most
  five, leaves no file pending or uploading, marks the files of a batch by its outcome and touches
  no other file.\<close>

theorem upload_each_once:
  assumes "distinct (map file_id files)" and "\<forall>f \<in> set files. upload_status f \<noteq> Uploading"
  shows "concat (fst (upload ok files)) = pending files \<and>
    (\<forall>b \<in> set (fst (upload ok files)). b \<noteq> [] \<and> length b \<le> 5) \<and>
    map file_id (snd (upload ok files)) = map file_id files \<and> pending (snd (upload ok files)) = [] \<and>
    (\<forall>i < length files. upload_status (snd (upload ok files) ! i) =
      (if upload_status (files ! i) = Pending
       then (if \<exists>b \<in> set (fst (upload ok files)). file_id (files ! i) \<in> set b \<and> ok b then UploadDone else UploadError)
       else upload_status (files ! i)))"
proof (cases "files = []")
  case True
  then show ?thesis by (simp add: upload_def pending_def)
next
  case False
  let ?bs = "batches (pending files)"
  let ?new = "\<lambda>f. if upload_status f = Pending
     then f\<lparr>upload_status := (if \<exists>b \<in> set ?bs. file_id f \<in> set b \<and> ok b then UploadDone else UploadError)\<rparr> else f"
  have "upload ok files = (?bs, map ?new files)"
    using False upload_item_status [OF assms(1)] by (simp add: upload_def fold_upload Let_def)
  moreover have "pending (map ?new files) = []"
    by (auto simp: pending_def filter_empty_conv split: if_splits)
  moreover have "map file_id (map ?new files) = map file_id files" by simp
  ultimately show ?thesis using concat_batches batches_size by (simp add: Let_def)
qed

theorem upload_each_once_witness:
  "concat (fst (upload (\<lambda>b. length b = 5) (addFiles [1, 2, 3, 4, 5, 6, 7] []))) = [1, 2, 3, 4, 5, 6, 7]"
  using upload_each_once [of "addFiles [1, 2, 3, 4, 5, 6, 7] []" "\<lambda>b. length b = 5"]
  by (simp add: addFiles_def pending_def)

text \<open>The editor compares with the content it was opened with, not with what was saved:
  after saving a change, typing the original text again is not marked as a change, so it can not be
  saved and closing discards it without asking, although the file holds the other text.\<close>

theorem editor_misses_revert:
  assumes "v \<noteq> c"
  defines "s \<equiv> fold editor_step [Edit v, Save, SaveOk, Edit c] (editor_open c)"
  shows "on_disk s = v \<and> content s = c \<and> \<not> isDirty s \<and> handleClose False s \<and> editor_step Save s = s"
  using assms(1) unfolding s_def by (simp add: editor_open_def handleClose_def)

theorem editor_misses_revert_witness:
  "on_disk (fold editor_step [Edit ''b'', Save, SaveOk, Edit ''a''] (editor_open ''a'')) = ''b'' \<and>
   \<not> isDirty (fold editor_step [Edit ''b'', Save, SaveOk, Edit ''a''] (editor_open ''a''))"
  using editor_misses_revert [of "''b''" "''a''"] by blast

end
