(* ===== verification/Dns.thy ===== *)
theory Dns
  imports ApiServices
begin

text \<open>
  DNS records: the types and constants of types/dns.types.ts, the record form
  (components/dns/DNSRecordForm.tsx: its defaults, its validation schema and what submitting
  sends) and the record table (DNSRecordTable.tsx: the type buttons and the filter). The form
  library hands the values of the fields to the schema and the submit handler as they are.
\<close>

section \<open>dns.types.ts\<close>

datatype dns_type = T_A | T_AAAA | T_CNAME | T_MX | T_TXT | T_NS | T_SOA | T_SRV | T_CAA | T_PTR | T_NAPTR

fun dns_type_name :: "dns_type \<Rightarrow> string" where
  "dns_type_name T_A = ''A''"
| "dns_type_name T_AAAA = ''AAAA''"
| "dns_type_name T_CNAME = ''CNAME''"
| "dns_type_name T_MX = ''MX''"
| "dns_type_name T_TXT = ''TXT''"
| "dns_type_name T_NS = ''NS''"
| "dns_type_name T_SOA = ''SOA''"
| "dns_type_name T_SRV = ''SRV''"
| "dns_type_name T_CAA = ''CAA''"
| "dns_type_name T_PTR = ''PTR''"
| "dns_type_name T_NAPTR = ''NAPTR''"

record DNSRecord =
  rec_id :: string
  rec_zone :: string
  rec_name :: string
  rec_type :: dns_type
  rec_content :: string
  rec_ttl :: int
  rec_priority :: int
  rec_disabled :: bool

record DNSZone =
  zone_id :: string
  zone_name :: string
  zone_records :: "DNSRecord list option"

definition DNS_RECORD_TYPES :: "dns_type list" where
  "DNS_RECORD_TYPES = [T_A, T_AAAA, T_CNAME, T_MX, T_TXT, T_NS, T_SOA, T_SRV, T_CAA, T_PTR]"

definition DNS_TTL_OPTIONS :: "(string \<times> int) list" where
  "DNS_TTL_OPTIONS = [(''Auto (3600)'', 3600), (''1 minute'', 60), (''5 minutes'', 300), (''30 minutes'', 1800),
     (''1 hour'', 3600), (''6 hours'', 21600), (''12 hours'', 43200), (''1 day'', 86400)]"

section \<open>DNSRecordForm.tsx\<close>

text \<open>An emptied priority field is read as \<open>NaN\<close>, here \<open>None\<close>.\<close>

record form_data =
  f_name :: string
  f_type :: dns_type
  f_content :: string
  f_ttl :: int
  f_priority :: "int option"
  f_disabled :: bool

text \<open>The schema, by the fields it finds fault with; every type of the enumeration is allowed.\<close>

definition form_errors :: "form_data \<Rightarrow> string list" where
  "form_errors d =
    (if f_name d = [] then [''name''] else []) @ (if f_content d = [] then [''content''] else []) @
    (if 60 \<le> f_ttl d \<and> f_ttl d \<le> 86400 then [] else [''ttl'']) @
    (case f_priority d of None \<Rightarrow> [''priority''] | Some n \<Rightarrow> if 0 \<le> n then [] else [''priority''])"

definition default_values :: "DNSZone \<Rightarrow> DNSRecord option \<Rightarrow> form_data" where
  "default_values zone record =
    (case record of
       None \<Rightarrow> \<lparr>f_name = zone_name zone @ ''.'', f_type = T_A, f_content = [], f_ttl = 3600, f_priority = Some 0,
                f_disabled = False\<rparr>
     | Some r \<Rightarrow> \<lparr>f_name = rec_name r, f_type = rec_type r, f_content = rec_content r, f_ttl = rec_ttl r,
                  f_priority = Some (rec_priority r), f_disabled = rec_disabled r\<rparr>)"

definition showPriority :: "form_data \<Rightarrow> bool" where
  "showPriority d \<longleftrightarrow> f_type d = T_MX \<or> f_type d = T_SRV"

definition form_json :: "form_data \<Rightarrow> json" where
  "form_json d = JObj [(''name'', JStr (f_name d)), (''type'', JStr (dns_type_name (f_type d))),
     (''content'', JStr (f_content d)), (''ttl'', JNum (of_int (f_ttl d))),
     (''priority'', case f_priority d of None \<Rightarrow> JNull | Some n \<Rightarrow> JNum (of_int n)), (''disabled'', JBool (f_disabled d))]"

text \<open>\<open>handleSubmit(onSubmit)\<close>: the call made, or the fields with errors.\<close>

definition form_submit :: "DNSZone \<Rightarrow> DNSRecord option \<Rightarrow> form_data \<Rightarrow> string list + dns_call" where
  "form_submit zone record d =
    (if form_errors d \<noteq> [] then Inl (form_errors d)
     else Inr (case record of
       Some r \<Rightarrow> UpdateRecord (zone_id zone) (rec_id r) (form_json d)
     | None \<Rightarrow> CreateRecord (zone_id zone) (form_json d)))"

text \<open>What the user does in the fields: the type is fixed while a record is edited, the lists offer only
  their options, and the priority field is there for two types only.\<close>

datatype record_input = InName string | InType dns_type | InTtl int | InContent string | InPriority "int option" | InDisabled bool

fun fill_record :: "DNSRecord option \<Rightarrow> record_input \<Rightarrow> form_data \<Rightarrow> form_data" where
  "fill_record record (InName v) d = d\<lparr>f_name := v\<rparr>"
| "fill_record record (InType t) d = (if record = None \<and> t \<in> set DNS_RECORD_TYPES then d\<lparr>f_type := t\<rparr> else d)"
| "fill_record record (InTtl n) d = (if n \<in> snd ` set DNS_TTL_OPTIONS then d\<lparr>f_ttl := n\<rparr> else d)"
| "fill_record record (InContent v) d = d\<lparr>f_content := v\<rparr>"
| "fill_record record (InPriority n) d = (if showPriority d then d\<lparr>f_priority := n\<rparr> else d)"
| "fill_record record (InDisabled b) d = d\<lparr>f_disabled := b\<rparr>"

text \<open>The faults the form shows under its fields; there is no line for the other two.\<close>

definition shown_errors :: "form_data \<Rightarrow> string list" where
  "shown_errors d = filter (\<lambda>k. k \<in> {''name'', ''content''}) (form_errors d)"

section \<open>DNSRecordTable.tsx\<close>

definition table_records :: "DNSZone \<Rightarrow> DNSRecord list" where
  "table_records zone = (case zone_records zone of None \<Rightarrow> [] | Some rs \<Rightarrow> rs)"

text \<open>The type filter is \<open>all\<close> (\<open>None\<close>) or a type.\<close>

definition filter_records :: "dns_type option \<Rightarrow> string \<Rightarrow> DNSRecord list \<Rightarrow> DNSRecord list" where
  "filter_records typeFilter flt rs =
    filter (\<lambda>r. (typeFilter = None \<or> typeFilter = Some (rec_type r)) \<and>
      (flt = [] \<or> str_includes (toLowerCase (rec_name r)) (toLowerCase flt) \<or>
       str_includes (toLowerCase (rec_content r)) (toLowerCase flt))) rs"

text \<open>The buttons shown, with their counts.\<close>

definition type_buttons :: "DNSRecord list \<Rightarrow> (dns_type \<times> nat) list" where
  "type_buttons rs = filter (\<lambda>(t, n). n \<noteq> 0)
     (map (\<lambda>t. (t, length (filter (\<lambda>r. rec_type r = t) rs))) DNS_RECORD_TYPES)"

section \<open>Lemmas\<close>

lemma form_errors_Nil:
  "form_errors d = [] \<longleftrightarrow> f_name d \<noteq> [] \<and> f_content d \<noteq> [] \<and> 60 \<le> f_ttl d \<and> f_ttl d \<le> 86400 \<and>
     (\<exists>n. f_priority d = Some n \<and> 0 \<le> n)"
  by (cases "f_priority d") (auto simp: form_errors_def)

lemma listed_types: "t \<in> set DNS_RECORD_TYPES \<longleftrightarrow> t \<noteq> T_NAPTR"
  by (cases t) (simp_all add: DNS_RECORD_TYPES_def)

lemma distinct_types: "distinct DNS_RECORD_TYPES"
  by (simp add: DNS_RECORD_TYPES_def)

lemma sum_list_filter_zero: "sum_list (map f (filter (\<lambda>x. f x \<noteq> 0) xs)) = sum_list (map f (xs :: 'a list) :: nat list)"
  by (induction xs) auto

lemma sum_counts:
  "distinct ts \<Longrightarrow> sum_list (map (\<lambda>t. length (filter (\<lambda>r. rec_type r = t) rs)) ts) =
     length (filter (\<lambda>r. rec_type r \<in> set ts) rs)"
proof (induction rs)
  case (Cons r rs)
  have "sum_list (map (\<lambda>t. length (filter (\<lambda>r. rec_type r = t) (r # rs))) ts) =
      sum_list (map (\<lambda>t. length (filter (\<lambda>r. rec_type r = t) rs)) ts) + length (filter (\<lambda>t. rec_type r = t) ts)"
    by (induction ts) auto
  moreover have "length (filter (\<lambda>t. rec_type r = t) ts) = (if rec_type r \<in> set ts then 1 else 0)"
    using Cons.prems by (induction ts) (auto simp: filter_empty_conv)
  ultimately show ?case using Cons by simp
qed simp

text \<open>A priority emptied while the type was MX stays empty when the type is changed: the record cannot
  be sent any more, no field that could be corrected is shown, and no fault either.\<close>

lemma emptied_priority_stuck:
  assumes "f_name d \<noteq> []" "f_content d \<noteq> []" "f_ttl d \<in> {60..86400}"
  shows "let d' = fold (fill_record None) [InType T_MX, InPriority None, InType T_A] d in
    \<not> showPriority d' \<and> shown_errors d' = [] \<and> form_submit zone None d' = Inl [''priority'']"
proof -
  have "fold (fill_record None) [InType T_MX, InPriority None, InType T_A] d = d\<lparr>f_type := T_A, f_priority := None\<rparr>"
    by (simp add: listed_types showPriority_def)
  then show ?thesis using assms by (simp add: showPriority_def shown_errors_def form_submit_def form_errors_def)
qed

section \<open>Properties\<close>

text \<open>The form sends a record only when every field passes, always to the zone it was
  opened for, creating or updating by whether it edits a record; and saving an edit without a
  change sends the record's own values back.\<close>

theorem dns_form_submits:
  "form_submit zone record d =
    (if f_name d \<noteq> [] \<and> f_content d \<noteq> [] \<and> f_ttl d \<in> {60..86400} \<and> f_priority d \<noteq> None \<and> 0 \<le> the (f_priority d)
     then Inr (case record of None \<Rightarrow> CreateRecord (zone_id zone) (form_json d)
       | Some r \<Rightarrow> UpdateRecord (zone_id zone) (rec_id r) (form_json d))
     else Inl (form_errors d)) \<and>
   (form_errors (default_values zone (Some r)) = [] \<longrightarrow>
    form_submit zone (Some r) (default_values zone (Some r)) =
      Inr (UpdateRecord (zone_id zone) (rec_id r) (JObj [(''name'', JStr (rec_name r)),
        (''type'', JStr (dns_type_name (rec_type r))), (''content'', JStr (rec_content r)),
        (''ttl'', JNum (of_int (rec_ttl r))), (''priority'', JNum (of_int (rec_priority r))),
        (''disabled'', JBool (rec_disabled r))])))"
proof -
  have "form_errors d = [] \<longleftrightarrow> f_name d \<noteq> [] \<and> f_content d \<noteq> [] \<and> f_ttl d \<in> {60..86400} \<and> f_priority d \<noteq> None \<and> 0 \<le> the (f_priority d)"
    by (auto simp: form_errors_Nil)
  then show ?thesis by (simp add: form_submit_def form_json_def default_values_def)
qed

theorem dns_form_submits_witness:
  "\<exists>call. form_submit \<lparr>zone_id = ''z'', zone_name = ''example.com'', zone_records = None\<rparr> None
     \<lparr>f_name = ''example.com.'', f_type = T_A, f_content = ''192.0.2.1'', f_ttl = 60, f_priority = Some 0,
      f_disabled = False\<rparr> = Inr (CreateRecord ''z'' call)"
  using dns_form_submits [of "\<lparr>zone_id = ''z'', zone_name = ''example.com'', zone_records = None\<rparr>" None
     "\<lparr>f_name = ''example.com.'', f_type = T_A, f_content = ''192.0.2.1'', f_ttl = 60, f_priority = Some 0,
      f_disabled = False\<rparr>"] by simp

text \<open>The type buttons of the table count every record exactly once, except records of
  type NAPTR, which the form accepts but the list of types leaves out: no button shows them.\<close>

theorem dns_type_buttons:
  "sum_list (map snd (type_buttons rs)) = length (filter (\<lambda>r. rec_type r \<noteq> T_NAPTR) rs) \<and>
   T_NAPTR \<notin> fst ` set (type_buttons rs) \<and>
   (\<forall>(t, n) \<in> set (type_buttons rs). filter_records (Some t) [] rs = filter (\<lambda>r. rec_type r = t) rs \<and>
      n = length (filter_records (Some t) [] rs) \<and> n \<noteq> 0)"
proof -
  let ?n = "\<lambda>t. length (filter (\<lambda>r. rec_type r = t) rs)"
  have "map snd (type_buttons rs) = map ?n (filter (\<lambda>t. ?n t \<noteq> 0) DNS_RECORD_TYPES)"
    by (simp add: type_buttons_def filter_map o_def)
  then have "sum_list (map snd (type_buttons rs)) = length (filter (\<lambda>r. rec_type r \<in> set DNS_RECORD_TYPES) rs)"
    by (simp only: sum_list_filter_zero sum_counts [OF distinct_types])
  then have "sum_list (map snd (type_buttons rs)) = length (filter (\<lambda>r. rec_type r \<noteq> T_NAPTR) rs)"
    by (simp only: listed_types)
  moreover have "filter_records (Some t) [] rs = filter (\<lambda>r. rec_type r = t) rs" for t
    unfolding filter_records_def by (rule filter_cong) auto
  ultimately show ?thesis by (auto simp: type_buttons_def listed_types)
qed

theorem dns_type_buttons_witness:
  "type_buttons [\<lparr>rec_id = ''1'', rec_zone = ''z'', rec_name = ''e.'', rec_type = T_NAPTR, rec_content = ''x'',
     rec_ttl = 60, rec_priority = 0, rec_disabled = False\<rparr>] = []"
proof -
  let ?rs = "[\<lparr>rec_id = ''1'', rec_zone = ''z'', rec_name = ''e.'', rec_type = T_NAPTR, rec_content = ''x'',
     rec_ttl = 60, rec_priority = 0, rec_disabled = False\<rparr>]"
  have "sum_list (map snd (type_buttons ?rs)) = 0" "\<forall>(t, n) \<in> set (type_buttons ?rs). n \<noteq> 0"
    using dns_type_buttons [of ?rs] by auto
  then show ?thesis by (cases "type_buttons ?rs") auto
qed

end
