(* ===== verification/AuthPages.thy ===== *)
theory AuthPages
  imports ApiAuth AuthStore Format
begin

text \<open>
  Signing up and in: the registration form with its automatic slug (register/page.tsx), the
  set-up wizard (setup/page.tsx), login with a second factor (login/page.tsx), the code page
  (two-factor/page.tsx), the OAuth callback, and the password reset pages. Server responses are
  arguments of the handlers, in the type the API module gives them; \<open>parse\<close> is \<open>JSON.parse\<close>.
  Error toasts carry the server's message where there is one.
\<close>

section \<open>Slugs\<close>

definition slug_char :: "char \<Rightarrow> bool" where
  "slug_char c \<longleftrightarrow> is_lower c \<or> is_digit c"

text \<open>\<open>replace(/[^a-z0-9]+/g, '-')\<close>: a run of other characters becomes one hyphen.\<close>

fun collapse :: "bool \<Rightarrow> string \<Rightarrow> string" where
  "collapse inRun [] = []"
| "collapse inRun (c # s) =
     (if slug_char c then c # collapse False s
      else if inRun then collapse True s else CHR ''-'' # collapse True s)"

text \<open>\<open>replace(/^-|-$/g, '')\<close>.\<close>

definition strip_hyphens :: "string \<Rightarrow> string" where
  "strip_hyphens s =
    (let t = (case s of c # r \<Rightarrow> if c = CHR ''-'' then r else s | [] \<Rightarrow> []) in
     if t \<noteq> [] \<and> last t = CHR ''-'' then butlast t else t)"

definition autoSlug :: "string \<Rightarrow> string" where
  "autoSlug name = strip_hyphens (collapse False (toLowerCase name))"

text \<open>The wizard's \<open>replace(/[^a-z0-9]/g, '-')\<close>.\<close>

definition wizardSlug :: "string \<Rightarrow> string" where
  "wizardSlug name = map (\<lambda>c. if slug_char c then c else CHR ''-'') (toLowerCase name)"

section \<open>register/page.tsx\<close>

record register_form =
  orgName :: string
  orgSlug :: string
  r_email :: string
  r_username :: string
  r_password :: string

text \<open>The schema, by the fields with errors; \<open>email_ok\<close> is the validation library's.\<close>

definition register_errors :: "(string \<Rightarrow> bool) \<Rightarrow> register_form \<Rightarrow> string list" where
  "register_errors email_ok d =
    (if 2 \<le> length (orgName d) \<and> length (orgName d) \<le> 100 then [] else [''orgName'']) @
    (if 2 \<le> length (orgSlug d) \<and> length (orgSlug d) \<le> 50 \<and>
        list_all (\<lambda>c. slug_char c \<or> c = CHR ''-'') (orgSlug d) then [] else [''orgSlug'']) @
    (if email_ok (r_email d) then [] else [''email'']) @
    (if 3 \<le> length (r_username d) \<and> length (r_username d) \<le> 50 \<and>
        list_all (\<lambda>c. is_upper c \<or> slug_char c \<or> c = CHR ''_'' \<or> c = CHR ''-'') (r_username d)
     then [] else [''username'']) @
    (if 8 \<le> length (r_password d) \<and> list_ex is_upper (r_password d) \<and> list_ex is_digit (r_password d)
     then [] else [''password''])"

definition typeOrgName :: "string \<Rightarrow> register_form \<Rightarrow> register_form" where
  "typeOrgName v d = d\<lparr>orgName := v, orgSlug := autoSlug v\<rparr>"

section \<open>login/page.tsx\<close>

record login_response =
  resp_tokens :: "(string \<times> string) option"
  resp_mfaRequired :: bool
  resp_tempToken :: "string option"

record login_page =
  lp_auth :: auth_state
  mfaRequired :: bool
  tempToken :: string
  mfaCode :: string
  lp_calls :: "auth_call list"
  lp_route :: "string option"
  lp_toast :: string

definition login_page_init :: "auth_state \<Rightarrow> login_page" where
  "login_page_init a = \<lparr>lp_auth = a, mfaRequired = False, tempToken = [], mfaCode = [], lp_calls = [],
     lp_route = None, lp_toast = []\<rparr>"

definition signed_in :: "(string \<Rightarrow> json res) \<Rightarrow> string \<times> string \<Rightarrow> login_page \<Rightarrow> login_page" where
  "signed_in parse tk p = p\<lparr>lp_auth := setTokens parse (fst tk) (snd tk) (lp_auth p),
     lp_toast := ''Welcome back!'', lp_route := Some ''/dashboard''\<rparr>"

text \<open>\<open>onSubmit\<close> with the response, or the message of the failure when there is one.\<close>

definition login_submit ::
  "(string \<Rightarrow> json res) \<Rightarrow> string \<Rightarrow> string \<Rightarrow> string option + login_response \<Rightarrow> login_page \<Rightarrow> login_page" where
  "login_submit parse email password result p =
    (let p = p\<lparr>lp_calls := lp_calls p @ [Login email password]\<rparr> in
     case result of
       Inl m \<Rightarrow> p\<lparr>lp_toast := (case m of Some t \<Rightarrow> t | None \<Rightarrow> ''Login failed'')\<rparr>
     | Inr r \<Rightarrow>
         (case (if resp_mfaRequired r \<and> resp_tempToken r \<noteq> Some [] then resp_tempToken r else None) of
            Some t \<Rightarrow> p\<lparr>mfaRequired := True, tempToken := t\<rparr>
          | None \<Rightarrow> (case resp_tokens r of Some tk \<Rightarrow> signed_in parse tk p | None \<Rightarrow> p)))"

definition mfa_body :: "string \<Rightarrow> string \<Rightarrow> json" where
  "mfa_body session code = JObj [(''mfa_session_id'', JStr session), (''code'', JStr code)]"

definition typeMfaCode :: "string \<Rightarrow> login_page \<Rightarrow> login_page" where
  "typeMfaCode v p = (if mfaRequired p then p\<lparr>mfaCode := filter is_digit v\<rparr> else p)"

text \<open>The form of the second step is on the page only while \<open>mfaRequired\<close>, its button enabled
  with six digits.\<close>

definition mfa_submit :: "(string \<Rightarrow> json res) \<Rightarrow> string option + login_response \<Rightarrow> login_page \<Rightarrow> login_page" where
  "mfa_submit parse result p =
    (if mfaRequired p \<and> length (mfaCode p) = 6 then
       (let p = p\<lparr>lp_calls := lp_calls p @ [VerifyMFA (mfa_body (tempToken p) (mfaCode p))]\<rparr> in
        case result of
          Inl _ \<Rightarrow> p\<lparr>lp_toast := ''Invalid MFA code''\<rparr>
        | Inr r \<Rightarrow> (case resp_tokens r of Some tk \<Rightarrow> signed_in parse tk p | None \<Rightarrow> p))
     else p)"

datatype login_event =
    LoginSubmit string string "string option + login_response"
  | TypeMfaCode string
  | MfaSubmit "string option + login_response"
  | BackToLogin

fun login_step :: "(string \<Rightarrow> json res) \<Rightarrow> login_event \<Rightarrow> login_page \<Rightarrow> login_page" where
  "login_step parse (LoginSubmit e pw r) p = (if mfaRequired p then p else login_submit parse e pw r p)"
| "login_step parse (TypeMfaCode v) p = typeMfaCode v p"
| "login_step parse (MfaSubmit r) p = mfa_submit parse r p"
| "login_step parse BackToLogin p = p\<lparr>mfaRequired := False\<rparr>"

section \<open>two-factor/page.tsx\<close>

text \<open>\<open>loading\<close> disables the boxes and the button of the recovery code. \<open>submitted\<close> holds the
  requests sent; an answer is a rejection, or the tokens of the response when it has them.\<close>

record code_page =
  digit_boxes :: "string list"
  loading :: bool
  useBackup :: bool
  backupCode :: string
  submitted :: "auth_call list"
  cp_auth :: auth_state
  cp_route :: "string option"


text \<open>\<open>if (!sessionId)\<close>: the session of the address, absent or empty, ends a submission.\<close>

definition send_code :: "string option \<Rightarrow> (string \<Rightarrow> json) \<Rightarrow> code_page \<Rightarrow> code_page" where
  "send_code sessionId msg p = (case sessionId of
     None \<Rightarrow> p
   | Some s \<Rightarrow> if s = [] then p else p\<lparr>loading := True, submitted := submitted p @ [VerifyMFA (msg s)]\<rparr>)"

definition submit_code :: "string option \<Rightarrow> string \<Rightarrow> code_page \<Rightarrow> code_page" where
  "submit_code sessionId otp p = send_code sessionId (\<lambda>s. mfa_body s otp) p"

definition submitBackup :: "string option \<Rightarrow> code_page \<Rightarrow> code_page" where
  "submitBackup sessionId p = send_code sessionId (\<lambda>s. JObj [(''mfa_session_id'', JStr s),
     (''code'', JStr (backupCode p)), (''backup'', JBool True)]) p"

text \<open>What follows the \<open>await\<close> in both: \<open>resets\<close> says that a rejection empties the boxes.\<close>

definition code_answer ::
  "(string \<Rightarrow> json res) \<Rightarrow> bool \<Rightarrow> unit + (string \<times> string) option \<Rightarrow> code_page \<Rightarrow> code_page" where
  "code_answer parse resets r p = (case r of
     Inl _ \<Rightarrow> p\<lparr>digit_boxes := (if resets then [[], [], [], [], [], []] else digit_boxes p), loading := False\<rparr>
   | Inr tk \<Rightarrow> p\<lparr>cp_auth := (case tk of Some (t, rt) \<Rightarrow> setTokens parse t rt (cp_auth p) | None \<Rightarrow> cp_auth p),
       cp_route := Some ''/dashboard'', loading := False\<rparr>)"

text \<open>\<open>handleDigit\<close>: a value that is not empty or one digit is refused.\<close>

definition handleDigit :: "string option \<Rightarrow> nat \<Rightarrow> string \<Rightarrow> code_page \<Rightarrow> code_page" where
  "handleDigit sessionId index val p =
    (if length val \<le> 1 \<and> list_all is_digit val
     then (let next = (digit_boxes p)[index := val]; p = p\<lparr>digit_boxes := next\<rparr> in
           if list_all (\<lambda>d. d \<noteq> []) next then submit_code sessionId (concat next) p else p)
     else p)"

definition handlePasteCode :: "string option \<Rightarrow> string \<Rightarrow> code_page \<Rightarrow> code_page" where
  "handlePasteCode sessionId clip p =
    (let txt = slice (filter is_digit clip) 0 6 in
     if length txt = 6 then submit_code sessionId txt (p\<lparr>digit_boxes := map (\<lambda>c. [c]) txt\<rparr>) else p)"

datatype code_event =
    Digit nat string
  | PasteCode string
  | Answer bool "unit + (string \<times> string) option"
  | UseBackup bool
  | TypeBackup string
  | SubmitBackup

fun code_step :: "(string \<Rightarrow> json res) \<Rightarrow> string option \<Rightarrow> code_event \<Rightarrow> code_page \<Rightarrow> code_page" where
  "code_step parse session (Digit i v) p =
     (if i < 6 \<and> \<not> useBackup p \<and> \<not> loading p then handleDigit session i v p else p)"
| "code_step parse session (PasteCode t) p = (if useBackup p then p else handlePasteCode session t p)"
| "code_step parse session (Answer resets r) p = code_answer parse resets r p"
| "code_step parse session (UseBackup b) p = p\<lparr>useBackup := b\<rparr>"
| "code_step parse session (TypeBackup v) p = (if useBackup p then p\<lparr>backupCode := v\<rparr> else p)"
| "code_step parse session SubmitBackup p =
     (if useBackup p \<and> \<not> loading p \<and> backupCode p \<noteq> [] then submitBackup session p else p)"

section \<open>OAuth callback, password reset, forgotten password\<close>

text \<open>The route the callback page goes to and the session it leaves.\<close>

definition oauthCallback ::
  "(string \<Rightarrow> json res) \<Rightarrow> string option \<Rightarrow> string option \<Rightarrow> string option \<Rightarrow> auth_state \<Rightarrow> auth_state \<times> string" where
  "oauthCallback parse accessTok refreshTok err a =
    (case (if err = Some [] then None else err) of
       Some _ \<Rightarrow> (a, ''/login'')
     | None \<Rightarrow>
         (case (accessTok, refreshTok) of
            (Some t, Some r) \<Rightarrow>
              if t \<noteq> [] \<and> r \<noteq> [] then (setTokens parse t r a, ''/dashboard'') else (a, ''/login'')
          | _ \<Rightarrow> (a, ''/login'')))"

definition password_checks :: "string \<Rightarrow> bool list" where
  "password_checks pw = [8 \<le> length pw, list_ex is_upper pw, list_ex is_lower pw, list_ex is_digit pw,
     list_ex (\<lambda>c. \<not> (is_upper c \<or> is_lower c \<or> is_digit c)) pw]"

definition password_score :: "string \<Rightarrow> nat" where
  "password_score pw = length (filter id (password_checks pw))"

definition reset_valid :: "string \<Rightarrow> string \<Rightarrow> bool" where
  "reset_valid password confirm \<longleftrightarrow> 8 \<le> length password \<and> password = confirm"

definition reset_submit :: "string \<Rightarrow> string \<Rightarrow> string \<Rightarrow> auth_call option" where
  "reset_submit tok password confirm =
    (if \<not> reset_valid password confirm \<or> tok = [] then None else Some (ResetPassword tok password))"

definition forgot_submit :: "string \<Rightarrow> auth_call option" where
  "forgot_submit email = (if email = [] then None else Some (ForgotPassword email))"

section \<open>setup/page.tsx\<close>

record account_form =
  a_orgName :: string
  a_orgSlug :: string
  a_email :: string
  a_username :: string
  a_password :: string
  a_confirm :: string

record notif_form =
  n_email :: bool
  n_slack :: bool
  n_slackUrl :: string
  n_telegram :: bool
  n_telegramId :: string

datatype wizard_call = WizardRegister json | SavePreferences json

record wizard =
  step :: nat
  account :: account_form
  srv_hostname :: string
  srv_ip :: string
  notif :: notif_form
  su_auth :: auth_state
  su_calls :: "wizard_call list"

definition register_body :: "account_form \<Rightarrow> json" where
  "register_body a = JObj
    [(''orgName'', JStr (a_orgName a)),
     (''orgSlug'', JStr (if a_orgSlug a = [] then wizardSlug (a_orgName a) else a_orgSlug a)),
     (''email'', JStr (a_email a)),
     (''username'', JStr (if a_username a = [] then hd (split_on (CHR ''@'') (a_email a)) else a_username a)),
     (''password'', JStr (a_password a))]"

text \<open>The result is the failure, or the tokens of the response when it has them.\<close>

definition handleAccountSubmit ::
  "(string \<Rightarrow> json res) \<Rightarrow> string option + (string \<times> string) option \<Rightarrow> wizard \<Rightarrow> wizard" where
  "handleAccountSubmit parse result s =
    (let a = account s in
     if a_orgName a = [] \<or> a_email a = [] \<or> a_password a = [] then s
     else if a_password a \<noteq> a_confirm a then s
     else (let s = s\<lparr>su_calls := su_calls s @ [WizardRegister (register_body a)]\<rparr> in
       case result of
         Inl _ \<Rightarrow> s
       | Inr tk \<Rightarrow> (case tk of Some (t, r) \<Rightarrow> s\<lparr>su_auth := setTokens parse t r (su_auth s), step := 1\<rparr>
                    | None \<Rightarrow> s\<lparr>step := 1\<rparr>)))"

definition handleNotifSave :: "wizard \<Rightarrow> wizard" where
  "handleNotifSave s = (let n = notif s in
     s\<lparr>su_calls := su_calls s @ [SavePreferences (JObj
        [(''email_enabled'', JBool (n_email n)), (''slack_enabled'', JBool (n_slack n)),
         (''slack_webhook'', JStr (n_slackUrl n)), (''telegram_chat_id'', JStr (n_telegramId n)),
         (''alerts_enabled'', JBool True), (''backups_enabled'', JBool True),
         (''security_enabled'', JBool True), (''billing_enabled'', JBool True)])], step := 3\<rparr>)"

datatype wizard_event =
    EditAccount account_form
  | SubmitAccount "string option + (string \<times> string) option"
  | EditServer string string
  | ServerBack
  | ServerNext
  | EditNotif notif_form
  | NotifBack
  | NotifSave

fun wizard_step :: "(string \<Rightarrow> json res) \<Rightarrow> wizard_event \<Rightarrow> wizard \<Rightarrow> wizard" where
  "wizard_step parse (EditAccount a) s = (if step s = 0 then s\<lparr>account := a\<rparr> else s)"
| "wizard_step parse (SubmitAccount r) s = (if step s = 0 then handleAccountSubmit parse r s else s)"
| "wizard_step parse (EditServer h i) s = (if step s = 1 then s\<lparr>srv_hostname := h, srv_ip := i\<rparr> else s)"
| "wizard_step parse ServerBack s = (if step s = 1 then s\<lparr>step := 0\<rparr> else s)"
| "wizard_step parse ServerNext s = (if step s = 1 then s\<lparr>step := 2\<rparr> else s)"
| "wizard_step parse (EditNotif n) s = (if step s = 2 then s\<lparr>notif := n\<rparr> else s)"
| "wizard_step parse NotifBack s = (if step s = 2 then s\<lparr>step := 1\<rparr> else s)"
| "wizard_step parse NotifSave s = (if step s = 2 then handleNotifSave s else s)"

section \<open>Slugs are well formed\<close>

text \<open>A slug: letters, digits and single hyphens between them.\<close>

fun no_double :: "string \<Rightarrow> bool" where
  "no_double (c # d # s) = (\<not> (c = CHR ''-'' \<and> d = CHR ''-'') \<and> no_double (d # s))"
| "no_double _ = True"

definition slug_ok :: "string \<Rightarrow> bool" where
  "slug_ok s \<longleftrightarrow> list_all (\<lambda>c. slug_char c \<or> c = CHR ''-'') s \<and> no_double s \<and>
     (s \<noteq> [] \<longrightarrow> hd s \<noteq> CHR ''-'' \<and> last s \<noteq> CHR ''-'')"

lemma hyphen_not_slug [simp]: "\<not> slug_char (CHR ''-'')"
  by code_simp

lemma slug_not_hyphen: "slug_char c \<Longrightarrow> c \<noteq> CHR ''-''"
  by auto

lemma collapse_chars: "c \<in> set (collapse b s) \<Longrightarrow> slug_char c \<or> c = CHR ''-''"
  by (induction b s rule: collapse.induct) (auto split: if_splits)

lemma collapse_True_hd: "collapse True s = [] \<or> slug_char (hd (collapse True s))"
  by (induction s) auto

lemma no_double_Cons: "no_double (c # s) \<longleftrightarrow> no_double s \<and> \<not> (c = CHR ''-'' \<and> s \<noteq> [] \<and> hd s = CHR ''-'')"
  by (cases s) auto

lemma no_double_collapse: "no_double (collapse b s)"
proof (induction b s rule: collapse.induct)
  case (2 b c s)
  then show ?case using collapse_True_hd [of s] by (auto simp: no_double_Cons dest: slug_not_hyphen)
qed simp

lemma no_double_tl: "no_double s \<Longrightarrow> no_double (tl s)"
  by (cases s rule: no_double.cases) auto

lemma no_double_snoc: "no_double (s @ [c]) \<longleftrightarrow> no_double s \<and> \<not> (s \<noteq> [] \<and> last s = CHR ''-'' \<and> c = CHR ''-'')"
proof (induction s)
  case (Cons d s)
  then show ?case by (cases s) (auto simp: no_double_Cons)
qed simp

lemma strip_hyphens_ok:
  assumes "no_double s" and "list_all (\<lambda>c. slug_char c \<or> c = CHR ''-'') s"
  shows "slug_ok (strip_hyphens s)"
proof -
  define t where "t = (case s of c # r \<Rightarrow> if c = CHR ''-'' then r else s | [] \<Rightarrow> [])"
  have t: "no_double t" "list_all (\<lambda>c. slug_char c \<or> c = CHR ''-'') t" "t \<noteq> [] \<Longrightarrow> hd t \<noteq> CHR ''-''"
    using assms by (auto simp: t_def no_double_Cons split: list.splits)
  have strip: "strip_hyphens s = (if t \<noteq> [] \<and> last t = CHR ''-'' then butlast t else t)"
    by (simp add: strip_hyphens_def t_def Let_def)
  show ?thesis
  proof (cases "t \<noteq> [] \<and> last t = CHR ''-''")
    case True
    then obtain u where u: "t = u @ [CHR ''-'']" by (metis append_butlast_last_id)
    then have "no_double u" "u \<noteq> [] \<longrightarrow> last u \<noteq> CHR ''-''" using t(1) by (auto simp: no_double_snoc)
    moreover have "u \<noteq> [] \<longrightarrow> hd u \<noteq> CHR ''-''" using t(3) u by (cases u) auto
    ultimately show ?thesis using True strip u t(2) by (simp add: slug_ok_def)
  next
    case False
    then show ?thesis using strip t by (auto simp: slug_ok_def)
  qed
qed

lemma collapse_slug: "no_double s \<Longrightarrow> list_all (\<lambda>c. slug_char c \<or> c = CHR ''-'') s \<Longrightarrow>
    (b \<longrightarrow> s = [] \<or> hd s \<noteq> CHR ''-'') \<Longrightarrow> collapse b s = s"
proof (induction b s rule: collapse.induct)
  case (2 b c s)
  then show ?case by (auto simp: no_double_Cons)
qed simp

lemma hyphen_lower: "to_lower (CHR ''-'') = CHR ''-''"
  by code_simp

lemma slug_lower: "slug_char c \<or> c = CHR ''-'' \<Longrightarrow> to_lower c = c"
proof (erule disjE)
  show "slug_char c \<Longrightarrow> to_lower c = c"
    by (auto simp: slug_char_def to_lower_def is_lower_def is_digit_def Let_def)
qed (simp add: hyphen_lower)

lemma autoSlug_fixed: "slug_ok s \<Longrightarrow> autoSlug s = s"
proof -
  assume ok: "slug_ok s"
  then have "toLowerCase s = s" by (auto simp: toLowerCase_def slug_ok_def list_all_iff intro!: map_idI slug_lower)
  moreover have "collapse False s = s" using ok by (intro collapse_slug) (auto simp: slug_ok_def)
  moreover have "strip_hyphens s = s" using ok by (cases s) (auto simp: strip_hyphens_def slug_ok_def Let_def)
  ultimately show ?thesis by (simp add: autoSlug_def)
qed

lemma collapse_wizard: "collapse b (map (\<lambda>c. if slug_char c then c else CHR ''-'') s) = collapse b s"
  by (induction b s rule: collapse.induct) auto

section \<open>Sessions come from the server\<close>

fun carries_tokens :: "login_event \<Rightarrow> bool" where
  "carries_tokens (LoginSubmit _ _ (Inr r)) = (resp_tokens r \<noteq> None \<and>
     \<not> (resp_mfaRequired r \<and> resp_tempToken r \<noteq> None \<and> resp_tempToken r \<noteq> Some []))"
| "carries_tokens (MfaSubmit (Inr r)) = (resp_tokens r \<noteq> None)"
| "carries_tokens _ = False"

lemma login_step_auth: "\<not> carries_tokens e \<Longrightarrow> lp_auth (login_step parse e p) = lp_auth p"
  by (cases e rule: carries_tokens.cases)
    (auto simp: login_submit_def mfa_submit_def typeMfaCode_def Let_def split: option.splits sum.splits if_splits)

lemma login_run_auth: "list_all (\<lambda>e. \<not> carries_tokens e) es \<Longrightarrow> lp_auth (fold (login_step parse) es p) = lp_auth p"
  by (induction es arbitrary: p) (auto simp: login_step_auth)

definition mfa_digits :: "auth_call \<Rightarrow> bool" where
  "mfa_digits c = (case c of VerifyMFA j \<Rightarrow>
     (case own_prop j ''backup'' of Some _ \<Rightarrow> True
      | None \<Rightarrow> (case own_prop j ''code'' of Some (JStr code) \<Rightarrow> length code = 6 \<and> list_all is_digit code | _ \<Rightarrow> False))
     | _ \<Rightarrow> True)"

definition code_inv :: "code_page \<Rightarrow> bool" where
  "code_inv p \<longleftrightarrow> length (digit_boxes p) = 6 \<and> list_all (\<lambda>d. length d \<le> 1 \<and> list_all is_digit d) (digit_boxes p) \<and>
     list_all mfa_digits (submitted p)"

lemma mfa_digits_body: "length otp = 6 \<Longrightarrow> list_all is_digit otp \<Longrightarrow> mfa_digits (VerifyMFA (mfa_body s otp))"
  by (simp add: mfa_digits_def mfa_body_def)

lemma code_inv_submit:
  "code_inv p \<Longrightarrow> length otp = 6 \<Longrightarrow> list_all is_digit otp \<Longrightarrow> code_inv (submit_code session otp p)"
  by (auto simp: submit_code_def send_code_def code_inv_def mfa_digits_body split: option.splits)

lemma code_inv_backup: "code_inv p \<Longrightarrow> code_inv (submitBackup session p)"
  by (auto simp: submitBackup_def send_code_def code_inv_def mfa_digits_def split: option.splits)

lemma code_inv_answer: "code_inv p \<Longrightarrow> code_inv (code_answer parse resets r p)"
  by (auto simp: code_answer_def code_inv_def split: sum.splits option.splits)

lemma concat_boxes:
  "list_all (\<lambda>d. length d \<le> 1 \<and> list_all is_digit d) ds \<Longrightarrow> list_all (\<lambda>d. d \<noteq> []) ds \<Longrightarrow>
   length (concat ds) = length ds \<and> list_all is_digit (concat ds)"
proof (induction ds)
  case (Cons d ds)
  then have "length d = 1" by (cases d) auto
  with Cons show ?case by simp
qed simp

lemma list_all_update: "list_all P xs \<Longrightarrow> P y \<Longrightarrow> list_all P (xs[i := y])"
  by (auto simp: list_all_iff dest: set_update_subset_insert [THEN subsetD])

lemma code_inv_digit: "code_inv p \<Longrightarrow> code_inv (handleDigit session i v p)"
proof (cases "length v \<le> 1 \<and> list_all is_digit v")
  case True
  assume p: "code_inv p"
  let ?next = "(digit_boxes p)[i := v]"
  have next': "list_all (\<lambda>d. length d \<le> 1 \<and> list_all is_digit d) ?next" "length ?next = 6"
    using p True by (auto simp: code_inv_def intro: list_all_update)
  then have "code_inv (p\<lparr>digit_boxes := ?next\<rparr>)" using p by (simp add: code_inv_def)
  then show ?thesis using True concat_boxes [OF next'(1)] next'(2) by (auto simp: handleDigit_def Let_def intro: code_inv_submit)
qed (auto simp: handleDigit_def)

lemma paste_digits: "list_all is_digit (take n (filter is_digit t))"
  by (auto simp: list_all_iff dest: in_set_takeD)

lemma digit_singletons: "list_all is_digit s \<Longrightarrow> list_all (\<lambda>d. length d \<le> 1 \<and> list_all is_digit d) (map (\<lambda>c. [c]) s)"
  by (induction s) auto

lemma code_inv_paste: "code_inv p \<Longrightarrow> code_inv (handlePasteCode session t p)"
proof -
  assume p: "code_inv p"
  define s where "s = take 6 (filter is_digit t)"
  have d: "list_all is_digit s" by (simp add: s_def paste_digits)
  have paste: "handlePasteCode session t p =
      (if length s = 6 then submit_code session s (p\<lparr>digit_boxes := map (\<lambda>c. [c]) s\<rparr>) else p)"
    by (simp add: handlePasteCode_def Let_def s_def del: length_take)
  show ?thesis
  proof (cases "length s = 6")
    case True
    then have "code_inv (p\<lparr>digit_boxes := map (\<lambda>c. [c]) s\<rparr>)"
      using p digit_singletons [OF d] by (simp add: code_inv_def)
    from code_inv_submit [OF this True d] True paste show ?thesis by simp
  qed (simp add: paste p)
qed

lemma code_step_inv: "code_inv p \<Longrightarrow> code_inv (code_step parse session e p)"
  by (cases e) (simp_all add: code_inv_digit code_inv_paste code_inv_backup code_inv_answer, simp_all add: code_inv_def)


interpretation code: component "code_step parse session" code_inv for parse session
  by unfold_locales (rule code_step_inv)

section \<open>What the pages guarantee\<close>

lemma autoSlug_ok: "slug_ok (autoSlug name)"
  unfolding autoSlug_def
  by (rule strip_hyphens_ok [OF no_double_collapse]) (auto simp: list_all_iff dest: collapse_chars)

text \<open>The slug filled in for an organisation is well formed whatever the name is (lower
  case letters and digits with single hyphens between them), slugging it again changes nothing,
  and it is the wizard's character-wise slug with its runs of hyphens collapsed and its ends
  stripped: the two pages agree exactly when the wizard's slug has neither.\<close>

theorem slug_wellformed:
  "slug_ok (autoSlug name) \<and> autoSlug (autoSlug name) = autoSlug name \<and>
   autoSlug name = strip_hyphens (collapse False (wizardSlug name)) \<and>
   (wizardSlug name = autoSlug name \<longleftrightarrow> slug_ok (wizardSlug name))"
proof -
  have w: "autoSlug name = strip_hyphens (collapse False (wizardSlug name))"
    by (simp add: autoSlug_def wizardSlug_def collapse_wizard)
  have "slug_ok (wizardSlug name) \<Longrightarrow> autoSlug (wizardSlug name) = wizardSlug name"
    by (rule autoSlug_fixed)
  moreover have "slug_ok (wizardSlug name) \<Longrightarrow> toLowerCase (wizardSlug name) = wizardSlug name"
    by (auto simp: toLowerCase_def slug_ok_def list_all_iff intro!: map_idI slug_lower)
  ultimately have "slug_ok (wizardSlug name) \<Longrightarrow> wizardSlug name = autoSlug name"
    using w by (simp add: autoSlug_def)
  then show ?thesis using w autoSlug_ok [of name] autoSlug_fixed [OF autoSlug_ok] by metis
qed

lemma reset_accepts_weaker:
  "reset_valid ''aaaaaaaa'' ''aaaaaaaa'' \<and>
   ''password'' \<in> set (register_errors (\<lambda>_. True) \<lparr>orgName = ''Acme'', orgSlug = ''acme'', r_email = ''a@b.c'',
     r_username = ''ann'', r_password = ''aaaaaaaa''\<rparr>)"
  by code_simp

lemma register_accepts_autoSlug:
  "2 \<le> length (autoSlug n) \<Longrightarrow> length (autoSlug n) \<le> 50 \<Longrightarrow>
   ''orgSlug'' \<notin> set (register_errors email_ok (typeOrgName n d))"
  using autoSlug_ok [of n] by (auto simp: register_errors_def typeOrgName_def slug_ok_def)

definition login_inv :: "login_page \<Rightarrow> bool" where
  "login_inv p \<longleftrightarrow> list_all is_digit (mfaCode p) \<and> list_all mfa_digits (lp_calls p)"

lemma login_step_inv: "login_inv p \<Longrightarrow> login_inv (login_step parse e p)"
  by (cases e)
    (auto simp: login_inv_def login_submit_def mfa_submit_def typeMfaCode_def signed_in_def Let_def mfa_digits_body
      mfa_digits_def [of "Login _ _"] list_all_iff split: option.splits sum.splits)

interpretation login: component "login_step parse" login_inv for parse
  by unfold_locales (rule login_step_inv)

text \<open>On the login page, whatever the user types and the server answers, the session
  changes only if an answer carried tokens (and did not ask for a second factor), and every code
  sent for the second factor is six digits.\<close>

theorem login_session_from_server:
  "(lp_auth (fold (login_step parse) es (login_page_init a)) = a \<or> list_ex carries_tokens es) \<and>
   list_all mfa_digits (lp_calls (fold (login_step parse) es (login_page_init a)))"
proof
  have "lp_auth (login_page_init a) = a" by (simp add: login_page_init_def)
  then show "lp_auth (fold (login_step parse) es (login_page_init a)) = a \<or> list_ex carries_tokens es"
    using login_run_auth [of es parse "login_page_init a"] by (auto simp: list_all_iff list_ex_iff)
  have "login_inv (login_page_init a)" by (simp add: login_inv_def login_page_init_def)
  from login.run_inv [OF this] show "list_all mfa_digits (lp_calls (fold (login_step parse) es (login_page_init a)))"
    by (simp add: login_inv_def)
qed




fun isEditServer :: "wizard_event \<Rightarrow> bool" where
  "isEditServer (EditServer h i) = True"
| "isEditServer _ = False"

definition without_server :: "wizard \<Rightarrow> wizard" where
  "without_server s = s\<lparr>srv_hostname := [], srv_ip := []\<rparr>"

lemma wizard_step_without_server:
  "without_server (wizard_step parse e s) =
     (if isEditServer e then without_server s else without_server (wizard_step parse e (without_server s)))"
  by (cases e) (auto simp: without_server_def handleAccountSubmit_def handleNotifSave_def Let_def split: sum.splits option.splits)

lemma wizard_run_without_server:
  "without_server s = without_server t \<Longrightarrow>
   without_server (fold (wizard_step parse) es s) =
   without_server (fold (wizard_step parse) (filter (\<lambda>e. \<not> isEditServer e) es) t)"
proof (induction es arbitrary: s t)
  case (Cons e es)
  show ?case
  proof (cases "isEditServer e")
    case True
    then show ?thesis using Cons.IH [of "wizard_step parse e s" t] Cons.prems wizard_step_without_server [of parse e s] by simp
  next
    case False
    then have "without_server (wizard_step parse e s) = without_server (wizard_step parse e t)"
      using Cons.prems wizard_step_without_server [of parse e s] wizard_step_without_server [of parse e t] by simp
    then show ?thesis using Cons.IH False by simp
  qed
qed simp

text \<open>What the set-up wizard's server step asks for is never sent: every request, and
  the session and step reached, are the same when the fields of that step are left alone.\<close>

theorem wizard_never_sends_server:
  "su_calls (fold (wizard_step parse) es s) =
     su_calls (fold (wizard_step parse) (filter (\<lambda>e. \<not> isEditServer e) es) s) \<and>
   su_auth (fold (wizard_step parse) es s) =
     su_auth (fold (wizard_step parse) (filter (\<lambda>e. \<not> isEditServer e) es) s) \<and>
   step (fold (wizard_step parse) es s) =
     step (fold (wizard_step parse) (filter (\<lambda>e. \<not> isEditServer e) es) s)"
proof -
  let ?u = "fold (wizard_step parse) es s"
  let ?v = "fold (wizard_step parse) (filter (\<lambda>e. \<not> isEditServer e) es) s"
  have "without_server ?u = without_server ?v" by (rule wizard_run_without_server) simp
  then have "su_calls (without_server ?u) = su_calls (without_server ?v)"
    "su_auth (without_server ?u) = su_auth (without_server ?v)"
    "step (without_server ?u) = step (without_server ?v)" by simp_all
  then show ?thesis by (simp add: without_server_def)
qed

end
