(* ===== verification/Chat.thy ===== *)
theory Chat
  imports ApiAuth Format
begin

text \<open>
  The AI assistant: app/(panel)/ai/page.tsx (its messages, the streamed answer and the
  conversations) and the input of components/ai/ChatWindow.tsx. A send is a request whose
  response, chunks and end arrive as events; what \<open>sendMessage\<close> keeps in its closure and its
  locals while it awaits them is the \<open>run\<close>. \<open>parse\<close> is \<open>JSON.parse\<close>, \<open>text_of\<close> the text of a
  value that is not a string in a concatenation; a chunk is the text decoded from the bytes read.
\<close>

section \<open>Messages and state\<close>

datatype chat_role = UserRole | Assistant

record LocalMessage =
  m_id :: json
  m_role :: chat_role
  m_content :: string
  m_streaming :: bool

record send_run =
  r_conv :: "string option"
  r_header :: "string option"
  r_reading :: bool
  fullContent :: string

record chat =
  activeConvID :: "string option"
  messages :: "LocalMessage list"
  chat_input :: string
  chat_model :: string
  isStreaming :: bool
  run :: "send_run option"
  chat_sent :: "json list"
  conv_refreshes :: nat
  chat_toasts :: "string list"

definition chat_init :: chat where
  "chat_init = \<lparr>activeConvID = None, messages = [], chat_input = [], chat_model = ''claude-sonnet-4-6'',
     isStreaming = False, run = None, chat_sent = [], conv_refreshes = 0, chat_toasts = []\<rparr>"

definition AI_MODELS :: "(string \<times> string) list" where
  "AI_MODELS = [(''claude-sonnet-4-6'', ''Claude Sonnet 4.6 (Recommended)''),
     (''claude-opus-4-7'', ''Claude Opus 4.7 (Most Capable)''),
     (''claude-haiku-4-5-20251001'', ''Claude Haiku 4.5 (Fast)''), (''gpt-4o-mini'', ''GPT-4o Mini'')]"

definition pending_id :: json where
  "pending_id = JStr ''pending''"

text \<open>\<open>setMessages(prev => prev.map(m => m.id === 'pending' ? ... : m))\<close>.\<close>

definition update_pending :: "(LocalMessage \<Rightarrow> LocalMessage) \<Rightarrow> LocalMessage list \<Rightarrow> LocalMessage list" where
  "update_pending f ms = map (\<lambda>m. if m_id m = pending_id then f m else m) ms"

section \<open>sendMessage\<close>

text \<open>The body of the request; its only header is the content type.\<close>

definition chat_body :: "string option \<Rightarrow> string \<Rightarrow> string \<Rightarrow> json" where
  "chat_body conv text model = obj [(''conversation_id'', map_option JStr conv), (''message'', Some (JStr text)),
     (''model'', Some (JStr model)), (''stream'', Some (JBool True))]"

text \<open>Up to the \<open>fetch\<close>: \<open>now\<close> is the time as text.\<close>

definition sendMessage :: "string \<Rightarrow> chat \<Rightarrow> chat" where
  "sendMessage now s =
    (let text = trim (chat_input s) in
     if text = [] \<or> isStreaming s then s
     else s\<lparr>messages := messages s @
              [\<lparr>m_id = JStr now, m_role = UserRole, m_content = text, m_streaming = False\<rparr>,
               \<lparr>m_id = pending_id, m_role = Assistant, m_content = [], m_streaming = True\<rparr>],
            chat_input := [], isStreaming := True,
            run := Some \<lparr>r_conv = activeConvID s, r_header = None, r_reading = False, fullContent = []\<rparr>,
            chat_sent := chat_sent s @ [chat_body (activeConvID s) text (chat_model s)]\<rparr>)"

text \<open>The \<open>catch\<close> and the \<open>finally\<close>.\<close>

definition send_failed :: "chat \<Rightarrow> chat" where
  "send_failed s = s\<lparr>messages := filter (\<lambda>m. m_id m \<noteq> pending_id) (messages s),
     chat_toasts := chat_toasts s @ [''Failed to send message''], isStreaming := False, run := None\<rparr>"

definition response :: "bool \<Rightarrow> string option \<Rightarrow> chat \<Rightarrow> chat" where
  "response ok header s = (case run s of None \<Rightarrow> s
     | Some r \<Rightarrow> if r_reading r then s else if \<not> ok then send_failed s
         else s\<lparr>run := Some (r\<lparr>r_header := header, r_reading := True\<rparr>)\<rparr>)"

text \<open>One event of the stream. Reading a property of \<open>null\<close> throws, which the loop ignores.\<close>

definition chat_event :: "(json \<Rightarrow> string) \<Rightarrow> json \<Rightarrow> send_run \<times> chat \<Rightarrow> send_run \<times> chat" where
  "chat_event text_of data = (\<lambda>(r, s).
    (case member (Some data) ''type'' of
       Inl _ \<Rightarrow> (r, s)
     | Inr t \<Rightarrow>
         if t = Some (JStr ''delta'') then
           (let full = fullContent r @ appended text_of (own_prop data ''content'') in
            (r\<lparr>fullContent := full\<rparr>,
             s\<lparr>messages := update_pending (\<lambda>m. m\<lparr>m_content := full\<rparr>) (messages s)\<rparr>))
         else if t = Some (JStr ''done'') then
           (let newId = (case coalesce (own_prop data ''id'') (Some (JStr ''done'')) of Some j \<Rightarrow> j | None \<Rightarrow> JNull);
                s = s\<lparr>messages := update_pending (\<lambda>m. m\<lparr>m_id := newId, m_streaming := False\<rparr>) (messages s)\<rparr> in
            (r, if r_header r \<noteq> None \<and> r_header r \<noteq> Some [] \<and> (r_conv r = None \<or> r_conv r = Some [])
                then s\<lparr>activeConvID := r_header r, conv_refreshes := conv_refreshes s + 1\<rparr> else s))
         else (r, s)))"

definition chat_line :: "(string \<Rightarrow> json res) \<Rightarrow> (json \<Rightarrow> string) \<Rightarrow> string \<Rightarrow> send_run \<times> chat \<Rightarrow> send_run \<times> chat" where
  "chat_line parse text_of line rs =
    (if \<not> startsWith line ''data: '' then rs
     else (case parse (slice_from line 6) of Inl _ \<Rightarrow> rs | Inr data \<Rightarrow> chat_event text_of data rs))"

definition newline :: char where
  "newline = CHR 0x0A"

text \<open>One chunk: its lines in order. A line is never joined with what the next chunk brings.\<close>

definition chat_chunk :: "(string \<Rightarrow> json res) \<Rightarrow> (json \<Rightarrow> string) \<Rightarrow> string \<Rightarrow> send_run \<times> chat \<Rightarrow> send_run \<times> chat" where
  "chat_chunk parse text_of chunk rs = fold (chat_line parse text_of) (split_on newline chunk) rs"

definition read_chunk :: "(string \<Rightarrow> json res) \<Rightarrow> (json \<Rightarrow> string) \<Rightarrow> string \<Rightarrow> chat \<Rightarrow> chat" where
  "read_chunk parse text_of chunk s = (case run s of None \<Rightarrow> s
     | Some r \<Rightarrow> if \<not> r_reading r then s
         else (case chat_chunk parse text_of chunk (r, s) of (r', s') \<Rightarrow> s'\<lparr>run := Some r'\<rparr>))"

definition stream_end :: "chat \<Rightarrow> chat" where
  "stream_end s = (case run s of None \<Rightarrow> s
     | Some r \<Rightarrow> if r_reading r then s\<lparr>isStreaming := False, run := None\<rparr> else s)"

section \<open>Conversations\<close>

definition conv_loaded :: "(string \<times> chat_role \<times> string) list \<Rightarrow> chat \<Rightarrow> chat" where
  "conv_loaded ms s = s\<lparr>messages := map (\<lambda>(i, r, c).
     \<lparr>m_id = JStr i, m_role = r, m_content = c, m_streaming = False\<rparr>) ms\<rparr>"

definition conv_deleted :: "string \<Rightarrow> chat \<Rightarrow> chat" where
  "conv_deleted i s =
    (let s = s\<lparr>conv_refreshes := conv_refreshes s + 1\<rparr>;
         s = (if activeConvID s = Some i then s\<lparr>activeConvID := None, messages := []\<rparr> else s) in
     s\<lparr>chat_toasts := chat_toasts s @ [''Conversation deleted'']\<rparr>)"

definition startNewConversation :: "chat \<Rightarrow> chat" where
  "startNewConversation s = s\<lparr>activeConvID := None, messages := []\<rparr>"

datatype chat_ui_event =
    TypeChat string
  | PickModel string
  | SendChat string
  | Response bool "string option"
  | Chunk string
  | StreamEnd
  | StreamError
  | SelectConv string
  | ConvLoaded "(string \<times> chat_role \<times> string) list"
  | ConvDeleted string
  | NewChat

fun chat_step :: "(string \<Rightarrow> json res) \<Rightarrow> (json \<Rightarrow> string) \<Rightarrow> chat_ui_event \<Rightarrow> chat \<Rightarrow> chat" where
  "chat_step parse text_of (TypeChat t) s = s\<lparr>chat_input := t\<rparr>"
| "chat_step parse text_of (PickModel m) s = (if m \<in> set (map fst AI_MODELS) then s\<lparr>chat_model := m\<rparr> else s)"
| "chat_step parse text_of (SendChat now) s = sendMessage now s"
| "chat_step parse text_of (Response ok h) s = response ok h s"
| "chat_step parse text_of (Chunk c) s = read_chunk parse text_of c s"
| "chat_step parse text_of StreamEnd s = stream_end s"
| "chat_step parse text_of StreamError s = (if run s = None then s else send_failed s)"
| "chat_step parse text_of (SelectConv i) s = s\<lparr>activeConvID := Some i\<rparr>"
| "chat_step parse text_of (ConvLoaded ms) s = (if activeConvID s = None then s else conv_loaded ms s)"
| "chat_step parse text_of (ConvDeleted i) s = conv_deleted i s"
| "chat_step parse text_of NewChat s = startNewConversation s"

section \<open>ChatWindow.tsx\<close>

text \<open>\<open>handleSend\<close>: what is handed to \<open>onSend\<close> and the input left.\<close>

definition handleSend :: "bool \<Rightarrow> bool \<Rightarrow> string \<Rightarrow> string option \<times> string" where
  "handleSend disabled loading input =
    (let trimmed = trim input in
     if trimmed = [] \<or> disabled \<or> loading then (None, input) else (Some trimmed, []))"

definition handleKeyDown :: "string \<Rightarrow> bool \<Rightarrow> bool \<Rightarrow> bool \<Rightarrow> string \<Rightarrow> string option \<times> string" where
  "handleKeyDown key shiftKey disabled loading input =
    (if key = ''Enter'' \<and> \<not> shiftKey then handleSend disabled loading input else (None, input))"

section \<open>Streams of whole events\<close>

text \<open>What the AI service writes: events, each a line \<open>data: ...\<close> and an empty line.\<close>

definition delta :: "string \<Rightarrow> json" where
  "delta d = JObj [(''type'', JStr ''delta''), (''content'', JStr d)]"

definition done_event :: "string \<Rightarrow> json" where
  "done_event i = JObj [(''id'', JStr i), (''type'', JStr ''done''), (''content'', JStr [])]"

definition wire :: "(json \<Rightarrow> string) \<Rightarrow> json list \<Rightarrow> string" where
  "wire enc js = concat (map (\<lambda>j. ''data: '' @ enc j @ [newline, newline]) js)"

definition encodes :: "(string \<Rightarrow> json res) \<Rightarrow> (json \<Rightarrow> string) \<Rightarrow> json \<Rightarrow> bool" where
  "encodes parse enc j \<longleftrightarrow> parse (enc j) = Inr j \<and> newline \<notin> set (enc j)"

lemma data_prefix: "slice_from (''data: '' @ x) 6 = x"
  by (simp add: slice_from_def rel_index_def)

lemma newline_not_data: "newline \<notin> set ''data: ''"
  by code_simp

lemma chat_line_event:
  "encodes parse enc j \<Longrightarrow> chat_line parse text_of (''data: '' @ enc j) rs = chat_event text_of j rs"
  using data_prefix [of "enc j"] by (simp add: chat_line_def encodes_def startsWith_def del: append.simps)

lemma chat_line_other: "\<not> startsWith l ''data: '' \<Longrightarrow> chat_line parse text_of l rs = rs"
  by (simp add: chat_line_def)

lemma chat_line_Nil [simp]: "chat_line parse text_of [] rs = rs"
  by (simp add: chat_line_def startsWith_def)

lemma split_wire:
  "\<forall>j\<in>set js. newline \<notin> set (enc j) \<Longrightarrow>
   split_on newline (wire enc js) = concat (map (\<lambda>j. [''data: '' @ enc j, []]) js) @ [[]]"
proof (induction js)
  case (Cons j js)
  have n: "newline \<notin> set (''data: '' @ enc j)" using Cons.prems newline_not_data by auto
  have "wire enc (j # js) = (''data: '' @ enc j) @ newline # ([] @ newline # wire enc js)"
    by (simp add: wire_def)
  then have "split_on newline (wire enc (j # js)) = (''data: '' @ enc j) # [] # split_on newline (wire enc js)"
    using split_on_append_sep [OF n] split_on_append_sep [of newline "[]"] by simp
  with Cons show ?case by simp
qed (simp add: wire_def)

lemma chat_chunk_wire:
  assumes "\<forall>j\<in>set js. encodes parse enc j"
  shows "chat_chunk parse text_of (wire enc js) rs = fold (chat_event text_of) js rs"
proof -
  have "chat_chunk parse text_of (wire enc js) rs =
      fold (chat_line parse text_of) (concat (map (\<lambda>j. [''data: '' @ enc j, []]) js) @ [[]]) rs"
    using assms by (simp add: chat_chunk_def split_wire encodes_def)
  also have "\<dots> = fold (chat_event text_of) js rs"
    using assms by (induction js arbitrary: rs) (simp_all add: chat_line_event del: append.simps)
  finally show ?thesis .
qed

lemma read_chunk_wire:
  assumes "\<forall>j\<in>set js. encodes parse enc j" and "run s = Some r" and "r_reading r"
  shows "read_chunk parse text_of (wire enc js) s =
    (case fold (chat_event text_of) js (r, s) of (r', s') \<Rightarrow> s'\<lparr>run := Some r'\<rparr>)"
  using assms by (simp add: read_chunk_def chat_chunk_wire)

lemma chat_event_delta:
  "chat_event text_of (delta d) (r, s) =
     (r\<lparr>fullContent := fullContent r @ d\<rparr>,
      s\<lparr>messages := update_pending (\<lambda>m. m\<lparr>m_content := fullContent r @ d\<rparr>) (messages s)\<rparr>)"
  by (simp add: chat_event_def delta_def Let_def)

lemma update_pending_id [simp]:
  "\<forall>m\<in>set ms. m_id m \<noteq> pending_id \<Longrightarrow> update_pending f ms = ms"
  by (simp add: update_pending_def map_idI)

lemma update_pending_append [simp]:
  "update_pending f (ms @ ns) = update_pending f ms @ update_pending f ns"
  by (simp add: update_pending_def)

lemma chat_event_run:
  "chat_event text_of j (r, s\<lparr>run := x\<rparr>) =
     (case chat_event text_of j (r, s) of (r', s') \<Rightarrow> (r', s'\<lparr>run := x\<rparr>))"
  by (simp add: chat_event_def Let_def split: sum.splits)

lemma chat_events_run:
  "fold (chat_event text_of) js (r, s\<lparr>run := x\<rparr>) =
     (case fold (chat_event text_of) js (r, s) of (r', s') \<Rightarrow> (r', s'\<lparr>run := x\<rparr>))"
proof (induction js arbitrary: r s)
  case (Cons j js)
  then show ?case by (cases "chat_event text_of j (r, s)") (simp add: chat_event_run)
qed simp

lemma chat_event_reading: "r_reading (fst (chat_event text_of j (r, s))) = r_reading r"
  by (simp add: chat_event_def Let_def split: sum.splits)

lemma chat_events_reading: "r_reading (fst (fold (chat_event text_of) js (r, s))) = r_reading r"
proof (induction js arbitrary: r s)
  case (Cons j js)
  then show ?case using chat_event_reading [of text_of j r s] by (cases "chat_event text_of j (r, s)") simp
qed simp

text \<open>Chunks of whole events do what the whole stream does.\<close>

lemma read_chunks_wire:
  assumes "\<forall>j\<in>set (concat css). encodes parse enc j" and "run s = Some r" and "r_reading r"
  shows "fold (read_chunk parse text_of) (map (wire enc) css) s =
    (case fold (chat_event text_of) (concat css) (r, s) of (r', s') \<Rightarrow> s'\<lparr>run := Some r'\<rparr>)"
  using assms
proof (induction css arbitrary: r s)
  case Nil
  then show ?case by (cases s) auto
next
  case (Cons js css)
  obtain r1 s1 where e: "fold (chat_event text_of) js (r, s) = (r1, s1)" by (cases "fold (chat_event text_of) js (r, s)")
  have "r_reading r1" using chat_events_reading [of text_of js r s] e Cons.prems by simp
  moreover have "read_chunk parse text_of (wire enc js) s = s1\<lparr>run := Some r1\<rparr>"
    using Cons.prems e by (simp add: read_chunk_wire)
  ultimately show ?case using Cons.IH [of "s1\<lparr>run := Some r1\<rparr>" r1] Cons.prems e
    by (simp add: chat_events_run split: prod.splits)
qed

lemma chat_deltas:
  "messages s = ms @ [\<lparr>m_id = pending_id, m_role = Assistant, m_content = fullContent r, m_streaming = True\<rparr>] \<Longrightarrow>
   \<forall>m\<in>set ms. m_id m \<noteq> pending_id \<Longrightarrow>
   fold (chat_event text_of) (map delta ds) (r, s) =
     (r\<lparr>fullContent := fullContent r @ concat ds\<rparr>,
      s\<lparr>messages := ms @ [\<lparr>m_id = pending_id, m_role = Assistant, m_content = fullContent r @ concat ds, m_streaming = True\<rparr>]\<rparr>)"
proof (induction ds arbitrary: r s)
  case (Cons d ds)
  then show ?case
    using Cons.IH [of "s\<lparr>messages := ms @ [\<lparr>m_id = pending_id, m_role = Assistant, m_content = fullContent r @ d, m_streaming = True\<rparr>]\<rparr>"
        "r\<lparr>fullContent := fullContent r @ d\<rparr>"]
    by (simp add: chat_event_delta update_pending_def map_idI)
qed (cases s; cases r; simp)

lemma chat_event_done:
  "chat_event text_of (done_event i) (r, s) =
     (r, (if r_header r \<noteq> None \<and> r_header r \<noteq> Some [] \<and> (r_conv r = None \<or> r_conv r = Some [])
          then (\<lambda>s. s\<lparr>activeConvID := r_header r, conv_refreshes := conv_refreshes s + 1\<rparr>) else id)
         (s\<lparr>messages := update_pending (\<lambda>m. m\<lparr>m_id := JStr i, m_streaming := False\<rparr>) (messages s)\<rparr>))"
  by (simp add: chat_event_def done_event_def Let_def coalesce_def)

text \<open>Property C22: The assistant's answer is complete: after a message is sent and accepted, chunks that
  each hold whole events, of any number and size, leave the user's message and one finished
  answer made of all the pieces in order; no request is left running and the conversation the
  server opened becomes the active one.\<close>

theorem chat_stream_complete:
  assumes "run s = None" and "\<not> isStreaming s" and "trim (chat_input s) \<noteq> []" and "now \<noteq> ''pending''"
    and "\<forall>m\<in>set (messages s). m_id m \<noteq> pending_id"
    and "concat css = map delta ds @ [done_event i]" and "\<forall>j\<in>set (concat css). encodes parse enc j"
    and "activeConvID s = None" and "h \<noteq> []"
  shows "(let s' = fold (chat_step parse text_of)
            ([SendChat now, Response True (Some h)] @ map (Chunk \<circ> wire enc) css @ [StreamEnd]) s in
     messages s' = messages s @
       [\<lparr>m_id = JStr now, m_role = UserRole, m_content = trim (chat_input s), m_streaming = False\<rparr>,
        \<lparr>m_id = JStr i, m_role = Assistant, m_content = concat ds, m_streaming = False\<rparr>] \<and>
     run s' = None \<and> \<not> isStreaming s' \<and> activeConvID s' = Some h)"
proof -
  let ?r = "\<lparr>r_conv = None, r_header = Some h, r_reading = True, fullContent = []\<rparr>"
  let ?user = "\<lparr>m_id = JStr now, m_role = UserRole, m_content = trim (chat_input s), m_streaming = False\<rparr>"
  define s1 where "s1 = response True (Some h) (sendMessage now s)"
  have s1: "run s1 = Some ?r" "messages s1 = (messages s @ [?user]) @
      [\<lparr>m_id = pending_id, m_role = Assistant, m_content = fullContent ?r, m_streaming = True\<rparr>]"
    using assms by (simp_all add: s1_def sendMessage_def response_def Let_def)
  have ids: "\<forall>m\<in>set (messages s @ [?user]). m_id m \<noteq> pending_id" using assms by (auto simp: pending_id_def)
  have steps: "fold (chat_step parse text_of) (map (Chunk \<circ> wire enc) css) u =
      fold (read_chunk parse text_of) (map (wire enc) css) u" for u
    by (induction css arbitrary: u) simp_all
  have "fold (read_chunk parse text_of) (map (wire enc) css) s1 =
      (case fold (chat_event text_of) (concat css) (?r, s1) of (r', s') \<Rightarrow> s'\<lparr>run := Some r'\<rparr>)"
    by (rule read_chunks_wire [OF assms(7) s1(1)]) simp
  then show ?thesis
    using assms(9) ids unfolding assms(6)
    by (simp add: steps chat_deltas [OF s1(2) ids] chat_event_done stream_end_def Let_def update_pending_def
        map_idI s1_def [symmetric])
qed

definition sample_enc :: "json \<Rightarrow> string" where
  "sample_enc j = (if j = delta ''He'' then ''1'' else if j = delta ''y'' then ''2'' else ''3'')"

definition sample_parse :: "string \<Rightarrow> json res" where
  "sample_parse t = (if t = ''1'' then Inr (delta ''He'') else if t = ''2'' then Inr (delta ''y'')
     else if t = ''3'' then Inr (done_event ''m1'') else Inl SyntaxError)"

lemma sample_encodes:
  "encodes sample_parse sample_enc (delta ''He'')" "encodes sample_parse sample_enc (delta ''y'')"
  "encodes sample_parse sample_enc (done_event ''m1'')"
  by (simp_all add: encodes_def sample_parse_def sample_enc_def delta_def done_event_def newline_def)

theorem chat_stream_complete_witness:
  "messages (fold (chat_step sample_parse (\<lambda>_. []))
     ([SendChat ''17'', Response True (Some ''c1'')] @
      map (Chunk \<circ> wire sample_enc) [[delta ''He''], [], [delta ''y'', done_event ''m1'']] @ [StreamEnd])
     (chat_init\<lparr>chat_input := '' hi ''\<rparr>)) =
   [\<lparr>m_id = JStr ''17'', m_role = UserRole, m_content = ''hi'', m_streaming = False\<rparr>,
    \<lparr>m_id = JStr ''m1'', m_role = Assistant, m_content = ''Hey'', m_streaming = False\<rparr>]"
proof -
  have t: "trim '' hi '' = ''hi''" by code_simp
  show ?thesis
    using chat_stream_complete [of "chat_init\<lparr>chat_input := '' hi ''\<rparr>" "''17''"
        "[[delta ''He''], [], [delta ''y'', done_event ''m1'']]" "[''He'', ''y'']" "''m1''" sample_parse sample_enc
        "''c1''" "\<lambda>_. []"]
    by (simp add: chat_init_def t sample_encodes Let_def)
qed

text \<open>An event whose line is cut by a chunk boundary is lost: when the first part does not
  parse and the rest is no event of its own, both chunks change nothing, although the same text in
  one chunk extends the answer.\<close>

theorem chat_split_event_lost:
  assumes "run s = Some r" and "r_reading r" and "newline \<notin> set a" and "newline \<notin> set b"
    and "parse a = Inl e" and "\<not> startsWith b ''data: ''" and "parse (a @ b) = Inr (delta d)"
  shows "read_chunk parse text_of (b @ [newline, newline]) (read_chunk parse text_of (''data: '' @ a) s) = s \<and>
    messages (read_chunk parse text_of ((''data: '' @ a) @ b @ [newline, newline]) s) =
      update_pending (\<lambda>m. m\<lparr>m_content := fullContent r @ d\<rparr>) (messages s)"
proof
  have na: "newline \<notin> set (''data: '' @ a)" using assms newline_not_data by auto
  have "chat_line parse text_of (''data: '' @ a) rs = rs" for rs
    using data_prefix [of a] assms by (simp add: chat_line_def startsWith_def del: append.simps)
  then have 1: "read_chunk parse text_of (''data: '' @ a) s = s"
    using assms na by (cases s) (simp add: read_chunk_def chat_chunk_def split_on_plain del: append.simps)
  have "split_on newline (b @ [newline, newline]) = [b, [], []]"
    using split_on_append_sep [OF assms(4), of "[newline]"] by simp
  then have "read_chunk parse text_of (b @ [newline, newline]) s = s"
    using assms by (cases s) (simp add: read_chunk_def chat_chunk_def chat_line_other)
  with 1 show "read_chunk parse text_of (b @ [newline, newline]) (read_chunk parse text_of (''data: '' @ a) s) = s"
    by simp
  have w: "(''data: '' @ a) @ b @ [newline, newline] = wire (\<lambda>_. a @ b) [delta d]" by (simp add: wire_def)
  have "\<forall>j\<in>set [delta d]. encodes parse (\<lambda>_. a @ b) j" using assms by (simp add: encodes_def)
  from read_chunk_wire [OF this assms(1,2)]
  show "messages (read_chunk parse text_of ((''data: '' @ a) @ b @ [newline, newline]) s) =
      update_pending (\<lambda>m. m\<lparr>m_content := fullContent r @ d\<rparr>) (messages s)"
    unfolding w by (simp add: chat_event_delta)
qed

definition reading_chat :: chat where
  "reading_chat = chat_init\<lparr>isStreaming := True,
     run := Some \<lparr>r_conv = None, r_header = None, r_reading = True, fullContent = []\<rparr>,
     messages := [\<lparr>m_id = pending_id, m_role = Assistant, m_content = [], m_streaming = True\<rparr>]\<rparr>"

theorem chat_split_event_lost_witness:
  "read_chunk (\<lambda>t. if t = ''{}'' then Inr (delta ''Hi'') else Inl SyntaxError) (\<lambda>_. []) (''}'' @ [newline, newline])
     (read_chunk (\<lambda>t. if t = ''{}'' then Inr (delta ''Hi'') else Inl SyntaxError) (\<lambda>_. []) (''data: '' @ ''{'') reading_chat) =
   reading_chat"
  using chat_split_event_lost [of reading_chat "\<lparr>r_conv = None, r_header = None, r_reading = True, fullContent = []\<rparr>"
      "''{''" "''}''" "\<lambda>t. if t = ''{}'' then Inr (delta ''Hi'') else Inl SyntaxError" SyntaxError "''Hi''" "\<lambda>_. []"]
  by (simp add: reading_chat_def newline_def startsWith_def)

section \<open>One answer at a time\<close>

definition chat_inv :: "chat \<Rightarrow> bool" where
  "chat_inv s \<longleftrightarrow> (isStreaming s \<longleftrightarrow> run s \<noteq> None) \<and> chat_model s \<in> set (map fst AI_MODELS)"

lemma chat_event_frame:
  "isStreaming (snd (chat_event text_of j (r, s))) = isStreaming s \<and>
   chat_model (snd (chat_event text_of j (r, s))) = chat_model s \<and>
   chat_sent (snd (chat_event text_of j (r, s))) = chat_sent s"
  by (simp add: chat_event_def Let_def split: sum.splits)

lemma chat_line_frame:
  "isStreaming (snd (chat_line parse text_of l (r, s))) = isStreaming s \<and>
   chat_model (snd (chat_line parse text_of l (r, s))) = chat_model s \<and>
   chat_sent (snd (chat_line parse text_of l (r, s))) = chat_sent s"
  by (simp add: chat_line_def chat_event_frame split: sum.splits)

lemma chat_lines_frame:
  "isStreaming (snd (fold (chat_line parse text_of) ls (r, s))) = isStreaming s \<and>
   chat_model (snd (fold (chat_line parse text_of) ls (r, s))) = chat_model s \<and>
   chat_sent (snd (fold (chat_line parse text_of) ls (r, s))) = chat_sent s"
proof (induction ls arbitrary: r s)
  case (Cons l ls)
  then show ?case using chat_line_frame [of parse text_of l r s] by (cases "chat_line parse text_of l (r, s)") simp
qed simp

lemma read_chunk_frame:
  "isStreaming (read_chunk parse text_of c s) = isStreaming s \<and> chat_model (read_chunk parse text_of c s) = chat_model s \<and>
   chat_sent (read_chunk parse text_of c s) = chat_sent s \<and> (run (read_chunk parse text_of c s) = None \<longleftrightarrow> run s = None)"
  using chat_lines_frame [of parse text_of "split_on newline c" _ s]
  by (auto simp: read_chunk_def chat_chunk_def split: option.splits prod.splits) (metis snd_conv)+

lemma chat_step_inv: "chat_inv s \<Longrightarrow> chat_inv (chat_step parse text_of e s)"
proof (cases e)
  case (Chunk c)
  then show "chat_inv s \<Longrightarrow> ?thesis" using read_chunk_frame [of parse text_of c s] by (simp add: chat_inv_def)
qed (auto simp: chat_inv_def sendMessage_def response_def send_failed_def stream_end_def conv_loaded_def
  conv_deleted_def startNewConversation_def Let_def split: option.splits)

interpretation chat: component "chat_step parse text_of" chat_inv for parse text_of
  by unfold_locales (rule chat_step_inv)

text \<open>Whatever happened before, a message is sent only when no answer is awaited and it is not
  blank, exactly once and trimmed, for the active conversation and with a model the panel offers.\<close>

theorem chat_sends_one_at_a_time:
  "(let s = fold (chat_step parse text_of) es chat_init in
    chat_sent (chat_step parse text_of (SendChat now) s) =
      (if run s = None \<and> trim (chat_input s) \<noteq> []
       then chat_sent s @ [chat_body (activeConvID s) (trim (chat_input s)) (chat_model s)] else chat_sent s) \<and>
    chat_model s \<in> set (map fst AI_MODELS) \<and> (isStreaming s \<longleftrightarrow> run s \<noteq> None))"
proof -
  have "chat_inv chat_init" by (simp add: chat_inv_def chat_init_def AI_MODELS_def)
  from chat.run_inv [OF this, of parse text_of es] show ?thesis
    by (simp add: chat_inv_def sendMessage_def Let_def)
qed

lemma delta_to_all_pending:
  assumes "run s = Some r" and "r_reading r" and "encodes parse enc (delta d)"
  shows "messages (read_chunk parse text_of (wire enc [delta d]) s) =
     update_pending (\<lambda>m. m\<lparr>m_content := fullContent r @ d\<rparr>) (messages s)"
  using assms by (simp add: read_chunk_wire chat_event_delta)

text \<open>A stream that ends without its last event leaves its answer under the id of an
  unfinished one, so the next answer is written over it as well: after the next message and its
  first piece every answer that was left unfinished shows that piece.\<close>

theorem unfinished_answer_overwritten:
  assumes "run s = None" and "\<not> isStreaming s" and "trim (chat_input s) \<noteq> []" and "now \<noteq> ''pending''"
    and "encodes parse enc (delta d)"
  shows "filter (\<lambda>m. m_id m = pending_id)
      (messages (fold (chat_step parse text_of) [SendChat now, Response True h, Chunk (wire enc [delta d])] s)) =
    map (\<lambda>m. m\<lparr>m_content := d\<rparr>) (filter (\<lambda>m. m_id m = pending_id) (messages s)) @
      [\<lparr>m_id = pending_id, m_role = Assistant, m_content = d, m_streaming = True\<rparr>]"
proof -
  define s1 where "s1 = response True h (sendMessage now s)"
  have s1: "run s1 = Some \<lparr>r_conv = activeConvID s, r_header = h, r_reading = True, fullContent = []\<rparr>"
    "messages s1 = messages s @
      [\<lparr>m_id = JStr now, m_role = UserRole, m_content = trim (chat_input s), m_streaming = False\<rparr>,
       \<lparr>m_id = pending_id, m_role = Assistant, m_content = [], m_streaming = True\<rparr>]"
    using assms by (simp_all add: s1_def sendMessage_def response_def Let_def)
  have f: "filter (\<lambda>m. m_id m = pending_id) (update_pending (\<lambda>m. m\<lparr>m_content := d\<rparr>) ms) =
      map (\<lambda>m. m\<lparr>m_content := d\<rparr>) (filter (\<lambda>m. m_id m = pending_id) ms)" for ms
    by (induction ms) (auto simp: update_pending_def)
  have "JStr now \<noteq> pending_id" using assms by (simp add: pending_id_def)
  then show ?thesis using delta_to_all_pending [OF s1(1) _ assms(5), of text_of] s1(2)
    by (simp add: s1_def [symmetric] f)
qed

theorem unfinished_answer_overwritten_witness:
  "map m_content (filter (\<lambda>m. m_id m = pending_id)
     (messages (fold (chat_step sample_parse (\<lambda>_. []))
        [SendChat ''2'', Response True None, Chunk (wire sample_enc [delta ''y''])]
        (chat_init\<lparr>chat_input := ''b'', messages :=
           [\<lparr>m_id = pending_id, m_role = Assistant, m_content = ''old'', m_streaming = True\<rparr>]\<rparr>)))) = [''y'', ''y'']"
proof -
  have "trim ''b'' = ''b''" by code_simp
  then show ?thesis
    using unfinished_answer_overwritten [of "chat_init\<lparr>chat_input := ''b'', messages :=
        [\<lparr>m_id = pending_id, m_role = Assistant, m_content = ''old'', m_streaming = True\<rparr>]\<rparr>" "''2''"
        sample_parse sample_enc "''y''" "\<lambda>_. []" None]
    by (simp add: chat_init_def sample_encodes)
qed

end
