(* ===== verification/Terminal.thy ===== *)
theory Terminal
  imports Url Realtime
begin

text \<open>
  The SSH terminal, app/(panel)/terminal/page.tsx: the connection form, the WebSocket whose query
  carries it, what the sockets write to their terminals and what is typed into them. Every
  terminal the page opened and its socket are kept, the page's ref points to the last one. The
  terminal emulator is the environment: its output is the list of writes, typing and resizing
  are events. \<open>text_of\<close> is the text of a value that is not a string in a concatenation.
\<close>

section \<open>URLSearchParams\<close>

text \<open>The serializer of \<open>application/x-www-form-urlencoded\<close>.\<close>

definition form_plain :: "char \<Rightarrow> bool" where
  "form_plain c \<longleftrightarrow> is_upper c \<or> is_lower c \<or> is_digit c \<or> c \<in> set ''*-._''"

definition form_char :: "char \<Rightarrow> string" where
  "form_char c = (if form_plain c then [c] else if c = CHR '' '' then ''+''
     else concat (map percent (utf8_bytes c)))"

definition form_encode :: "string \<Rightarrow> string" where
  "form_encode s = concat (map form_char s)"

definition form_pair :: "string \<times> string \<Rightarrow> string" where
  "form_pair kv = form_encode (fst kv) @ CHR ''='' # form_encode (snd kv)"

definition search_params :: "(string \<times> string) list \<Rightarrow> string" where
  "search_params kvs = join_on (CHR ''&'') (map form_pair kvs)"

section \<open>State\<close>

record term_form =
  t_host :: string
  t_port :: string
  t_user :: string
  t_auth :: string
  t_password :: string

datatype term_write = Write jsval | Writeln string

record term_socket =
  ts_url :: string
  ts_host :: string
  ts_phase :: phase
  ts_sent :: "json list"
  ts_out :: "term_write list"

record terminal =
  t_form :: term_form
  t_connected :: bool
  t_fullscreen :: bool
  t_sockets :: "term_socket list"
  t_ref :: "nat option"

definition terminal_init :: terminal where
  "terminal_init = \<lparr>t_form = \<lparr>t_host = [], t_port = ''22'', t_user = ''root'', t_auth = ''password'', t_password = []\<rparr>,
     t_connected = False, t_fullscreen = False, t_sockets = [], t_ref = None\<rparr>"

section \<open>Operations\<close>

definition term_params :: "term_form \<Rightarrow> (string \<times> string) list" where
  "term_params f = [(''host'', t_host f), (''port'', t_port f), (''user'', t_user f), (''auth'', t_auth f)] @
     (if t_auth f = ''password'' then [(''password'', t_password f)] else [])"

definition wsUrl :: "bool \<Rightarrow> string \<Rightarrow> term_form \<Rightarrow> string" where
  "wsUrl https location_host f = (if https then ''wss'' else ''ws'') @ ''://'' @ location_host @
     ''/api/v1/terminal?'' @ search_params (term_params f)"

definition term_connect :: "bool \<Rightarrow> string \<Rightarrow> terminal \<Rightarrow> terminal" where
  "term_connect https location_host s =
    (if t_host (t_form s) = [] then s
     else s\<lparr>t_sockets := t_sockets s @
              [\<lparr>ts_url = wsUrl https location_host (t_form s), ts_host = t_host (t_form s), ts_phase = CONNECTING, ts_sent = [], ts_out = []\<rparr>],
            t_ref := Some (length (t_sockets s))\<rparr>)"

definition on_socket :: "nat \<Rightarrow> (term_socket \<Rightarrow> term_socket) \<Rightarrow> terminal \<Rightarrow> terminal" where
  "on_socket i f s = s\<lparr>t_sockets := (t_sockets s)[i := f (t_sockets s ! i)]\<rparr>"

definition term_out :: "term_write \<Rightarrow> term_socket \<Rightarrow> term_socket" where
  "term_out w k = k\<lparr>ts_out := ts_out k @ [w]\<rparr>"

definition escape :: "string \<Rightarrow> string" where
  "escape code = [CHR 0x0D, CHR 0x0A, CHR 0x1B] @ code"

definition term_reset :: string where
  "term_reset = CHR 0x1B # ''[0m''"

text \<open>The banner names the host the form had when the connection was asked for.\<close>

definition term_onopen :: "nat \<Rightarrow> terminal \<Rightarrow> terminal" where
  "term_onopen i s = (on_socket i
     (\<lambda>k. term_out (Writeln (escape ''[32m'' @ ''Connecting to '' @ ts_host k @ ''...'' @ term_reset)) k) s)\<lparr>t_connected := True\<rparr>"

definition term_onmessage ::
  "(string \<Rightarrow> json res) \<Rightarrow> (json \<Rightarrow> string) \<Rightarrow> nat \<Rightarrow> string \<Rightarrow> terminal \<Rightarrow> terminal" where
  "term_onmessage parse text_of i data s =
    (case bind_res (parse data) (\<lambda>msg. map_sum id (\<lambda>t. (msg, t)) (member (Some msg) ''type'')) of
       Inl _ \<Rightarrow> on_socket i (term_out (Write (Some (JStr data)))) s
     | Inr (msg, t) \<Rightarrow>
         if t = Some (JStr ''output'') then on_socket i (term_out (Write (own_prop msg ''data''))) s
         else if t = Some (JStr ''error'') then
           (on_socket i (term_out (Writeln (escape ''[31m'' @ appended text_of (own_prop msg ''data'') @ term_reset))) s)
             \<lparr>t_connected := False\<rparr>
         else s)"

definition term_onclose :: "nat \<Rightarrow> terminal \<Rightarrow> terminal" where
  "term_onclose i s =
     (on_socket i (term_out (Writeln (escape ''[33m'' @ ''Connection closed.'' @ term_reset))) s)\<lparr>t_connected := False\<rparr>"

definition term_onerror :: "nat \<Rightarrow> terminal \<Rightarrow> terminal" where
  "term_onerror i s =
     (on_socket i (term_out (Writeln (escape ''[31m'' @ ''Connection error.'' @ term_reset))) s)\<lparr>t_connected := False\<rparr>"

definition term_send :: "nat \<Rightarrow> json \<Rightarrow> terminal \<Rightarrow> terminal" where
  "term_send i j s = (if ts_phase (t_sockets s ! i) = OPEN
     then on_socket i (\<lambda>k. k\<lparr>ts_sent := ts_sent k @ [j]\<rparr>) s else s)"

definition input_msg :: "string \<Rightarrow> json" where
  "input_msg data = JObj [(''type'', JStr ''input''), (''data'', JStr data)]"

definition resize_msg :: "nat \<Rightarrow> nat \<Rightarrow> json" where
  "resize_msg cols rows = JObj [(''type'', JStr ''resize''), (''cols'', JNum (of_nat cols)), (''rows'', JNum (of_nat rows))]"

text \<open>\<open>wsRef.current?.close()\<close>.\<close>

definition close_ref :: "terminal \<Rightarrow> terminal" where
  "close_ref s = (case t_ref s of None \<Rightarrow> s
     | Some i \<Rightarrow> on_socket i (\<lambda>k. if ts_phase k = CLOSED then k else k\<lparr>ts_phase := CLOSING\<rparr>) s)"

definition term_disconnect :: "terminal \<Rightarrow> terminal" where
  "term_disconnect s = (close_ref s)\<lparr>t_connected := False\<rparr>"

section \<open>Events\<close>

text \<open>The form is shown only while not connected, the terminals and the button to disconnect only while
  connected.\<close>

datatype term_event =
    EditForm term_form
  | ConnectTo
  | SockOpened nat
  | SockMessage nat string
  | SockClosed nat
  | SockError nat
  | Typed nat string
  | Resized nat nat nat
  | DisconnectFrom
  | ToggleFullscreen
  | Unmount

definition alive_sock :: "terminal \<Rightarrow> nat \<Rightarrow> bool" where
  "alive_sock s i \<longleftrightarrow> i < length (t_sockets s) \<and> ts_phase (t_sockets s ! i) \<noteq> CLOSED"

fun term_step :: "(string \<Rightarrow> json res) \<Rightarrow> (json \<Rightarrow> string) \<Rightarrow> bool \<Rightarrow> string \<Rightarrow> term_event \<Rightarrow> terminal \<Rightarrow> terminal" where
  "term_step parse text_of https lh (EditForm f) s = (if t_connected s then s else s\<lparr>t_form := f\<rparr>)"
| "term_step parse text_of https lh ConnectTo s = (if t_connected s then s else term_connect https lh s)"
| "term_step parse text_of https lh (SockOpened i) s =
     (if i < length (t_sockets s) \<and> ts_phase (t_sockets s ! i) = CONNECTING
      then term_onopen i (on_socket i (\<lambda>k. k\<lparr>ts_phase := OPEN\<rparr>) s) else s)"
| "term_step parse text_of https lh (SockMessage i d) s =
     (if alive_sock s i \<and> ts_phase (t_sockets s ! i) \<noteq> CONNECTING then term_onmessage parse text_of i d s else s)"
| "term_step parse text_of https lh (SockClosed i) s =
     (if alive_sock s i then term_onclose i (on_socket i (\<lambda>k. k\<lparr>ts_phase := CLOSED\<rparr>) s) else s)"
| "term_step parse text_of https lh (SockError i) s = (if alive_sock s i then term_onerror i s else s)"
| "term_step parse text_of https lh (Typed i d) s =
     (if t_connected s \<and> i < length (t_sockets s) then term_send i (input_msg d) s else s)"
| "term_step parse text_of https lh (Resized i c r) s =
     (if i < length (t_sockets s) then term_send i (resize_msg c r) s else s)"
| "term_step parse text_of https lh DisconnectFrom s = (if t_connected s then term_disconnect s else s)"
| "term_step parse text_of https lh ToggleFullscreen s = s\<lparr>t_fullscreen := \<not> t_fullscreen s\<rparr>"
| "term_step parse text_of https lh Unmount s = close_ref s"

section \<open>The address of the socket\<close>

lemma form_plain_unreserved: "form_plain c \<Longrightarrow> unreserved c"
  by (auto simp: form_plain_def unreserved_def)

lemma unescape_form_char: "unescape (form_char c @ s) = map_option ((@) (utf8_bytes c)) (unescape s)"
proof (cases "form_plain c")
  case True
  then show ?thesis using unescape_encode_char [of c s] form_plain_unreserved [OF True]
    by (simp add: form_char_def encode_char_def)
next
  case False
  show ?thesis
  proof (cases "c = CHR '' ''")
    case True
    have "\<not> form_plain (CHR '' '')" "utf8_bytes (CHR '' '') = [32]" by code_simp+
    then show ?thesis using True by (cases "unescape s") (simp_all add: form_char_def)
  next
    case False
    with \<open>\<not> form_plain c\<close> utf8_bytes_less show ?thesis by (auto simp: form_char_def intro: unescape_percents)
  qed
qed

lemma unescape_form: "unescape (form_encode s) = Some (concat (map utf8_bytes s))"
  by (induction s) (simp_all add: form_encode_def unescape_form_char)

lemma decode_form [simp]: "decode (form_encode s) = Some s"
  by (simp add: decode_def unescape_form utf8_decode_encode)

lemma form_chars: "x \<in> set (form_encode s) \<Longrightarrow> unreserved x \<or> x = CHR ''%'' \<or> x = CHR ''+''"
proof -
  assume "x \<in> set (form_encode s)"
  then obtain c where x: "x \<in> set (form_char c)" by (auto simp: form_encode_def)
  show ?thesis
  proof (cases "form_plain c \<or> c = CHR '' ''")
    case True
    with x show ?thesis by (auto simp: form_char_def form_plain_unreserved split: if_splits)
  next
    case False
    with x obtain b where "b \<in> set (utf8_bytes c)" "x \<in> set (percent b)" by (auto simp: form_char_def)
    then show ?thesis using set_percent utf8_bytes_less by blast
  qed
qed

lemma form_notin: "c \<in> set ''&=?/# '' \<Longrightarrow> c \<notin> set (form_encode s)"
  using form_chars [of c s] unreserved_plain [of c] by auto

lemma key_value_form [simp]: "key_value_pair (form_pair kv) = Some kv"
  using form_notin [of "CHR ''=''" "fst kv"]
  by (simp add: key_value_pair_def form_pair_def takeWhile_plain dropWhile_plain)

lemma amp_notin_form: "CHR ''&'' \<notin> set (form_pair kv)"
  using form_notin [of "CHR ''&''"] by (auto simp: form_pair_def)

lemma query_search_params:
  assumes "CHR ''?'' \<notin> set p" and "kvs \<noteq> []"
  shows "query (p @ CHR ''?'' # search_params kvs) = map Some kvs"
proof -
  have "split_on (CHR ''&'') (search_params kvs) = map form_pair kvs"
    unfolding search_params_def using assms(2) amp_notin_form by (intro split_join) auto
  then show ?thesis using assms(1) by (simp add: query_def dropWhile_plain)
qed

text \<open>The address the terminal connects to carries exactly the form: whatever host, user and
  password are typed (\<open>&\<close>, \<open>=\<close>, spaces, accents), the query reads back as those fields and no
  others, the password being part of it exactly when it is the method chosen.\<close>

theorem terminal_url_roundtrip:
  assumes "CHR ''?'' \<notin> set lh"
  shows "query (wsUrl https lh f) = map Some (term_params f) \<and>
     url_path (wsUrl https lh f) = (if https then ''wss'' else ''ws'') @ ''://'' @ lh @ ''/api/v1/terminal''"
proof -
  let ?p = "(if https then ''wss'' else ''ws'') @ ''://'' @ lh @ ''/api/v1/terminal''"
  have "wsUrl https lh f = ?p @ CHR ''?'' # search_params (term_params f)" by (simp add: wsUrl_def)
  moreover have "CHR ''?'' \<notin> set ?p" using assms by simp
  moreover have "term_params f \<noteq> []" by (simp add: term_params_def)
  ultimately show ?thesis using query_search_params [of ?p "term_params f"] url_path_rendered [of ?p] by metis
qed

theorem terminal_url_roundtrip_witness:
  "query (wsUrl True ''panel.example'' \<lparr>t_host = ''h&port=1'', t_port = ''22'', t_user = ''a b'', t_auth = ''password'',
      t_password = ''p=&?''\<rparr>) =
   [Some (''host'', ''h&port=1''), Some (''port'', ''22''), Some (''user'', ''a b''), Some (''auth'', ''password''),
    Some (''password'', ''p=&?'')]"
  using terminal_url_roundtrip [of "''panel.example''" True "\<lparr>t_host = ''h&port=1'', t_port = ''22'', t_user = ''a b'',
      t_auth = ''password'', t_password = ''p=&?''\<rparr>"]
  by (simp add: term_params_def)

section \<open>Sockets\<close>

text \<open>The ref points to the last socket, and a socket sends nothing before it is open.\<close>

definition term_inv :: "terminal \<Rightarrow> bool" where
  "term_inv s \<longleftrightarrow> t_ref s = (if t_sockets s = [] then None else Some (length (t_sockets s) - 1)) \<and>
     list_all (\<lambda>k. ts_phase k = CONNECTING \<longrightarrow> ts_sent k = []) (t_sockets s)"

lemma list_all_nth_update: "list_all P xs \<Longrightarrow> (i < length xs \<Longrightarrow> P (xs ! i) \<Longrightarrow> P y) \<Longrightarrow> list_all P (xs[i := y])"
proof (cases "i < length xs")
  case True
  moreover assume "list_all P xs" and "i < length xs \<Longrightarrow> P (xs ! i) \<Longrightarrow> P y"
  ultimately have "P y" "list_all P xs" by (auto simp: list_all_length)
  then show ?thesis using set_update_subset_insert [of xs i y] by (auto simp: list_all_iff)
qed (simp add: list_update_beyond)

lemma term_inv_socket:
  "term_inv s \<Longrightarrow> (\<And>k. (ts_phase k = CONNECTING \<longrightarrow> ts_sent k = []) \<Longrightarrow> ts_phase (f k) = CONNECTING \<longrightarrow> ts_sent (f k) = []) \<Longrightarrow>
   term_inv (on_socket i f s)"
  by (auto simp: term_inv_def on_socket_def intro!: list_all_nth_update)

lemma term_inv_connected [simp]: "term_inv (s\<lparr>t_connected := b\<rparr>) = term_inv s"
  by (simp add: term_inv_def)

lemma term_out_fields [simp]: "ts_phase (term_out w k) = ts_phase k" "ts_sent (term_out w k) = ts_sent k"
  by (simp_all add: term_out_def)

lemma term_inv_out [intro]: "term_inv s \<Longrightarrow> term_inv (on_socket i (term_out w) s)"
  by (erule term_inv_socket) simp

lemma term_inv_message: "term_inv s \<Longrightarrow> term_inv (term_onmessage parse text_of i d s)"
  by (auto simp: term_onmessage_def split: sum.splits)

lemma term_inv_send: "term_inv s \<Longrightarrow> term_inv (term_send i j s)"
  by (auto simp: term_send_def term_inv_def on_socket_def intro!: list_all_nth_update)

lemma term_inv_close: "term_inv s \<Longrightarrow> term_inv (close_ref s)"
  by (auto simp: close_ref_def split: option.splits if_splits intro!: term_inv_socket)

lemma term_inv_connect: "term_inv s \<Longrightarrow> term_inv (term_connect https lh s)"
  by (auto simp: term_connect_def term_inv_def)

lemma term_step_inv: "term_inv s \<Longrightarrow> term_inv (term_step parse text_of https lh e s)"
  by (cases e)
    (auto simp: term_inv_message term_inv_send term_inv_close term_inv_connect term_onopen_def term_onclose_def
      term_onerror_def term_disconnect_def intro!: term_inv_socket, auto simp: term_inv_def)

interpretation terminal: component "term_step parse text_of https lh" term_inv for parse text_of https lh
  by unfold_locales (rule term_step_inv)

text \<open>Connecting again before the first connection is open leaves two sessions, and the page
  reaches only the second: what is typed into the first terminal is still sent, and disconnecting
  leaves the first session open.\<close>

theorem terminal_disconnect_leaks:
  assumes "t_host f \<noteq> []"
  shows "(let s = fold (term_step parse text_of https lh)
        [EditForm f, ConnectTo, ConnectTo, SockOpened 0, SockOpened 1, Typed 0 d, DisconnectFrom] terminal_init in
     map ts_phase (t_sockets s) = [OPEN, CLOSING] \<and> map ts_sent (t_sockets s) = [[input_msg d], []] \<and>
     \<not> t_connected s)"
proof -
  let ?k = "\<lparr>ts_url = wsUrl https lh f, ts_host = t_host f, ts_phase = CONNECTING, ts_sent = [], ts_out = []\<rparr>"
  let ?s = "terminal_init\<lparr>t_form := f, t_sockets := [?k, ?k], t_ref := Some 1\<rparr>"
  have 1: "fold (term_step parse text_of https lh) [EditForm f, ConnectTo, ConnectTo] terminal_init = ?s"
    using assms by (simp add: terminal_init_def term_connect_def)
  let ?u = "fold (term_step parse text_of https lh) [SockOpened 0, SockOpened 1] ?s"
  have 2: "map ts_phase (t_sockets ?u) = [OPEN, OPEN]" "map ts_sent (t_sockets ?u) = [[], []]"
    "t_connected ?u" "t_ref ?u = Some 1"
    by (simp_all add: term_onopen_def on_socket_def terminal_init_def)
  obtain a b where ab: "t_sockets ?u = [a, b]" using 2(1) by (auto simp: map_eq_Cons_conv)
  have p: "ts_phase a = OPEN" "ts_phase b = OPEN" "ts_sent a = []" "ts_sent b = []" using 2(1,2) ab by simp_all
  have "fold (term_step parse text_of https lh)
      [EditForm f, ConnectTo, ConnectTo, SockOpened 0, SockOpened 1, Typed 0 d, DisconnectFrom] terminal_init =
    fold (term_step parse text_of https lh) [Typed 0 d, DisconnectFrom] ?u"
    using 1 by simp
  moreover have "map ts_phase (t_sockets (fold (term_step parse text_of https lh) [Typed 0 d, DisconnectFrom] v)) = [OPEN, CLOSING] \<and>
      map ts_sent (t_sockets (fold (term_step parse text_of https lh) [Typed 0 d, DisconnectFrom] v)) = [[input_msg d], []] \<and>
      \<not> t_connected (fold (term_step parse text_of https lh) [Typed 0 d, DisconnectFrom] v)"
    if "t_sockets v = [a, b]" "t_connected v" "t_ref v = Some 1" for v
    using that p by (simp add: term_send_def on_socket_def term_disconnect_def close_ref_def)
  note this [OF ab 2(3,4)]
  ultimately show ?thesis unfolding Let_def by (elim ssubst)
qed

theorem terminal_disconnect_leaks_witness:
  "map ts_phase (t_sockets (fold (term_step (\<lambda>_. Inl SyntaxError) (\<lambda>_. []) True ''panel'')
     [EditForm \<lparr>t_host = ''h'', t_port = ''22'', t_user = ''root'', t_auth = ''key'', t_password = []\<rparr>,
      ConnectTo, ConnectTo, SockOpened 0, SockOpened 1, Typed 0 ''ls'', DisconnectFrom] terminal_init)) = [OPEN, CLOSING]"
proof -
  have "t_host \<lparr>t_host = ''h'', t_port = ''22'', t_user = ''root'', t_auth = ''key'', t_password = []\<rparr> \<noteq> []" by simp
  from terminal_disconnect_leaks [OF this] show ?thesis unfolding Let_def by (rule conjunct1)
qed

end
