(* ===== verification/Panel.thy ===== *)
theory Panel
  imports ApiCatalog
begin

text \<open>
  The pages of the panel (app/(panel)): each page shows the data of its queries and changes the
  server through its mutations. A page is given by the functions its source declares: the calls of
  \<open>useQuery\<close> and \<open>useMutation\<close>, the \<open>onSuccess\<close> and \<open>onError\<close> callbacks and the handlers of its
  inputs and buttons. The step function runs them against the answers of the server, which come in
  any order.

  The locales are the contracts of a page. Under \<open>panel_page\<close> every request ever sent is one the
  page's buttons allow, and a guarded mutation never runs twice at the same time. Under
  \<open>fresh_page\<close> no list on the page is left showing data that a finished mutation has changed.
\<close>

section \<open>Pages and their states\<close>

datatype effect =
    Invalidate "string list"
  | Success string
  | Failure string
  | Copied string
  | Goto string
  | Ask api_call

datatype (discs_sels) 'm act = Mutate 'm | Do effect

text \<open>\<open>Ask\<close> is a read made by a handler itself, outside the queries and mutations of the page.\<close>

text \<open>A busy test is what a handler reads: \<open>isPending\<close> of the mutation whose calls satisfy the
  predicate.\<close>

type_synonym 'm busy = "('m \<Rightarrow> bool) \<Rightarrow> bool"

record ('m, 'u, 'e) page =
  p_call :: "'m \<Rightarrow> api_call"
  p_queries :: "'u \<Rightarrow> (string list \<times> api_call) list"
  p_handle :: "'e \<Rightarrow> 'm busy \<Rightarrow> 'u \<Rightarrow> 'u \<times> 'm act list"
  p_success :: "'m \<Rightarrow> 'u \<Rightarrow> effect list"
  p_error :: "'m \<Rightarrow> effect list"
  p_after :: "'m \<Rightarrow> 'u \<Rightarrow> 'u"
  p_failed :: "'m \<Rightarrow> 'u \<Rightarrow> 'u"

record ('m, 'u) page_state =
  p_ui :: 'u
  p_sent :: "'m list"
  p_waiting :: "nat list"
  p_log :: "effect list"
  p_outdated :: "string list list"

definition page_start :: "'u \<Rightarrow> ('m, 'u) page_state" where
  "page_start u = \<lparr>p_ui = u, p_sent = [], p_waiting = [], p_log = [], p_outdated = []\<rparr>"

text \<open>\<open>isPending\<close> of a mutation: its last call has not been answered.\<close>

definition pending_of :: "'m list \<Rightarrow> nat list \<Rightarrow> 'm busy" where
  "pending_of ms w h = (case filter (\<lambda>i. h (ms ! i)) (rev [0..<length ms]) of
     [] \<Rightarrow> False | i # _ \<Rightarrow> i \<in> set w)"

text \<open>\<open>invalidateQueries({ queryKey })\<close> fetches every query again whose key starts with it;
  \<open>refetch()\<close> of a query does so for its own key.\<close>

fun do_effect :: "effect \<Rightarrow> ('m, 'u) page_state \<Rightarrow> ('m, 'u) page_state" where
  "do_effect (Invalidate k) s =
     s\<lparr>p_log := p_log s @ [Invalidate k], p_outdated := filter (\<lambda>q. \<not> prefix k q) (p_outdated s)\<rparr>"
| "do_effect x s = s\<lparr>p_log := p_log s @ [x]\<rparr>"

fun do_act :: "'m act \<Rightarrow> ('m, 'u) page_state \<Rightarrow> ('m, 'u) page_state" where
  "do_act (Mutate m) s =
     s\<lparr>p_sent := p_sent s @ [m], p_waiting := p_waiting s @ [length (p_sent s)]\<rparr>"
| "do_act (Do x) s = do_effect x s"

text \<open>A call that is not a read changes the data of the query under whose path it is addressed:
  \<open>DELETE /webserver/cron/7\<close> changes what \<open>GET /webserver/cron\<close> returns. Of nested collections it
  is the inner one: \<open>DELETE /backups/schedules/7\<close> changes \<open>GET /backups/schedules\<close>, not
  \<open>GET /backups\<close>.\<close>

definition path_of_call :: "api_call \<Rightarrow> string list" where
  "path_of_call c = split_on (CHR ''/'') (url_path (url (api_request c)))"

definition touches :: "api_call \<Rightarrow> api_call \<Rightarrow> bool" where
  "touches c q \<longleftrightarrow> verb (api_request c) \<noteq> GET \<and> prefix (path_of_call q) (path_of_call c)"

definition touched :: "api_call \<Rightarrow> (string list \<times> api_call) list \<Rightarrow> string list list" where
  "touched c qs = (let near = filter (\<lambda>(k, q). touches c q) qs in
     map fst (filter (\<lambda>(k, q). list_all (\<lambda>(k', q').
       length (path_of_call q') \<le> length (path_of_call q)) near) near))"

lemma set_touched: "set (touched c qs) \<subseteq> fst ` set qs"
  by (auto simp: touched_def)

datatype 'e page_event = User 'e | Answered nat bool

fun page_step :: "('m, 'u, 'e) page \<Rightarrow> 'e page_event \<Rightarrow> ('m, 'u) page_state \<Rightarrow> ('m, 'u) page_state" where
  "page_step P (User e) s =
     (let (u, acts) = p_handle P e (pending_of (p_sent s) (p_waiting s)) (p_ui s)
      in fold do_act acts (s\<lparr>p_ui := u\<rparr>))"
| "page_step P (Answered i ok) s =
     (if i \<notin> set (p_waiting s) then s
      else let m = p_sent s ! i; s = s\<lparr>p_waiting := remove1 i (p_waiting s)\<rparr> in
        if ok then
          let s = s\<lparr>p_outdated := p_outdated s @ touched (p_call P m) (p_queries P (p_ui s))\<rparr>;
              s = fold do_effect (p_success P m (p_ui s)) s
          in s\<lparr>p_ui := p_after P m (p_ui s)\<rparr>
        else let s = fold do_effect (p_error P m) s in s\<lparr>p_ui := p_failed P m (p_ui s)\<rparr>)"

definition page_run :: "('m, 'u, 'e) page \<Rightarrow> 'u \<Rightarrow> 'e page_event list \<Rightarrow> ('m, 'u) page_state" where
  "page_run P u es = fold (page_step P) es (page_start u)"

section \<open>What is asked of a page\<close>

text \<open>The queries a mutation leaves showing old data: it changes them and its \<open>onSuccess\<close> does not
  ask for them again.\<close>

definition refreshes :: "effect list \<Rightarrow> string list \<Rightarrow> bool" where
  "refreshes xs q \<longleftrightarrow> list_ex (\<lambda>x. case x of Invalidate k \<Rightarrow> prefix k q | _ \<Rightarrow> False) xs"

definition stale_after :: "('m, 'u, 'e) page \<Rightarrow> 'm \<Rightarrow> 'u \<Rightarrow> string list list" where
  "stale_after P m u = filter (\<lambda>q. \<not> refreshes (p_success P m u) q) (touched (p_call P m) (p_queries P u))"

definition fresh :: "('m, 'u, 'e) page \<Rightarrow> 'u \<Rightarrow> bool" where
  "fresh P u \<longleftrightarrow> (\<forall>es. p_outdated (page_run P u es) = [])"

definition sends_only :: "('m, 'u, 'e) page \<Rightarrow> 'u \<Rightarrow> ('m \<Rightarrow> bool) \<Rightarrow> bool" where
  "sends_only P u V \<longleftrightarrow> (\<forall>es. \<forall>m\<in>set (p_sent (page_run P u es)). V m)"

definition one_at_a_time :: "('m, 'u, 'e) page \<Rightarrow> 'u \<Rightarrow> ('m \<Rightarrow> bool) \<Rightarrow> bool" where
  "one_at_a_time P u h \<longleftrightarrow>
     (\<forall>es. let s = page_run P u es in length (filter (\<lambda>i. h (p_sent s ! i)) (p_waiting s)) \<le> 1)"

text \<open>A mutation without an \<open>onError\<close> message fails without the user being told.\<close>

definition silent_failure :: "('m, 'u, 'e) page \<Rightarrow> 'm \<Rightarrow> bool" where
  "silent_failure P m \<longleftrightarrow> \<not> list_ex (\<lambda>x. case x of Failure _ \<Rightarrow> True | _ \<Rightarrow> False) (p_error P m)"

section \<open>Forms\<close>

text \<open>The form of a page is the JavaScript object in its \<open>useState\<close>. A schema lists its inputs
  and the type of the values each one yields. A number input that is empty gives \<open>NaN\<close> where the
  code reads it as a number; JSON writes that as \<open>null\<close> (\<open>TNaN\<close>).\<close>

datatype field_type = TStr | TNum | TNaN | TBool | TArr

fun has_type :: "field_type \<Rightarrow> json \<Rightarrow> bool" where
  "has_type TStr (JStr _) = True"
| "has_type TNum (JNum _) = True"
| "has_type TNaN (JNum _) = True"
| "has_type TNaN JNull = True"
| "has_type TBool (JBool _) = True"
| "has_type TArr (JArr _) = True"
| "has_type _ _ = False"

type_synonym schema = "(string \<times> field_type) list"

definition conforms :: "schema \<Rightarrow> json \<Rightarrow> bool" where
  "conforms S f \<longleftrightarrow> list_all (\<lambda>(k, T). case own_prop f k of None \<Rightarrow> False | Some v \<Rightarrow> has_type T v) S"

text \<open>\<open>setForm(f => ({ ...f, [k]: v }))\<close> from the input of the field \<open>k\<close>.\<close>

definition type_in :: "schema \<Rightarrow> string \<Rightarrow> json \<Rightarrow> json \<Rightarrow> json" where
  "type_in S k v f = (case map_of S k of
     Some T \<Rightarrow> if has_type T v then spread f [(k, Some v)] else f
   | None \<Rightarrow> f)"

text \<open>\<open>form.a && form.b && ...\<close>, the negation of the \<open>disabled\<close> test of most buttons.\<close>

definition filled :: "string list \<Rightarrow> json \<Rightarrow> bool" where
  "filled ks f \<longleftrightarrow> list_all (\<lambda>k. truthy (own_prop f k)) ks"

text \<open>\<open>v || w\<close>.\<close>

definition js_or :: "jsval \<Rightarrow> jsval \<Rightarrow> jsval" where
  "js_or v w = (if truthy v then v else w)"

text \<open>The text of a field; only used of string fields.\<close>

definition str_field :: "json \<Rightarrow> string \<Rightarrow> string" where
  "str_field f k = (case own_prop f k of Some (JStr s) \<Rightarrow> s | _ \<Rightarrow> [])"

text \<open>The part of the state most pages have: whether the form is shown, and its content.\<close>

record form_ui =
  showForm :: bool
  form :: json

definition toggle_form :: "'a form_ui_scheme \<Rightarrow> 'a form_ui_scheme" where
  "toggle_form u = u\<lparr>showForm := \<not> showForm u\<rparr>"

definition hide_form :: "'a form_ui_scheme \<Rightarrow> 'a form_ui_scheme" where
  "hide_form u = u\<lparr>showForm := False\<rparr>"

text \<open>The inputs and buttons of the form exist while it is shown.\<close>

definition edit_form :: "schema \<Rightarrow> string \<Rightarrow> json \<Rightarrow> 'a form_ui_scheme \<Rightarrow> 'a form_ui_scheme" where
  "edit_form S k v u = (if showForm u then u\<lparr>form := type_in S k v (form u)\<rparr> else u)"

definition reset_form :: "json \<Rightarrow> 'a form_ui_scheme \<Rightarrow> 'a form_ui_scheme" where
  "reset_form blank u = u\<lparr>showForm := False, form := blank\<rparr>"

text \<open>The controls of a page with a form: the button that shows it, its Cancel button, its inputs, its
  submit button, and what else the page has.\<close>

datatype 'r form_event = ToggleForm | HideForm | Input string json | Submit | Control 'r

named_theorems page_defs \<open>definitions of pages, for evaluation\<close>

text \<open>\<open>{ a: v, ... }\<close> with string values only.\<close>

definition str_obj :: "(string \<times> string) list \<Rightarrow> json" where
  "str_obj kvs = obj (map (\<lambda>(k, v). (k, Some (JStr v))) kvs)"

lemmas [page_defs] = str_obj_def toggle_form_def hide_form_def edit_form_def reset_form_def

lemma form_simps [simp]:
  "form (toggle_form u) = form u" "form (hide_form u) = form u" "form (reset_form b u) = b"
  "form_ui.more (toggle_form u) = form_ui.more u" "form_ui.more (hide_form u) = form_ui.more u"
  "form_ui.more (edit_form S k v u) = form_ui.more u" "form_ui.more (reset_form b u) = form_ui.more u"
  by (simp_all add: page_defs)

lemma conforms_iff: "conforms S f \<longleftrightarrow> (\<forall>(k, T)\<in>set S. \<exists>v. own_prop f k = Some v \<and> has_type T v)"
  by (auto simp: conforms_def list_all_iff split: option.splits)

text \<open>Building objects keeps them typed, one property at a time.\<close>

lemma conforms_set:
  assumes "conforms S f" and "\<And>T. (k, T) \<in> set S \<Longrightarrow> has_type T v"
  shows "conforms S (spread f [(k, Some v)])"
  using assms by (auto simp: conforms_iff prop_spread map_of_entries)

lemma spread_Cons: "spread f (x # y # xs) = spread (spread f [x]) (y # xs)"
  by (simp add: spread_def)

lemma conforms_spread:
  "conforms S f \<Longrightarrow> list_all (\<lambda>(k, v). \<exists>j. v = Some j \<and> (\<forall>(k', T)\<in>set S. k' = k \<longrightarrow> has_type T j)) (x # xs) \<Longrightarrow>
    conforms S (spread f (x # xs))"
proof (induction xs arbitrary: f x)
  case Nil
  then show ?case by (auto intro!: conforms_set)
next
  case (Cons y ys)
  have "conforms S (spread f [x])" using Cons.prems by (auto intro!: conforms_set)
  then show ?case using Cons.IH Cons.prems(2) by (simp add: spread_Cons)
qed

lemma conforms_type_in [simp]:
  "conforms S f \<Longrightarrow> distinct (map fst S) \<Longrightarrow> conforms S (type_in S k v f)"
  by (auto simp: type_in_def intro!: conforms_set split: option.split dest: eq_key_imp_eq_value)

lemma conforms_edit [simp]:
  "conforms S (form u) \<Longrightarrow> distinct (map fst S) \<Longrightarrow> conforms S (form (edit_form S k v u))"
  by (simp add: edit_form_def)

section \<open>The contracts\<close>

fun mutations :: "'m act list \<Rightarrow> 'm list" where
  "mutations [] = []"
| "mutations (Mutate m # xs) = m # mutations xs"
| "mutations (Do x # xs) = mutations xs"

lemma do_effect_simps [simp]:
  "p_sent (do_effect x s) = p_sent s" "p_waiting (do_effect x s) = p_waiting s"
  "p_ui (do_effect x s) = p_ui s"
  by (cases x; simp)+

lemma fold_do_act:
  "p_sent (fold do_act acts s) = p_sent s @ mutations acts"
  "p_waiting (fold do_act acts s) =
     p_waiting s @ [length (p_sent s)..<length (p_sent s) + length (mutations acts)]"
  "p_ui (fold do_act acts s) = p_ui s"
proof (induction acts arbitrary: s)
  case (Cons a acts)
  { case 1 show ?case using Cons by (cases a) auto }
  { case 2 show ?case using Cons by (cases a) (simp_all add: upt_conv_Cons del: upt_Suc) }
  { case 3 show ?case using Cons by (cases a) auto }
qed simp_all

lemma fold_do_effect [simp]:
  "p_sent (fold do_effect xs s) = p_sent s"
  "p_waiting (fold do_effect xs s) = p_waiting s"
  "p_ui (fold do_effect xs s) = p_ui s"
  by (induction xs arbitrary: s) simp_all

lemma outdated_fold_effect:
  "p_outdated (fold do_effect xs s) = filter (\<lambda>q. \<not> refreshes xs q) (p_outdated s)"
proof (induction xs arbitrary: s)
  case (Cons x xs)
  then show ?case by (cases x) (auto simp: refreshes_def intro!: filter_cong)
qed (simp add: refreshes_def)

lemma outdated_do_acts: "p_outdated s = [] \<Longrightarrow> p_outdated (fold do_act acts s) = []"
proof (induction acts arbitrary: s)
  case (Cons a acts)
  have "p_outdated (do_act a s) = []"
  proof (cases a)
    case (Do x)
    then show ?thesis using Cons.prems by (cases x) auto
  qed (use Cons.prems in auto)
  then show ?case using Cons.IH by simp
qed simp

text \<open>The calls that wait for an answer, and a guarded mutation: only its latest call waits.\<close>

definition waiting_ok :: "'m list \<Rightarrow> nat list \<Rightarrow> bool" where
  "waiting_ok ms w \<longleftrightarrow> (\<forall>i\<in>set w. i < length ms) \<and> distinct w"

definition only_latest :: "'m list \<Rightarrow> nat list \<Rightarrow> ('m \<Rightarrow> bool) \<Rightarrow> bool" where
  "only_latest ms w h \<longleftrightarrow> (\<forall>i\<in>set w. \<forall>j < length ms. i < j \<and> h (ms ! i) \<longrightarrow> \<not> h (ms ! j))"

lemma only_latest_single:
  assumes "only_latest ms w h" and "waiting_ok ms w"
  shows "length (filter (\<lambda>i. h (ms ! i)) w) \<le> 1"
proof -
  have "i = j" if "i \<in> set w" "j \<in> set w" "h (ms ! i)" "h (ms ! j)" for i j
    using assms that unfolding only_latest_def waiting_ok_def by (meson linorder_neqE_nat)
  then have "card ({i. h (ms ! i)} \<inter> set w) \<le> Suc 0" by (subst card_le_Suc0_iff_eq) auto
  then show ?thesis using assms by (simp add: distinct_length_filter waiting_ok_def)
qed

lemma pending_of_waiting:
  assumes "only_latest ms w h" and "waiting_ok ms w" and "i \<in> set w" and "h (ms ! i)"
  shows "pending_of ms w h"
proof -
  have i: "i < length ms" "\<And>j. i < j \<Longrightarrow> j < length ms \<Longrightarrow> \<not> h (ms ! j)"
    using assms unfolding only_latest_def waiting_ok_def by blast+
  have "[0..<length ms] = [0..<i] @ [i..<length ms]" using i(1) upt_add_eq_append [of 0 i "length ms - i"] by simp
  also have "[i..<length ms] = i # [Suc i..<length ms]" using i(1) by (simp add: upt_conv_Cons)
  finally have "[0..<length ms] = [0..<i] @ i # [Suc i..<length ms]" .
  moreover have "filter (\<lambda>j. h (ms ! j)) [Suc i..<length ms] = []" using i(2) by (auto simp: filter_empty_conv)
  ultimately have "filter (\<lambda>j. h (ms ! j)) (rev [0..<length ms]) = i # filter (\<lambda>j. h (ms ! j)) (rev [0..<i])"
    using assms(4) by (simp add: rev_filter [symmetric] del: upt_Suc)
  then show ?thesis using assms(3) by (simp add: pending_of_def)
qed

lemma filter_le_1:
  "length (filter h ns) \<le> 1 \<Longrightarrow> i < j \<Longrightarrow> j < length ns \<Longrightarrow> h (ns ! i) \<Longrightarrow> \<not> h (ns ! j)"
proof (induction ns arbitrary: i j)
  case (Cons x ns)
  obtain k where j: "j = Suc k" "k < length ns" using Cons.prems by (cases j) auto
  show ?case
  proof (cases i)
    case 0
    then have "filter h ns = []" using Cons.prems by simp
    then show ?thesis using j by (auto simp: filter_empty_conv)
  next
    case (Suc l)
    then show ?thesis using j Cons.IH [of l k] Cons.prems by (auto split: if_splits)
  qed
qed simp

lemma only_latest_append:
  assumes ok: "only_latest ms w h" "waiting_ok ms w"
    and g: "length (filter h ns) \<le> (if pending_of ms w h then 0 else 1)"
  shows "only_latest (ms @ ns) (w @ [length ms..<length ms + length ns]) h"
proof -
  have g1: "length (filter h ns) \<le> 1" using g by (simp split: if_splits)
  have "\<not> h ((ms @ ns) ! j)"
    if i: "i \<in> set w \<or> length ms \<le> i" and j: "i < j" "j < length ms + length ns" and h: "h ((ms @ ns) ! i)" for i j
  proof (cases "length ms \<le> i")
    case True
    have "\<not> h (ns ! (j - length ms))"
      by (rule filter_le_1 [OF g1, of "i - length ms"]) (use True j h in \<open>simp_all add: nth_append\<close>)
    then show ?thesis using True j by (simp add: nth_append)
  next
    case False
    then have w: "i \<in> set w" "h (ms ! i)" using i h by (simp_all add: nth_append)
    show ?thesis
    proof (cases "j < length ms")
      case True
      then have "\<not> h (ms ! j)" using ok(1) w j(1) unfolding only_latest_def by blast
      then show ?thesis using True by (simp add: nth_append)
    next
      case False
      have "length (filter h ns) \<le> 0" using g unfolding if_P [OF pending_of_waiting [OF ok w]] .
      then have "\<forall>x\<in>set ns. \<not> h x" by (simp add: filter_empty_conv)
      moreover have "ns ! (j - length ms) \<in> set ns" using False j(2) by simp
      ultimately have "\<not> h (ns ! (j - length ms))" by blast
      then show ?thesis using False by (simp add: nth_append)
    qed
  qed
  note no = this
  show ?thesis unfolding only_latest_def
  proof (intro ballI allI impI)
    fix i j
    assume "i \<in> set (w @ [length ms..<length ms + length ns])" "j < length (ms @ ns)"
      "i < j \<and> h ((ms @ ns) ! i)"
    then show "\<not> h ((ms @ ns) ! j)" by (intro no [of i j]) auto
  qed
qed

lemma waiting_ok_append:
  "waiting_ok ms w \<Longrightarrow> waiting_ok (ms @ ns) (w @ [length ms..<length ms + length ns])"
  by (auto simp: waiting_ok_def)

lemma waiting_remove:
  "waiting_ok ms w \<Longrightarrow> waiting_ok ms (remove1 i w)"
  "only_latest ms w h \<Longrightarrow> only_latest ms (remove1 i w) h"
  by (auto simp: waiting_ok_def only_latest_def distinct_remove1 dest: notin_set_remove1
      set_remove1_subset [THEN subsetD])

locale panel_page =
  fixes P :: "('m, 'u, 'e) page" and u0 :: 'u and I :: "'u \<Rightarrow> bool" and V :: "'m \<Rightarrow> bool"
    and guards :: "('m \<Rightarrow> bool) list"
  assumes start_inv: "I u0"
    and handle_inv: "I u \<Longrightarrow> I (fst (p_handle P e b u))"
    and after_inv: "I u \<Longrightarrow> I (p_after P m u)"
    and failed_inv: "I u \<Longrightarrow> I (p_failed P m u)"
    and handle_valid: "I u \<Longrightarrow> m \<in> set (mutations (snd (p_handle P e b u))) \<Longrightarrow> V m"
    and handle_guard: "h \<in> set guards \<Longrightarrow>
      length (filter h (mutations (snd (p_handle P e b u)))) \<le> (if b h then 0 else 1)"
begin

definition page_inv :: "('m, 'u) page_state \<Rightarrow> bool" where
  "page_inv s \<longleftrightarrow> I (p_ui s) \<and> (\<forall>m\<in>set (p_sent s). V m) \<and> waiting_ok (p_sent s) (p_waiting s) \<and>
     (\<forall>h\<in>set guards. only_latest (p_sent s) (p_waiting s) h)"

lemma user_inv: "page_inv s \<Longrightarrow> page_inv (page_step P (User e) s)"
  using handle_guard [of _ e "pending_of (p_sent s) (p_waiting s)" "p_ui s"]
  by (auto simp: page_inv_def fold_do_act handle_inv handle_valid waiting_ok_append only_latest_append
      split_beta Let_def)

lemma answer_inv: "page_inv s \<Longrightarrow> page_inv (page_step P (Answered i ok) s)"
  by (auto simp: page_inv_def after_inv failed_inv waiting_remove Let_def)

lemma run_page_inv: "page_inv (page_run P u0 es)"
proof -
  have "page_inv (page_step P e s)" if "page_inv s" for e s
    using that user_inv answer_inv by (cases e) auto
  then have "page_inv (fold (page_step P) es s)" if "page_inv s" for s
    using that by (induction es arbitrary: s) auto
  moreover have "page_inv (page_start u0)"
    using start_inv by (simp add: page_start_def page_inv_def waiting_ok_def only_latest_def)
  ultimately show ?thesis by (simp add: page_run_def)
qed

lemma sends_valid: "sends_only P u0 V"
  using run_page_inv by (auto simp: sends_only_def page_inv_def)

lemma guarded_once: "h \<in> set guards \<Longrightarrow> one_at_a_time P u0 h"
  using run_page_inv unfolding one_at_a_time_def Let_def page_inv_def by (blast intro: only_latest_single)

lemma ui_inv: "I (p_ui (page_run P u0 es))"
  using run_page_inv by (simp add: page_inv_def)

end

text \<open>A page whose mutations ask again for every list they change.\<close>

locale fresh_page = panel_page +
  assumes nothing_stale: "I u \<Longrightarrow> V m \<Longrightarrow> stale_after P m u = []"
begin

lemma run_fresh: "fresh P u0"
proof -
  have step: "p_outdated (page_step P e s) = []" if s: "page_inv s" "p_outdated s = []" for e s
  proof (cases e)
    case (User x)
    then show ?thesis using s by (auto simp: split_beta Let_def intro!: outdated_do_acts)
  next
    case (Answered i ok)
    have "stale_after P (p_sent s ! i) (p_ui s) = []" if "i \<in> set (p_waiting s)"
      using s(1) that by (intro nothing_stale) (auto simp: page_inv_def waiting_ok_def)
    then show ?thesis using Answered s(2) by (auto simp: outdated_fold_effect stale_after_def Let_def)
  qed
  have "p_outdated (fold (page_step P) (take n es) (page_start u0)) = []" for n es
  proof (induction n)
    case (Suc n)
    show ?case
    proof (cases "n < length es")
      case True
      then show ?thesis using step [OF run_page_inv [of "take n es", unfolded page_run_def]] Suc
        by (simp add: take_Suc_conv_app_nth)
    qed (use Suc in simp)
  qed (simp add: page_start_def)
  from this [of "length _"] show ?thesis unfolding fresh_def page_run_def by (metis take_all order_refl)
qed

end

lemma nothing_staleI:
  "(\<And>q. q \<in> fst ` set (p_queries P u) \<Longrightarrow> refreshes (p_success P m u) q) \<Longrightarrow> stale_after P m u = []"
  using set_touched unfolding stale_after_def filter_empty_conv by blast

section \<open>Dialogs with one form\<close>

text \<open>
  Most dialogs are built alike: a \<open>useForm\<close> whose inputs are registered by name, some of them
  required, some of them selects; one mutation that sends the values of the form; on success the
  lists are asked for again and the dialog closes. \<open>handleSubmit\<close> calls its argument when the
  rules of the fields hold (\<open>check\<close>; a required field is a non-empty one), and the submit button is disabled while the mutation is pending.
\<close>

datatype create_mut = is_Create: Create json

type_synonym select_options = "(string \<times> json list) list"

definition choose_in :: "schema \<Rightarrow> select_options \<Rightarrow> string \<Rightarrow> json \<Rightarrow> 'a form_ui_scheme \<Rightarrow> 'a form_ui_scheme" where
  "choose_in S opts k v u = (case map_of opts k of
     Some vs \<Rightarrow> if v \<in> set vs then edit_form S k v u else u
   | None \<Rightarrow> edit_form S k v u)"

definition dialog_handle ::
  "schema \<Rightarrow> select_options \<Rightarrow> (json \<Rightarrow> bool) \<Rightarrow> unit form_event \<Rightarrow> create_mut busy \<Rightarrow> form_ui \<Rightarrow> form_ui \<times> create_mut act list" where
  "dialog_handle S opts check e b u = (case e of
     HideForm \<Rightarrow> (hide_form u, [])
   | Input k v \<Rightarrow> (choose_in S opts k v u, [])
   | Submit \<Rightarrow> (u, if showForm u \<and> check (form u) \<and> \<not> b is_Create then [Mutate (Create (form u))] else [])
   | _ \<Rightarrow> (u, []))"

definition dialog ::
  "schema \<Rightarrow> select_options \<Rightarrow> (json \<Rightarrow> bool) \<Rightarrow> (json \<Rightarrow> api_call) \<Rightarrow> (string list \<times> api_call) list \<Rightarrow>
   string \<Rightarrow> string \<Rightarrow> (create_mut, form_ui, unit form_event) page" where
  "dialog S opts check call qs ok_msg fail_msg = \<lparr>
     p_call = (\<lambda>m. case m of Create d \<Rightarrow> call d),
     p_queries = (\<lambda>u. qs),
     p_handle = dialog_handle S opts check,
     p_success = (\<lambda>m u. map (Invalidate \<circ> fst) qs @ [Success ok_msg]),
     p_error = (\<lambda>m. [Failure fail_msg]),
     p_after = (\<lambda>m. hide_form),
     p_failed = (\<lambda>m u. u)\<rparr>"

definition dialog_start :: "json \<Rightarrow> form_ui" where
  "dialog_start f = \<lparr>showForm = True, form = f\<rparr>"

text \<open>What a dialog sends: typed fields, the selects at one of their options, the required fields filled.\<close>

definition chosen :: "schema \<Rightarrow> select_options \<Rightarrow> json \<Rightarrow> bool" where
  "chosen S opts f \<longleftrightarrow> conforms S f \<and> list_all (\<lambda>(k, vs). own_prop f k \<in> Some ` set vs) opts"

definition valid_create :: "schema \<Rightarrow> select_options \<Rightarrow> (json \<Rightarrow> bool) \<Rightarrow> create_mut \<Rightarrow> bool" where
  "valid_create S opts check m \<longleftrightarrow> (case m of Create d \<Rightarrow> chosen S opts d \<and> check d)"

lemma chosen_choose_in:
  assumes "chosen S opts (form u)" and "distinct (map fst S)" and "distinct (map fst opts)"
  shows "chosen S opts (form (choose_in S opts k v u))"
proof -
  have "own_prop (form (choose_in S opts k v u)) k' \<in> Some ` set vs" if "(k', vs) \<in> set opts" for k' vs
  proof -
    have "map_of opts k' = Some vs" "own_prop (form u) k' \<in> Some ` set vs"
      using that assms by (auto simp: chosen_def list_all_iff)
    then show ?thesis
      by (auto simp: choose_in_def edit_form_def type_in_def prop_spread map_of_entries split: option.splits)
  qed
  moreover have "conforms S (form (choose_in S opts k v u))"
    using assms by (auto simp: chosen_def choose_in_def split: option.splits)
  ultimately show ?thesis by (auto simp: chosen_def list_all_iff)
qed

locale dialog_page =
  fixes S :: schema and opts :: select_options and check :: "json \<Rightarrow> bool" and call :: "json \<Rightarrow> api_call"
    and qs :: "(string list \<times> api_call) list" and ok_msg fail_msg :: string and f :: json
  assumes fields: "distinct (map fst S)" and selects: "distinct (map fst opts)" and default: "chosen S opts f"
begin

lemma dialog_is_fresh: "fresh_page (dialog S opts check call qs ok_msg fail_msg) (dialog_start f)
    (\<lambda>u. chosen S opts (form u)) (valid_create S opts check) [is_Create]"
proof (unfold_locales, goal_cases)
  case (7 u m)
  have "refreshes (map (Invalidate \<circ> fst) qs @ [Success ok_msg]) q" if "q \<in> fst ` set qs" for q
    using that by (auto simp: refreshes_def list_ex_iff image_iff intro!: bexI)
  then show ?case by (intro nothing_staleI) (simp add: dialog_def)
qed (auto simp: dialog_def dialog_start_def dialog_handle_def default valid_create_def
    chosen_choose_in [OF _ fields selects] split: form_event.splits create_mut.splits if_splits)

end

sublocale dialog_page \<subseteq> fresh_page "dialog S opts check call qs ok_msg fail_msg" "dialog_start f"
  "\<lambda>u. chosen S opts (form u)" "valid_create S opts check" "[is_Create]"
  by (rule dialog_is_fresh)

end
