(* ===== verification/HostingPages.thy ===== *)
theory HostingPages
  imports Panel
begin

text \<open>
  The pages of the hosting features under app/(panel): cron jobs, subdomains, redirects, SSH keys,
  FTP accounts and remote MySQL access. Each is a list with a form that creates an entry.
\<close>

section \<open>Cron jobs (cron/page.tsx)\<close>

datatype cron_mut = is_CreateJob: CreateJob json | DeleteJob string | ToggleJob string

datatype cron_control = Preset nat | JobDelete string | JobToggle string

definition cron_schema :: schema where
  "cron_schema = [(''label'', TStr), (''command'', TStr), (''minute'', TStr), (''hour'', TStr),
     (''day_month'', TStr), (''month'', TStr), (''day_week'', TStr)]"

definition preset :: "string \<Rightarrow> string \<Rightarrow> string \<Rightarrow> string \<Rightarrow> string \<Rightarrow> (string \<times> string) list" where
  "preset l m h d w = [(''label'', l), (''minute'', m), (''hour'', h), (''day_month'', d),
     (''month'', ''*''), (''day_week'', w)]"

definition cron_presets :: "(string \<times> string) list list" where
  "cron_presets =
     [preset ''Every minute'' ''*'' ''*'' ''*'' ''*'',
      preset ''Every hour'' ''0'' ''*'' ''*'' ''*'',
      preset ''Every day at midnight'' ''0'' ''0'' ''*'' ''*'',
      preset ''Every week (Sunday)'' ''0'' ''0'' ''*'' ''0'',
      preset ''Every month'' ''0'' ''0'' ''1'' ''*'']"

definition cron_blank :: json where
  "cron_blank = str_obj [(''label'', []), (''command'', []), (''minute'', ''*''), (''hour'', ''*''),
     (''day_month'', ''*''), (''month'', ''*''), (''day_week'', ''*'')]"

definition applyPreset :: "(string \<times> string) list \<Rightarrow> form_ui \<Rightarrow> form_ui" where
  "applyPreset p u = u\<lparr>form := spread (form u) (map (\<lambda>(k, v). (k, Some (JStr v))) p)\<rparr>"

definition cron_handle ::
  "cron_control form_event \<Rightarrow> cron_mut busy \<Rightarrow> form_ui \<Rightarrow> form_ui \<times> cron_mut act list" where
  "cron_handle e b u = (case e of
     ToggleForm \<Rightarrow> (toggle_form u, [])
   | HideForm \<Rightarrow> (hide_form u, [])
   | Input k v \<Rightarrow> (edit_form cron_schema k v u, [])
   | Submit \<Rightarrow>
       (u, if showForm u \<and> filled [''label'', ''command''] (form u) \<and> \<not> b is_CreateJob
           then [Mutate (CreateJob (form u))] else [])
   | Control (Preset i) \<Rightarrow> (if showForm u \<and> i < length cron_presets then applyPreset (cron_presets ! i) u else u, [])
   | Control (JobDelete i) \<Rightarrow> (u, [Mutate (DeleteJob i)])
   | Control (JobToggle i) \<Rightarrow> (u, [Mutate (ToggleJob i)]))"

definition cron_page :: "(cron_mut, form_ui, cron_control form_event) page" where
  "cron_page = \<lparr>
     p_call = (\<lambda>m. CronApi (case m of CreateJob d \<Rightarrow> CreateCron d | DeleteJob i \<Rightarrow> DeleteCron i
       | ToggleJob i \<Rightarrow> ToggleCron i)),
     p_queries = (\<lambda>u. [([''cron-jobs''], CronApi ListCron)]),
     p_handle = cron_handle,
     p_success = (\<lambda>m u. Invalidate [''cron-jobs''] # (case m of
         CreateJob _ \<Rightarrow> [Success ''Cron job created''] | DeleteJob _ \<Rightarrow> [Success ''Cron job deleted'']
       | ToggleJob _ \<Rightarrow> [])),
     p_error = (\<lambda>m. case m of CreateJob _ \<Rightarrow> [Failure ''Failed to create cron job''] | _ \<Rightarrow> []),
     p_after = (\<lambda>m. case m of CreateJob _ \<Rightarrow> reset_form cron_blank | _ \<Rightarrow> id),
     p_failed = (\<lambda>m u. u)\<rparr>"

definition cron_start :: form_ui where
  "cron_start = \<lparr>showForm = False, form = cron_blank\<rparr>"

definition valid_cron :: "cron_mut \<Rightarrow> bool" where
  "valid_cron m \<longleftrightarrow> (case m of CreateJob d \<Rightarrow> conforms cron_schema d \<and> filled [''label'', ''command''] d
     | _ \<Rightarrow> True)"

lemma cron_schema_ok: "distinct (map fst cron_schema)" "conforms cron_schema cron_blank"
  by (simp_all add: cron_schema_def conforms_def cron_blank_def str_obj_def prop_obj)

lemma conforms_preset:
  "p \<in> set cron_presets \<Longrightarrow> conforms cron_schema (form u) \<Longrightarrow> conforms cron_schema (form (applyPreset p u))"
  by (auto simp: cron_presets_def preset_def applyPreset_def cron_schema_def intro!: conforms_spread)

interpretation cron: fresh_page cron_page cron_start "\<lambda>u. conforms cron_schema (form u)" valid_cron
  "[is_CreateJob]"
  by unfold_locales (auto intro!: nothing_staleI simp: cron_page_def cron_handle_def cron_start_def valid_cron_def cron_schema_ok
      conforms_preset refreshes_def
      split: cron_mut.splits form_event.splits cron_control.splits if_splits)

section \<open>Subdomains (subdomains/page.tsx)\<close>

datatype subdomain_mut = is_AddSubdomain: AddSubdomain json | DropSubdomain string

datatype subdomain_control = SubdomainDelete string

definition subdomain_schema :: schema where
  "subdomain_schema = [(''domain'', TStr), (''subdomain'', TStr), (''document_root'', TStr), (''redirect_to'', TStr)]"

definition subdomain_blank :: json where
  "subdomain_blank = str_obj [(''domain'', []), (''subdomain'', []), (''document_root'', []), (''redirect_to'', [])]"

text \<open>The document root defaults to a directory of the subdomain; an empty redirect is left out.\<close>

definition subdomain_body :: "json \<Rightarrow> json" where
  "subdomain_body d = obj [(''domain'', own_prop d ''domain''), (''subdomain'', own_prop d ''subdomain''),
     (''document_root'', js_or (own_prop d ''document_root'')
        (Some (JStr (''/var/www/'' @ str_field d ''domain'' @ ''/'' @ str_field d ''subdomain'')))),
     (''redirect_to'', js_or (own_prop d ''redirect_to'') None)]"

definition subdomain_handle ::
  "subdomain_control form_event \<Rightarrow> subdomain_mut busy \<Rightarrow> form_ui \<Rightarrow> form_ui \<times> subdomain_mut act list" where
  "subdomain_handle e b u = (case e of
     ToggleForm \<Rightarrow> (toggle_form u, [])
   | HideForm \<Rightarrow> (hide_form u, [])
   | Input k v \<Rightarrow> (edit_form subdomain_schema k v u, [])
   | Submit \<Rightarrow>
       (u, if showForm u \<and> filled [''domain'', ''subdomain''] (form u) \<and> \<not> b is_AddSubdomain
           then [Mutate (AddSubdomain (form u))] else [])
   | Control (SubdomainDelete i) \<Rightarrow> (u, [Mutate (DropSubdomain i)]))"

definition subdomain_page :: "(subdomain_mut, form_ui, subdomain_control form_event) page" where
  "subdomain_page = \<lparr>
     p_call = (\<lambda>m. SubdomainApi (case m of AddSubdomain d \<Rightarrow> CreateSubdomain (subdomain_body d)
       | DropSubdomain i \<Rightarrow> DeleteSubdomain i)),
     p_queries = (\<lambda>u. [([''subdomains''], SubdomainApi (ListSubdomains None))]),
     p_handle = subdomain_handle,
     p_success = (\<lambda>m u. [Invalidate [''subdomains''], Success (case m of
         AddSubdomain _ \<Rightarrow> ''Subdomain created'' | DropSubdomain _ \<Rightarrow> ''Subdomain deleted'')]),
     p_error = (\<lambda>m. case m of AddSubdomain _ \<Rightarrow> [Failure ''Failed to create subdomain''] | _ \<Rightarrow> []),
     p_after = (\<lambda>m. case m of AddSubdomain _ \<Rightarrow> reset_form subdomain_blank | _ \<Rightarrow> id),
     p_failed = (\<lambda>m u. u)\<rparr>"

definition subdomain_start :: form_ui where
  "subdomain_start = \<lparr>showForm = False, form = subdomain_blank\<rparr>"

text \<open>What the server is sent always has a document root, and no empty redirect.\<close>

definition valid_subdomain :: "subdomain_mut \<Rightarrow> bool" where
  "valid_subdomain m \<longleftrightarrow> (case m of AddSubdomain d \<Rightarrow> (let b = subdomain_body d in
       conforms [(''domain'', TStr), (''subdomain'', TStr), (''document_root'', TStr)] b \<and>
       filled [''domain'', ''subdomain'', ''document_root''] b \<and> own_prop b ''redirect_to'' \<noteq> Some (JStr []))
     | _ \<Rightarrow> True)"

lemma subdomain_schema_ok: "distinct (map fst subdomain_schema)" "conforms subdomain_schema subdomain_blank"
  by (simp_all add: subdomain_schema_def conforms_def subdomain_blank_def str_obj_def prop_obj)

lemma subdomain_body_valid:
  "conforms subdomain_schema f \<Longrightarrow> filled [''domain'', ''subdomain''] f \<Longrightarrow> valid_subdomain (AddSubdomain f)"
  by (auto simp: valid_subdomain_def subdomain_body_def conforms_iff filled_def prop_obj subdomain_schema_def
      js_or_def Let_def)

interpretation subdomains: fresh_page subdomain_page subdomain_start "\<lambda>u. conforms subdomain_schema (form u)"
  valid_subdomain "[is_AddSubdomain]"
  by unfold_locales (auto intro!: nothing_staleI simp: subdomain_page_def subdomain_handle_def subdomain_start_def subdomain_schema_ok
      subdomain_body_valid valid_subdomain_def [of "DropSubdomain _"] refreshes_def
      split: subdomain_mut.splits form_event.splits subdomain_control.splits if_splits)

section \<open>Redirects (redirects/page.tsx)\<close>

datatype redirect_mut = is_AddRedirect: AddRedirect json | DropRedirect string

datatype redirect_control = RedirectDelete string

definition redirect_schema :: schema where
  "redirect_schema = [(''domain'', TStr), (''source_path'', TStr), (''destination'', TStr), (''type'', TNum),
     (''wildcard'', TBool)]"

definition redirect_blank :: json where
  "redirect_blank = obj [(''domain'', Some (JStr [])), (''source_path'', Some (JStr ''/'')),
     (''destination'', Some (JStr [])), (''type'', Some (JNum 301)), (''wildcard'', Some (JBool False))]"

text \<open>The select of the type offers 301 and 302 only.\<close>

definition redirect_input :: "string \<Rightarrow> json \<Rightarrow> form_ui \<Rightarrow> form_ui" where
  "redirect_input k v u =
     (if k = ''type'' \<and> v \<notin> {JNum 301, JNum 302} then u else edit_form redirect_schema k v u)"

definition redirect_handle ::
  "redirect_control form_event \<Rightarrow> redirect_mut busy \<Rightarrow> form_ui \<Rightarrow> form_ui \<times> redirect_mut act list" where
  "redirect_handle e b u = (case e of
     ToggleForm \<Rightarrow> (toggle_form u, [])
   | HideForm \<Rightarrow> (hide_form u, [])
   | Input k v \<Rightarrow> (redirect_input k v u, [])
   | Submit \<Rightarrow>
       (u, if showForm u \<and> filled [''domain'', ''destination''] (form u) \<and> \<not> b is_AddRedirect
           then [Mutate (AddRedirect (form u))] else [])
   | Control (RedirectDelete i) \<Rightarrow> (u, [Mutate (DropRedirect i)]))"

definition redirect_page :: "(redirect_mut, form_ui, redirect_control form_event) page" where
  "redirect_page = \<lparr>
     p_call = (\<lambda>m. RedirectApi (case m of AddRedirect d \<Rightarrow> CreateRedirect d | DropRedirect i \<Rightarrow> DeleteRedirect i)),
     p_queries = (\<lambda>u. [([''redirects''], RedirectApi ListRedirects)]),
     p_handle = redirect_handle,
     p_success = (\<lambda>m u. [Invalidate [''redirects''], Success (case m of
         AddRedirect _ \<Rightarrow> ''Redirect created'' | DropRedirect _ \<Rightarrow> ''Redirect deleted'')]),
     p_error = (\<lambda>m. case m of AddRedirect _ \<Rightarrow> [Failure ''Failed to create redirect''] | _ \<Rightarrow> []),
     p_after = (\<lambda>m. case m of AddRedirect _ \<Rightarrow> reset_form redirect_blank | _ \<Rightarrow> id),
     p_failed = (\<lambda>m u. u)\<rparr>"

definition redirect_start :: form_ui where
  "redirect_start = \<lparr>showForm = False, form = redirect_blank\<rparr>"

definition redirect_form_ok :: "json \<Rightarrow> bool" where
  "redirect_form_ok f \<longleftrightarrow> conforms redirect_schema f \<and> own_prop f ''type'' \<in> {Some (JNum 301), Some (JNum 302)}"

definition valid_redirect :: "redirect_mut \<Rightarrow> bool" where
  "valid_redirect m \<longleftrightarrow> (case m of AddRedirect d \<Rightarrow> redirect_form_ok d \<and> filled [''domain'', ''destination''] d
     | _ \<Rightarrow> True)"

lemma redirect_form_blank: "redirect_form_ok redirect_blank"
  by (simp add: redirect_form_ok_def redirect_schema_def conforms_def redirect_blank_def prop_obj)

lemma redirect_form_input: "redirect_form_ok (form u) \<Longrightarrow> redirect_form_ok (form (redirect_input k v u))"
proof -
  assume f: "redirect_form_ok (form u)"
  have "distinct (map fst redirect_schema)" by (simp add: redirect_schema_def)
  with f have "conforms redirect_schema (form (redirect_input k v u))"
    by (simp add: redirect_form_ok_def redirect_input_def)
  moreover have "own_prop (form (redirect_input k v u)) ''type'' \<in> {Some (JNum 301), Some (JNum 302)}"
    using f by (auto simp: redirect_form_ok_def redirect_input_def edit_form_def type_in_def prop_spread
        map_of_entries split: option.splits)
  ultimately show ?thesis by (simp add: redirect_form_ok_def)
qed

interpretation redirects: fresh_page redirect_page redirect_start "\<lambda>u. redirect_form_ok (form u)"
  valid_redirect "[is_AddRedirect]"
  by unfold_locales (auto intro!: nothing_staleI simp: redirect_page_def redirect_handle_def redirect_start_def redirect_form_blank
      redirect_form_input valid_redirect_def refreshes_def
      split: redirect_mut.splits form_event.splits redirect_control.splits if_splits)

section \<open>SSH keys (ssh-keys/page.tsx)\<close>

datatype ssh_mut = is_AddKey: AddKey json | RemoveKey string

datatype ssh_control = KeyDelete string | CopyFingerprint string | CopyTimeout

record ssh_ui = form_ui + ssh_copied :: "string option"

definition ssh_schema :: schema where
  "ssh_schema = [(''label'', TStr), (''public_key'', TStr)]"

definition ssh_blank :: json where
  "ssh_blank = str_obj [(''label'', []), (''public_key'', [])]"

definition copyFP :: "string \<Rightarrow> ssh_ui \<Rightarrow> ssh_ui \<times> ssh_mut act list" where
  "copyFP fp u = (u\<lparr>ssh_copied := Some fp\<rparr>, [Do (Copied fp)])"

definition ssh_handle :: "ssh_control form_event \<Rightarrow> ssh_mut busy \<Rightarrow> ssh_ui \<Rightarrow> ssh_ui \<times> ssh_mut act list" where
  "ssh_handle e b u = (case e of
     ToggleForm \<Rightarrow> (toggle_form u, [])
   | HideForm \<Rightarrow> (hide_form u, [])
   | Input k v \<Rightarrow> (edit_form ssh_schema k v u, [])
   | Submit \<Rightarrow>
       (u, if showForm u \<and> filled [''label'', ''public_key''] (form u) \<and> \<not> b is_AddKey
           then [Mutate (AddKey (form u))] else [])
   | Control (KeyDelete i) \<Rightarrow> (u, [Mutate (RemoveKey i)])
   | Control (CopyFingerprint fp) \<Rightarrow> copyFP fp u
   | Control CopyTimeout \<Rightarrow> (u\<lparr>ssh_copied := None\<rparr>, []))"

definition ssh_page :: "(ssh_mut, ssh_ui, ssh_control form_event) page" where
  "ssh_page = \<lparr>
     p_call = (\<lambda>m. SshKeyApi (case m of AddKey d \<Rightarrow> AddSSHKey d | RemoveKey i \<Rightarrow> DeleteSSHKey i)),
     p_queries = (\<lambda>u. [([''ssh-keys''], SshKeyApi ListSSHKeys)]),
     p_handle = ssh_handle,
     p_success = (\<lambda>m u. [Invalidate [''ssh-keys''], Success (case m of
         AddKey _ \<Rightarrow> ''SSH key added'' | RemoveKey _ \<Rightarrow> ''SSH key removed'')]),
     p_error = (\<lambda>m. case m of AddKey _ \<Rightarrow> [Failure ''Failed to add SSH key''] | _ \<Rightarrow> []),
     p_after = (\<lambda>m. case m of AddKey _ \<Rightarrow> reset_form ssh_blank | _ \<Rightarrow> id),
     p_failed = (\<lambda>m u. u)\<rparr>"

definition ssh_start :: ssh_ui where
  "ssh_start = \<lparr>showForm = False, form = ssh_blank, ssh_copied = None\<rparr>"

definition valid_ssh :: "ssh_mut \<Rightarrow> bool" where
  "valid_ssh m \<longleftrightarrow> (case m of AddKey d \<Rightarrow> conforms ssh_schema d \<and> filled [''label'', ''public_key''] d | _ \<Rightarrow> True)"

lemma ssh_schema_ok: "distinct (map fst ssh_schema)" "conforms ssh_schema ssh_blank"
  by (simp_all add: ssh_schema_def conforms_def ssh_blank_def str_obj_def prop_obj)

interpretation ssh_keys: fresh_page ssh_page ssh_start "\<lambda>u. conforms ssh_schema (form u)" valid_ssh "[is_AddKey]"
  by unfold_locales (auto intro!: nothing_staleI simp: ssh_page_def ssh_handle_def ssh_start_def valid_ssh_def ssh_schema_ok copyFP_def
      refreshes_def
      split: ssh_mut.splits form_event.splits ssh_control.splits if_splits)

section \<open>FTP accounts (ftp/page.tsx)\<close>

datatype ftp_mut = is_AddAccount: AddAccount json | DropAccount string | ToggleAccount string | ChangePw string string

datatype ftp_control =
  AccountDelete string | AccountToggle string | OpenPw string | TypePw string | SavePw string | ClosePw

record ftp_ui = form_ui + changePwId :: "string option" newPw :: string

definition ftp_schema :: schema where
  "ftp_schema = [(''username'', TStr), (''password'', TStr), (''home_dir'', TStr), (''quota_mb'', TNum)]"

definition ftp_blank :: json where
  "ftp_blank = obj [(''username'', Some (JStr [])), (''password'', Some (JStr [])),
     (''home_dir'', Some (JStr ''/var/www'')), (''quota_mb'', Some (JNum 0))]"

definition ftp_handle :: "ftp_control form_event \<Rightarrow> ftp_mut busy \<Rightarrow> ftp_ui \<Rightarrow> ftp_ui \<times> ftp_mut act list" where
  "ftp_handle e b u = (case e of
     ToggleForm \<Rightarrow> (toggle_form u, [])
   | HideForm \<Rightarrow> (hide_form u, [])
   | Input k v \<Rightarrow> (edit_form ftp_schema k v u, [])
   | Submit \<Rightarrow>
       (u, if showForm u \<and> filled [''username'', ''password''] (form u) \<and> \<not> b is_AddAccount
           then [Mutate (AddAccount (form u))] else [])
   | Control (AccountDelete i) \<Rightarrow> (u, [Mutate (DropAccount i)])
   | Control (AccountToggle i) \<Rightarrow> (u, [Mutate (ToggleAccount i)])
   | Control (OpenPw i) \<Rightarrow> (if changePwId u = Some i then u else u\<lparr>changePwId := Some i\<rparr>, [])
   | Control (TypePw v) \<Rightarrow> (if changePwId u = None then u else u\<lparr>newPw := v\<rparr>, [])
   | Control (SavePw i) \<Rightarrow>
       (u, if changePwId u = Some i \<and> newPw u \<noteq> [] then [Mutate (ChangePw i (newPw u))] else [])
   | Control ClosePw \<Rightarrow> (u\<lparr>changePwId := None\<rparr>, []))"

definition ftp_page :: "(ftp_mut, ftp_ui, ftp_control form_event) page" where
  "ftp_page = \<lparr>
     p_call = (\<lambda>m. FtpApi (case m of AddAccount d \<Rightarrow> CreateFtp d | DropAccount i \<Rightarrow> DeleteFtp i
       | ToggleAccount i \<Rightarrow> ToggleFtp i | ChangePw i p \<Rightarrow> UpdateFtpPassword i p)),
     p_queries = (\<lambda>u. [([''ftp-accounts''], FtpApi ListFtp)]),
     p_handle = ftp_handle,
     p_success = (\<lambda>m u. case m of
         AddAccount _ \<Rightarrow> [Invalidate [''ftp-accounts''], Success ''FTP account created'']
       | DropAccount _ \<Rightarrow> [Invalidate [''ftp-accounts''], Success ''FTP account deleted'']
       | ToggleAccount _ \<Rightarrow> [Invalidate [''ftp-accounts'']]
       | ChangePw _ _ \<Rightarrow> [Success ''Password updated'']),
     p_error = (\<lambda>m. case m of AddAccount _ \<Rightarrow> [Failure ''Failed to create FTP account'']
       | ChangePw _ _ \<Rightarrow> [Failure ''Failed to update password''] | _ \<Rightarrow> []),
     p_after = (\<lambda>m u. case m of AddAccount _ \<Rightarrow> reset_form ftp_blank u
       | ChangePw _ _ \<Rightarrow> u\<lparr>changePwId := None, newPw := []\<rparr> | _ \<Rightarrow> u),
     p_failed = (\<lambda>m u. u)\<rparr>"

definition ftp_start :: ftp_ui where
  "ftp_start = \<lparr>showForm = False, form = ftp_blank, changePwId = None, newPw = []\<rparr>"

definition valid_ftp :: "ftp_mut \<Rightarrow> bool" where
  "valid_ftp m \<longleftrightarrow> (case m of AddAccount d \<Rightarrow> conforms ftp_schema d \<and> filled [''username'', ''password''] d
     | ChangePw _ p \<Rightarrow> p \<noteq> [] | _ \<Rightarrow> True)"

lemma ftp_schema_ok: "distinct (map fst ftp_schema)" "conforms ftp_schema ftp_blank"
  by (simp_all add: ftp_schema_def conforms_def ftp_blank_def prop_obj)

interpretation ftp_accounts: panel_page ftp_page ftp_start "\<lambda>u. conforms ftp_schema (form u)" valid_ftp "[is_AddAccount]"
  by unfold_locales (auto intro!: nothing_staleI simp: ftp_page_def ftp_handle_def ftp_start_def valid_ftp_def ftp_schema_ok
      split: ftp_mut.splits form_event.splits ftp_control.splits if_splits)

section \<open>Remote MySQL access (databases/remote/page.tsx)\<close>

datatype remote_mut = is_AllowIP: AllowIP json | DropIP string

datatype remote_control = EntryDelete string

definition remote_schema :: schema where
  "remote_schema = [(''ip_address'', TStr), (''label'', TStr)]"

definition remote_blank :: json where
  "remote_blank = str_obj [(''ip_address'', []), (''label'', [])]"

definition remote_body :: "json \<Rightarrow> json" where
  "remote_body d = obj [(''ip_address'', own_prop d ''ip_address''), (''label'', js_or (own_prop d ''label'') None)]"

definition remote_handle ::
  "remote_control form_event \<Rightarrow> remote_mut busy \<Rightarrow> form_ui \<Rightarrow> form_ui \<times> remote_mut act list" where
  "remote_handle e b u = (case e of
     ToggleForm \<Rightarrow> (toggle_form u, [])
   | HideForm \<Rightarrow> (hide_form u, [])
   | Input k v \<Rightarrow> (edit_form remote_schema k v u, [])
   | Submit \<Rightarrow>
       (u, if showForm u \<and> filled [''ip_address''] (form u) \<and> \<not> b is_AllowIP
           then [Mutate (AllowIP (form u))] else [])
   | Control (EntryDelete i) \<Rightarrow> (u, [Mutate (DropIP i)]))"

definition remote_page :: "(remote_mut, form_ui, remote_control form_event) page" where
  "remote_page = \<lparr>
     p_call = (\<lambda>m. MysqlRemoteApi (case m of AllowIP d \<Rightarrow> AddMySQLRemote (remote_body d)
       | DropIP i \<Rightarrow> DeleteMySQLRemote i)),
     p_queries = (\<lambda>u. [([''mysql-remote''], MysqlRemoteApi ListMySQLRemote)]),
     p_handle = remote_handle,
     p_success = (\<lambda>m u. [Invalidate [''mysql-remote''], Success (case m of
         AllowIP _ \<Rightarrow> ''IP address added'' | DropIP _ \<Rightarrow> ''IP address removed'')]),
     p_error = (\<lambda>m. case m of AllowIP _ \<Rightarrow> [Failure ''Failed to add IP address''] | _ \<Rightarrow> []),
     p_after = (\<lambda>m. case m of AllowIP _ \<Rightarrow> reset_form remote_blank | _ \<Rightarrow> id),
     p_failed = (\<lambda>m u. u)\<rparr>"

definition remote_start :: form_ui where
  "remote_start = \<lparr>showForm = False, form = remote_blank\<rparr>"

definition valid_remote :: "remote_mut \<Rightarrow> bool" where
  "valid_remote m \<longleftrightarrow> (case m of AllowIP d \<Rightarrow> (let b = remote_body d in conforms [(''ip_address'', TStr)] b \<and>
       filled [''ip_address''] b \<and> own_prop b ''label'' \<noteq> Some (JStr []))
     | _ \<Rightarrow> True)"

lemma remote_schema_ok: "distinct (map fst remote_schema)" "conforms remote_schema remote_blank"
  by (simp_all add: remote_schema_def conforms_def remote_blank_def str_obj_def prop_obj)

lemma remote_body_valid:
  "conforms remote_schema f \<Longrightarrow> filled [''ip_address''] f \<Longrightarrow> valid_remote (AllowIP f)"
  by (auto simp: valid_remote_def remote_body_def conforms_iff filled_def prop_obj remote_schema_def js_or_def Let_def)

interpretation mysql_remotes: fresh_page remote_page remote_start "\<lambda>u. conforms remote_schema (form u)"
  valid_remote "[is_AllowIP]"
  by unfold_locales (auto intro!: nothing_staleI simp: remote_page_def remote_handle_def remote_start_def remote_schema_ok
      remote_body_valid valid_remote_def [of "DropIP _"] refreshes_def
      split: remote_mut.splits form_event.splits remote_control.splits if_splits)

end
