(* ===== verification/EmailPages.thy ===== *)
theory EmailPages
  imports Panel
begin

text \<open>
  The pages under app/(panel)/email that have a route of their own: the mail queue, autoresponders,
  filters, forwarders, DKIM keys and the DMARC generator. A dialog is a component of its own, mounted
  open; once closed it is gone, and what its mutation changes is the list behind it.
\<close>

section \<open>Mail queue (queue/page.tsx)\<close>

datatype queue_mut = is_FlushQueue: FlushQueue | RemoveMessage string | is_ClearQueue: ClearQueue

datatype queue_control = RefetchQueue | FlushClick | RemoveClick string | ClearClick

definition queue_handle :: "queue_control \<Rightarrow> queue_mut busy \<Rightarrow> unit \<Rightarrow> unit \<times> queue_mut act list" where
  "queue_handle e b u = (u, case e of
     RefetchQueue \<Rightarrow> [Do (Invalidate [''mail-queue''])]
   | FlushClick \<Rightarrow> if b is_FlushQueue then [] else [Mutate FlushQueue]
   | RemoveClick i \<Rightarrow> [Mutate (RemoveMessage i)]
   | ClearClick \<Rightarrow> if b is_ClearQueue then [] else [Mutate ClearQueue])"

definition queue_page :: "(queue_mut, unit, queue_control) page" where
  "queue_page = \<lparr>
     p_call = (\<lambda>m. MailQueueApi (case m of FlushQueue \<Rightarrow> FlushMailQueue
       | RemoveMessage i \<Rightarrow> DeleteMailQueueEntry i | ClearQueue \<Rightarrow> DeleteMailQueue)),
     p_queries = (\<lambda>u. [([''mail-queue''], MailQueueApi ListMailQueue)]),
     p_handle = queue_handle,
     p_success = (\<lambda>m u. [Invalidate [''mail-queue''], Success (case m of FlushQueue \<Rightarrow> ''Mail queue flushed''
       | RemoveMessage _ \<Rightarrow> ''Message removed'' | ClearQueue \<Rightarrow> ''Mail queue cleared'')]),
     p_error = (\<lambda>m. case m of FlushQueue \<Rightarrow> [Failure ''Flush failed'']
       | RemoveMessage _ \<Rightarrow> [] | ClearQueue \<Rightarrow> [Failure ''Failed to clear queue'']),
     p_after = (\<lambda>m u. u),
     p_failed = (\<lambda>m u. u)\<rparr>"

interpretation mail_queue_page: fresh_page queue_page "()" "\<lambda>_. True" "\<lambda>_. True" "[is_FlushQueue, is_ClearQueue]"
  by unfold_locales (auto intro!: nothing_staleI simp: queue_page_def queue_handle_def refreshes_def
      split: queue_control.splits)

section \<open>Autoresponders (autoresponders/page.tsx)\<close>

datatype responder_mut = is_AddResponder: AddResponder json | DropResponder string | SetResponder string bool

datatype responder_control = ResponderDelete string | ResponderToggle string bool

definition responder_schema :: schema where
  "responder_schema = [(''email'', TStr), (''subject'', TStr), (''body'', TStr), (''from_name'', TStr),
     (''start_at'', TStr), (''end_at'', TStr)]"

definition responder_blank :: json where
  "responder_blank = str_obj [(''email'', []), (''subject'', []), (''body'', []), (''from_name'', []),
     (''start_at'', []), (''end_at'', [])]"

definition responder_body :: "json \<Rightarrow> json" where
  "responder_body d = obj [(''email'', own_prop d ''email''), (''subject'', own_prop d ''subject''),
     (''body'', own_prop d ''body''), (''from_name'', js_or (own_prop d ''from_name'') None),
     (''start_at'', js_or (own_prop d ''start_at'') None), (''end_at'', js_or (own_prop d ''end_at'') None)]"

text \<open>The toggle of a row is given the row's \<open>enabled\<close> and asks for the opposite.\<close>

definition responder_handle ::
  "responder_control form_event \<Rightarrow> responder_mut busy \<Rightarrow> form_ui \<Rightarrow> form_ui \<times> responder_mut act list" where
  "responder_handle e b u = (case e of
     ToggleForm \<Rightarrow> (toggle_form u, [])
   | HideForm \<Rightarrow> (hide_form u, [])
   | Input k v \<Rightarrow> (edit_form responder_schema k v u, [])
   | Submit \<Rightarrow>
       (u, if showForm u \<and> filled [''email'', ''subject'', ''body''] (form u) \<and> \<not> b is_AddResponder
           then [Mutate (AddResponder (form u))] else [])
   | Control (ResponderDelete i) \<Rightarrow> (u, [Mutate (DropResponder i)])
   | Control (ResponderToggle i enabled) \<Rightarrow> (u, [Mutate (SetResponder i (\<not> enabled))]))"

definition responder_page :: "(responder_mut, form_ui, responder_control form_event) page" where
  "responder_page = \<lparr>
     p_call = (\<lambda>m. AutoresponderApi (case m of AddResponder d \<Rightarrow> CreateAutoresponder (responder_body d)
       | DropResponder i \<Rightarrow> DeleteAutoresponder i
       | SetResponder i b \<Rightarrow> UpdateAutoresponder i (obj [(''enabled'', Some (JBool b))]))),
     p_queries = (\<lambda>u. [([''autoresponders''], AutoresponderApi ListAutoresponders)]),
     p_handle = responder_handle,
     p_success = (\<lambda>m u. Invalidate [''autoresponders''] # (case m of
         AddResponder _ \<Rightarrow> [Success ''Autoresponder created'']
       | DropResponder _ \<Rightarrow> [Success ''Autoresponder deleted''] | SetResponder _ _ \<Rightarrow> [])),
     p_error = (\<lambda>m. case m of AddResponder _ \<Rightarrow> [Failure ''Failed to create autoresponder''] | _ \<Rightarrow> []),
     p_after = (\<lambda>m. case m of AddResponder _ \<Rightarrow> reset_form responder_blank | _ \<Rightarrow> id),
     p_failed = (\<lambda>m u. u)\<rparr>"

definition responder_start :: form_ui where
  "responder_start = \<lparr>showForm = False, form = responder_blank\<rparr>"

definition valid_responder :: "responder_mut \<Rightarrow> bool" where
  "valid_responder m \<longleftrightarrow> (case m of AddResponder d \<Rightarrow> (let b = responder_body d in
       conforms [(''email'', TStr), (''subject'', TStr), (''body'', TStr)] b \<and>
       filled [''email'', ''subject'', ''body''] b \<and>
       Some (JStr []) \<notin> {own_prop b ''from_name'', own_prop b ''start_at'', own_prop b ''end_at''})
     | _ \<Rightarrow> True)"

lemma responder_schema_ok: "distinct (map fst responder_schema)" "conforms responder_schema responder_blank"
  by (simp_all add: responder_schema_def conforms_def responder_blank_def str_obj_def prop_obj)

lemma responder_body_valid:
  "conforms responder_schema f \<Longrightarrow> filled [''email'', ''subject'', ''body''] f \<Longrightarrow> valid_responder (AddResponder f)"
  by (auto simp: valid_responder_def responder_body_def conforms_iff filled_def prop_obj responder_schema_def
      js_or_def Let_def)

interpretation autoresponders: fresh_page responder_page responder_start "\<lambda>u. conforms responder_schema (form u)"
  valid_responder "[is_AddResponder]"
  by unfold_locales (auto intro!: nothing_staleI simp: responder_page_def responder_handle_def responder_start_def responder_schema_ok
      responder_body_valid valid_responder_def [of "DropResponder _"] valid_responder_def [of "SetResponder _ _"]
      refreshes_def
      split: responder_mut.splits form_event.splits responder_control.splits if_splits)

section \<open>Filters (filters/page.tsx)\<close>

datatype filter_mut = is_AddFilter: AddFilter json | DropFilter string | SetFilter string bool

datatype filter_control =
    TypeMailbox string | LoadMailbox | AddRule | UpdateRule nat string string | RemoveRule nat
  | FilterDelete string | FilterToggle string bool

record filter_ui = form_ui + mailbox :: string inputMailbox :: string rules :: "json list"

definition RULE_FIELDS :: "string list" where
  "RULE_FIELDS = [''subject'', ''from'', ''to'', ''body'', ''header'']"

definition RULE_CONDITIONS :: "string list" where
  "RULE_CONDITIONS = [''contains'', ''not_contains'', ''equals'', ''starts_with'', ''ends_with'', ''regex'']"

definition ACTIONS :: "(string \<times> string) list" where
  "ACTIONS = [(''move'', ''Move to folder''), (''delete'', ''Delete''), (''mark_read'', ''Mark as read''),
     (''mark_spam'', ''Mark as spam''), (''forward'', ''Forward to''), (''reject'', ''Reject with message'')]"

definition blankRule :: json where
  "blankRule = str_obj [(''field'', ''subject''), (''condition'', ''contains''), (''value'', [])]"

text \<open>The form without its \<open>rules\<close>, which are kept beside it.\<close>

definition filter_schema :: schema where
  "filter_schema = [(''name'', TStr), (''action'', TStr), (''action_value'', TStr), (''priority'', TNum)]"

definition filter_blank :: json where
  "filter_blank = obj [(''name'', Some (JStr [])), (''action'', Some (JStr ''move'')),
     (''action_value'', Some (JStr [])), (''priority'', Some (JNum 0))]"

definition addRule :: "filter_ui \<Rightarrow> filter_ui" where
  "addRule u = u\<lparr>rules := rules u @ [blankRule]\<rparr>"

text \<open>The selects of a rule offer the listed fields and conditions; its value is free text.\<close>

definition updateRule :: "nat \<Rightarrow> string \<Rightarrow> string \<Rightarrow> filter_ui \<Rightarrow> filter_ui" where
  "updateRule i k v u =
     (if k = ''field'' \<and> v \<in> set RULE_FIELDS \<or> k = ''condition'' \<and> v \<in> set RULE_CONDITIONS \<or> k = ''value''
      then u\<lparr>rules := (rules u)[i := spread (rules u ! i) [(k, Some (JStr v))]]\<rparr> else u)"

definition removeRule :: "nat \<Rightarrow> filter_ui \<Rightarrow> filter_ui" where
  "removeRule i u = u\<lparr>rules := take i (rules u) @ drop (Suc i) (rules u)\<rparr>"

definition filter_body :: "filter_ui \<Rightarrow> json" where
  "filter_body u = obj [(''mailbox'', Some (JStr (mailbox u))), (''name'', own_prop (form u) ''name''),
     (''rules'', Some (JArr (rules u))), (''action'', own_prop (form u) ''action''),
     (''action_value'', js_or (own_prop (form u) ''action_value'') None),
     (''priority'', own_prop (form u) ''priority'')]"

text \<open>The action is chosen among \<open>ACTIONS\<close>; the field of its value is shown for three of them.\<close>

definition filter_input :: "string \<Rightarrow> json \<Rightarrow> filter_ui \<Rightarrow> filter_ui" where
  "filter_input k v u =
     (if k = ''action'' \<and> v \<notin> (JStr \<circ> fst) ` set ACTIONS
       \<or> k = ''action_value'' \<and> str_field (form u) ''action'' \<notin> {''move'', ''forward'', ''reject''}
       \<or> k = ''priority'' then u
      else edit_form filter_schema k v u)"

definition filter_handle ::
  "filter_control form_event \<Rightarrow> filter_mut busy \<Rightarrow> filter_ui \<Rightarrow> filter_ui \<times> filter_mut act list" where
  "filter_handle e b u = (case e of
     Control (TypeMailbox v) \<Rightarrow> (u\<lparr>inputMailbox := v\<rparr>, [])
   | Control LoadMailbox \<Rightarrow> (u\<lparr>mailbox := inputMailbox u\<rparr>, [])
   | ToggleForm \<Rightarrow> (if mailbox u = [] then u else toggle_form u, [])
   | HideForm \<Rightarrow> (hide_form u, [])
   | Input k v \<Rightarrow> (filter_input k v u, [])
   | Control AddRule \<Rightarrow> (if showForm u then addRule u else u, [])
   | Control (UpdateRule i k v) \<Rightarrow> (if showForm u then updateRule i k v u else u, [])
   | Control (RemoveRule i) \<Rightarrow> (if showForm u \<and> 1 < length (rules u) then removeRule i u else u, [])
   | Submit \<Rightarrow>
       (u, if mailbox u \<noteq> [] \<and> showForm u \<and> filled [''name''] (form u) \<and> \<not> b is_AddFilter
           then [Mutate (AddFilter (filter_body u))] else [])
   | Control (FilterDelete i) \<Rightarrow> (u, [Mutate (DropFilter i)])
   | Control (FilterToggle i enabled) \<Rightarrow> (u, [Mutate (SetFilter i (\<not> enabled))]))"

definition filter_page :: "(filter_mut, filter_ui, filter_control form_event) page" where
  "filter_page = \<lparr>
     p_call = (\<lambda>m. EmailFilterApi (case m of AddFilter d \<Rightarrow> CreateEmailFilter d
       | DropFilter i \<Rightarrow> DeleteEmailFilter i
       | SetFilter i b \<Rightarrow> UpdateEmailFilter i (obj [(''enabled'', Some (JBool b))]))),
     p_queries = (\<lambda>u. if mailbox u = [] then []
       else [([''email-filters'', mailbox u], EmailFilterApi (ListEmailFilters (mailbox u)))]),
     p_handle = filter_handle,
     p_success = (\<lambda>m u. Invalidate [''email-filters''] # (case m of
         AddFilter _ \<Rightarrow> [Success ''Filter created''] | DropFilter _ \<Rightarrow> [Success ''Filter deleted'']
       | SetFilter _ _ \<Rightarrow> [])),
     p_error = (\<lambda>m. case m of AddFilter _ \<Rightarrow> [Failure ''Failed to create filter''] | _ \<Rightarrow> []),
     p_after = (\<lambda>m u. case m of AddFilter _ \<Rightarrow> hide_form u | _ \<Rightarrow> u),
     p_failed = (\<lambda>m u. u)\<rparr>"

definition filter_start :: filter_ui where
  "filter_start = \<lparr>showForm = False, form = filter_blank, mailbox = [], inputMailbox = [], rules = [blankRule]\<rparr>"

text \<open>A rule names a known field and a known condition, and a filter has at least one rule.\<close>

definition rule_ok :: "json \<Rightarrow> bool" where
  "rule_ok r \<longleftrightarrow> own_prop r ''field'' \<in> (Some \<circ> JStr) ` set RULE_FIELDS \<and>
     own_prop r ''condition'' \<in> (Some \<circ> JStr) ` set RULE_CONDITIONS \<and> conforms [(''value'', TStr)] r"

definition filter_form_ok :: "filter_ui \<Rightarrow> bool" where
  "filter_form_ok u \<longleftrightarrow> conforms filter_schema (form u) \<and>
     own_prop (form u) ''action'' \<in> (Some \<circ> JStr \<circ> fst) ` set ACTIONS \<and> rules u \<noteq> [] \<and> list_all rule_ok (rules u)"

definition valid_filter :: "filter_mut \<Rightarrow> bool" where
  "valid_filter m \<longleftrightarrow> (case m of AddFilter b \<Rightarrow>
       conforms [(''mailbox'', TStr), (''name'', TStr), (''rules'', TArr), (''action'', TStr), (''priority'', TNum)] b \<and>
       filled [''mailbox'', ''name''] b \<and> own_prop b ''action'' \<in> (Some \<circ> JStr \<circ> fst) ` set ACTIONS \<and>
       (\<exists>rs. own_prop b ''rules'' = Some (JArr rs) \<and> rs \<noteq> [] \<and> list_all rule_ok rs)
     | _ \<Rightarrow> True)"

lemma filter_schema_ok: "distinct (map fst filter_schema)" "conforms filter_schema filter_blank"
  by (simp_all add: filter_schema_def conforms_def filter_blank_def prop_obj)

lemma blankRule_ok: "rule_ok blankRule"
  by (simp add: rule_ok_def blankRule_def str_obj_def prop_obj conforms_def RULE_FIELDS_def RULE_CONDITIONS_def)

lemma filter_start_ok: "filter_form_ok filter_start"
  by (simp add: filter_form_ok_def filter_start_def filter_schema_ok blankRule_ok)
    (simp add: filter_blank_def prop_obj ACTIONS_def)

lemma updated_rule_ok:
  "rule_ok r \<Longrightarrow> k = ''field'' \<and> v \<in> set RULE_FIELDS \<or> k = ''condition'' \<and> v \<in> set RULE_CONDITIONS \<or> k = ''value'' \<Longrightarrow>
    rule_ok (spread r [(k, Some (JStr v))])"
  by (auto simp: rule_ok_def prop_spread map_of_entries conforms_iff)

lemma filter_rules_ok:
  "filter_form_ok u \<Longrightarrow> filter_form_ok (addRule u)"
  "filter_form_ok u \<Longrightarrow> filter_form_ok (updateRule i k v u)"
  "filter_form_ok u \<Longrightarrow> 1 < length (rules u) \<Longrightarrow> filter_form_ok (removeRule i u)"
proof -
  assume u: "filter_form_ok u"
  show "filter_form_ok (addRule u)" using u by (simp add: filter_form_ok_def addRule_def blankRule_ok)
  show "filter_form_ok (updateRule i k v u)"
  proof (cases "i < length (rules u)")
    case True
    then have "rule_ok (rules u ! i)" using u by (simp add: filter_form_ok_def list_all_length)
    then show ?thesis using u True
      by (auto simp: filter_form_ok_def updateRule_def list_all_iff updated_rule_ok dest!: set_update_subset_insert [THEN subsetD])
  qed (use u in \<open>simp add: filter_form_ok_def updateRule_def list_update_beyond\<close>)
  assume "1 < length (rules u)"
  then have "take i (rules u) @ drop (Suc i) (rules u) \<noteq> []" by (cases i) auto
  then show "filter_form_ok (removeRule i u)" using u
    by (auto simp: filter_form_ok_def removeRule_def list_all_iff dest: in_set_takeD in_set_dropD)
qed

lemma filter_form_ok_shown [simp]:
  "filter_form_ok (toggle_form u) = filter_form_ok u" "filter_form_ok (hide_form u) = filter_form_ok u"
  "filter_form_ok (u\<lparr>mailbox := m\<rparr>) = filter_form_ok u" "filter_form_ok (u\<lparr>inputMailbox := m\<rparr>) = filter_form_ok u"
  by (simp_all add: filter_form_ok_def page_defs)

lemma filter_input_ok:
  assumes "filter_form_ok u"
  shows "filter_form_ok (filter_input k v u)"
proof -
  have "rules (filter_input k v u) = rules u" by (simp add: filter_input_def edit_form_def)
  moreover have "conforms filter_schema (form (filter_input k v u))"
    using assms by (simp add: filter_form_ok_def filter_input_def filter_schema_ok)
  moreover have "own_prop (form (filter_input k v u)) ''action'' \<in> (Some \<circ> JStr \<circ> fst) ` set ACTIONS"
    using assms by (auto simp: filter_form_ok_def filter_input_def edit_form_def type_in_def prop_spread
        map_of_entries image_image split: option.splits)
  ultimately show ?thesis using assms by (simp add: filter_form_ok_def)
qed

lemma filter_body_valid:
  "filter_form_ok u \<Longrightarrow> mailbox u \<noteq> [] \<Longrightarrow> filled [''name''] (form u) \<Longrightarrow> valid_filter (AddFilter (filter_body u))"
  by (auto simp: valid_filter_def filter_body_def filter_form_ok_def conforms_iff filled_def prop_obj filter_schema_def)

interpretation email_filters: fresh_page filter_page filter_start filter_form_ok valid_filter "[is_AddFilter]"
  by unfold_locales (auto intro!: nothing_staleI simp: filter_page_def filter_handle_def filter_start_ok filter_rules_ok filter_input_ok
      filter_body_valid valid_filter_def [of "DropFilter _"] valid_filter_def [of "SetFilter _ _"]
      refreshes_def
      split: filter_mut.splits form_event.splits filter_control.splits if_splits)

section \<open>Forwarders (forwarders/page.tsx)\<close>

text \<open>\<open>split(/[\n,]+/)\<close> with the pieces trimmed and the empty ones dropped; runs of separators are
  one separator.\<close>

definition is_sep :: "char \<Rightarrow> bool" where
  "is_sep c \<longleftrightarrow> code_unit c = 10 \<or> code_unit c = 44"

function split_seps :: "string \<Rightarrow> string list" where
  "split_seps [] = [[]]"
| "split_seps (c # s) =
     (if is_sep c then [] # split_seps (dropWhile is_sep s)
      else (case split_seps s of [] \<Rightarrow> [[c]] | w # ws \<Rightarrow> (c # w) # ws))"
  by pat_completeness auto

termination
  by (relation "measure length") (auto intro: le_imp_less_Suc length_dropWhile_le)

definition destinations_of :: "string \<Rightarrow> string list" where
  "destinations_of s = filter_Boolean (map trim (split_seps s))"

datatype forwarders_mut = RemoveForwarder string

datatype forwarders_control = ShowAdd | CloseAdd | RemoveForwarderClick string bool

text \<open>The second argument of the delete button is the answer to \<open>confirm\<close>.\<close>

definition forwarders_handle ::
  "forwarders_control \<Rightarrow> forwarders_mut busy \<Rightarrow> bool \<Rightarrow> bool \<times> forwarders_mut act list" where
  "forwarders_handle e b showAdd = (case e of
     ShowAdd \<Rightarrow> (True, [])
   | CloseAdd \<Rightarrow> (False, [])
   | RemoveForwarderClick i confirmed \<Rightarrow> (showAdd, if confirmed then [Mutate (RemoveForwarder i)] else []))"

definition forwarders_page :: "(forwarders_mut, bool, forwarders_control) page" where
  "forwarders_page = \<lparr>
     p_call = (\<lambda>m. case m of RemoveForwarder i \<Rightarrow> MailApi (DeleteForwarder i)),
     p_queries = (\<lambda>u. [([''forwarders''], MailApi ListForwarders)]),
     p_handle = forwarders_handle,
     p_success = (\<lambda>m u. [Invalidate [''forwarders''], Success ''Forwarder deleted'']),
     p_error = (\<lambda>m. [Failure ''Failed to delete forwarder'']),
     p_after = (\<lambda>m u. u),
     p_failed = (\<lambda>m u. u)\<rparr>"

interpretation forwarders: fresh_page forwarders_page False "\<lambda>_. True" "\<lambda>_. True" "[]"
  by unfold_locales (auto intro!: nothing_staleI simp: forwarders_page_def refreshes_def)

text \<open>The dialog that adds a forwarder.\<close>

datatype forwarder_mut = is_AddForwarder: AddForwarder json

datatype forwarder_control = TypeDestinations string

record forwarder_ui = form_ui + destinations :: string

definition forwarder_schema :: schema where
  "forwarder_schema = [(''source_local'', TStr), (''source_domain'', TStr)]"

definition forwarder_start :: forwarder_ui where
  "forwarder_start = \<lparr>showForm = True, form = str_obj [(''source_local'', []), (''source_domain'', [])], destinations = []\<rparr>"

definition forwarder_body :: "forwarder_ui \<Rightarrow> json" where
  "forwarder_body u = obj [(''source_local'', own_prop (form u) ''source_local''),
     (''source_domain'', own_prop (form u) ''source_domain''),
     (''destinations'', Some (str_arr (destinations_of (destinations u))))]"

definition forwarder_handle ::
  "forwarder_control form_event \<Rightarrow> forwarder_mut busy \<Rightarrow> forwarder_ui \<Rightarrow> forwarder_ui \<times> forwarder_mut act list" where
  "forwarder_handle e b u = (case e of
     ToggleForm \<Rightarrow> (u, [])
   | HideForm \<Rightarrow> (hide_form u, [])
   | Input k v \<Rightarrow> (edit_form forwarder_schema k v u, [])
   | Control (TypeDestinations v) \<Rightarrow> (if showForm u then u\<lparr>destinations := v\<rparr> else u, [])
   | Submit \<Rightarrow>
       (u, if showForm u \<and> filled [''source_local'', ''source_domain''] (form u) \<and> \<not> b is_AddForwarder
           then [Mutate (AddForwarder (forwarder_body u))] else []))"

definition forwarder_modal :: "(forwarder_mut, forwarder_ui, forwarder_control form_event) page" where
  "forwarder_modal = \<lparr>
     p_call = (\<lambda>m. case m of AddForwarder d \<Rightarrow> MailApi (CreateForwarder d)),
     p_queries = (\<lambda>u. [([''forwarders''], MailApi ListForwarders)]),
     p_handle = forwarder_handle,
     p_success = (\<lambda>m u. [Invalidate [''forwarders''], Success ''Forwarder created'']),
     p_error = (\<lambda>m. [Failure ''Failed to create forwarder'']),
     p_after = (\<lambda>m. hide_form),
     p_failed = (\<lambda>m u. u)\<rparr>"

definition valid_forwarder :: "forwarder_mut \<Rightarrow> bool" where
  "valid_forwarder m \<longleftrightarrow> (case m of AddForwarder b \<Rightarrow>
     conforms [(''source_local'', TStr), (''source_domain'', TStr), (''destinations'', TArr)] b \<and>
     filled [''source_local'', ''source_domain''] b)"

lemma forwarder_schema_ok:
  "distinct (map fst forwarder_schema)" "conforms forwarder_schema (form forwarder_start)"
  by (simp_all add: forwarder_schema_def conforms_def forwarder_start_def str_obj_def prop_obj)

lemma forwarder_body_valid:
  "conforms forwarder_schema (form u) \<Longrightarrow> filled [''source_local'', ''source_domain''] (form u) \<Longrightarrow>
    valid_forwarder (AddForwarder (forwarder_body u))"
  by (auto simp: valid_forwarder_def forwarder_body_def conforms_iff filled_def prop_obj forwarder_schema_def str_arr_def)

interpretation add_forwarder: fresh_page forwarder_modal forwarder_start "\<lambda>u. conforms forwarder_schema (form u)"
  valid_forwarder "[is_AddForwarder]"
  by unfold_locales (auto intro!: nothing_staleI simp: forwarder_modal_def forwarder_handle_def forwarder_schema_ok forwarder_body_valid
      refreshes_def
      split: form_event.splits forwarder_control.splits forwarder_mut.splits if_splits)

section \<open>DKIM keys (dkim/page.tsx)\<close>

datatype dkim_mut = DropKey string | RegenKey string

datatype dkim_control = ShowGenerate | CloseGenerate | RegenClick string | DropKeyClick string bool
  | CopyText string string | CopiedTimeout

record dkim_ui =
  dkim_showAdd :: bool
  dkim_copied :: "string option"

definition copyToClipboard :: "string \<Rightarrow> string \<Rightarrow> dkim_ui \<Rightarrow> dkim_ui \<times> dkim_mut act list" where
  "copyToClipboard t i u = (u\<lparr>dkim_copied := Some i\<rparr>, [Do (Copied t), Do (Success ''Copied to clipboard'')])"

definition dkim_handle :: "dkim_control \<Rightarrow> dkim_mut busy \<Rightarrow> dkim_ui \<Rightarrow> dkim_ui \<times> dkim_mut act list" where
  "dkim_handle e b u = (case e of
     ShowGenerate \<Rightarrow> (u\<lparr>dkim_showAdd := True\<rparr>, [])
   | CloseGenerate \<Rightarrow> (u\<lparr>dkim_showAdd := False\<rparr>, [])
   | RegenClick d \<Rightarrow> (u, [Mutate (RegenKey d)])
   | DropKeyClick d confirmed \<Rightarrow> (u, if confirmed then [Mutate (DropKey d)] else [])
   | CopyText t i \<Rightarrow> copyToClipboard t i u
   | CopiedTimeout \<Rightarrow> (u\<lparr>dkim_copied := None\<rparr>, []))"

definition dkim_page :: "(dkim_mut, dkim_ui, dkim_control) page" where
  "dkim_page = \<lparr>
     p_call = (\<lambda>m. MailApi (case m of DropKey d \<Rightarrow> DeleteDKIM d
       | RegenKey d \<Rightarrow> GenerateDKIM (str_obj [(''domain'', d)]))),
     p_queries = (\<lambda>u. [([''dkim''], MailApi ListDKIM)]),
     p_handle = dkim_handle,
     p_success = (\<lambda>m u. [Invalidate [''dkim''], Success (case m of DropKey _ \<Rightarrow> ''DKIM key deleted''
       | RegenKey _ \<Rightarrow> ''DKIM key regenerated'')]),
     p_error = (\<lambda>m. [Failure (case m of DropKey _ \<Rightarrow> ''Failed to delete DKIM key''
       | RegenKey _ \<Rightarrow> ''Failed to regenerate DKIM key'')]),
     p_after = (\<lambda>m u. u),
     p_failed = (\<lambda>m u. u)\<rparr>"

definition dkim_start :: dkim_ui where
  "dkim_start = \<lparr>dkim_showAdd = False, dkim_copied = None\<rparr>"

interpretation dkim: fresh_page dkim_page dkim_start "\<lambda>_. True" "\<lambda>_. True" "[]"
  by unfold_locales (auto intro!: nothing_staleI simp: dkim_page_def refreshes_def)

text \<open>The dialog that generates a key.\<close>

datatype genkey_mut = is_GenKey: GenKey json

definition genkey_schema :: schema where
  "genkey_schema = [(''domain'', TStr)]"

definition genkey_start :: form_ui where
  "genkey_start = \<lparr>showForm = True, form = str_obj [(''domain'', [])]\<rparr>"

definition genkey_handle :: "unit form_event \<Rightarrow> genkey_mut busy \<Rightarrow> form_ui \<Rightarrow> form_ui \<times> genkey_mut act list" where
  "genkey_handle e b u = (case e of
     HideForm \<Rightarrow> (hide_form u, [])
   | Input k v \<Rightarrow> (edit_form genkey_schema k v u, [])
   | Submit \<Rightarrow> (u, if showForm u \<and> filled [''domain''] (form u) \<and> \<not> b is_GenKey then [Mutate (GenKey (form u))] else [])
   | _ \<Rightarrow> (u, []))"

definition genkey_modal :: "(genkey_mut, form_ui, unit form_event) page" where
  "genkey_modal = \<lparr>
     p_call = (\<lambda>m. case m of GenKey d \<Rightarrow> MailApi (GenerateDKIM d)),
     p_queries = (\<lambda>u. [([''dkim''], MailApi ListDKIM)]),
     p_handle = genkey_handle,
     p_success = (\<lambda>m u. [Invalidate [''dkim''], Success ''DKIM key generated'']),
     p_error = (\<lambda>m. [Failure ''Failed to generate DKIM key'']),
     p_after = (\<lambda>m. hide_form),
     p_failed = (\<lambda>m u. u)\<rparr>"

definition valid_genkey :: "genkey_mut \<Rightarrow> bool" where
  "valid_genkey m \<longleftrightarrow> (case m of GenKey d \<Rightarrow> conforms genkey_schema d \<and> filled [''domain''] d)"

lemma genkey_schema_ok: "distinct (map fst genkey_schema)" "conforms genkey_schema (form genkey_start)"
  by (simp_all add: genkey_schema_def conforms_def genkey_start_def str_obj_def prop_obj)

interpretation generate_dkim: fresh_page genkey_modal genkey_start "\<lambda>u. conforms genkey_schema (form u)"
  valid_genkey "[is_GenKey]"
  by unfold_locales (auto intro!: nothing_staleI simp: genkey_modal_def genkey_handle_def genkey_schema_ok valid_genkey_def
      refreshes_def split: form_event.splits genkey_mut.splits if_splits)

section \<open>DMARC records (dmarc/page.tsx)\<close>

record dmarc =
  dm_domain :: string
  dm_policy :: dmarc_policy
  dm_result :: jsval
  dm_copied :: bool
  dm_calls :: "mail_call list"
  dm_toasts :: "effect list"

definition dmarc_init :: dmarc where
  "dmarc_init = \<lparr>dm_domain = [], dm_policy = DmarcNone, dm_result = None, dm_copied = False, dm_calls = [], dm_toasts = []\<rparr>"

text \<open>\<open>generate\<close> up to its \<open>await\<close>, and what it does with the answer.\<close>

definition generate :: "dmarc \<Rightarrow> dmarc" where
  "generate s = (if trim (dm_domain s) = [] then s
     else s\<lparr>dm_calls := dm_calls s @ [GetDMARCRecord (trim (dm_domain s)) (Some (dm_policy s))]\<rparr>)"

definition generated :: "json option \<Rightarrow> dmarc \<Rightarrow> dmarc" where
  "generated answer s = (case answer of
     Some data \<Rightarrow> s\<lparr>dm_result := Some data\<rparr>
   | None \<Rightarrow> s\<lparr>dm_toasts := dm_toasts s @ [Failure ''Failed to generate DMARC record'']\<rparr>)"

definition dmarc_copy :: "string \<Rightarrow> dmarc \<Rightarrow> dmarc" where
  "dmarc_copy t s = s\<lparr>dm_copied := True, dm_toasts := dm_toasts s @ [Copied t, Success ''Copied to clipboard'']\<rparr>"

datatype dmarc_event = DmarcDomain string | DmarcPolicy dmarc_policy | DmarcGenerate
  | DmarcAnswer "json option" | DmarcCopy string | DmarcTimeout

fun dmarc_step :: "dmarc_event \<Rightarrow> dmarc \<Rightarrow> dmarc" where
  "dmarc_step (DmarcDomain d) s = s\<lparr>dm_domain := d\<rparr>"
| "dmarc_step (DmarcPolicy p) s = s\<lparr>dm_policy := p\<rparr>"
| "dmarc_step DmarcGenerate s = generate s"
| "dmarc_step (DmarcAnswer a) s = generated a s"
| "dmarc_step (DmarcCopy t) s = (if dm_result s = None then s else dmarc_copy t s)"
| "dmarc_step DmarcTimeout s = s\<lparr>dm_copied := False\<rparr>"

text \<open>Every record asked for is for a name without surrounding blanks, and never the empty one.\<close>

definition dmarc_inv :: "dmarc \<Rightarrow> bool" where
  "dmarc_inv s \<longleftrightarrow> list_all (\<lambda>c. \<exists>d p. c = GetDMARCRecord d (Some p) \<and> d \<noteq> [] \<and> trim d = d) (dm_calls s)"

lemma dmarc_step_inv: "dmarc_inv s \<Longrightarrow> dmarc_inv (dmarc_step e s)"
  by (cases e) (auto simp: dmarc_inv_def generate_def generated_def dmarc_copy_def trim_trim split: option.splits)

interpretation dmarc: component dmarc_step dmarc_inv
  by unfold_locales (rule dmarc_step_inv)

end
