(* ===== verification/MailboxPage.thy ===== *)
theory MailboxPage
  imports EmailPages
begin

text \<open>
  The mail page (app/(panel)/email/page.tsx): its tabs for mailboxes, forwarders, DKIM keys and
  catch-all addresses with their dialogs, the password generator and the strength meter.
\<close>

section \<open>Passwords\<close>

definition password_chars :: string where
  "password_chars = ''abcdefghijklmnopqrstuvwxyzABCDEFGHIJKLMNOPQRSTUVWXYZ0123456789!@#$%^&*''"

text \<open>\<open>crypto.getRandomValues\<close> is the list of random 32-bit numbers it is given.\<close>

definition generatePassword :: "nat list \<Rightarrow> string" where
  "generatePassword randoms = map (\<lambda>n. password_chars ! (n mod length password_chars)) randoms"

text \<open>The dot of \<open>/.{8,}/\<close> matches no line break.\<close>

definition strength_checks :: "(string \<Rightarrow> bool) list" where
  "strength_checks = [\<lambda>p. list_ex (\<lambda>l. 8 \<le> length l) (concat (map (split_on (CHR 0x0D)) (split_on (CHR 0x0A) p))),
     list_ex is_upper, list_ex is_lower, list_ex is_digit,
     list_ex (\<lambda>c. \<not> is_upper c \<and> \<not> is_lower c \<and> \<not> is_digit c)]"

definition strength_score :: "string \<Rightarrow> nat" where
  "strength_score p = length (filter (\<lambda>r. r p) strength_checks)"

definition strength_labels :: "string list" where
  "strength_labels = [''Very Weak'', ''Weak'', ''Fair'', ''Strong'', ''Very Strong'']"

text \<open>\<open>labels[score - 1] ?? 'Too short'\<close>: the array has no index -1.\<close>

definition strength_label :: "string \<Rightarrow> string" where
  "strength_label p = (if strength_score p = 0 then ''Too short'' else strength_labels ! (strength_score p - 1))"

section \<open>Mailboxes\<close>

record mailbox_row =
  mb_id :: string
  mb_email :: string
  mb_enabled :: bool
  mb_quota_mb :: nat
  mb_used_mb :: nat

definition shown_mailboxes :: "string \<Rightarrow> mailbox_row list \<Rightarrow> mailbox_row list" where
  "shown_mailboxes search ms =
     filter (\<lambda>m. search = [] \<or> str_includes (toLowerCase (mb_email m)) (toLowerCase search)) ms"

definition activeCount :: "mailbox_row list \<Rightarrow> nat" where
  "activeCount ms = length (filter mb_enabled ms)"

definition totalUsedBytes :: "mailbox_row list \<Rightarrow> nat" where
  "totalUsedBytes ms = foldl (\<lambda>a m. a + mb_used_mb m * 1024 * 1024) 0 ms"

definition used_percent :: "mailbox_row \<Rightarrow> rat" where
  "used_percent m = (if 0 < mb_quota_mb m then of_nat (mb_used_mb m) / of_nat (mb_quota_mb m) * 100 else 0)"

datatype mailbox_mut = RemoveMailbox string | SuspendMut string bool

datatype mailbox_control = SearchMailbox string | RefetchMailboxes | ShowAddMailbox | CloseAddMailbox
  | SelectMailbox string | CloseSelected | SuspendClick string bool | RemoveMailboxClick string bool

record mailbox_ui =
  mb_search :: string
  mb_showAdd :: bool
  mb_selected :: "string option"

definition mailbox_handle :: "mailbox_control \<Rightarrow> mailbox_mut busy \<Rightarrow> mailbox_ui \<Rightarrow> mailbox_ui \<times> mailbox_mut act list" where
  "mailbox_handle e b u = (case e of
     SearchMailbox v \<Rightarrow> (u\<lparr>mb_search := v\<rparr>, [])
   | RefetchMailboxes \<Rightarrow> (u, [Do (Invalidate [''mailboxes''])])
   | ShowAddMailbox \<Rightarrow> (u\<lparr>mb_showAdd := True\<rparr>, [])
   | CloseAddMailbox \<Rightarrow> (u\<lparr>mb_showAdd := False\<rparr>, [])
   | SelectMailbox i \<Rightarrow> (u\<lparr>mb_selected := Some i\<rparr>, [])
   | CloseSelected \<Rightarrow> (u\<lparr>mb_selected := None\<rparr>, [])
   | SuspendClick i enabled \<Rightarrow> (u, [Mutate (SuspendMut i enabled)])
   | RemoveMailboxClick i confirmed \<Rightarrow> (u, if confirmed then [Mutate (RemoveMailbox i)] else []))"

definition mailbox_tab :: "(mailbox_mut, mailbox_ui, mailbox_control) page" where
  "mailbox_tab = \<lparr>
     p_call = (\<lambda>m. MailApi (case m of RemoveMailbox i \<Rightarrow> DeleteMailbox i
       | SuspendMut i suspended \<Rightarrow> if suspended then SuspendMailbox i else UnsuspendMailbox i)),
     p_queries = (\<lambda>u. [([''mailboxes''], MailApi ListMailboxes)]),
     p_handle = mailbox_handle,
     p_success = (\<lambda>m u. [Invalidate [''mailboxes''], Success (case m of RemoveMailbox _ \<Rightarrow> ''Mailbox deleted''
       | SuspendMut _ suspended \<Rightarrow> if suspended then ''Mailbox suspended'' else ''Mailbox activated'')]),
     p_error = (\<lambda>m. [Failure (case m of RemoveMailbox _ \<Rightarrow> ''Failed to delete mailbox''
       | SuspendMut _ _ \<Rightarrow> ''Action failed'')]),
     p_after = (\<lambda>m u. u),
     p_failed = (\<lambda>m u. u)\<rparr>"

definition mailbox_start :: mailbox_ui where
  "mailbox_start = \<lparr>mb_search = [], mb_showAdd = False, mb_selected = None\<rparr>"

interpretation mailboxes: fresh_page mailbox_tab mailbox_start "\<lambda>_. True" "\<lambda>_. True" "[]"
  by unfold_locales (auto intro!: nothing_staleI simp: mailbox_tab_def refreshes_def)

text \<open>The dialog that creates a mailbox.\<close>

datatype newbox_mut = is_NewBox: NewBox json

datatype newbox_control = ShowPassword | Generate "nat list"

record newbox_ui = form_ui + nb_showPassword :: bool

definition newbox_schema :: schema where
  "newbox_schema = [(''local_part'', TStr), (''domain'', TStr), (''password'', TStr), (''quota_mb'', TNaN)]"

definition newbox_start :: newbox_ui where
  "newbox_start = \<lparr>showForm = True, form = obj [(''local_part'', Some (JStr [])), (''domain'', Some (JStr [])),
     (''password'', Some (JStr [])), (''quota_mb'', Some (JNum 1024))], nb_showPassword = False\<rparr>"

definition newbox_handle ::
  "newbox_control form_event \<Rightarrow> newbox_mut busy \<Rightarrow> newbox_ui \<Rightarrow> newbox_ui \<times> newbox_mut act list" where
  "newbox_handle e b u = (case e of
     ToggleForm \<Rightarrow> (u, [])
   | HideForm \<Rightarrow> (hide_form u, [])
   | Input k v \<Rightarrow> (edit_form newbox_schema k v u, [])
   | Control ShowPassword \<Rightarrow> (u\<lparr>nb_showPassword := \<not> nb_showPassword u\<rparr>, [])
   | Control (Generate rs) \<Rightarrow> (edit_form newbox_schema ''password'' (JStr (generatePassword rs)) u, [])
   | Submit \<Rightarrow>
       (u, if showForm u \<and> filled [''local_part'', ''domain'', ''password''] (form u) \<and> \<not> b is_NewBox
           then [Mutate (NewBox (form u))] else []))"

definition newbox_modal :: "(newbox_mut, newbox_ui, newbox_control form_event) page" where
  "newbox_modal = \<lparr>
     p_call = (\<lambda>m. case m of NewBox d \<Rightarrow> MailApi (CreateMailbox d)),
     p_queries = (\<lambda>u. [([''mailboxes''], MailApi ListMailboxes)]),
     p_handle = newbox_handle,
     p_success = (\<lambda>m u. [Invalidate [''mailboxes''], Success ''Mailbox created'']),
     p_error = (\<lambda>m. [Failure ''Failed to create mailbox'']),
     p_after = (\<lambda>m. hide_form),
     p_failed = (\<lambda>m u. u)\<rparr>"

definition valid_newbox :: "newbox_mut \<Rightarrow> bool" where
  "valid_newbox m \<longleftrightarrow> (case m of NewBox d \<Rightarrow>
     conforms newbox_schema d \<and> filled [''local_part'', ''domain'', ''password''] d)"

lemma newbox_schema_ok: "distinct (map fst newbox_schema)" "conforms newbox_schema (form newbox_start)"
  by (simp_all add: newbox_schema_def conforms_def newbox_start_def prop_obj)

interpretation add_mailbox: fresh_page newbox_modal newbox_start "\<lambda>u. conforms newbox_schema (form u)"
  valid_newbox "[is_NewBox]"
  by unfold_locales (auto intro!: nothing_staleI simp: newbox_modal_def newbox_handle_def newbox_schema_ok valid_newbox_def
      refreshes_def
      split: form_event.splits newbox_control.splits newbox_mut.splits if_splits)

text \<open>The dialog of a mailbox's settings; it is mounted with the mailbox's id and quota.\<close>

datatype section_tab = QuotaSection | PasswordSection

datatype settings_mut = is_SetQuota: SetQuota json | is_SetPassword: SetPassword string

datatype settings_event = CloseSettings | OpenSection section_tab | TypeQuota rat | SaveQuota
  | TypeNewPassword string | ShowNewPassword | GenerateNewPassword "nat list" | SavePassword

record settings_ui =
  st_open :: bool
  st_section :: section_tab
  st_showPassword :: bool
  st_newPassword :: string
  st_quota :: rat

definition settings_start :: "rat \<Rightarrow> settings_ui" where
  "settings_start quota = \<lparr>st_open = True, st_section = QuotaSection, st_showPassword = False,
     st_newPassword = [], st_quota = quota\<rparr>"

definition settings_handle ::
  "settings_event \<Rightarrow> settings_mut busy \<Rightarrow> settings_ui \<Rightarrow> settings_ui \<times> settings_mut act list" where
  "settings_handle e b u = (if \<not> st_open u then (u, []) else case e of
     CloseSettings \<Rightarrow> (u\<lparr>st_open := False\<rparr>, [])
   | OpenSection s \<Rightarrow> (u\<lparr>st_section := s\<rparr>, [])
   | TypeQuota q \<Rightarrow> (if st_section u = QuotaSection then u\<lparr>st_quota := q\<rparr> else u, [])
   | SaveQuota \<Rightarrow>
       (u, if st_section u = QuotaSection \<and> \<not> b is_SetQuota
           then [Mutate (SetQuota (obj [(''quota_mb'', Some (JNum (st_quota u)))]))] else [])
   | TypeNewPassword v \<Rightarrow> (if st_section u = PasswordSection then u\<lparr>st_newPassword := v\<rparr> else u, [])
   | ShowNewPassword \<Rightarrow> (u\<lparr>st_showPassword := \<not> st_showPassword u\<rparr>, [])
   | GenerateNewPassword rs \<Rightarrow>
       (if st_section u = PasswordSection then u\<lparr>st_newPassword := generatePassword rs\<rparr> else u, [])
   | SavePassword \<Rightarrow>
       (u, if st_section u = PasswordSection \<and> \<not> b is_SetPassword \<and> st_newPassword u \<noteq> []
           then [Mutate (SetPassword (st_newPassword u))] else []))"

definition settings_modal :: "string \<Rightarrow> (settings_mut, settings_ui, settings_event) page" where
  "settings_modal mailbox_id = \<lparr>
     p_call = (\<lambda>m. MailApi (case m of SetQuota d \<Rightarrow> UpdateMailbox mailbox_id d
       | SetPassword p \<Rightarrow> ChangePassword mailbox_id p)),
     p_queries = (\<lambda>u. [([''mailboxes''], MailApi ListMailboxes)]),
     p_handle = settings_handle,
     p_success = (\<lambda>m u. case m of SetQuota _ \<Rightarrow> [Invalidate [''mailboxes''], Success ''Updated'']
       | SetPassword _ \<Rightarrow> [Success ''Password changed'']),
     p_error = (\<lambda>m. [Failure (case m of SetQuota _ \<Rightarrow> ''Failed to update''
       | SetPassword _ \<Rightarrow> ''Failed to change password'')]),
     p_after = (\<lambda>m u. u\<lparr>st_open := False\<rparr>),
     p_failed = (\<lambda>m u. u)\<rparr>"

definition valid_settings :: "settings_mut \<Rightarrow> bool" where
  "valid_settings m \<longleftrightarrow> (case m of SetQuota d \<Rightarrow> conforms [(''quota_mb'', TNum)] d | SetPassword p \<Rightarrow> p \<noteq> [])"

interpretation mailbox_settings: panel_page "settings_modal i" "settings_start q" "\<lambda>_. True" valid_settings
  "[is_SetQuota, is_SetPassword]"
  by unfold_locales (auto intro!: nothing_staleI simp: settings_modal_def settings_handle_def valid_settings_def conforms_iff
      split: settings_event.splits settings_mut.splits if_splits)

lemma strength_score_le: "strength_score p \<le> 5"
  using length_filter_le [of "\<lambda>r. r p" strength_checks] by (simp add: strength_score_def strength_checks_def)

lemma generated_chars: "set (generatePassword rs) \<subseteq> set password_chars" "length (generatePassword rs) = length rs"
proof -
  have "password_chars ! (n mod length password_chars) \<in> set password_chars" for n
    by (rule nth_mem) (simp add: password_chars_def)
  then show "set (generatePassword rs) \<subseteq> set password_chars" by (auto simp: generatePassword_def)
qed (simp add: generatePassword_def)

section \<open>Forwarders\<close>

text \<open>Here the destinations are split at every single comma or line break.\<close>

fun split_each :: "string \<Rightarrow> string list" where
  "split_each [] = [[]]"
| "split_each (c # s) =
     (if is_sep c then [] # split_each s
      else (case split_each s of [] \<Rightarrow> [[c]] | w # ws \<Rightarrow> (c # w) # ws))"

definition each_destination :: "string \<Rightarrow> string list" where
  "each_destination s = filter_Boolean (map trim (split_each s))"

definition forwarder_tab :: "(forwarders_mut, bool, forwarders_control) page" where
  "forwarder_tab = \<lparr>
     p_call = (\<lambda>m. case m of RemoveForwarder i \<Rightarrow> MailApi (DeleteForwarder i)),
     p_queries = (\<lambda>u. [([''forwarders''], MailApi ListForwarders)]),
     p_handle = forwarders_handle,
     p_success = (\<lambda>m u. [Invalidate [''forwarders''], Success ''Forwarder deleted'']),
     p_error = (\<lambda>m. [Failure ''Failed to delete'']),
     p_after = (\<lambda>m u. u),
     p_failed = (\<lambda>m u. u)\<rparr>"

interpretation forwarder_list: fresh_page forwarder_tab False "\<lambda>_. True" "\<lambda>_. True" "[]"
  by unfold_locales (auto intro!: nothing_staleI simp: forwarder_tab_def refreshes_def)

text \<open>This dialog refuses an empty list of destinations.\<close>

definition tab_forwarder_body :: "forwarder_ui \<Rightarrow> json" where
  "tab_forwarder_body u = spread (form u) [(''destinations'', Some (str_arr (each_destination (destinations u))))]"

definition tab_forwarder_handle ::
  "forwarder_control form_event \<Rightarrow> forwarder_mut busy \<Rightarrow> forwarder_ui \<Rightarrow> forwarder_ui \<times> forwarder_mut act list" where
  "tab_forwarder_handle e b u = (case e of
     ToggleForm \<Rightarrow> (u, [])
   | HideForm \<Rightarrow> (hide_form u, [])
   | Input k v \<Rightarrow> (edit_form forwarder_schema k v u, [])
   | Control (TypeDestinations v) \<Rightarrow> (if showForm u then u\<lparr>destinations := v\<rparr> else u, [])
   | Submit \<Rightarrow>
       (u, if showForm u \<and> filled [''source_local'', ''source_domain''] (form u) \<and> \<not> b is_AddForwarder
           then (if each_destination (destinations u) = [] then [Do (Failure ''Add at least one destination'')]
                 else [Mutate (AddForwarder (tab_forwarder_body u))])
           else []))"

definition tab_forwarder_modal :: "(forwarder_mut, forwarder_ui, forwarder_control form_event) page" where
  "tab_forwarder_modal = \<lparr>
     p_call = (\<lambda>m. case m of AddForwarder d \<Rightarrow> MailApi (CreateForwarder d)),
     p_queries = (\<lambda>u. [([''forwarders''], MailApi ListForwarders)]),
     p_handle = tab_forwarder_handle,
     p_success = (\<lambda>m u. [Invalidate [''forwarders''], Success ''Forwarder created'']),
     p_error = (\<lambda>m. [Failure ''Failed to create forwarder'']),
     p_after = (\<lambda>m. hide_form),
     p_failed = (\<lambda>m u. u)\<rparr>"

definition valid_tab_forwarder :: "forwarder_mut \<Rightarrow> bool" where
  "valid_tab_forwarder m \<longleftrightarrow> (case m of AddForwarder b \<Rightarrow>
     conforms forwarder_schema b \<and> filled [''source_local'', ''source_domain''] b \<and>
     (\<exists>ds. own_prop b ''destinations'' = Some (str_arr ds) \<and> ds \<noteq> [] \<and> [] \<notin> set ds))"

lemma tab_forwarder_valid:
  "conforms forwarder_schema (form u) \<Longrightarrow> filled [''source_local'', ''source_domain''] (form u) \<Longrightarrow>
    each_destination (destinations u) \<noteq> [] \<Longrightarrow> valid_tab_forwarder (AddForwarder (tab_forwarder_body u))"
  by (auto simp: valid_tab_forwarder_def tab_forwarder_body_def conforms_iff filled_def prop_spread map_of_entries
      forwarder_schema_def each_destination_def filter_Boolean_def)

interpretation tab_add_forwarder: fresh_page tab_forwarder_modal forwarder_start
  "\<lambda>u. conforms forwarder_schema (form u)" valid_tab_forwarder "[is_AddForwarder]"
  by unfold_locales (auto intro!: nothing_staleI simp: tab_forwarder_modal_def tab_forwarder_handle_def forwarder_schema_ok tab_forwarder_valid
      refreshes_def
      split: form_event.splits forwarder_control.splits forwarder_mut.splits if_splits)

text \<open>Both ways of splitting give the same destinations.\<close>

lemma trim_Nil [simp]: "trim [] = []"
  by (simp add: trim_def)

lemma split_nonempty [simp]: "split_seps s \<noteq> []" "split_each s \<noteq> []"
  by (cases s; simp split: list.splits)+

lemma destinations_skip: "filter_Boolean (map trim (split_each (dropWhile is_sep s))) = each_destination s"
  by (induction s) (simp_all add: each_destination_def filter_Boolean_def)

lemma split_plain:
  "\<not> is_sep c \<Longrightarrow> split_seps (c # s) = (c # hd (split_seps s)) # tl (split_seps s)"
  "\<not> is_sep c \<Longrightarrow> split_each (c # s) = (c # hd (split_each s)) # tl (split_each s)"
  by (simp_all split: list.split)

lemma pieces_destinations: "filter_Boolean (map trim ws) =
    (if ws = [] then [] else filter_Boolean [trim (hd ws)] @ filter_Boolean (map trim (tl ws)))"
  by (cases ws) (simp_all add: filter_Boolean_def)

lemma first_piece:
  "hd (split_seps s) = hd (split_each s) \<and>
    filter_Boolean (map trim (tl (split_seps s))) = filter_Boolean (map trim (tl (split_each s)))"
proof (induction s rule: split_seps.induct)
  case (2 c s)
  show ?case
  proof (cases "is_sep c")
    case True
    let ?r = "dropWhile is_sep s"
    have "filter_Boolean (map trim (split_seps ?r)) = filter_Boolean (map trim (split_each ?r))"
      using 2(1) [OF True] pieces_destinations [of "split_seps ?r"] pieces_destinations [of "split_each ?r"] by simp
    then show ?thesis using True by (simp add: destinations_skip each_destination_def)
  next
    case False
    show ?thesis using 2(2) [OF False] by (simp only: split_plain [OF False] list.sel simp_thms)
  qed
qed simp

lemma destinations_agree: "destinations_of s = each_destination s"
  using first_piece [of s] pieces_destinations [of "split_seps s"] pieces_destinations [of "split_each s"]
  by (simp add: destinations_of_def each_destination_def)

section \<open>DKIM keys\<close>

datatype tabkey_mut = DropTabKey string

datatype tabkey_control = ShowTabGenerate | CloseTabGenerate | DropTabKeyClick string bool

definition dkim_tab_handle :: "tabkey_control \<Rightarrow> tabkey_mut busy \<Rightarrow> bool \<Rightarrow> bool \<times> tabkey_mut act list" where
  "dkim_tab_handle e b showGenerate = (case e of
     ShowTabGenerate \<Rightarrow> (True, [])
   | CloseTabGenerate \<Rightarrow> (False, [])
   | DropTabKeyClick d confirmed \<Rightarrow> (showGenerate, if confirmed then [Mutate (DropTabKey d)] else []))"

definition dkim_tab :: "(tabkey_mut, bool, tabkey_control) page" where
  "dkim_tab = \<lparr>
     p_call = (\<lambda>m. case m of DropTabKey d \<Rightarrow> MailApi (DeleteDKIM d)),
     p_queries = (\<lambda>u. [([''dkim''], MailApi ListDKIM)]),
     p_handle = dkim_tab_handle,
     p_success = (\<lambda>m u. [Invalidate [''dkim''], Success ''DKIM key deleted'']),
     p_error = (\<lambda>m. [Failure ''Failed to delete DKIM key'']),
     p_after = (\<lambda>m u. u),
     p_failed = (\<lambda>m u. u)\<rparr>"

interpretation dkim_keys: fresh_page dkim_tab False "\<lambda>_. True" "\<lambda>_. True" "[]"
  by unfold_locales (auto intro!: nothing_staleI simp: dkim_tab_def refreshes_def)

definition tab_genkey_schema :: schema where
  "tab_genkey_schema = [(''domain'', TStr), (''selector'', TStr), (''key_size'', TNum)]"

definition tab_genkey_start :: form_ui where
  "tab_genkey_start = \<lparr>showForm = True, form = obj [(''domain'', Some (JStr [])),
     (''selector'', Some (JStr ''default'')), (''key_size'', Some (JNum 2048))]\<rparr>"

text \<open>The select of the key size has three options.\<close>

definition tab_genkey_input :: "string \<Rightarrow> json \<Rightarrow> form_ui \<Rightarrow> form_ui" where
  "tab_genkey_input k v u =
     (if k = ''key_size'' \<and> v \<notin> {JNum 1024, JNum 2048, JNum 4096} then u else edit_form tab_genkey_schema k v u)"

definition tab_genkey_handle :: "unit form_event \<Rightarrow> genkey_mut busy \<Rightarrow> form_ui \<Rightarrow> form_ui \<times> genkey_mut act list" where
  "tab_genkey_handle e b u = (case e of
     HideForm \<Rightarrow> (hide_form u, [])
   | Input k v \<Rightarrow> (tab_genkey_input k v u, [])
   | Submit \<Rightarrow> (u, if showForm u \<and> filled [''domain''] (form u) \<and> \<not> b is_GenKey then [Mutate (GenKey (form u))] else [])
   | _ \<Rightarrow> (u, []))"

definition tab_genkey_modal :: "(genkey_mut, form_ui, unit form_event) page" where
  "tab_genkey_modal = \<lparr>
     p_call = (\<lambda>m. case m of GenKey d \<Rightarrow> MailApi (GenerateDKIM d)),
     p_queries = (\<lambda>u. [([''dkim''], MailApi ListDKIM)]),
     p_handle = tab_genkey_handle,
     p_success = (\<lambda>m u. [Invalidate [''dkim''], Success ''DKIM key generated'']),
     p_error = (\<lambda>m. [Failure ''Failed to generate DKIM key'']),
     p_after = (\<lambda>m. hide_form),
     p_failed = (\<lambda>m u. u)\<rparr>"

definition tab_genkey_form_ok :: "json \<Rightarrow> bool" where
  "tab_genkey_form_ok f \<longleftrightarrow> conforms tab_genkey_schema f \<and>
     own_prop f ''key_size'' \<in> {Some (JNum 1024), Some (JNum 2048), Some (JNum 4096)}"

definition valid_tab_genkey :: "genkey_mut \<Rightarrow> bool" where
  "valid_tab_genkey m \<longleftrightarrow> (case m of GenKey d \<Rightarrow> tab_genkey_form_ok d \<and> filled [''domain''] d)"

lemma tab_genkey_start_ok: "tab_genkey_form_ok (form tab_genkey_start)"
  by (simp add: tab_genkey_form_ok_def tab_genkey_schema_def conforms_def tab_genkey_start_def prop_obj)

lemma tab_genkey_input_ok: "tab_genkey_form_ok (form u) \<Longrightarrow> tab_genkey_form_ok (form (tab_genkey_input k v u))"
proof -
  assume f: "tab_genkey_form_ok (form u)"
  have "distinct (map fst tab_genkey_schema)" by (simp add: tab_genkey_schema_def)
  with f have "conforms tab_genkey_schema (form (tab_genkey_input k v u))"
    by (simp add: tab_genkey_form_ok_def tab_genkey_input_def)
  then show ?thesis
    using f by (auto simp: tab_genkey_form_ok_def tab_genkey_input_def edit_form_def type_in_def prop_spread
        map_of_entries split: option.splits)
qed

interpretation tab_generate_dkim: fresh_page tab_genkey_modal tab_genkey_start "\<lambda>u. tab_genkey_form_ok (form u)"
  valid_tab_genkey "[is_GenKey]"
  by unfold_locales (auto intro!: nothing_staleI simp: tab_genkey_modal_def tab_genkey_handle_def tab_genkey_start_ok tab_genkey_input_ok
      valid_tab_genkey_def refreshes_def
      split: form_event.splits genkey_mut.splits if_splits)

section \<open>Catch-all addresses\<close>

datatype catchall_mut = DropCatchAll string

datatype catchall_control = ShowCatchAll | CloseCatchAll | TypeCatchAllDomain string | DropCatchAllClick string bool

record catchall_ui =
  ca_showAdd :: bool
  ca_domain :: string

text \<open>Closing the dialog also asks for the address again.\<close>

definition catchall_handle ::
  "catchall_control \<Rightarrow> catchall_mut busy \<Rightarrow> catchall_ui \<Rightarrow> catchall_ui \<times> catchall_mut act list" where
  "catchall_handle e b u = (case e of
     ShowCatchAll \<Rightarrow> (u\<lparr>ca_showAdd := True\<rparr>, [])
   | CloseCatchAll \<Rightarrow> (u\<lparr>ca_showAdd := False\<rparr>, [Do (Invalidate [''catchall'', ca_domain u])])
   | TypeCatchAllDomain d \<Rightarrow> (u\<lparr>ca_domain := d\<rparr>, [])
   | DropCatchAllClick d confirmed \<Rightarrow> (u, if confirmed then [Mutate (DropCatchAll d)] else []))"

definition catchall_tab :: "(catchall_mut, catchall_ui, catchall_control) page" where
  "catchall_tab = \<lparr>
     p_call = (\<lambda>m. case m of DropCatchAll d \<Rightarrow> MailApi (DeleteCatchAll d)),
     p_queries = (\<lambda>u. [([''catchall'', ca_domain u],
        MailApi (GetCatchAll (if ca_domain u = [] then None else Some (ca_domain u))))]),
     p_handle = catchall_handle,
     p_success = (\<lambda>m u. [Invalidate [''catchall'', ca_domain u], Success ''Catch-all removed'']),
     p_error = (\<lambda>m. [Failure ''Failed to remove catch-all'']),
     p_after = (\<lambda>m u. u),
     p_failed = (\<lambda>m u. u)\<rparr>"

definition catchall_start :: catchall_ui where
  "catchall_start = \<lparr>ca_showAdd = False, ca_domain = []\<rparr>"

interpretation catchall: fresh_page catchall_tab catchall_start "\<lambda>_. True" "\<lambda>_. True" "[]"
  by unfold_locales (auto intro!: nothing_staleI simp: catchall_tab_def refreshes_def)

text \<open>The dialog; \<open>d\<close> is the domain the tab shows when it is answered, whose query \<open>onClose\<close> asks
  for again.\<close>

datatype set_catchall_mut = is_PutCatchAll: PutCatchAll json

definition set_catchall_schema :: schema where
  "set_catchall_schema = [(''domain'', TStr), (''destination'', TStr)]"

definition set_catchall_start :: form_ui where
  "set_catchall_start = \<lparr>showForm = True, form = str_obj [(''domain'', []), (''destination'', [])]\<rparr>"

definition set_catchall_handle ::
  "unit form_event \<Rightarrow> set_catchall_mut busy \<Rightarrow> form_ui \<Rightarrow> form_ui \<times> set_catchall_mut act list" where
  "set_catchall_handle e b u = (case e of
     HideForm \<Rightarrow> (hide_form u, [])
   | Input k v \<Rightarrow> (edit_form set_catchall_schema k v u, [])
   | Submit \<Rightarrow> (u, if showForm u \<and> filled [''domain'', ''destination''] (form u) \<and> \<not> b is_PutCatchAll
       then [Mutate (PutCatchAll (form u))] else [])
   | _ \<Rightarrow> (u, []))"

definition set_catchall_modal :: "string \<Rightarrow> (set_catchall_mut, form_ui, unit form_event) page" where
  "set_catchall_modal d = \<lparr>
     p_call = (\<lambda>m. case m of PutCatchAll x \<Rightarrow> MailApi (SetCatchAll (spread x [(''enabled'', Some (JBool True))]))),
     p_queries = (\<lambda>u. [([''catchall'', d], MailApi (GetCatchAll (if d = [] then None else Some d)))]),
     p_handle = set_catchall_handle,
     p_success = (\<lambda>m u. [Success ''Catch-all configured'', Invalidate [''catchall'', d]]),
     p_error = (\<lambda>m. [Failure ''Failed to set catch-all'']),
     p_after = (\<lambda>m. hide_form),
     p_failed = (\<lambda>m u. u)\<rparr>"

definition valid_set_catchall :: "set_catchall_mut \<Rightarrow> bool" where
  "valid_set_catchall m \<longleftrightarrow> (case m of PutCatchAll d \<Rightarrow>
     conforms set_catchall_schema d \<and> filled [''domain'', ''destination''] d)"

lemma set_catchall_schema_ok:
  "distinct (map fst set_catchall_schema)" "conforms set_catchall_schema (form set_catchall_start)"
  by (simp_all add: set_catchall_schema_def conforms_def set_catchall_start_def str_obj_def prop_obj)

interpretation set_catchall: fresh_page "set_catchall_modal d" set_catchall_start
  "\<lambda>u. conforms set_catchall_schema (form u)" valid_set_catchall "[is_PutCatchAll]"
  by unfold_locales (auto intro!: nothing_staleI simp: set_catchall_modal_def set_catchall_handle_def set_catchall_schema_ok
      valid_set_catchall_def refreshes_def
      split: form_event.splits set_catchall_mut.splits if_splits)

end
