(* ===== verification/SecurityPages.thy ===== *)
theory SecurityPages
  imports Panel
begin

text \<open>
  The pages under app/(panel)/security: the firewall with its address block list, country blocking,
  the web application firewall, the security events and the malware scanner.
\<close>

section \<open>Firewall (firewall/page.tsx)\<close>

datatype firewall_mut = DropRule string | Unblock string

datatype firewall_tab = RulesTab | BlocklistTab

datatype firewall_control = ShowAddRule | CloseAddRule | ShowBlock | CloseBlock | FirewallTab firewall_tab
  | DropRuleClick string bool | UnblockClick string

record firewall_ui =
  fw_showAdd :: bool
  fw_showBlock :: bool
  fw_tab :: firewall_tab

text \<open>The buttons of a tab exist while it is open.\<close>

definition firewall_handle ::
  "firewall_control \<Rightarrow> firewall_mut busy \<Rightarrow> firewall_ui \<Rightarrow> firewall_ui \<times> firewall_mut act list" where
  "firewall_handle e b u = (case e of
     ShowAddRule \<Rightarrow> (if fw_tab u = RulesTab then u\<lparr>fw_showAdd := True\<rparr> else u, [])
   | CloseAddRule \<Rightarrow> (u\<lparr>fw_showAdd := False\<rparr>, [])
   | ShowBlock \<Rightarrow> (if fw_tab u = BlocklistTab then u\<lparr>fw_showBlock := True\<rparr> else u, [])
   | CloseBlock \<Rightarrow> (u\<lparr>fw_showBlock := False\<rparr>, [])
   | FirewallTab t \<Rightarrow> (u\<lparr>fw_tab := t\<rparr>, [])
   | DropRuleClick i confirmed \<Rightarrow> (u, if fw_tab u = RulesTab \<and> confirmed then [Mutate (DropRule i)] else [])
   | UnblockClick i \<Rightarrow> (u, if fw_tab u = BlocklistTab then [Mutate (Unblock i)] else []))"

definition firewall_page :: "(firewall_mut, firewall_ui, firewall_control) page" where
  "firewall_page = \<lparr>
     p_call = (\<lambda>m. SecurityApi (case m of DropRule i \<Rightarrow> DeleteFirewallRule i | Unblock i \<Rightarrow> UnblockIP i)),
     p_queries = (\<lambda>u. [([''firewall-rules''], SecurityApi ListFirewallRules), ([''ip-blocklist''], SecurityApi ListBlocklist)]),
     p_handle = firewall_handle,
     p_success = (\<lambda>m u. case m of
         DropRule _ \<Rightarrow> [Invalidate [''firewall-rules''], Success ''Rule deleted'']
       | Unblock _ \<Rightarrow> [Invalidate [''ip-blocklist''], Success ''IP unblocked'']),
     p_error = (\<lambda>m. []),
     p_after = (\<lambda>m u. u),
     p_failed = (\<lambda>m u. u)\<rparr>"

definition firewall_start :: firewall_ui where
  "firewall_start = \<lparr>fw_showAdd = False, fw_showBlock = False, fw_tab = RulesTab\<rparr>"

lemma firewall_stale: "stale_after firewall_page m u = []"
  by (cases m) (simp_all add: firewall_page_def stale_after_def touched_def touches_def path_of_call_def
      url_path_def refreshes_def)

interpretation firewall: fresh_page firewall_page firewall_start "\<lambda>_. True" "\<lambda>_. True" "[]"
  by unfold_locales (simp_all add: firewall_stale)

definition rule_schema :: schema where
  "rule_schema = [(''chain'', TStr), (''action'', TStr), (''priority'', TNum), (''protocol'', TStr),
     (''source_ip'', TStr), (''port_range'', TStr), (''comment'', TStr)]"

text \<open>The priority has no input: it stays at its default.\<close>

definition rule_options :: select_options where
  "rule_options = [(''chain'', map JStr [''INPUT'', ''OUTPUT'', ''FORWARD'']),
     (''action'', map JStr [''ACCEPT'', ''DROP'', ''REJECT'']),
     (''protocol'', map JStr [[], ''tcp'', ''udp'', ''icmp'']), (''priority'', [JNum 100])]"

definition rule_blank :: json where
  "rule_blank = obj [(''chain'', Some (JStr ''INPUT'')), (''action'', Some (JStr ''DROP'')),
     (''priority'', Some (JNum 100)), (''protocol'', Some (JStr [])), (''source_ip'', Some (JStr [])),
     (''port_range'', Some (JStr [])), (''comment'', Some (JStr []))]"

definition rule_dialog :: "(create_mut, form_ui, unit form_event) page" where
  "rule_dialog = dialog rule_schema rule_options (filled []) (\<lambda>d. SecurityApi (CreateFirewallRule d))
     [([''firewall-rules''], SecurityApi ListFirewallRules)] ''Rule created'' ''Failed to create rule''"

interpretation add_rule: dialog_page rule_schema rule_options "filled []" "\<lambda>d. SecurityApi (CreateFirewallRule d)"
  "[([''firewall-rules''], SecurityApi ListFirewallRules)]" "''Rule created''" "''Failed to create rule''" rule_blank
  by unfold_locales (simp_all add: rule_schema_def rule_options_def chosen_def conforms_def rule_blank_def prop_obj)

definition block_schema :: schema where
  "block_schema = [(''ip'', TStr), (''reason'', TStr)]"

definition block_blank :: json where
  "block_blank = str_obj [(''ip'', []), (''reason'', [])]"

definition block_dialog :: "(create_mut, form_ui, unit form_event) page" where
  "block_dialog = dialog block_schema [] (filled [''ip'']) (\<lambda>d. SecurityApi (BlockIP d))
     [([''ip-blocklist''], SecurityApi ListBlocklist)] ''IP blocked'' ''Failed to block IP''"

interpretation block_ip: dialog_page block_schema "[]" "filled [''ip'']" "\<lambda>d. SecurityApi (BlockIP d)"
  "[([''ip-blocklist''], SecurityApi ListBlocklist)]" "''IP blocked''" "''Failed to block IP''" block_blank
  by unfold_locales (simp_all add: block_schema_def chosen_def conforms_def block_blank_def str_obj_def prop_obj)

section \<open>Country blocking (geoip/page.tsx)\<close>

definition COMMON_COUNTRIES :: "(string \<times> string) list" where
  "COMMON_COUNTRIES = [(''CN'', ''China''), (''RU'', ''Russia''), (''KP'', ''North Korea''), (''IR'', ''Iran''),
     (''BY'', ''Belarus''), (''NG'', ''Nigeria''), (''BR'', ''Brazil''), (''IN'', ''India''), (''VN'', ''Vietnam''),
     (''TR'', ''Turkey'')]"

datatype geoip_mut = BlockCountry string string | UnblockCountry string

datatype geoip_control =
    BlocksLoaded "(string \<times> string) list"
  | TypeSearch string
  | TypeLookup string
  | Lookup
  | LookupAnswer "(string \<times> string) option"
  | BlockLookedUp
  | CountryClick nat
  | RemoveBlock string
  | TypeCode string
  | TypeName string
  | AddCustom

text \<open>\<open>gi_blocks\<close> is the data of the query, country codes with their names; \<open>gi_code\<close> and
  \<open>gi_name\<close> are the state of the \<open>CustomCountryAdd\<close> component.\<close>

record geoip_ui =
  gi_blocks :: "(string \<times> string) list"
  gi_search :: string
  gi_lookupIP :: string
  gi_result :: "(string \<times> string) option"
  gi_code :: string
  gi_name :: string

definition geoip_start :: geoip_ui where
  "geoip_start = \<lparr>gi_blocks = [], gi_search = [], gi_lookupIP = [], gi_result = None, gi_code = [], gi_name = []\<rparr>"

definition blockedCodes :: "geoip_ui \<Rightarrow> string set" where
  "blockedCodes u = fst ` set (gi_blocks u)"

definition handleLookup :: "geoip_ui \<Rightarrow> geoip_mut act list" where
  "handleLookup u = (if trim (gi_lookupIP u) = [] then []
     else [Do (Ask (SecurityApi (LookupGeoIP (trim (gi_lookupIP u)))))])"

definition toggle_country :: "string \<times> string \<Rightarrow> geoip_ui \<Rightarrow> geoip_mut" where
  "toggle_country c u = (if fst c \<in> blockedCodes u then UnblockCountry (fst c) else BlockCountry (fst c) (snd c))"

definition can_add :: "geoip_ui \<Rightarrow> bool" where
  "can_add u \<longleftrightarrow> length (gi_code u) = 2 \<and> gi_name u \<noteq> [] \<and> gi_code u \<notin> blockedCodes u"

definition geoip_handle :: "geoip_control \<Rightarrow> geoip_mut busy \<Rightarrow> geoip_ui \<Rightarrow> geoip_ui \<times> geoip_mut act list" where
  "geoip_handle e b u = (case e of
     BlocksLoaded bs \<Rightarrow> (u\<lparr>gi_blocks := bs\<rparr>, [])
   | TypeSearch v \<Rightarrow> (u\<lparr>gi_search := v\<rparr>, [])
   | TypeLookup v \<Rightarrow> (u\<lparr>gi_lookupIP := v\<rparr>, [])
   | Lookup \<Rightarrow> (u, handleLookup u)
   | LookupAnswer (Some r) \<Rightarrow> (u\<lparr>gi_result := Some r\<rparr>, [])
   | LookupAnswer None \<Rightarrow> (u, [Do (Failure ''Lookup failed'')])
   | BlockLookedUp \<Rightarrow> (u, case gi_result u of None \<Rightarrow> []
       | Some (c, n) \<Rightarrow> if c \<in> blockedCodes u then [] else [Mutate (BlockCountry c n)])
   | CountryClick i \<Rightarrow> (u, if i < length COMMON_COUNTRIES then [Mutate (toggle_country (COMMON_COUNTRIES ! i) u)] else [])
   | RemoveBlock c \<Rightarrow> (u, [Mutate (UnblockCountry c)])
   | TypeCode v \<Rightarrow> (u\<lparr>gi_code := slice (toUpperCase v) 0 2\<rparr>, [])
   | TypeName v \<Rightarrow> (u\<lparr>gi_name := v\<rparr>, [])
   | AddCustom \<Rightarrow> if can_add u then (u\<lparr>gi_code := [], gi_name := []\<rparr>, [Mutate (BlockCountry (gi_code u) (gi_name u))])
       else (u, []))"

definition geoip_page :: "(geoip_mut, geoip_ui, geoip_control) page" where
  "geoip_page = \<lparr>
     p_call = (\<lambda>m. SecurityApi (case m of
         BlockCountry c n \<Rightarrow> AddGeoIPBlock (str_obj [(''country_code'', c), (''country_name'', n), (''action'', ''block'')])
       | UnblockCountry c \<Rightarrow> RemoveGeoIPBlock c)),
     p_queries = (\<lambda>u. [([''geoip-blocks''], SecurityApi ListGeoIPBlocks)]),
     p_handle = geoip_handle,
     p_success = (\<lambda>m u. [Invalidate [''geoip-blocks''], Success (case m of
         BlockCountry _ _ \<Rightarrow> ''Country blocked'' | UnblockCountry _ \<Rightarrow> ''Country unblocked'')]),
     p_error = (\<lambda>m. case m of BlockCountry _ _ \<Rightarrow> [Failure ''Failed to block country''] | UnblockCountry _ \<Rightarrow> []),
     p_after = (\<lambda>m u. u),
     p_failed = (\<lambda>m u. u)\<rparr>"

interpretation geoip: fresh_page geoip_page geoip_start "\<lambda>u. length (gi_code u) \<le> 2" "\<lambda>_. True" "[]"
  by unfold_locales (auto intro!: nothing_staleI simp: geoip_page_def geoip_handle_def geoip_start_def refreshes_def
      split: geoip_control.splits option.splits)

text \<open>The rows shown: by name or by code.\<close>

definition shown_blocks :: "geoip_ui \<Rightarrow> (string \<times> string) list" where
  "shown_blocks u = filter (\<lambda>(c, n). gi_search u = [] \<or> str_includes (toLowerCase n) (toLowerCase (gi_search u)) \<or>
     str_includes c (toUpperCase (gi_search u))) (gi_blocks u)"

section \<open>Web application firewall (waf/page.tsx)\<close>

definition WAF_MODES :: "string list" where
  "WAF_MODES = [''On'', ''DetectionOnly'', ''Off'']"

datatype waf_mut = SetWafMode string | ToggleWafRule string nat bool

datatype waf_control = WafStatus bool | WafMode nat | WafRule string nat bool

text \<open>The state is whether the status says ModSecurity is installed: only then there are buttons.\<close>

definition waf_handle :: "waf_control \<Rightarrow> waf_mut busy \<Rightarrow> bool \<Rightarrow> bool \<times> waf_mut act list" where
  "waf_handle e b installed = (case e of
     WafStatus i \<Rightarrow> (i, [])
   | WafMode i \<Rightarrow> (installed, if installed \<and> i < length WAF_MODES then [Mutate (SetWafMode (WAF_MODES ! i))] else [])
   | WafRule f l enabled \<Rightarrow> (installed, if installed then [Mutate (ToggleWafRule f l (\<not> enabled))] else []))"

definition waf_page :: "(waf_mut, bool, waf_control) page" where
  "waf_page = \<lparr>
     p_call = (\<lambda>m. ModsecApi (case m of SetWafMode s \<Rightarrow> SetModsecMode s
       | ToggleWafRule f l enabled \<Rightarrow> ToggleModsecRule (obj [(''file'', Some (JStr f)),
           (''line'', Some (JNum (of_nat l))), (''enabled'', Some (JBool enabled))]))),
     p_queries = (\<lambda>u. [([''modsec-status''], ModsecApi GetModsecStatus), ([''modsec-rules''], ModsecApi ListModsecRules)]),
     p_handle = waf_handle,
     p_success = (\<lambda>m u. case m of SetWafMode _ \<Rightarrow> [Invalidate [''modsec-status''], Success ''WAF mode updated'']
       | ToggleWafRule _ _ _ \<Rightarrow> [Invalidate [''modsec-rules'']]),
     p_error = (\<lambda>m. case m of SetWafMode _ \<Rightarrow> [Failure ''Failed to update mode''] | _ \<Rightarrow> []),
     p_after = (\<lambda>m u. u),
     p_failed = (\<lambda>m u. u)\<rparr>"

definition valid_waf :: "waf_mut \<Rightarrow> bool" where
  "valid_waf m \<longleftrightarrow> (case m of SetWafMode s \<Rightarrow> s \<in> set WAF_MODES | _ \<Rightarrow> True)"

lemma waf_stale: "stale_after waf_page m u = []"
  by (cases m) (simp_all add: waf_page_def stale_after_def touched_def touches_def path_of_call_def
      url_path_def refreshes_def)

interpretation waf: fresh_page waf_page False "\<lambda>_. True" valid_waf "[]"
  by unfold_locales (rule waf_stale | (auto simp: waf_page_def waf_handle_def valid_waf_def
      split: waf_control.splits if_splits)[1])+

section \<open>Security events (events/page.tsx)\<close>

datatype events_mut = BlockSource string

datatype events_control = EventFilter string | BlockSourceClick string

definition shown_events :: "string \<Rightarrow> ('a \<Rightarrow> string) \<Rightarrow> 'a list \<Rightarrow> 'a list" where
  "shown_events flt severity es = filter (\<lambda>e. flt = ''all'' \<or> severity e = flt) es"

definition events_handle :: "events_control \<Rightarrow> events_mut busy \<Rightarrow> string \<Rightarrow> string \<times> events_mut act list" where
  "events_handle e b flt = (case e of
     EventFilter f \<Rightarrow> (if f \<in> {''all'', ''info'', ''warning'', ''critical''} then f else flt, [])
   | BlockSourceClick ip \<Rightarrow> (flt, if ip = [] then [] else [Mutate (BlockSource ip)]))"

definition events_page :: "(events_mut, string, events_control) page" where
  "events_page = \<lparr>
     p_call = (\<lambda>m. case m of BlockSource ip \<Rightarrow>
       SecurityApi (BlockIP (str_obj [(''ip'', ip), (''reason'', ''Blocked from security events'')]))),
     p_queries = (\<lambda>u. [([''security-events''], SecurityApi ListEvents)]),
     p_handle = events_handle,
     p_success = (\<lambda>m u. [Success ''IP added to blocklist'']),
     p_error = (\<lambda>m. [Failure ''Failed to block IP'']),
     p_after = (\<lambda>m u. u),
     p_failed = (\<lambda>m u. u)\<rparr>"

definition valid_events :: "events_mut \<Rightarrow> bool" where
  "valid_events m \<longleftrightarrow> (case m of BlockSource ip \<Rightarrow> ip \<noteq> [])"

lemma events_stale: "stale_after events_page m u = []"
  by (cases m) (simp add: events_page_def stale_after_def touched_def touches_def path_of_call_def url_path_def)

interpretation events: fresh_page events_page "''all''" "\<lambda>_. True" valid_events "[]"
  by unfold_locales (rule events_stale | (auto simp: events_page_def events_handle_def valid_events_def
      split: events_control.splits if_splits)[1])+

section \<open>The security overview (page.tsx)\<close>

definition recentEvents :: "'a list \<Rightarrow> 'a list" where
  "recentEvents es = slice es 0 5"

definition gradeColor :: "string option \<Rightarrow> string" where
  "gradeColor grade = (case grade of None \<Rightarrow> [] | Some g \<Rightarrow>
     if g = ''A'' then ''text-green-500'' else if g = ''B'' then ''text-blue-500''
     else if g = ''C'' then ''text-amber-500'' else ''text-destructive'')"

section \<open>Malware scanner (scanner/page.tsx)\<close>

text \<open>The scan is simulated in the browser: an interval counts files up by a random amount, a timeout
  ends it. Times are given by the clock, and each handler keeps the \<open>scan\<close> of the render it was
  made in (\<open>sc_closure\<close>).\<close>

datatype scan_status = Idle | Scanning | ScanDone

record scan =
  sc_status :: scan_status
  sc_files :: nat
  sc_threats :: "(string \<times> string \<times> string) list"
  sc_startedAt :: "nat option"
  sc_completedAt :: "nat option"

record scanner =
  sc_scan :: scan
  sc_path :: string
  sc_count :: nat
  sc_closure :: "scan option"

definition scan_init :: scan where
  "scan_init = \<lparr>sc_status = Idle, sc_files = 0, sc_threats = [], sc_startedAt = None, sc_completedAt = None\<rparr>"

definition scanner_init :: scanner where
  "scanner_init = \<lparr>sc_scan = scan_init, sc_path = ''/var/www'', sc_count = 0, sc_closure = None\<rparr>"

definition mock_threats :: "(string \<times> string \<times> string) list" where
  "mock_threats =
     [(''/var/www/site/wp-content/uploads/shell.php'', ''PHP.Webshell.Generic'', ''high''),
      (''/var/www/site/tmp/malware.php'', ''PHP.Malware.Obfuscated'', ''medium'')]"

definition startScan :: "nat \<Rightarrow> scanner \<Rightarrow> scanner" where
  "startScan now s = s\<lparr>sc_closure := Some (sc_scan s), sc_count := 0,
     sc_scan := \<lparr>sc_status = Scanning, sc_files = 0, sc_threats = [], sc_startedAt = Some now, sc_completedAt = None\<rparr>\<rparr>"

text \<open>\<open>Math.floor(Math.random() * 150) + 50\<close> for a random number \<open>0 \<le> r < 1\<close>.\<close>

definition scan_tick :: "rat \<Rightarrow> scanner \<Rightarrow> scanner" where
  "scan_tick r s = (let c = sc_count s + nat \<lfloor>r * 150\<rfloor> + 50 in
     s\<lparr>sc_count := c, sc_scan := (sc_scan s)\<lparr>sc_files := c\<rparr>\<rparr>)"

definition scan_end :: "rat \<Rightarrow> nat \<Rightarrow> scan \<Rightarrow> scanner \<Rightarrow> scanner" where
  "scan_end r now old s = s\<lparr>sc_closure := None,
     sc_scan := \<lparr>sc_status = ScanDone, sc_files = sc_count s,
       sc_threats = (if 3/5 < r then mock_threats else []), sc_startedAt = sc_startedAt old, sc_completedAt = Some now\<rparr>\<rparr>"

datatype scan_event = StartScan nat | Tick rat | EndScan rat nat | TypeScanPath string

text \<open>The button is disabled while a scan runs; the timers exist while it does.\<close>

definition scan_step :: "scan_event \<Rightarrow> scanner \<Rightarrow> scanner" where
  "scan_step e s = (case e of
     TypeScanPath p \<Rightarrow> s\<lparr>sc_path := p\<rparr>
   | StartScan now \<Rightarrow> if sc_status (sc_scan s) = Scanning then s else startScan now s
   | Tick r \<Rightarrow> if sc_closure s = None then s else scan_tick r s
   | EndScan r now \<Rightarrow> (case sc_closure s of None \<Rightarrow> s | Some old \<Rightarrow> scan_end r now old s))"

text \<open>The duration is shown when both times are known.\<close>

definition shown_duration :: "scan \<Rightarrow> nat option" where
  "shown_duration s = (case (sc_startedAt s, sc_completedAt s) of
     (Some a, Some b) \<Rightarrow> Some (b - a) | _ \<Rightarrow> None)"

text \<open>A scan runs exactly while its timers exist, and its start is kept nowhere else: the result of a
  scan has the start of the scan before it, which the first one does not have.\<close>

definition scan_inv :: "scanner \<Rightarrow> bool" where
  "scan_inv s \<longleftrightarrow> (sc_status (sc_scan s) = Scanning) = (sc_closure s \<noteq> None) \<and>
     (case sc_closure s of Some old \<Rightarrow> sc_startedAt old = None
      | None \<Rightarrow> sc_startedAt (sc_scan s) = None)"

lemma scan_step_inv: "scan_inv s \<Longrightarrow> scan_inv (scan_step e s)"
  by (cases e) (auto simp: scan_inv_def scan_step_def startScan_def scan_tick_def scan_end_def Let_def
      split: option.splits)

interpretation scanner: component scan_step scan_inv
  by unfold_locales (rule scan_step_inv)

end
