(* ===== verification/ServicePages.thy ===== *)
theory ServicePages
  imports Panel
begin

text \<open>
  The pages of backups, notifications and billing under app/(panel).
\<close>

section \<open>Backups (backups/page.tsx)\<close>

datatype backup_mut = RemoveBackup string | RemoveSchedule string

datatype backup_tab = BackupsTab | SchedulesTab

datatype backup_control = ShowCreateBackup | CloseCreateBackup | ShowSchedule | CloseSchedule
  | BackupTab backup_tab | RemoveBackupClick string bool | RemoveScheduleClick string bool

record backup_ui =
  bk_tab :: backup_tab
  bk_showCreate :: bool
  bk_showSchedule :: bool

definition backup_handle ::
  "backup_control \<Rightarrow> backup_mut busy \<Rightarrow> backup_ui \<Rightarrow> backup_ui \<times> backup_mut act list" where
  "backup_handle e b u = (case e of
     ShowCreateBackup \<Rightarrow> (u\<lparr>bk_showCreate := True\<rparr>, [])
   | CloseCreateBackup \<Rightarrow> (u\<lparr>bk_showCreate := False\<rparr>, [])
   | ShowSchedule \<Rightarrow> (u\<lparr>bk_showSchedule := True\<rparr>, [])
   | CloseSchedule \<Rightarrow> (u\<lparr>bk_showSchedule := False\<rparr>, [])
   | BackupTab t \<Rightarrow> (u\<lparr>bk_tab := t\<rparr>, [])
   | RemoveBackupClick i confirmed \<Rightarrow>
       (u, if bk_tab u = BackupsTab \<and> confirmed then [Mutate (RemoveBackup i)] else [])
   | RemoveScheduleClick i confirmed \<Rightarrow>
       (u, if bk_tab u = SchedulesTab \<and> confirmed then [Mutate (RemoveSchedule i)] else []))"

definition backup_page :: "(backup_mut, backup_ui, backup_control) page" where
  "backup_page = \<lparr>
     p_call = (\<lambda>m. BackupApi (case m of RemoveBackup i \<Rightarrow> DeleteBackup i | RemoveSchedule i \<Rightarrow> DeleteSchedule i)),
     p_queries = (\<lambda>u. [([''backups''], BackupApi ListBackups), ([''backup-schedules''], BackupApi ListSchedules)]),
     p_handle = backup_handle,
     p_success = (\<lambda>m u. case m of RemoveBackup _ \<Rightarrow> [Invalidate [''backups''], Success ''Backup deleted'']
       | RemoveSchedule _ \<Rightarrow> [Invalidate [''backup-schedules''], Success ''Schedule deleted'']),
     p_error = (\<lambda>m. []),
     p_after = (\<lambda>m u. u),
     p_failed = (\<lambda>m u. u)\<rparr>"

definition backup_start :: backup_ui where
  "backup_start = \<lparr>bk_tab = BackupsTab, bk_showCreate = False, bk_showSchedule = False\<rparr>"

text \<open>The ids of backups are not those of the other collections below \<open>/backups\<close>.\<close>

lemma backup_stale_schedule: "stale_after backup_page (RemoveSchedule i) u = []"
  by (simp add: backup_page_def stale_after_def touched_def touches_def path_of_call_def url_path_def refreshes_def)

section \<open>Statistics of the backups\<close>

record backup_row =
  bk_status :: string
  bk_size :: nat

definition completedBackups :: "backup_row list \<Rightarrow> nat" where
  "completedBackups bs = length (filter (\<lambda>b. bk_status b = ''completed'') bs)"

definition totalSize :: "backup_row list \<Rightarrow> nat" where
  "totalSize bs = foldl (\<lambda>acc b. acc + bk_size b) 0 bs"

definition backup_types :: "json list" where
  "backup_types = map JStr [''full'', ''files'', ''database'', ''incremental'']"

definition run_backup :: "(create_mut, form_ui, unit form_event) page" where
  "run_backup = dialog [(''type'', TStr)] [(''type'', backup_types)] (filled []) (\<lambda>d. BackupApi (CreateBackup d))
     [([''backups''], BackupApi ListBackups)] ''Backup started'' ''Failed to start backup''"

interpretation run_backup: dialog_page "[(''type'', TStr)]" "[(''type'', backup_types)]" "filled []"
  "\<lambda>d. BackupApi (CreateBackup d)" "[([''backups''], BackupApi ListBackups)]" "''Backup started''"
  "''Failed to start backup''" "str_obj [(''type'', ''full'')]"
  by unfold_locales (simp_all add: chosen_def conforms_def str_obj_def prop_obj backup_types_def)

definition schedule_schema :: schema where
  "schedule_schema = [(''name'', TStr), (''cron_expr'', TStr), (''retain_count'', TNaN), (''type'', TStr)]"

definition schedule_blank :: json where
  "schedule_blank = obj [(''name'', Some (JStr [])), (''cron_expr'', Some (JStr ''0 2 * * *'')),
     (''retain_count'', Some (JNum 7)), (''type'', Some (JStr ''full''))]"

definition create_schedule :: "(create_mut, form_ui, unit form_event) page" where
  "create_schedule = dialog schedule_schema [(''type'', backup_types)] (filled [''name'', ''cron_expr''])
     (\<lambda>d. BackupApi (CreateSchedule d)) [([''backup-schedules''], BackupApi ListSchedules)]
     ''Schedule created'' ''Failed to create schedule''"

interpretation create_schedule: dialog_page schedule_schema "[(''type'', backup_types)]" "filled [''name'', ''cron_expr'']"
  "\<lambda>d. BackupApi (CreateSchedule d)" "[([''backup-schedules''], BackupApi ListSchedules)]" "''Schedule created''"
  "''Failed to create schedule''" schedule_blank
  by unfold_locales (simp_all add: chosen_def conforms_def schedule_schema_def schedule_blank_def prop_obj backup_types_def)

section \<open>Notifications (notifications/page.tsx)\<close>

definition NOTIFICATION_FILTERS :: "(string \<times> string) list" where
  "NOTIFICATION_FILTERS = [(''all'', ''All''), (''unread'', ''Unread''), (''alert'', ''Alerts''),
     (''security'', ''Security''), (''system'', ''System'')]"

text \<open>The page writes the filter into the URL itself.\<close>

definition notifications_url :: "string \<Rightarrow> string" where
  "notifications_url flt = ''/notifications'' @ (if flt \<noteq> ''all''
     then ''?'' @ (if flt = ''unread'' then ''unread=true'' else ''type='' @ flt) else [])"

definition notification_params :: "string \<Rightarrow> (string \<times> jsval) list" where
  "notification_params flt = (if flt = ''all'' then [] else
     if flt = ''unread'' then [(''unread'', Some (JStr ''true''))] else [(''type'', Some (JStr flt))])"

datatype notification_mut = MarkOne string | is_MarkAll: MarkAll | RemoveNotification string

datatype notification_control = NotificationFilter nat | NotificationsLoaded "(string \<times> bool) list"
  | MarkAllClick | RowClick nat | RemoveRow nat

text \<open>\<open>nt_rows\<close> is the data of the query: the ids with whether they are read.\<close>

record notification_ui =
  nt_filter :: string
  nt_rows :: "(string \<times> bool) list"

definition unreadCount :: "notification_ui \<Rightarrow> nat" where
  "unreadCount u = length (filter (\<lambda>(i, r). \<not> r) (nt_rows u))"

text \<open>The delete button of a row stops the click from reaching the row.\<close>

definition notification_handle ::
  "notification_control \<Rightarrow> notification_mut busy \<Rightarrow> notification_ui \<Rightarrow> notification_ui \<times> notification_mut act list" where
  "notification_handle e b u = (case e of
     NotificationFilter i \<Rightarrow>
       (if i < length NOTIFICATION_FILTERS then u\<lparr>nt_filter := fst (NOTIFICATION_FILTERS ! i)\<rparr> else u, [])
   | NotificationsLoaded rows \<Rightarrow> (u\<lparr>nt_rows := rows\<rparr>, [])
   | MarkAllClick \<Rightarrow> (u, if b is_MarkAll \<or> unreadCount u = 0 then [] else [Mutate MarkAll])
   | RowClick i \<Rightarrow> (u, if i < length (nt_rows u) \<and> \<not> snd (nt_rows u ! i) then [Mutate (MarkOne (fst (nt_rows u ! i)))] else [])
   | RemoveRow i \<Rightarrow> (u, if i < length (nt_rows u) then [Mutate (RemoveNotification (fst (nt_rows u ! i)))] else []))"

definition notification_page :: "(notification_mut, notification_ui, notification_control) page" where
  "notification_page = \<lparr>
     p_call = (\<lambda>m. NotificationsApi (case m of MarkOne i \<Rightarrow> MarkRead i | MarkAll \<Rightarrow> MarkAllRead
       | RemoveNotification i \<Rightarrow> DeleteNotification i)),
     p_queries = (\<lambda>u. [([''notifications'', nt_filter u],
       NotificationsApi (ListNotifications (notification_params (nt_filter u))))]),
     p_handle = notification_handle,
     p_success = (\<lambda>m u. Invalidate [''notifications''] #
       (case m of MarkAll \<Rightarrow> [Success ''All marked as read''] | _ \<Rightarrow> [])),
     p_error = (\<lambda>m. []),
     p_after = (\<lambda>m u. u),
     p_failed = (\<lambda>m u. u)\<rparr>"

definition notification_start :: notification_ui where
  "notification_start = \<lparr>nt_filter = ''all'', nt_rows = []\<rparr>"

definition notification_filter_ok :: "notification_ui \<Rightarrow> bool" where
  "notification_filter_ok u \<longleftrightarrow> nt_filter u \<in> fst ` set NOTIFICATION_FILTERS"

lemma filter_all: "''all'' \<in> fst ` set NOTIFICATION_FILTERS"
  by (simp add: NOTIFICATION_FILTERS_def)

interpretation notifications_list: fresh_page notification_page notification_start notification_filter_ok "\<lambda>_. True"
  "[is_MarkAll]"
  by unfold_locales (auto intro!: nothing_staleI simp: notification_page_def notification_handle_def
      notification_start_def notification_filter_ok_def refreshes_def filter_all
      split: notification_control.splits)

section \<open>Billing (billing/page.tsx)\<close>

datatype billing_cycle = Monthly | Yearly

fun cycle_name :: "billing_cycle \<Rightarrow> string" where
  "cycle_name Monthly = ''monthly''"
| "cycle_name Yearly = ''yearly''"

datatype billing_mut = is_Subscribe: Subscribe string billing_cycle | is_CancelPlan: CancelPlan

datatype billing_control = ChooseCycle billing_cycle | SubscriptionLoaded "(string \<times> bool) option"
  | SelectPlan string string | CancelClick

text \<open>\<open>bl_subscription\<close> is the data of the query: the plan's id, and whether it ends with its period.\<close>

record billing_ui =
  bl_cycle :: billing_cycle
  bl_subscription :: "(string \<times> bool) option"

definition isCurrent :: "string \<Rightarrow> billing_ui \<Rightarrow> bool" where
  "isCurrent plan u \<longleftrightarrow> map_option fst (bl_subscription u) = Some plan"

definition billing_handle ::
  "billing_control \<Rightarrow> billing_mut busy \<Rightarrow> billing_ui \<Rightarrow> billing_ui \<times> billing_mut act list" where
  "billing_handle e b u = (case e of
     ChooseCycle c \<Rightarrow> (u\<lparr>bl_cycle := c\<rparr>, [])
   | SubscriptionLoaded s \<Rightarrow> (u\<lparr>bl_subscription := s\<rparr>, [])
   | SelectPlan plan slug \<Rightarrow> (u, if isCurrent plan u \<or> b is_Subscribe then [] else [Mutate (Subscribe slug (bl_cycle u))])
   | CancelClick \<Rightarrow> (u, case bl_subscription u of
       Some (_, False) \<Rightarrow> if b is_CancelPlan then [] else [Mutate CancelPlan] | _ \<Rightarrow> []))"

definition billing_page :: "(billing_mut, billing_ui, billing_control) page" where
  "billing_page = \<lparr>
     p_call = (\<lambda>m. BillingApi (case m of
         Subscribe slug c \<Rightarrow> CreateSubscription (str_obj [(''plan_slug'', slug), (''billing_cycle'', cycle_name c)])
       | CancelPlan \<Rightarrow> CancelSubscription True)),
     p_queries = (\<lambda>u. [([''billing-plans''], BillingApi ListPlans), ([''subscription''], BillingApi GetSubscription),
       ([''billing-usage''], BillingApi GetUsage)]),
     p_handle = billing_handle,
     p_success = (\<lambda>m u. [Invalidate [''subscription''], Success (case m of Subscribe _ _ \<Rightarrow> ''Plan updated!''
       | CancelPlan \<Rightarrow> ''Subscription will cancel at period end'')]),
     p_error = (\<lambda>m. [Failure (case m of Subscribe _ _ \<Rightarrow> ''Failed to update plan''
       | CancelPlan \<Rightarrow> ''Failed to cancel subscription'')]),
     p_after = (\<lambda>m u. u),
     p_failed = (\<lambda>m u. u)\<rparr>"

definition billing_start :: billing_ui where
  "billing_start = \<lparr>bl_cycle = Monthly, bl_subscription = None\<rparr>"

lemma billing_stale: "stale_after billing_page m u = []"
  by (cases m) (simp_all add: billing_page_def stale_after_def touched_def touches_def path_of_call_def
      url_path_def refreshes_def)

interpretation billing_plans: fresh_page billing_page billing_start "\<lambda>_. True" "\<lambda>_. True" "[is_Subscribe, is_CancelPlan]"
  by unfold_locales (rule billing_stale | (auto simp: billing_page_def billing_handle_def
      split: billing_control.splits option.splits bool.splits)[1])+

text \<open>The bar of a resource; a limit of -1 is none.\<close>

definition usage_percent :: "rat \<Rightarrow> rat \<Rightarrow> rat" where
  "usage_percent used limit = (if limit = - 1 then 0 else min (used / limit * 100) 100)"

lemma usage_percent_bounds:
  "0 \<le> used \<Longrightarrow> 0 < limit \<or> limit = - 1 \<Longrightarrow> usage_percent used limit \<in> {0..100}"
  by (auto simp: usage_percent_def)

end
