(* ===== verification/DevPages.thy ===== *)
theory DevPages
  imports Panel
begin

text \<open>
  The pages of containers and pipelines under app/(panel): docker/page.tsx, docker/compose/page.tsx,
  devops/page.tsx and devops/pipelines/[id]/page.tsx.
\<close>

section \<open>Containers, images and stacks (docker/page.tsx)\<close>

datatype docker_mut = ActOn string container_action | DropContainer string | DropImage string
  | ActOnStack string compose_action | DropStack string

datatype docker_tab = ContainersTab | ImagesTab | ComposeTab

datatype docker_control = DockerTab docker_tab | ShowCreate | CloseCreate | ShowCompose | CloseCompose
  | StartClick string string | StopClick string string | RestartClick string string | LogsClick string
  | DropContainerClick string bool | DropImageClick string
  | UpClick string string | DownClick string string | RestartStackClick string string | DropStackClick string bool

record docker_ui =
  dk_tab :: docker_tab
  dk_showCreate :: bool
  dk_showCompose :: bool
  dk_expandedLogs :: "string option"

definition docker_start :: docker_ui where
  "docker_start = \<lparr>dk_tab = ContainersTab, dk_showCreate = False, dk_showCompose = False, dk_expandedLogs = None\<rparr>"

text \<open>A row's buttons come with the status of its container or stack; a running one can be restarted
  and stopped, another one started.\<close>

definition docker_handle :: "docker_control \<Rightarrow> docker_mut busy \<Rightarrow> docker_ui \<Rightarrow> docker_ui \<times> docker_mut act list" where
  "docker_handle e b u = (case e of
     DockerTab t \<Rightarrow> (u\<lparr>dk_tab := t\<rparr>, [])
   | ShowCreate \<Rightarrow> (if dk_tab u = ContainersTab then u\<lparr>dk_showCreate := True\<rparr> else u, [])
   | CloseCreate \<Rightarrow> (u\<lparr>dk_showCreate := False\<rparr>, [])
   | ShowCompose \<Rightarrow> (if dk_tab u = ComposeTab then u\<lparr>dk_showCompose := True\<rparr> else u, [])
   | CloseCompose \<Rightarrow> (u\<lparr>dk_showCompose := False\<rparr>, [])
   | StartClick i status \<Rightarrow> (u, if dk_tab u = ContainersTab \<and> status \<noteq> ''running'' then [Mutate (ActOn i CStart)] else [])
   | StopClick i status \<Rightarrow> (u, if dk_tab u = ContainersTab \<and> status = ''running'' then [Mutate (ActOn i CStop)] else [])
   | RestartClick i status \<Rightarrow> (u, if dk_tab u = ContainersTab \<and> status = ''running'' then [Mutate (ActOn i CRestart)] else [])
   | LogsClick i \<Rightarrow> (u\<lparr>dk_expandedLogs := (if dk_expandedLogs u = Some i then None else Some i)\<rparr>, [])
   | DropContainerClick i confirmed \<Rightarrow> (u, if dk_tab u = ContainersTab \<and> confirmed then [Mutate (DropContainer i)] else [])
   | DropImageClick i \<Rightarrow> (u, if dk_tab u = ImagesTab then [Mutate (DropImage i)] else [])
   | UpClick i status \<Rightarrow> (u, if dk_tab u = ComposeTab \<and> status \<noteq> ''running'' then [Mutate (ActOnStack i ComposeUp)] else [])
   | DownClick i status \<Rightarrow> (u, if dk_tab u = ComposeTab \<and> status = ''running'' then [Mutate (ActOnStack i ComposeDown)] else [])
   | RestartStackClick i status \<Rightarrow>
       (u, if dk_tab u = ComposeTab \<and> status = ''running'' then [Mutate (ActOnStack i ComposeRestart)] else [])
   | DropStackClick i confirmed \<Rightarrow> (u, if dk_tab u = ComposeTab \<and> confirmed then [Mutate (DropStack i)] else []))"

text \<open>The image button calls the API by itself: nothing follows the answer.\<close>

definition docker_page :: "(docker_mut, docker_ui, docker_control) page" where
  "docker_page = \<lparr>
     p_call = (\<lambda>m. DockerApi (case m of ActOn i a \<Rightarrow> ContainerAction i a | DropContainer i \<Rightarrow> DeleteContainer i
       | DropImage i \<Rightarrow> RemoveImage i | ActOnStack i a \<Rightarrow> ComposeAction i a | DropStack i \<Rightarrow> DeleteComposeProject i)),
     p_queries = (\<lambda>u. [([''docker-containers''], DockerApi ListContainers), ([''docker-images''], DockerApi ListImages),
       ([''docker-compose''], DockerApi ListComposeProjects)]),
     p_handle = docker_handle,
     p_success = (\<lambda>m u. case m of
         ActOn _ a \<Rightarrow> [Invalidate [''docker-containers''], Success (''Container '' @ container_action_name a @ ''ed'')]
       | DropContainer _ \<Rightarrow> [Invalidate [''docker-containers''], Success ''Container removed'']
       | DropImage _ \<Rightarrow> []
       | ActOnStack _ _ \<Rightarrow> [Invalidate [''docker-compose''], Success ''Done'']
       | DropStack _ \<Rightarrow> [Invalidate [''docker-compose''], Success ''Project removed'']),
     p_error = (\<lambda>m. case m of ActOn _ _ \<Rightarrow> [Failure ''Action failed'']
       | DropContainer _ \<Rightarrow> [Failure ''Failed to remove container'']
       | ActOnStack _ _ \<Rightarrow> [Failure ''Compose action failed''] | _ \<Rightarrow> []),
     p_after = (\<lambda>m u. u),
     p_failed = (\<lambda>m u. u)\<rparr>"

text \<open>Only start, stop and restart are ever asked for.\<close>

definition valid_docker :: "docker_mut \<Rightarrow> bool" where
  "valid_docker m \<longleftrightarrow> (case m of ActOn _ a \<Rightarrow> a \<in> {CStart, CStop, CRestart} | _ \<Rightarrow> True)"

interpretation docker_containers: panel_page docker_page docker_start "\<lambda>_. True" valid_docker "[]"
  by unfold_locales (auto simp: docker_page_def docker_handle_def valid_docker_def split: docker_control.splits if_splits)

lemma docker_stale:
  "stale_after docker_page m u = (case m of DropImage _ \<Rightarrow> [[''docker-images'']] | _ \<Rightarrow> [])"
  by (cases m) (simp_all add: docker_page_def stale_after_def touched_def touches_def path_of_call_def
      url_path_def refreshes_def)

definition container_schema :: schema where
  "container_schema = [(''name'', TStr), (''image'', TStr), (''restart'', TStr), (''ports'', TArr), (''env'', TArr)]"

text \<open>Ports and environment have no input: they stay empty.\<close>

definition container_options :: select_options where
  "container_options = [(''restart'', map JStr [''unless-stopped'', ''always'', ''on-failure'', ''no'']),
     (''ports'', [JArr []]), (''env'', [JArr []])]"

definition container_blank :: json where
  "container_blank = obj [(''ports'', Some (JArr [])), (''env'', Some (JArr [])), (''labels'', Some (JObj [])),
     (''restart'', Some (JStr ''unless-stopped'')), (''name'', Some (JStr [])), (''image'', Some (JStr []))]"

definition create_container :: "(create_mut, form_ui, unit form_event) page" where
  "create_container = dialog container_schema container_options (filled [''name'', ''image''])
     (\<lambda>d. DockerApi (CreateContainer d)) [([''docker-containers''], DockerApi ListContainers)]
     ''Container created'' ''Failed to create container''"

interpretation create_container: dialog_page container_schema container_options "filled [''name'', ''image'']"
  "\<lambda>d. DockerApi (CreateContainer d)" "[([''docker-containers''], DockerApi ListContainers)]" "''Container created''"
  "''Failed to create container''" container_blank
  by unfold_locales (simp_all add: chosen_def conforms_def container_schema_def container_options_def
      container_blank_def prop_obj)

definition lines :: "string list \<Rightarrow> string" where
  "lines ls = join_on (CHR 0x0A) ls"

definition defaultYaml :: string where
  "defaultYaml = lines [''version: '' @ [CHR 0x27] @ ''3.9'' @ [CHR 0x27], ''services:'', ''  app:'',
     ''    image: nginx:latest'', ''    ports:'', ''      - '' @ [CHR 0x22] @ ''8080:80'' @ [CHR 0x22]]"

definition stack_schema :: schema where
  "stack_schema = [(''name'', TStr), (''compose_file'', TStr)]"

definition create_compose :: "(create_mut, form_ui, unit form_event) page" where
  "create_compose = dialog stack_schema [] (filled [''name'', ''compose_file''])
     (\<lambda>d. DockerApi (CreateComposeProject d)) [([''docker-compose''], DockerApi ListComposeProjects)]
     ''Compose stack created'' ''Failed to create stack''"

interpretation create_compose: dialog_page stack_schema "[]" "filled [''name'', ''compose_file'']"
  "\<lambda>d. DockerApi (CreateComposeProject d)" "[([''docker-compose''], DockerApi ListComposeProjects)]"
  "''Compose stack created''" "''Failed to create stack''" "str_obj [(''name'', []), (''compose_file'', defaultYaml)]"
  by unfold_locales (simp_all add: chosen_def conforms_def stack_schema_def str_obj_def prop_obj)

section \<open>Compose projects (docker/compose/page.tsx)\<close>

definition DEFAULT_COMPOSE :: string where
  "DEFAULT_COMPOSE = lines [''version: '' @ [CHR 0x22] @ ''3.9'' @ [CHR 0x22], ''services:'', ''  app:'',
     ''    image: nginx:alpine'', ''    ports:'', ''      - '' @ [CHR 0x22] @ ''8080:80'' @ [CHR 0x22],
     ''    restart: unless-stopped'', []]"

datatype compose_mut = RunCompose string compose_action | DropProject string

datatype compose_control = ShowNew | CloseNew | UpProject string string | RestartProject string string
  | DownProject string string | DropProjectClick string

record compose_ui =
  cp_showNew :: bool
  cp_actionLoading :: "string option"

definition compose_start :: compose_ui where
  "compose_start = \<lparr>cp_showNew = False, cp_actionLoading = None\<rparr>"

text \<open>The buttons of a project are disabled while \<open>actionLoading\<close> is its id; \<open>onMutate\<close> sets it and
  \<open>onSettled\<close> clears it.\<close>

definition run_compose :: "string \<Rightarrow> compose_action \<Rightarrow> compose_ui \<Rightarrow> compose_ui \<times> compose_mut act list" where
  "run_compose i a u = (if cp_actionLoading u = Some i then (u, [])
     else (u\<lparr>cp_actionLoading := Some i\<rparr>, [Mutate (RunCompose i a)]))"

definition compose_handle ::
  "compose_control \<Rightarrow> compose_mut busy \<Rightarrow> compose_ui \<Rightarrow> compose_ui \<times> compose_mut act list" where
  "compose_handle e b u = (case e of
     ShowNew \<Rightarrow> (u\<lparr>cp_showNew := True\<rparr>, [])
   | CloseNew \<Rightarrow> (u\<lparr>cp_showNew := False\<rparr>, [])
   | UpProject i status \<Rightarrow> if status \<noteq> ''running'' then run_compose i ComposeUp u else (u, [])
   | RestartProject i status \<Rightarrow> if status = ''running'' then run_compose i ComposeRestart u else (u, [])
   | DownProject i status \<Rightarrow> if status = ''running'' then run_compose i ComposeDown u else (u, [])
   | DropProjectClick i \<Rightarrow> (u, if cp_actionLoading u = Some i then [] else [Mutate (DropProject i)]))"

definition compose_settled :: "compose_mut \<Rightarrow> compose_ui \<Rightarrow> compose_ui" where
  "compose_settled m u = (case m of RunCompose _ _ \<Rightarrow> u\<lparr>cp_actionLoading := None\<rparr> | DropProject _ \<Rightarrow> u)"

definition compose_page :: "(compose_mut, compose_ui, compose_control) page" where
  "compose_page = \<lparr>
     p_call = (\<lambda>m. DockerApi (case m of RunCompose i a \<Rightarrow> ComposeAction i a | DropProject i \<Rightarrow> DeleteComposeProject i)),
     p_queries = (\<lambda>u. [([''compose-projects''], DockerApi ListComposeProjects)]),
     p_handle = compose_handle,
     p_success = (\<lambda>m u. [Invalidate [''compose-projects''], Success (case m of
         RunCompose _ a \<Rightarrow> ''Compose '' @ compose_action_name a @ '' executed'' | DropProject _ \<Rightarrow> ''Project deleted'')]),
     p_error = (\<lambda>m. [Failure (case m of RunCompose _ _ \<Rightarrow> ''Action failed'' | DropProject _ \<Rightarrow> ''Failed to delete project'')]),
     p_after = compose_settled,
     p_failed = compose_settled\<rparr>"

interpretation compose_projects: fresh_page compose_page compose_start "\<lambda>_. True" "\<lambda>_. True" "[]"
  by unfold_locales (auto intro!: nothing_staleI simp: compose_page_def refreshes_def)

text \<open>The name of a new project: \<open>/^[a-z0-9-]+$/\<close>.\<close>

definition project_check :: "json \<Rightarrow> bool" where
  "project_check f \<longleftrightarrow> filled [''name'', ''compose_file''] f \<and>
     list_all (\<lambda>c. is_lower c \<or> is_digit c \<or> c = CHR ''-'') (str_field f ''name'')"

definition new_project :: "(create_mut, form_ui, unit form_event) page" where
  "new_project = dialog stack_schema [] project_check
     (\<lambda>d. DockerApi (CreateComposeProject d)) [([''compose-projects''], DockerApi ListComposeProjects)]
     ''Compose project created'' ''Failed to create project''"

interpretation new_project: dialog_page stack_schema "[]" project_check
  "\<lambda>d. DockerApi (CreateComposeProject d)" "[([''compose-projects''], DockerApi ListComposeProjects)]"
  "''Compose project created''" "''Failed to create project''"
  "str_obj [(''name'', []), (''compose_file'', DEFAULT_COMPOSE)]"
  by unfold_locales (simp_all add: chosen_def conforms_def stack_schema_def str_obj_def prop_obj)

section \<open>Pipelines (devops/page.tsx)\<close>

datatype pipelines_mut = Trigger string | DropPipeline string

datatype pipelines_control = ShowCreatePipeline | CloseCreatePipeline | TriggerClick string string | DropPipelineClick string bool

definition pipelines_handle :: "pipelines_control \<Rightarrow> pipelines_mut busy \<Rightarrow> bool \<Rightarrow> bool \<times> pipelines_mut act list" where
  "pipelines_handle e b showCreate = (case e of
     ShowCreatePipeline \<Rightarrow> (True, [])
   | CloseCreatePipeline \<Rightarrow> (False, [])
   | TriggerClick i status \<Rightarrow> (showCreate, if status = ''running'' then [] else [Mutate (Trigger i)])
   | DropPipelineClick i confirmed \<Rightarrow> (showCreate, if confirmed then [Mutate (DropPipeline i)] else []))"

definition pipelines_page :: "(pipelines_mut, bool, pipelines_control) page" where
  "pipelines_page = \<lparr>
     p_call = (\<lambda>m. DevopsApi (case m of Trigger i \<Rightarrow> TriggerRun i | DropPipeline i \<Rightarrow> DeletePipeline i)),
     p_queries = (\<lambda>u. [([''pipelines''], DevopsApi ListPipelines), ([''deployments''], DevopsApi ListDeployments)]),
     p_handle = pipelines_handle,
     p_success = (\<lambda>m u. [Invalidate [''pipelines''], Success (case m of Trigger _ \<Rightarrow> ''Pipeline triggered''
       | DropPipeline _ \<Rightarrow> ''Pipeline deleted'')]),
     p_error = (\<lambda>m. [Failure (case m of Trigger _ \<Rightarrow> ''Failed to trigger pipeline''
       | DropPipeline _ \<Rightarrow> ''Failed to delete pipeline'')]),
     p_after = (\<lambda>m u. u),
     p_failed = (\<lambda>m u. u)\<rparr>"

lemma pipelines_stale: "stale_after pipelines_page m u = []"
  by (cases m) (simp_all add: pipelines_page_def stale_after_def touched_def touches_def path_of_call_def
      url_path_def refreshes_def)

interpretation pipelines: fresh_page pipelines_page False "\<lambda>_. True" "\<lambda>_. True" "[]"
  by unfold_locales (simp_all add: pipelines_stale)

definition pipeline_schema :: schema where
  "pipeline_schema = [(''name'', TStr), (''repo_url'', TStr), (''branch'', TStr), (''trigger'', TStr),
     (''description'', TStr), (''steps'', TArr)]"

definition pipeline_options :: select_options where
  "pipeline_options = [(''trigger'', map JStr [''manual'', ''push'', ''schedule'']), (''steps'', [JArr []])]"

definition pipeline_blank :: json where
  "pipeline_blank = obj [(''branch'', Some (JStr ''main'')), (''trigger'', Some (JStr ''manual'')), (''steps'', Some (JArr [])),
     (''name'', Some (JStr [])), (''repo_url'', Some (JStr [])), (''description'', Some (JStr []))]"

definition create_pipeline :: "(create_mut, form_ui, unit form_event) page" where
  "create_pipeline = dialog pipeline_schema pipeline_options (filled [''name''])
     (\<lambda>d. DevopsApi (CreatePipeline d)) [([''pipelines''], DevopsApi ListPipelines)]
     ''Pipeline created'' ''Failed to create pipeline''"

interpretation create_pipeline: dialog_page pipeline_schema pipeline_options "filled [''name'']"
  "\<lambda>d. DevopsApi (CreatePipeline d)" "[([''pipelines''], DevopsApi ListPipelines)]"
  "''Pipeline created''" "''Failed to create pipeline''" pipeline_blank
  by unfold_locales (simp_all add: chosen_def conforms_def pipeline_schema_def pipeline_options_def
      pipeline_blank_def prop_obj)

section \<open>One pipeline (devops/pipelines/[id]/page.tsx)\<close>

datatype pipeline_mut = is_TriggerThis: TriggerThis

datatype pipeline_control = PipelineLoaded "string option" | TriggerThisClick | ExpandRun string

text \<open>\<open>pl_status\<close> is the status of the pipeline once it is loaded.\<close>

record pipeline_ui =
  pl_status :: "string option"
  pl_expandedRun :: "string option"

definition pipeline_handle ::
  "pipeline_control \<Rightarrow> pipeline_mut busy \<Rightarrow> pipeline_ui \<Rightarrow> pipeline_ui \<times> pipeline_mut act list" where
  "pipeline_handle e b u = (case e of
     PipelineLoaded s \<Rightarrow> (u\<lparr>pl_status := s\<rparr>, [])
   | TriggerThisClick \<Rightarrow> (u, case pl_status u of None \<Rightarrow> []
       | Some s \<Rightarrow> if b is_TriggerThis \<or> s = ''running'' then [] else [Mutate TriggerThis])
   | ExpandRun i \<Rightarrow> (u\<lparr>pl_expandedRun := (if pl_expandedRun u = Some i then None else Some i)\<rparr>, []))"

definition pipeline_page :: "string \<Rightarrow> (pipeline_mut, pipeline_ui, pipeline_control) page" where
  "pipeline_page pid = \<lparr>
     p_call = (\<lambda>m. DevopsApi (TriggerRun pid)),
     p_queries = (\<lambda>u. [([''pipeline'', pid], DevopsApi (GetPipeline pid)), ([''pipeline-runs'', pid], DevopsApi (ListRuns pid))]),
     p_handle = pipeline_handle,
     p_success = (\<lambda>m u. [Invalidate [''pipeline-runs'', pid], Invalidate [''pipeline'', pid], Success ''Run triggered'']),
     p_error = (\<lambda>m. [Failure ''Failed to trigger run'']),
     p_after = (\<lambda>m u. u),
     p_failed = (\<lambda>m u. u)\<rparr>"

definition pipeline_start :: pipeline_ui where
  "pipeline_start = \<lparr>pl_status = None, pl_expandedRun = None\<rparr>"

interpretation pipeline: fresh_page "pipeline_page pid" pipeline_start "\<lambda>_. True" "\<lambda>_. True" "[is_TriggerThis]"
  by unfold_locales (auto intro!: nothing_staleI simp: pipeline_page_def pipeline_handle_def refreshes_def
      split: pipeline_control.splits option.splits)

end
