(* ===== verification/DomainPages.thy ===== *)
theory DomainPages
  imports Panel
begin

text \<open>
  The pages of domains, databases, virtual hosts, PHP versions and certificates under app/(panel).
\<close>

text \<open>The search box of the lists: case is ignored, the empty search shows everything.\<close>

definition found :: "string \<Rightarrow> string \<Rightarrow> bool" where
  "found search name \<longleftrightarrow> search = [] \<or> str_includes (toLowerCase name) (toLowerCase search)"

section \<open>Domains (domains/page.tsx)\<close>

record domain_row =
  dm_id :: string
  dm_name :: string
  dm_status :: string

definition shown_domains :: "string \<Rightarrow> domain_row list \<Rightarrow> domain_row list" where
  "shown_domains search ds = filter (\<lambda>d. found search (dm_name d)) ds"

definition status_counts :: "domain_row list \<Rightarrow> nat list" where
  "status_counts ds = map (\<lambda>status. length (filter (\<lambda>d. dm_status d = status) ds))
     [''active'', ''pending'', ''suspended'', ''error'']"

datatype domains_mut = RemoveDomain string

datatype domains_control = SearchDomains string | ShowAddDomain | CloseAddDomain | RemoveDomainClick string bool

record domains_ui =
  ds_search :: string
  ds_showAdd :: bool

definition domains_handle :: "domains_control \<Rightarrow> domains_mut busy \<Rightarrow> domains_ui \<Rightarrow> domains_ui \<times> domains_mut act list" where
  "domains_handle e b u = (case e of
     SearchDomains v \<Rightarrow> (u\<lparr>ds_search := v\<rparr>, [])
   | ShowAddDomain \<Rightarrow> (u\<lparr>ds_showAdd := True\<rparr>, [])
   | CloseAddDomain \<Rightarrow> (u\<lparr>ds_showAdd := False\<rparr>, [])
   | RemoveDomainClick i confirmed \<Rightarrow> (u, if confirmed then [Mutate (RemoveDomain i)] else []))"

definition domains_page :: "(domains_mut, domains_ui, domains_control) page" where
  "domains_page = \<lparr>
     p_call = (\<lambda>m. case m of RemoveDomain i \<Rightarrow> DomainsApi (DeleteDomain i)),
     p_queries = (\<lambda>u. [([''domains''], DomainsApi ListDomains)]),
     p_handle = domains_handle,
     p_success = (\<lambda>m u. [Invalidate [''domains''], Success ''Domain deleted'']),
     p_error = (\<lambda>m. [Failure ''Failed to delete domain'']),
     p_after = (\<lambda>m u. u),
     p_failed = (\<lambda>m u. u)\<rparr>"

definition domains_start :: domains_ui where
  "domains_start = \<lparr>ds_search = [], ds_showAdd = False\<rparr>"

interpretation domain_list: fresh_page domains_page domains_start "\<lambda>_. True" "\<lambda>_. True" "[]"
  by unfold_locales (auto intro!: nothing_staleI simp: domains_page_def refreshes_def)

text \<open>The message of a failed request is taken from the server's answer, else from the error.\<close>

definition add_domain_error :: "jsval \<Rightarrow> jsval" where
  "add_domain_error err = coalesce
     (opt_member (opt_member (opt_member (opt_member err ''response'') ''data'') ''error'') ''message'')
     (coalesce (opt_member err ''message'') (Some (JStr ''Failed to add domain'')))"

definition error_toast :: "jsval \<Rightarrow> string" where
  "error_toast v = (case v of Some (JStr s) \<Rightarrow> s | _ \<Rightarrow> [])"

definition domain_schema :: schema where
  "domain_schema = [(''name'', TStr), (''webserver_type'', TStr), (''php_version'', TStr)]"

definition domain_options :: select_options where
  "domain_options = [(''webserver_type'', map JStr [''nginx'', ''apache'', ''caddy'', ''litespeed'']),
     (''php_version'', map JStr [[], ''8.3'', ''8.2'', ''8.1'', ''8.0''])]"

text \<open>A select without a default has the value of its first option.\<close>

definition domain_blank :: json where
  "domain_blank = str_obj [(''name'', []), (''webserver_type'', ''nginx''), (''php_version'', [])]"

definition add_domain :: "jsval \<Rightarrow> (create_mut, form_ui, unit form_event) page" where
  "add_domain err = dialog domain_schema domain_options (filled [''name'']) (\<lambda>d. DomainsApi (CreateDomain d))
     [([''domains''], DomainsApi ListDomains)] ''Domain added'' (error_toast (add_domain_error err))"

interpretation new_domain: dialog_page domain_schema domain_options "filled [''name'']" "\<lambda>d. DomainsApi (CreateDomain d)"
  "[([''domains''], DomainsApi ListDomains)]" "''Domain added''" "error_toast (add_domain_error err)" domain_blank
  for err
  by unfold_locales (simp_all add: chosen_def conforms_def domain_schema_def domain_options_def domain_blank_def
      str_obj_def prop_obj)

section \<open>One domain (domains/[id]/page.tsx)\<close>

datatype domain_mut = RemoveThis | SuspendThis

datatype domain_control = OpenDomainTab string | SuspendThisClick bool | RemoveThisClick bool

definition DOMAIN_TABS :: "string list" where
  "DOMAIN_TABS = [''overview'', ''dns'', ''ssl'', ''php'']"

definition domain_handle :: "domain_control \<Rightarrow> domain_mut busy \<Rightarrow> string \<Rightarrow> string \<times> domain_mut act list" where
  "domain_handle e b tab = (case e of
     OpenDomainTab t \<Rightarrow> (if t \<in> set DOMAIN_TABS then t else tab, [])
   | SuspendThisClick confirmed \<Rightarrow> (tab, if confirmed then [Mutate SuspendThis] else [])
   | RemoveThisClick confirmed \<Rightarrow> (tab, if confirmed then [Mutate RemoveThis] else []))"

definition domain_page :: "string \<Rightarrow> (domain_mut, string, domain_control) page" where
  "domain_page did = \<lparr>
     p_call = (\<lambda>m. DomainsApi (case m of RemoveThis \<Rightarrow> DeleteDomain did | SuspendThis \<Rightarrow> SuspendDomain did)),
     p_queries = (\<lambda>u. [([''domain'', did], DomainsApi (GetDomain did))]),
     p_handle = domain_handle,
     p_success = (\<lambda>m u. case m of
         RemoveThis \<Rightarrow> [Invalidate [''domains''], Success ''Domain deleted'', Goto ''/domains'']
       | SuspendThis \<Rightarrow> [Invalidate [''domain'', did], Success ''Domain suspended'']),
     p_error = (\<lambda>m. [Failure (case m of RemoveThis \<Rightarrow> ''Failed to delete domain''
       | SuspendThis \<Rightarrow> ''Failed to suspend domain'')]),
     p_after = (\<lambda>m u. u),
     p_failed = (\<lambda>m u. u)\<rparr>"

interpretation domain_detail: panel_page "domain_page did" "''overview''" "\<lambda>t. t \<in> set DOMAIN_TABS" "\<lambda>_. True" "[]"
  by unfold_locales (auto simp: domain_page_def domain_handle_def DOMAIN_TABS_def split: domain_control.splits)

text \<open>The zone of a domain, which may be named with the final dot; the certificate of a domain.\<close>

definition zone_of :: "string \<Rightarrow> ('z \<Rightarrow> string) \<Rightarrow> 'z list \<Rightarrow> 'z option" where
  "zone_of domain name zs = find (\<lambda>z. name z = domain @ ''.'' \<or> name z = domain) zs"

definition cert_of :: "string \<Rightarrow> ('c \<Rightarrow> string) \<Rightarrow> 'c list \<Rightarrow> 'c option" where
  "cert_of domain name cs = find (\<lambda>c. name c = domain) cs"

datatype renew_mut = RenewCert string

definition ssl_tab :: "(renew_mut, unit, string) page" where
  "ssl_tab = \<lparr>
     p_call = (\<lambda>m. case m of RenewCert i \<Rightarrow> DomainSslApi (RenewDomainSSL i)),
     p_queries = (\<lambda>u. [([''ssl-certs''], DomainSslApi ListDomainSSL)]),
     p_handle = (\<lambda>i b u. (u, [Mutate (RenewCert i)])),
     p_success = (\<lambda>m u. [Invalidate [''ssl-certs''], Success ''Renewal initiated'']),
     p_error = (\<lambda>m. []),
     p_after = (\<lambda>m u. u),
     p_failed = (\<lambda>m u. u)\<rparr>"

interpretation ssl_tab: fresh_page ssl_tab "()" "\<lambda>_. True" "\<lambda>_. True" "[]"
  by unfold_locales (auto intro!: nothing_staleI simp: ssl_tab_def refreshes_def)

section \<open>Databases (databases/page.tsx)\<close>

record db_row =
  db_name :: string
  db_db_name :: string
  db_type :: string
  db_size_mb :: nat

definition shown_dbs :: "string \<Rightarrow> db_row list \<Rightarrow> db_row list" where
  "shown_dbs search ds = filter (\<lambda>d. found search (db_name d) \<or> found search (db_db_name d)) ds"

definition db_stats :: "db_row list \<Rightarrow> nat \<times> nat \<times> nat" where
  "db_stats ds = (length (filter (\<lambda>d. db_type d = ''mysql'') ds), length (filter (\<lambda>d. db_type d = ''postgresql'') ds),
     foldl (\<lambda>a d. a + db_size_mb d) 0 ds)"

datatype db_mut = RemoveDB string

datatype db_control = ShowAddDB | CloseAddDB | RefetchDBs | ExpandDB string | RemoveDBClick string bool

record db_ui =
  db_showAdd :: bool
  db_expanded :: "string option"

definition db_handle :: "db_control \<Rightarrow> db_mut busy \<Rightarrow> db_ui \<Rightarrow> db_ui \<times> db_mut act list" where
  "db_handle e b u = (case e of
     ShowAddDB \<Rightarrow> (u\<lparr>db_showAdd := True\<rparr>, [])
   | CloseAddDB \<Rightarrow> (u\<lparr>db_showAdd := False\<rparr>, [])
   | RefetchDBs \<Rightarrow> (u, [Do (Invalidate [''databases''])])
   | ExpandDB i \<Rightarrow> (u\<lparr>db_expanded := (if db_expanded u = Some i then None else Some i)\<rparr>, [])
   | RemoveDBClick i confirmed \<Rightarrow> (u, if confirmed then [Mutate (RemoveDB i)] else []))"

definition db_tab :: "(db_mut, db_ui, db_control) page" where
  "db_tab = \<lparr>
     p_call = (\<lambda>m. case m of RemoveDB i \<Rightarrow> DatabasesApi (DeleteDatabase i)),
     p_queries = (\<lambda>u. [([''databases''], DatabasesApi ListDatabases)]),
     p_handle = db_handle,
     p_success = (\<lambda>m u. [Invalidate [''databases''], Success ''Database deleted'']),
     p_error = (\<lambda>m. [Failure ''Failed to delete database'']),
     p_after = (\<lambda>m u. u),
     p_failed = (\<lambda>m u. u)\<rparr>"

interpretation databases_tab: fresh_page db_tab "\<lparr>db_showAdd = False, db_expanded = None\<rparr>" "\<lambda>_. True" "\<lambda>_. True" "[]"
  by unfold_locales (auto intro!: nothing_staleI simp: db_tab_def refreshes_def)

text \<open>The users' tab has the same shape without the expanded row.\<close>

datatype dbuser_mut = RemoveDBUser string

datatype dbuser_control = ShowAddUser | CloseAddUser | RefetchUsers | RemoveDBUserClick string bool

definition dbuser_handle :: "dbuser_control \<Rightarrow> dbuser_mut busy \<Rightarrow> bool \<Rightarrow> bool \<times> dbuser_mut act list" where
  "dbuser_handle e b showAdd = (case e of
     ShowAddUser \<Rightarrow> (True, [])
   | CloseAddUser \<Rightarrow> (False, [])
   | RefetchUsers \<Rightarrow> (showAdd, [Do (Invalidate [''db-users''])])
   | RemoveDBUserClick i confirmed \<Rightarrow> (showAdd, if confirmed then [Mutate (RemoveDBUser i)] else []))"

definition dbuser_tab :: "(dbuser_mut, bool, dbuser_control) page" where
  "dbuser_tab = \<lparr>
     p_call = (\<lambda>m. case m of RemoveDBUser i \<Rightarrow> DatabasesApi (DeleteDBUser i)),
     p_queries = (\<lambda>u. [([''db-users''], DatabasesApi ListDBUsers)]),
     p_handle = dbuser_handle,
     p_success = (\<lambda>m u. [Invalidate [''db-users''], Success ''User deleted'']),
     p_error = (\<lambda>m. [Failure ''Failed to delete user'']),
     p_after = (\<lambda>m u. u),
     p_failed = (\<lambda>m u. u)\<rparr>"

interpretation dbusers_tab: fresh_page dbuser_tab False "\<lambda>_. True" "\<lambda>_. True" "[]"
  by unfold_locales (auto intro!: nothing_staleI simp: dbuser_tab_def refreshes_def)

text \<open>Both dialogs ask for a password of at least eight characters.\<close>

definition password_ok :: "json \<Rightarrow> bool" where
  "password_ok f \<longleftrightarrow> 8 \<le> length (str_field f ''password'')"

definition newdb_schema :: schema where
  "newdb_schema = [(''name'', TStr), (''db_type'', TStr), (''password'', TStr)]"

definition newdb_blank :: json where
  "newdb_blank = str_obj [(''db_type'', ''mysql''), (''name'', []), (''password'', [])]"

definition newdb_check :: "json \<Rightarrow> bool" where
  "newdb_check f \<longleftrightarrow> filled [''name'', ''password''] f \<and> password_ok f"

definition create_db :: "(create_mut, form_ui, unit form_event) page" where
  "create_db = dialog newdb_schema [(''db_type'', map JStr [''mysql'', ''postgresql''])] newdb_check
     (\<lambda>d. DatabasesApi (CreateDatabase d)) [([''databases''], DatabasesApi ListDatabases)]
     ''Database created'' ''Failed to create database''"

interpretation create_db: dialog_page newdb_schema "[(''db_type'', map JStr [''mysql'', ''postgresql''])]" newdb_check
  "\<lambda>d. DatabasesApi (CreateDatabase d)" "[([''databases''], DatabasesApi ListDatabases)]"
  "''Database created''" "''Failed to create database''" newdb_blank
  by unfold_locales (simp_all add: chosen_def conforms_def newdb_schema_def newdb_blank_def str_obj_def prop_obj)

definition DB_PRIVILEGES :: "string list" where
  "DB_PRIVILEGES = [''SELECT'', ''INSERT'', ''UPDATE'', ''DELETE'', ''CREATE'', ''DROP'', ''INDEX'', ''ALTER'', ''ALL PRIVILEGES'']"

record newuser_ui = form_ui + selectedPrivs :: "string list"

definition togglePriv :: "string \<Rightarrow> newuser_ui \<Rightarrow> newuser_ui" where
  "togglePriv p u = u\<lparr>selectedPrivs :=
     (if p \<in> set (selectedPrivs u) then filter (\<lambda>x. x \<noteq> p) (selectedPrivs u) else selectedPrivs u @ [p])\<rparr>"

datatype newuser_mut = is_NewUser: NewUser json

datatype newuser_control = PrivClick nat

definition newuser_schema :: schema where
  "newuser_schema = [(''username'', TStr), (''password'', TStr)]"

definition newuser_start :: newuser_ui where
  "newuser_start = \<lparr>showForm = True, form = str_obj [(''username'', []), (''password'', [])],
     selectedPrivs = [''SELECT'', ''INSERT'', ''UPDATE'', ''DELETE'']\<rparr>"

definition newuser_body :: "newuser_ui \<Rightarrow> json" where
  "newuser_body u = spread (form u) [(''privileges'', Some (str_arr (selectedPrivs u)))]"

definition newuser_handle ::
  "newuser_control form_event \<Rightarrow> newuser_mut busy \<Rightarrow> newuser_ui \<Rightarrow> newuser_ui \<times> newuser_mut act list" where
  "newuser_handle e b u = (case e of
     ToggleForm \<Rightarrow> (u, [])
   | HideForm \<Rightarrow> (hide_form u, [])
   | Input k v \<Rightarrow> (edit_form newuser_schema k v u, [])
   | Control (PrivClick i) \<Rightarrow>
       (if showForm u \<and> i < length DB_PRIVILEGES then togglePriv (DB_PRIVILEGES ! i) u else u, [])
   | Submit \<Rightarrow>
       (u, if showForm u \<and> filled [''username'', ''password''] (form u) \<and> password_ok (form u) \<and>
              \<not> b is_NewUser \<and> selectedPrivs u \<noteq> []
           then [Mutate (NewUser (newuser_body u))] else []))"

definition newuser_modal :: "(newuser_mut, newuser_ui, newuser_control form_event) page" where
  "newuser_modal = \<lparr>
     p_call = (\<lambda>m. case m of NewUser d \<Rightarrow> DatabasesApi (CreateDBUser d)),
     p_queries = (\<lambda>u. [([''db-users''], DatabasesApi ListDBUsers)]),
     p_handle = newuser_handle,
     p_success = (\<lambda>m u. [Invalidate [''db-users''], Success ''User created'']),
     p_error = (\<lambda>m. [Failure ''Failed to create user'']),
     p_after = (\<lambda>m. hide_form),
     p_failed = (\<lambda>m u. u)\<rparr>"

text \<open>A user is created with known privileges, each once, and at least one.\<close>

definition privs_ok :: "string list \<Rightarrow> bool" where
  "privs_ok ps \<longleftrightarrow> distinct ps \<and> set ps \<subseteq> set DB_PRIVILEGES"

definition newuser_inv :: "newuser_ui \<Rightarrow> bool" where
  "newuser_inv u \<longleftrightarrow> conforms newuser_schema (form u) \<and> privs_ok (selectedPrivs u)"

definition valid_newuser :: "newuser_mut \<Rightarrow> bool" where
  "valid_newuser m \<longleftrightarrow> (case m of NewUser d \<Rightarrow> conforms newuser_schema d \<and> filled [''username'', ''password''] d \<and>
     password_ok d \<and> (\<exists>ps. own_prop d ''privileges'' = Some (str_arr ps) \<and> ps \<noteq> [] \<and> privs_ok ps))"

lemma newuser_start_inv: "newuser_inv newuser_start"
  by (simp add: newuser_inv_def newuser_start_def privs_ok_def DB_PRIVILEGES_def conforms_def newuser_schema_def
      str_obj_def prop_obj)

lemma newuser_fields: "distinct (map fst newuser_schema)"
  by (simp add: newuser_schema_def)

lemma newuser_inv_keeps:
  "newuser_inv u \<Longrightarrow> newuser_inv (hide_form u)"
  "newuser_inv u \<Longrightarrow> newuser_inv (edit_form newuser_schema k v u)"
  "newuser_inv u \<Longrightarrow> p \<in> set DB_PRIVILEGES \<Longrightarrow> newuser_inv (togglePriv p u)"
  using newuser_fields
  by (auto simp: newuser_inv_def togglePriv_def privs_ok_def hide_form_def edit_form_def)

lemma newuser_body_valid:
  "newuser_inv u \<Longrightarrow> filled [''username'', ''password''] (form u) \<Longrightarrow> password_ok (form u) \<Longrightarrow> selectedPrivs u \<noteq> [] \<Longrightarrow>
    valid_newuser (NewUser (newuser_body u))"
  by (auto simp: valid_newuser_def newuser_body_def newuser_inv_def conforms_iff filled_def prop_spread
      map_of_entries newuser_schema_def password_ok_def str_field_def)

interpretation add_dbuser: fresh_page newuser_modal newuser_start newuser_inv valid_newuser "[is_NewUser]"
  by unfold_locales (auto intro!: nothing_staleI simp: newuser_modal_def newuser_handle_def newuser_start_inv
      newuser_inv_keeps newuser_body_valid refreshes_def
      split: form_event.splits newuser_control.splits newuser_mut.splits if_splits)

end
