(* ===== verification/WebServerPages.thy ===== *)
theory WebServerPages
  imports DomainPages
begin

text \<open>
  The pages of virtual hosts (webserver/page.tsx), PHP versions (php/page.tsx) and certificates
  (ssl/page.tsx, ssl/csr/page.tsx) under app/(panel).
\<close>

section \<open>Virtual hosts (webserver/page.tsx)\<close>

definition SERVER_TYPES :: "string list" where
  "SERVER_TYPES = [''nginx'', ''apache'', ''caddy'', ''litespeed'']"

definition PHP_VERSIONS :: "string list" where
  "PHP_VERSIONS = [''8.3'', ''8.2'', ''8.1'', ''8.0'', ''7.4'']"

record vhost_row =
  vh_id :: string
  vh_domain_name :: string
  vh_server_type :: string
  vh_php_version :: "string option"

definition shown_vhosts :: "string \<Rightarrow> vhost_row list \<Rightarrow> vhost_row list" where
  "shown_vhosts search vs = filter (\<lambda>v. found search (vh_domain_name v)) vs"

definition byType :: "vhost_row list \<Rightarrow> string \<Rightarrow> nat" where
  "byType vs t = length (filter (\<lambda>v. vh_server_type v = t) vs)"

datatype vhost_mut = RemoveVhost string

datatype vhost_control = SearchVhosts string | RefetchVhosts | ShowAddVhost | CloseAddVhost | EditVhost string
  | CloseEditVhost | RemoveVhostClick string bool

record vhost_ui =
  vh_search :: string
  vh_showAdd :: bool
  vh_edit :: "string option"

definition vhost_handle :: "vhost_control \<Rightarrow> vhost_mut busy \<Rightarrow> vhost_ui \<Rightarrow> vhost_ui \<times> vhost_mut act list" where
  "vhost_handle e b u = (case e of
     SearchVhosts v \<Rightarrow> (u\<lparr>vh_search := v\<rparr>, [])
   | RefetchVhosts \<Rightarrow> (u, [Do (Invalidate [''vhosts''])])
   | ShowAddVhost \<Rightarrow> (u\<lparr>vh_showAdd := True\<rparr>, [])
   | CloseAddVhost \<Rightarrow> (u\<lparr>vh_showAdd := False\<rparr>, [])
   | EditVhost i \<Rightarrow> (u\<lparr>vh_edit := Some i\<rparr>, [])
   | CloseEditVhost \<Rightarrow> (u\<lparr>vh_edit := None\<rparr>, [])
   | RemoveVhostClick i confirmed \<Rightarrow> (u, if confirmed then [Mutate (RemoveVhost i)] else []))"

definition vhost_page :: "(vhost_mut, vhost_ui, vhost_control) page" where
  "vhost_page = \<lparr>
     p_call = (\<lambda>m. case m of RemoveVhost i \<Rightarrow> WebserverApi (DeleteVhost i)),
     p_queries = (\<lambda>u. [([''vhosts''], WebserverApi ListVhosts)]),
     p_handle = vhost_handle,
     p_success = (\<lambda>m u. [Invalidate [''vhosts''], Success ''Virtual host deleted'']),
     p_error = (\<lambda>m. [Failure ''Failed to delete virtual host'']),
     p_after = (\<lambda>m u. u),
     p_failed = (\<lambda>m u. u)\<rparr>"

definition vhost_start :: vhost_ui where
  "vhost_start = \<lparr>vh_search = [], vh_showAdd = False, vh_edit = None\<rparr>"

interpretation vhosts: fresh_page vhost_page vhost_start "\<lambda>_. True" "\<lambda>_. True" "[]"
  by unfold_locales (auto intro!: nothing_staleI simp: vhost_page_def refreshes_def)

definition vhost_schema :: schema where
  "vhost_schema = [(''domain_name'', TStr), (''server_type'', TStr), (''document_root'', TStr),
     (''has_php'', TBool), (''php_version'', TStr)]"

definition vhost_options :: select_options where
  "vhost_options = [(''server_type'', map JStr SERVER_TYPES), (''php_version'', map JStr PHP_VERSIONS)]"

definition vhost_blank :: json where
  "vhost_blank = obj [(''server_type'', Some (JStr ''nginx'')), (''document_root'', Some (JStr ''/var/www'')),
     (''has_php'', Some (JBool True)), (''php_version'', Some (JStr ''8.2'')), (''domain_name'', Some (JStr []))]"

text \<open>\<open>({ has_php, ...rest })\<close>: the flag is not sent, and without it no PHP version is.\<close>

definition vhost_body :: "json \<Rightarrow> json" where
  "vhost_body d = spread d [(''has_php'', None),
     (''php_version'', if truthy (own_prop d ''has_php'') then own_prop d ''php_version'' else None)]"

definition add_vhost :: "(create_mut, form_ui, unit form_event) page" where
  "add_vhost = dialog vhost_schema vhost_options (filled [''domain_name'', ''document_root''])
     (\<lambda>d. WebserverApi (CreateVhost (vhost_body d))) [([''vhosts''], WebserverApi ListVhosts)]
     ''Virtual host created'' ''Failed to create virtual host''"

interpretation new_vhost: dialog_page vhost_schema vhost_options "filled [''domain_name'', ''document_root'']"
  "\<lambda>d. WebserverApi (CreateVhost (vhost_body d))" "[([''vhosts''], WebserverApi ListVhosts)]"
  "''Virtual host created''" "''Failed to create virtual host''" vhost_blank
  by unfold_locales (simp_all add: chosen_def conforms_def vhost_schema_def vhost_options_def vhost_blank_def
      SERVER_TYPES_def PHP_VERSIONS_def prop_obj)

lemma vhost_body_php:
  "chosen vhost_schema vhost_options d \<Longrightarrow>
    own_prop (vhost_body d) ''has_php'' = None \<and>
    own_prop (vhost_body d) ''php_version'' \<in> insert None ((Some \<circ> JStr) ` set PHP_VERSIONS)"
  by (auto simp: chosen_def vhost_body_def prop_spread map_of_entries vhost_options_def)

text \<open>The dialog of a host starts with its values; an empty version is sent as \<open>null\<close>.\<close>

definition edit_vhost_schema :: schema where
  "edit_vhost_schema = [(''server_type'', TStr), (''php_version'', TStr)]"

definition edit_vhost_options :: select_options where
  "edit_vhost_options = [(''server_type'', map JStr SERVER_TYPES), (''php_version'', JStr [] # map JStr PHP_VERSIONS)]"

definition edit_vhost_body :: "json \<Rightarrow> json" where
  "edit_vhost_body d = obj [(''server_type'', own_prop d ''server_type''),
     (''php_version'', js_or (own_prop d ''php_version'') (Some JNull))]"

definition edit_vhost_start :: "vhost_row \<Rightarrow> json" where
  "edit_vhost_start v = str_obj [(''server_type'', vh_server_type v),
     (''php_version'', case vh_php_version v of None \<Rightarrow> [] | Some p \<Rightarrow> p)]"

definition edit_vhost :: "string \<Rightarrow> (create_mut, form_ui, unit form_event) page" where
  "edit_vhost vhost_id = dialog edit_vhost_schema [] (filled [])
     (\<lambda>d. WebserverApi (UpdateVhost vhost_id (edit_vhost_body d))) [([''vhosts''], WebserverApi ListVhosts)]
     ''Updated'' ''Failed to update''"

interpretation change_vhost: dialog_page edit_vhost_schema "[]" "filled []"
  "\<lambda>d. WebserverApi (UpdateVhost vhost_id (edit_vhost_body d))" "[([''vhosts''], WebserverApi ListVhosts)]"
  "''Updated''" "''Failed to update''" "edit_vhost_start v" for vhost_id v
  by unfold_locales (simp_all add: chosen_def conforms_def edit_vhost_schema_def edit_vhost_start_def str_obj_def
      prop_obj split: option.split)

section \<open>PHP versions (php/page.tsx)\<close>

datatype php_mut = SetPHP string "string option"

datatype php_control = RefetchPHP | OpenSelect string | ChooseVersion string nat | ChooseNone string

text \<open>The state is the row whose \<open>VersionSelect\<close> is open.\<close>

definition php_handle :: "php_control \<Rightarrow> php_mut busy \<Rightarrow> string option \<Rightarrow> string option \<times> php_mut act list" where
  "php_handle e b openRow = (case e of
     RefetchPHP \<Rightarrow> (openRow, [Do (Invalidate [''vhosts''])])
   | OpenSelect i \<Rightarrow> (if openRow = Some i then None else Some i, [])
   | ChooseVersion i k \<Rightarrow> if openRow = Some i \<and> k < length PHP_VERSIONS
       then (None, [Mutate (SetPHP i (Some (PHP_VERSIONS ! k)))]) else (openRow, [])
   | ChooseNone i \<Rightarrow> if openRow = Some i then (None, [Mutate (SetPHP i None)]) else (openRow, []))"

definition php_page :: "(php_mut, string option, php_control) page" where
  "php_page = \<lparr>
     p_call = (\<lambda>m. case m of SetPHP i v \<Rightarrow>
       WebserverApi (UpdatePHP i (case v of None \<Rightarrow> JNull | Some p \<Rightarrow> JStr p))),
     p_queries = (\<lambda>u. [([''vhosts''], WebserverApi ListVhosts)]),
     p_handle = php_handle,
     p_success = (\<lambda>m u. [Invalidate [''vhosts''], Success ''PHP version updated'']),
     p_error = (\<lambda>m. [Failure ''Failed to update PHP version'']),
     p_after = (\<lambda>m u. u),
     p_failed = (\<lambda>m u. u)\<rparr>"

definition valid_php :: "php_mut \<Rightarrow> bool" where
  "valid_php m \<longleftrightarrow> (case m of SetPHP _ v \<Rightarrow> v \<in> insert None (Some ` set PHP_VERSIONS))"

interpretation php: fresh_page php_page None "\<lambda>_. True" valid_php "[]"
  by unfold_locales (auto intro!: nothing_staleI simp: php_page_def php_handle_def valid_php_def refreshes_def
      split: php_control.splits if_splits)

text \<open>The counts per version, and the share of each among the hosts that have PHP.\<close>

definition phpVhosts :: "vhost_row list \<Rightarrow> vhost_row list" where
  "phpVhosts vs = filter (\<lambda>v. vh_php_version v \<noteq> None \<and> vh_php_version v \<noteq> Some []) vs"

definition versionCounts :: "vhost_row list \<Rightarrow> string \<Rightarrow> nat" where
  "versionCounts vs = fold (\<lambda>v c. case vh_php_version v of None \<Rightarrow> c | Some p \<Rightarrow> c(p := c p + 1)) (phpVhosts vs) (\<lambda>_. 0)"

definition version_share :: "vhost_row list \<Rightarrow> string \<Rightarrow> rat" where
  "version_share vs p = of_nat (versionCounts vs p) / of_nat (if phpVhosts vs = [] then 1 else length (phpVhosts vs)) * 100"

lemma versionCounts_filter:
  "versionCounts vs p = length (filter (\<lambda>v. vh_php_version v = Some p) (phpVhosts vs))"
proof -
  have "fold (\<lambda>v c. case vh_php_version v of None \<Rightarrow> c | Some p \<Rightarrow> c(p := c p + 1)) xs c p =
      c p + length (filter (\<lambda>v. vh_php_version v = Some p) xs)" for xs and c :: "string \<Rightarrow> nat"
    by (induction xs arbitrary: c) (auto split: option.split)
  note count = this
  show ?thesis unfolding versionCounts_def count by simp
qed

lemma version_share_bounds: "version_share vs p \<in> {0..100}"
proof -
  have "versionCounts vs p \<le> length (phpVhosts vs)" by (simp add: versionCounts_filter)
  then have "(of_nat (versionCounts vs p) :: rat) \<le> of_nat (length (phpVhosts vs))" by (rule of_nat_mono)
  then have "phpVhosts vs \<noteq> [] \<Longrightarrow> version_share vs p \<le> 100" by (simp add: version_share_def divide_le_eq)
  moreover have "phpVhosts vs = [] \<Longrightarrow> version_share vs p = 0" by (simp add: version_share_def versionCounts_filter)
  moreover have "0 \<le> version_share vs p" by (simp add: version_share_def)
  ultimately show ?thesis by (cases "phpVhosts vs = []") auto
qed

section \<open>Certificates (ssl/page.tsx)\<close>

text \<open>Times are in milliseconds; \<open>Math.floor\<close> of a negative quotient rounds down.\<close>

definition daysUntil :: "int \<Rightarrow> int option \<Rightarrow> int option" where
  "daysUntil now d = map_option (\<lambda>t. (t - now) div 86400000) d"

datatype expiry_badge = NoDate | Expired | Urgent int | Soon int | Later int

definition ExpiryBadge :: "int \<Rightarrow> int option \<Rightarrow> expiry_badge" where
  "ExpiryBadge now d = (case daysUntil now d of None \<Rightarrow> NoDate
     | Some n \<Rightarrow> if n < 0 then Expired else if n < 14 then Urgent n else if n < 30 then Soon n else Later n)"

record cert_row =
  ct_status :: string
  ct_expires :: "int option"

definition expiringCount :: "int \<Rightarrow> cert_row list \<Rightarrow> nat" where
  "expiringCount now cs = length (filter (\<lambda>c. case daysUntil now (ct_expires c) of None \<Rightarrow> False
     | Some d \<Rightarrow> 0 \<le> d \<and> d < 30) cs)"

definition expiredCount :: "int \<Rightarrow> cert_row list \<Rightarrow> nat" where
  "expiredCount now cs = length (filter (\<lambda>c. ct_status c = ''expired'' \<or>
     (case daysUntil now (ct_expires c) of None \<Rightarrow> 1 | Some d \<Rightarrow> d) < 0) cs)"

text \<open>The badge agrees with the counters: it is red or amber with days left on the expiring ones.\<close>

lemma badge_expiring: "expiringCount now cs =
    length (filter (\<lambda>c. case ExpiryBadge now (ct_expires c) of Urgent _ \<Rightarrow> True | Soon _ \<Rightarrow> True | _ \<Rightarrow> False) cs)"
  unfolding expiringCount_def
  by (rule arg_cong [where f = length], rule filter_cong) (auto simp: ExpiryBadge_def split: option.splits)

datatype ssl_mut = RemoveCert string

datatype ssl_control = RefetchCerts | ShowIssue | CloseIssue | RemoveCertClick string bool

definition ssl_handle :: "ssl_control \<Rightarrow> ssl_mut busy \<Rightarrow> bool \<Rightarrow> bool \<times> ssl_mut act list" where
  "ssl_handle e b showIssue = (case e of
     RefetchCerts \<Rightarrow> (showIssue, [Do (Invalidate [''ssl-certs''])])
   | ShowIssue \<Rightarrow> (True, [])
   | CloseIssue \<Rightarrow> (False, [])
   | RemoveCertClick i confirmed \<Rightarrow> (showIssue, if confirmed then [Mutate (RemoveCert i)] else []))"

definition ssl_page :: "(ssl_mut, bool, ssl_control) page" where
  "ssl_page = \<lparr>
     p_call = (\<lambda>m. case m of RemoveCert i \<Rightarrow> WebserverApi (DeleteSSL i)),
     p_queries = (\<lambda>u. [([''ssl-certs''], WebserverApi ListSSL)]),
     p_handle = ssl_handle,
     p_success = (\<lambda>m u. [Invalidate [''ssl-certs''], Success ''Certificate deleted'']),
     p_error = (\<lambda>m. [Failure ''Failed to delete certificate'']),
     p_after = (\<lambda>m u. u),
     p_failed = (\<lambda>m u. u)\<rparr>"

interpretation certificates: fresh_page ssl_page False "\<lambda>_. True" "\<lambda>_. True" "[]"
  by unfold_locales (auto intro!: nothing_staleI simp: ssl_page_def refreshes_def)

definition issue_schema :: schema where
  "issue_schema = [(''domain'', TStr), (''provider'', TStr)]"

definition issue_options :: select_options where
  "issue_options = [(''provider'', map JStr [''letsencrypt'', ''zerossl'', ''custom''])]"

text \<open>Only the domain is sent.\<close>

definition issue_body :: "json \<Rightarrow> json" where
  "issue_body d = obj [(''domain'', own_prop d ''domain''), (''email'', Some (JStr [])), (''sans'', Some (JArr []))]"

definition issue_cert :: "(create_mut, form_ui, unit form_event) page" where
  "issue_cert = dialog issue_schema issue_options (filled [''domain'']) (\<lambda>d. WebserverApi (IssueSSL (issue_body d)))
     [([''ssl-certs''], WebserverApi ListSSL)] ''Certificate issuance queued'' ''Failed to issue certificate''"

interpretation issue_cert: dialog_page issue_schema issue_options "filled [''domain'']"
  "\<lambda>d. WebserverApi (IssueSSL (issue_body d))" "[([''ssl-certs''], WebserverApi ListSSL)]"
  "''Certificate issuance queued''" "''Failed to issue certificate''"
  "str_obj [(''domain'', []), (''provider'', ''letsencrypt'')]"
  by unfold_locales (simp_all add: chosen_def conforms_def issue_schema_def issue_options_def str_obj_def prop_obj)

lemma issue_ignores_provider: "issue_body (spread d [(''provider'', p)]) = issue_body d"
  by (simp add: issue_body_def prop_spread map_of_entries)

section \<open>Signing requests and imports (ssl/csr/page.tsx)\<close>

datatype csr_tab = GenerateTab | ImportTab

record csr =
  cs_tab :: csr_tab
  cs_loading :: bool
  cs_copied :: "string option"
  cs_csrResult :: jsval
  cs_importResult :: jsval
  cs_csrForm :: json
  cs_importForm :: json
  cs_calls :: "ssl_csr_call list"
  cs_toasts :: "effect list"

definition csr_schema :: schema where
  "csr_schema = [(''domain'', TStr), (''country'', TStr), (''state'', TStr), (''city'', TStr),
     (''organization'', TStr), (''email'', TStr)]"

definition import_schema :: schema where
  "import_schema = [(''domain'', TStr), (''certificate'', TStr), (''private_key'', TStr), (''ca_bundle'', TStr)]"

definition csr_init :: csr where
  "csr_init = \<lparr>cs_tab = GenerateTab, cs_loading = False, cs_copied = None, cs_csrResult = None, cs_importResult = None,
     cs_csrForm = str_obj [(''domain'', []), (''country'', ''US''), (''state'', []), (''city'', []),
       (''organization'', []), (''email'', [])],
     cs_importForm = str_obj [(''domain'', []), (''certificate'', []), (''private_key'', []), (''ca_bundle'', [])],
     cs_calls = [], cs_toasts = []\<rparr>"

text \<open>The handlers up to their \<open>await\<close>, and what follows the answer (\<open>None\<close> when the call throws).\<close>

definition handleGenerate :: "csr \<Rightarrow> csr" where
  "handleGenerate s = (if \<not> filled [''domain''] (cs_csrForm s) then s
     else s\<lparr>cs_loading := True, cs_calls := cs_calls s @ [GenerateCSR (cs_csrForm s)]\<rparr>)"

definition handleImport :: "csr \<Rightarrow> csr" where
  "handleImport s = (if \<not> filled [''domain'', ''certificate'', ''private_key''] (cs_importForm s) then s
     else s\<lparr>cs_loading := True, cs_calls := cs_calls s @ [ImportSSL (cs_importForm s)]\<rparr>)"

definition csr_answer :: "bool \<Rightarrow> json option \<Rightarrow> csr \<Rightarrow> csr" where
  "csr_answer importing answer s = (case answer of
     Some data \<Rightarrow> (if importing then s\<lparr>cs_importResult := Some data\<rparr> else s\<lparr>cs_csrResult := Some data\<rparr>)
       \<lparr>cs_toasts := cs_toasts s @ [Success (if importing then ''SSL certificate imported'' else ''CSR generated successfully'')]\<rparr>
   | None \<Rightarrow> s\<lparr>cs_toasts := cs_toasts s @ [Failure (if importing then ''Failed to import certificate'' else ''Failed to generate CSR'')]\<rparr>)
   \<lparr>cs_loading := False\<rparr>"

datatype csr_event = CsrTab csr_tab | CsrInput string string | ImportInput string string | GenerateClick | ImportClick
  | CsrAnswer bool "json option" | CsrCopy string string | CsrCopyTimeout

definition csr_input :: "string \<Rightarrow> string \<Rightarrow> csr \<Rightarrow> csr" where
  "csr_input k v s = s\<lparr>cs_csrForm := type_in csr_schema k
     (JStr (if k = ''country'' then slice (toUpperCase v) 0 2 else v)) (cs_csrForm s)\<rparr>"

definition csr_step :: "csr_event \<Rightarrow> csr \<Rightarrow> csr" where
  "csr_step e s = (case e of
     CsrTab t \<Rightarrow> s\<lparr>cs_tab := t\<rparr>
   | CsrInput k v \<Rightarrow> if cs_tab s = GenerateTab then csr_input k v s else s
   | ImportInput k v \<Rightarrow> if cs_tab s = ImportTab
       then s\<lparr>cs_importForm := type_in import_schema k (JStr v) (cs_importForm s)\<rparr> else s
   | GenerateClick \<Rightarrow> if cs_tab s = GenerateTab \<and> \<not> cs_loading s then handleGenerate s else s
   | ImportClick \<Rightarrow> if cs_tab s = ImportTab \<and> \<not> cs_loading s then handleImport s else s
   | CsrAnswer importing a \<Rightarrow> if cs_loading s \<and>
         (case last (cs_calls s) of ImportSSL _ \<Rightarrow> importing | GenerateCSR _ \<Rightarrow> \<not> importing) then csr_answer importing a s else s
   | CsrCopy t k \<Rightarrow> s\<lparr>cs_copied := Some k, cs_toasts := cs_toasts s @ [Copied t, Success ''Copied to clipboard'']\<rparr>
   | CsrCopyTimeout \<Rightarrow> s\<lparr>cs_copied := None\<rparr>)"

text \<open>What is sent is typed and complete, and a country is at most two letters.\<close>

definition csr_call_ok :: "ssl_csr_call \<Rightarrow> bool" where
  "csr_call_ok c = (case c of
     GenerateCSR d \<Rightarrow> conforms csr_schema d \<and> filled [''domain''] d \<and> length (str_field d ''country'') \<le> 2
   | ImportSSL d \<Rightarrow> conforms import_schema d \<and> filled [''domain'', ''certificate'', ''private_key''] d)"

definition csr_inv :: "csr \<Rightarrow> bool" where
  "csr_inv s \<longleftrightarrow> conforms csr_schema (cs_csrForm s) \<and> length (str_field (cs_csrForm s) ''country'') \<le> 2 \<and>
     conforms import_schema (cs_importForm s) \<and> list_all csr_call_ok (cs_calls s)"

lemma csr_init_inv: "csr_inv csr_init"
  by (simp add: csr_inv_def csr_init_def conforms_def csr_schema_def import_schema_def str_obj_def prop_obj str_field_def)

lemma country_short: "length (str_field f ''country'') \<le> 2 \<Longrightarrow> length (slice (toUpperCase v) 0 2) \<le> 2 \<Longrightarrow>
    length (str_field (type_in csr_schema k (JStr (if k = ''country'' then slice (toUpperCase v) 0 2 else v)) f) ''country'') \<le> 2"
  by (auto simp: type_in_def str_field_def prop_spread map_of_entries split: option.splits)

lemma csr_fields: "distinct (map fst csr_schema)" "distinct (map fst import_schema)"
  by (simp_all add: csr_schema_def import_schema_def)

lemma csr_input_inv: "csr_inv s \<Longrightarrow> csr_inv (csr_input k v s)"
  unfolding csr_inv_def csr_input_def using country_short csr_fields by simp

lemma csr_step_inv: "csr_inv s \<Longrightarrow> csr_inv (csr_step e s)"
proof (cases e)
  case (CsrInput k v)
  then show "csr_inv s \<Longrightarrow> ?thesis" by (simp add: csr_step_def csr_input_inv)
next
  case GenerateClick
  then show "csr_inv s \<Longrightarrow> ?thesis" by (simp add: csr_step_def csr_inv_def handleGenerate_def csr_call_ok_def)
next
  case ImportClick
  then show "csr_inv s \<Longrightarrow> ?thesis" by (simp add: csr_step_def csr_inv_def handleImport_def csr_call_ok_def)
next
  case (CsrAnswer i a)
  then show "csr_inv s \<Longrightarrow> ?thesis" by (simp add: csr_step_def csr_inv_def csr_answer_def split: option.split)
qed (simp_all add: csr_step_def csr_inv_def csr_fields)

interpretation csr: component csr_step csr_inv
  by unfold_locales (rule csr_step_inv)

end
