(* ===== verification/MonitoringPages.thy ===== *)
theory MonitoringPages
  imports Panel Realtime Format
begin

text \<open>
  The pages under app/(panel)/monitoring: alert rules, monitored servers and the live metrics, with
  the bandwidth and disk pages; components/monitoring/MetricsDashboard.tsx with its own connection;
  and the retry rule every query of the panel runs under (components/providers/query-provider.tsx).
\<close>

section \<open>Alert rules (alerts/page.tsx)\<close>

datatype alerts_mut = DropAlertRule string

datatype alerts_control = ShowAddAlert | CloseAddAlert | DropAlertRuleClick string

definition alerts_handle :: "alerts_control \<Rightarrow> alerts_mut busy \<Rightarrow> bool \<Rightarrow> bool \<times> alerts_mut act list" where
  "alerts_handle e b showAdd = (case e of
     ShowAddAlert \<Rightarrow> (True, [])
   | CloseAddAlert \<Rightarrow> (False, [])
   | DropAlertRuleClick i \<Rightarrow> (showAdd, [Mutate (DropAlertRule i)]))"

definition alerts_page :: "(alerts_mut, bool, alerts_control) page" where
  "alerts_page = \<lparr>
     p_call = (\<lambda>m. MonitoringApi (case m of DropAlertRule i \<Rightarrow> DeleteAlertRule i)),
     p_queries = (\<lambda>u. [([''alert-rules''], MonitoringApi ListAlertRules), ([''incidents''], MonitoringApi ListIncidents)]),
     p_handle = alerts_handle,
     p_success = (\<lambda>m u. [Invalidate [''alert-rules''], Success ''Rule deleted'']),
     p_error = (\<lambda>m. []),
     p_after = (\<lambda>m u. u),
     p_failed = (\<lambda>m u. u)\<rparr>"

lemma alerts_stale: "stale_after alerts_page m u = []"
  by (cases m) (simp_all add: alerts_page_def stale_after_def touched_def touches_def path_of_call_def
      url_path_def refreshes_def)

interpretation alerts: fresh_page alerts_page False "\<lambda>_. True" "\<lambda>_. True" "[]"
  by unfold_locales (simp_all add: alerts_stale)

definition METRIC_OPTIONS :: "string list" where
  "METRIC_OPTIONS = [''cpu_percent'', ''ram_percent'', ''disk_percent'', ''load_avg_1'', ''net_in_mb_s'', ''net_out_mb_s'']"

definition CONDITION_OPTIONS :: "string list" where
  "CONDITION_OPTIONS = [''gt'', ''gte'', ''lt'', ''lte'', ''eq'']"

definition alert_schema :: schema where
  "alert_schema = [(''name'', TStr), (''metric'', TStr), (''condition'', TStr), (''threshold'', TNaN),
     (''duration_seconds'', TNaN), (''severity'', TStr)]"

definition alert_options :: select_options where
  "alert_options = [(''metric'', map JStr METRIC_OPTIONS), (''condition'', map JStr CONDITION_OPTIONS),
     (''severity'', map JStr [''info'', ''warning'', ''critical''])]"

text \<open>The metric has no default: the select shows, and gives, its first option.\<close>

definition alert_blank :: json where
  "alert_blank = obj [(''name'', Some (JStr [])), (''metric'', Some (JStr ''cpu_percent'')),
     (''condition'', Some (JStr ''gt'')), (''threshold'', Some JNull), (''duration_seconds'', Some (JNum 60)),
     (''severity'', Some (JStr ''warning''))]"

text \<open>A required number is one that was typed; 0 counts.\<close>

definition alert_check :: "json \<Rightarrow> bool" where
  "alert_check f \<longleftrightarrow> filled [''name'', ''metric''] f \<and> own_prop f ''threshold'' \<noteq> Some JNull"

definition add_alert :: "(create_mut, form_ui, unit form_event) page" where
  "add_alert = dialog alert_schema alert_options alert_check (\<lambda>d. MonitoringApi (CreateAlertRule d))
     [([''alert-rules''], MonitoringApi ListAlertRules)] ''Rule created'' ''Failed to create rule''"

interpretation add_alert: dialog_page alert_schema alert_options alert_check "\<lambda>d. MonitoringApi (CreateAlertRule d)"
  "[([''alert-rules''], MonitoringApi ListAlertRules)]" "''Rule created''" "''Failed to create rule''" alert_blank
  by unfold_locales (simp_all add: alert_schema_def alert_options_def chosen_def conforms_def alert_blank_def
      prop_obj METRIC_OPTIONS_def CONDITION_OPTIONS_def)

text \<open>A rule the dialog sends can be evaluated: its metric and comparison are known and it has a number
  to compare with.\<close>

definition rule_evaluable :: "json \<Rightarrow> bool" where
  "rule_evaluable d \<longleftrightarrow> (\<exists>m \<in> set METRIC_OPTIONS. own_prop d ''metric'' = Some (JStr m)) \<and>
     (\<exists>c \<in> set CONDITION_OPTIONS. own_prop d ''condition'' = Some (JStr c)) \<and>
     (\<exists>x. own_prop d ''threshold'' = Some (JNum x))"

lemma sent_rule_evaluable:
  "Create d \<in> set (p_sent (page_run add_alert (dialog_start alert_blank) es)) \<Longrightarrow> rule_evaluable d"
proof -
  assume "Create d \<in> set (p_sent (page_run add_alert (dialog_start alert_blank) es))"
  then have "valid_create alert_schema alert_options alert_check (Create d)"
    using add_alert.sends_valid by (simp add: sends_only_def add_alert_def)
  then have c: "chosen alert_schema alert_options d" "own_prop d ''threshold'' \<noteq> Some JNull"
    by (simp_all add: valid_create_def alert_check_def)
  then have "\<exists>v. own_prop d ''threshold'' = Some v \<and> has_type TNaN v"
    by (auto simp: chosen_def conforms_def alert_schema_def split: option.splits)
  then obtain v where "own_prop d ''threshold'' = Some v" "has_type TNaN v" by blast
  with c(2) have "\<exists>x. own_prop d ''threshold'' = Some (JNum x)" by (cases v) auto
  moreover have "own_prop d ''metric'' \<in> Some ` set (map JStr METRIC_OPTIONS)"
    "own_prop d ''condition'' \<in> Some ` set (map JStr CONDITION_OPTIONS)"
    using c(1) by (simp_all add: chosen_def alert_options_def)
  ultimately show ?thesis by (auto simp: rule_evaluable_def)
qed

section \<open>Monitored servers (servers/page.tsx)\<close>

text \<open>How long ago a server reported; \<open>toLocaleDateString\<close> is a parameter. Times are in
  milliseconds.\<close>

definition lastSeen :: "(int \<Rightarrow> string) \<Rightarrow> int \<Rightarrow> int option \<Rightarrow> string" where
  "lastSeen localDate now ts = (case ts of None \<Rightarrow> ''Never'' | Some t \<Rightarrow>
     (let secs = (now - t) div 1000 in
       if secs < 60 then show_int secs @ ''s ago''
       else if secs < 3600 then show_int (secs div 60) @ ''m ago''
       else if secs < 86400 then show_int (secs div 3600) @ ''h ago''
       else localDate t))"

datatype servers_mut = is_Register: Register json | DropServer string

datatype servers_control = DropServerClick string | CopyKey | CopyKeyTimeout | DismissKey

record servers_ui = form_ui +
  newKey :: "(string \<times> jsval) option"
  sv_copied :: bool

definition servers_schema :: schema where
  "servers_schema = [(''hostname'', TStr), (''ip_address'', TStr)]"

definition servers_blank :: json where
  "servers_blank = str_obj [(''hostname'', []), (''ip_address'', [])]"

definition servers_handle ::
  "servers_control form_event \<Rightarrow> servers_mut busy \<Rightarrow> servers_ui \<Rightarrow> servers_ui \<times> servers_mut act list" where
  "servers_handle e b u = (case e of
     ToggleForm \<Rightarrow> (toggle_form u, [])
   | HideForm \<Rightarrow> (hide_form u, [])
   | Input k v \<Rightarrow> (edit_form servers_schema k v u, [])
   | Submit \<Rightarrow> (u, if showForm u \<and> filled [''hostname''] (form u) \<and> \<not> b is_Register then [Mutate (Register (form u))] else [])
   | Control (DropServerClick i) \<Rightarrow> (u, [Mutate (DropServer i)])
   | Control CopyKey \<Rightarrow> (case newKey u of Some (_, Some (JStr k)) \<Rightarrow> (u\<lparr>sv_copied := True\<rparr>, [Do (Copied k)]) | _ \<Rightarrow> (u, []))
   | Control CopyKeyTimeout \<Rightarrow> (u\<lparr>sv_copied := False\<rparr>, [])
   | Control DismissKey \<Rightarrow> (u\<lparr>newKey := None\<rparr>, []))"

text \<open>The answer to a registration carries the API key, shown once; \<open>api_key\<close> is what the server
  answers. The host name shown with it is the one in the form when the answer comes.\<close>

definition reveal_key :: "jsval \<Rightarrow> servers_ui \<Rightarrow> servers_ui" where
  "reveal_key api_key u = reset_form servers_blank (u\<lparr>newKey := Some (str_field (form u) ''hostname'', api_key)\<rparr>)"

definition servers_page :: "jsval \<Rightarrow> (servers_mut, servers_ui, servers_control form_event) page" where
  "servers_page api_key = \<lparr>
     p_call = (\<lambda>m. MonitoringApi (case m of Register d \<Rightarrow> RegisterServer d | DropServer i \<Rightarrow> DeleteServer i)),
     p_queries = (\<lambda>u. [([''monitored-servers''], MonitoringApi ListServers)]),
     p_handle = servers_handle,
     p_success = (\<lambda>m u. [Invalidate [''monitored-servers''], Success (case m of
         Register _ \<Rightarrow> ''Server registered'' | DropServer _ \<Rightarrow> ''Server removed'')]),
     p_error = (\<lambda>m. case m of Register _ \<Rightarrow> [Failure ''Failed to register server''] | DropServer _ \<Rightarrow> []),
     p_after = (\<lambda>m. case m of Register _ \<Rightarrow> reveal_key api_key | DropServer _ \<Rightarrow> id),
     p_failed = (\<lambda>m u. u)\<rparr>"

definition servers_start :: servers_ui where
  "servers_start = \<lparr>showForm = False, form = servers_blank, newKey = None, sv_copied = False\<rparr>"

definition valid_server :: "servers_mut \<Rightarrow> bool" where
  "valid_server m \<longleftrightarrow> (case m of Register d \<Rightarrow> conforms servers_schema d \<and> filled [''hostname''] d | _ \<Rightarrow> True)"

lemma servers_schema_ok: "distinct (map fst servers_schema)" "conforms servers_schema servers_blank"
  by (simp_all add: servers_schema_def conforms_def servers_blank_def str_obj_def prop_obj)

interpretation servers: fresh_page "servers_page k" servers_start "\<lambda>u. conforms servers_schema (form u)" valid_server
  "[is_Register]" for k
  by unfold_locales (auto intro!: nothing_staleI simp: servers_page_def servers_handle_def servers_start_def
      valid_server_def servers_schema_ok refreshes_def reveal_key_def
      split: servers_mut.splits form_event.splits servers_control.splits option.splits json.splits if_splits)

section \<open>Live metrics (monitoring/page.tsx)\<close>

text \<open>The page opens one socket per chosen server; choosing another closes it and forgets what was
  shown. \<open>sockets\<close> are the server each was opened for and whether it was closed; a closed socket
  delivers nothing. A message that does not parse is ignored.\<close>

record 'm metrics_view =
  serverID :: string
  mv_sockets :: "(string \<times> bool) list"
  wsMetrics :: "'m option"
  mv_history :: "'m list"

definition stream_url :: "string \<Rightarrow> string \<Rightarrow> string" where
  "stream_url base server = base @ ''/api/v1/monitoring/metrics/stream'' @
     (if server \<noteq> ''local'' then ''?server_id='' @ server else [])"






text \<open>What is shown: the socket's latest measurement, the API's before the first.\<close>

definition shown_metrics :: "'m option \<Rightarrow> 'm metrics_view \<Rightarrow> 'm option" where
  "shown_metrics apiMetrics v = (case wsMetrics v of None \<Rightarrow> apiMetrics | m \<Rightarrow> m)"

definition openIncidents :: "('i \<Rightarrow> string) \<Rightarrow> 'i list \<Rightarrow> 'i list" where
  "openIncidents status_of = filter (\<lambda>i. status_of i = ''open'')"












text \<open>The bar of a metric and its colour.\<close>

datatype gauge_level = HighLevel | MediumLevel | NormalLevel

definition metric_pct :: "rat \<Rightarrow> rat \<Rightarrow> rat" where
  "metric_pct amount maximum = min (amount / maximum * 100) 100"

definition metric_level :: "rat \<Rightarrow> rat \<Rightarrow> gauge_level" where
  "metric_level amount maximum = (let pct = metric_pct amount maximum in
     if pct > 85 then HighLevel else if pct > 60 then MediumLevel else NormalLevel)"

lemma metric_pct_bounds: "0 \<le> x \<Longrightarrow> 0 < m \<Longrightarrow> metric_pct x m \<in> {0..100}"
  by (simp add: metric_pct_def)

lemma metric_level_thresholds: "0 \<le> x \<Longrightarrow> metric_level x 100 = HighLevel \<longleftrightarrow> 85 < x"
  by (auto simp: metric_level_def metric_pct_def Let_def)

section \<open>MetricsDashboard.tsx\<close>

text \<open>
  The dashboard component keeps its own connection: the effect connects to the URL of its server,
  \<open>onclose\<close> connects again after three seconds to the URL of the render that made the socket, and
  the cleanup closes the current socket. \<open>db_timers\<close> are the URLs of the pending reconnections; the
  handlers are never detached and no timer is cleared.
\<close>

record db_socket =
  db_url :: string
  db_phase :: phase

record 'm dashboard =
  db_sockets :: "db_socket list"
  db_wsRef :: "nat option"
  db_timers :: "string list"
  db_connected :: bool
  db_live :: "'m option"
  db_history :: "'m list"

definition dashboard_init :: "'m dashboard" where
  "dashboard_init = \<lparr>db_sockets = [], db_wsRef = None, db_timers = [], db_connected = False,
     db_live = None, db_history = []\<rparr>"

text \<open>\<open>base\<close> is the configured address of the WebSocket server, without trailing slashes.\<close>

definition dashboard_url :: "string option \<Rightarrow> string \<Rightarrow> string \<Rightarrow> string" where
  "dashboard_url wsURL base server =
     (case wsURL of Some u \<Rightarrow> u | None \<Rightarrow> base @ ''/api/v1/monitoring/ws/'' @ server)"

definition db_connect :: "string \<Rightarrow> 'm dashboard \<Rightarrow> 'm dashboard" where
  "db_connect u s = s\<lparr>db_sockets := db_sockets s @ [\<lparr>db_url = u, db_phase = CONNECTING\<rparr>],
     db_wsRef := Some (length (db_sockets s))\<rparr>"

definition db_set_phase :: "nat \<Rightarrow> phase \<Rightarrow> 'm dashboard \<Rightarrow> 'm dashboard" where
  "db_set_phase i p s = s\<lparr>db_sockets := (db_sockets s)[i := (db_sockets s ! i)\<lparr>db_phase := p\<rparr>]\<rparr>"

text \<open>\<open>ws.close()\<close>: the socket closes later; closing a closed one does nothing.\<close>

definition db_close :: "nat \<Rightarrow> 'm dashboard \<Rightarrow> 'm dashboard" where
  "db_close i s = (if db_phase (db_sockets s ! i) = CLOSED then s else db_set_phase i CLOSING s)"

definition db_cleanup :: "'m dashboard \<Rightarrow> 'm dashboard" where
  "db_cleanup s = (case db_wsRef s of None \<Rightarrow> s | Some i \<Rightarrow> db_close i s)"

datatype 'm db_event = DbOpened nat | DbFailed nat | DbClosed nat | DbTimer nat | DbMessage nat "'m option"
  | DbUnmount | DbRerun string

definition db_happens :: "nat \<Rightarrow> phase set \<Rightarrow> 'm dashboard \<Rightarrow> bool" where
  "db_happens i ps s \<longleftrightarrow> i < length (db_sockets s) \<and> db_phase (db_sockets s ! i) \<in> ps"

fun dashboard_step :: "'m db_event \<Rightarrow> 'm dashboard \<Rightarrow> 'm dashboard" where
  "dashboard_step (DbOpened i) s =
     (if db_happens i {CONNECTING} s then (db_set_phase i OPEN s)\<lparr>db_connected := True\<rparr> else s)"
| "dashboard_step (DbFailed i) s =
     (if db_happens i {CONNECTING, OPEN, CLOSING} s then db_close i s else s)"
| "dashboard_step (DbClosed i) s =
     (if db_happens i {CONNECTING, OPEN, CLOSING} s
      then (db_set_phase i CLOSED s)\<lparr>db_connected := False, db_timers := db_timers s @ [db_url (db_sockets s ! i)]\<rparr>
      else s)"
| "dashboard_step (DbTimer k) s =
     (if k < length (db_timers s)
      then db_connect (db_timers s ! k) (s\<lparr>db_timers := take k (db_timers s) @ drop (Suc k) (db_timers s)\<rparr>)
      else s)"
| "dashboard_step (DbMessage i m) s =
     (if db_happens i {OPEN} s then
        (case m of None \<Rightarrow> s | Some d \<Rightarrow> s\<lparr>db_live := Some d, db_history := push_metric 60 d (db_history s)\<rparr>)
      else s)"
| "dashboard_step DbUnmount s = db_cleanup s"
| "dashboard_step (DbRerun u) s = db_connect u (db_cleanup s)"

definition dashboard_mounted :: "string \<Rightarrow> 'm dashboard" where
  "dashboard_mounted u = db_connect u dashboard_init"

text \<open>The connections that live: sockets not yet closed, and reconnections to come.\<close>

definition db_alive :: "'m dashboard \<Rightarrow> nat" where
  "db_alive s = length (filter (\<lambda>k. db_phase k \<noteq> CLOSED) (db_sockets s)) + length (db_timers s)"

fun is_db_rerun :: "'m db_event \<Rightarrow> bool" where
  "is_db_rerun (DbRerun _) = True"
| "is_db_rerun _ = False"

definition db_ref_ok :: "'m dashboard \<Rightarrow> bool" where
  "db_ref_ok s \<longleftrightarrow> (\<forall>i. db_wsRef s = Some i \<longrightarrow> i < length (db_sockets s))"

lemma db_set_phase_simps [simp]:
  "length (db_sockets (db_set_phase i p s)) = length (db_sockets s)" "db_wsRef (db_set_phase i p s) = db_wsRef s"
  "db_timers (db_set_phase i p s) = db_timers s" "db_history (db_set_phase i p s) = db_history s"
  by (simp_all add: db_set_phase_def)

lemma db_alive_set_phase:
  assumes "i < length (db_sockets s)"
  shows "db_alive (db_set_phase i p s) + (if db_phase (db_sockets s ! i) = CLOSED then 0 else 1) =
    db_alive s + (if p = CLOSED then 0 else 1)"
  using filter_update_length [OF assms, of "\<lambda>k. db_phase k \<noteq> CLOSED" "(db_sockets s ! i)\<lparr>db_phase := p\<rparr>"]
  by (auto simp: db_alive_def db_set_phase_def split: if_splits)

lemma db_alive_close: "i < length (db_sockets s) \<Longrightarrow> db_alive (db_close i s) = db_alive s"
  using db_alive_set_phase [of i s CLOSING] by (auto simp: db_close_def split: if_splits)

lemma db_alive_cleanup: "db_ref_ok s \<Longrightarrow> db_alive (db_cleanup s) = db_alive s"
  by (simp add: db_cleanup_def db_ref_ok_def db_alive_close split: option.splits)

lemma db_alive_connect: "db_alive (db_connect u s) = Suc (db_alive s)"
  by (simp add: db_alive_def db_connect_def)

lemma db_ref_ok_simps [simp]:
  "db_ref_ok (db_connect u s)" "db_ref_ok (db_set_phase i p s) = db_ref_ok s"
  "db_ref_ok (db_close i s) = db_ref_ok s" "db_ref_ok (db_cleanup s) = db_ref_ok s"
  by (auto simp: db_ref_ok_def db_connect_def db_close_def db_cleanup_def split: option.splits)

lemma db_ref_ok_step: "db_ref_ok s \<Longrightarrow> db_ref_ok (dashboard_step e s)"
proof (cases e)
  case (DbMessage i m)
  assume "db_ref_ok s"
  with DbMessage show ?thesis by (simp add: db_ref_ok_def split: option.splits)
qed (auto simp: db_ref_ok_def db_connect_def db_close_def db_cleanup_def split: option.splits)

lemma db_alive_step:
  assumes "db_ref_ok s"
  shows "db_alive (dashboard_step e s) = db_alive s + (if is_db_rerun e then 1 else 0)"
proof (cases e)
  case (DbOpened i)
  then show ?thesis using db_alive_set_phase [of i s OPEN] by (auto simp: db_happens_def db_alive_def)
next
  case (DbFailed i)
  then show ?thesis by (simp add: db_happens_def db_alive_close)
next
  case (DbClosed i)
  then show ?thesis using db_alive_set_phase [of i s CLOSED] by (auto simp: db_happens_def db_alive_def)
next
  case (DbTimer k)
  then show ?thesis by (auto simp: db_alive_def db_connect_def)
next
  case (DbMessage i m)
  then show ?thesis by (simp add: db_alive_def split: option.splits)
next
  case DbUnmount
  then show ?thesis using assms by (simp add: db_alive_cleanup)
next
  case (DbRerun u)
  then show ?thesis using assms by (simp add: db_alive_connect db_alive_cleanup)
qed

lemma db_alive_run:
  "db_ref_ok s \<Longrightarrow> db_alive (fold dashboard_step es s) = db_alive s + length (filter is_db_rerun es)"
  by (induction es arbitrary: s) (simp_all add: db_alive_step db_ref_ok_step)

lemma db_alive_init [simp]: "db_alive dashboard_init = 0"
  by (simp add: db_alive_def dashboard_init_def)

text \<open>Property C37: Whatever happens, leaving the page included, the number of connections that live is exactly
  the number of times the effect ran: none of them is ever given up, and every server that was
  ever shown keeps its own.\<close>

theorem dashboard_connections_never_end:
  "db_alive (fold dashboard_step es (dashboard_mounted u)) = Suc (length (filter is_db_rerun es))"
  by (simp add: db_alive_run dashboard_mounted_def db_alive_connect)

lemma dashboard_history_bounded:
  "length (db_history s) \<le> 60 \<Longrightarrow> length (db_history (dashboard_step e s)) \<le> 60"
  using metrics.push_length [of "db_history s" 58]
  by (cases e) (auto simp: db_connect_def db_close_def db_cleanup_def split: option.splits)

section \<open>Retries (query-provider.tsx)\<close>

text \<open>The retry rule of every query: \<open>code\<close> is the \<open>status\<close> of the error object, if it has one. A query
  that fails calls it with the number of failures before this one.\<close>

definition query_retry :: "nat \<Rightarrow> nat option \<Rightarrow> bool" where
  "query_retry failureCount code =
     (if code = Some 401 \<or> code = Some 403 then False else failureCount < 2)"

text \<open>The attempts of one query against the answers it meets: \<open>None\<close> is success, \<open>Some\<close> a failure with
  its status.\<close>

fun query_attempts :: "nat \<Rightarrow> nat option option list \<Rightarrow> nat option option list" where
  "query_attempts n [] = []"
| "query_attempts n (None # as) = [None]"
| "query_attempts n (Some st # as) = Some st # (if query_retry n st then query_attempts (Suc n) as else [])"

lemma attempts_bound: "length (query_attempts n as) \<le> Suc (2 - n)"
  by (induction n as rule: query_attempts.induct) (auto simp: query_retry_def split: if_splits)

lemma attempts_prefix: "\<exists>rest. as = query_attempts n as @ rest"
  by (induction n as rule: query_attempts.induct) auto

text \<open>A query is attempted at most three times, and a refused one is not attempted again.\<close>

theorem query_retries_bounded:
  "length (query_attempts 0 as) \<le> 3 \<and>
   query_attempts 0 (Some (Some 401) # as) = [Some (Some 401)] \<and>
   query_attempts 0 (Some (Some 403) # as) = [Some (Some 403)] \<and>
   query_attempts 0 (replicate 3 (Some st) @ as) = (if st \<in> {Some 401, Some 403} then [Some st] else replicate 3 (Some st))"
  using attempts_bound [of 0 as] by (simp add: query_retry_def numeral_3_eq_3)

section \<open>Bandwidth and disk usage (bandwidth/page.tsx, disk/page.tsx)\<close>

definition PERIODS :: "string list" where
  "PERIODS = [''1h'', ''24h'', ''7d'', ''30d'']"

record usage_ui =
  u_domain :: string
  u_input :: string
  u_period :: string

definition usage_start :: usage_ui where
  "usage_start = \<lparr>u_domain = ''example.com'', u_input = ''example.com'', u_period = ''24h''\<rparr>"

datatype usage_event = TypeUsageDomain string | LoadUsage | ChoosePeriod nat

fun usage_step :: "usage_event \<Rightarrow> usage_ui \<Rightarrow> usage_ui" where
  "usage_step (TypeUsageDomain v) u = u\<lparr>u_input := v\<rparr>"
| "usage_step LoadUsage u = u\<lparr>u_domain := u_input u\<rparr>"
| "usage_step (ChoosePeriod i) u = (if i < length PERIODS then u\<lparr>u_period := PERIODS ! i\<rparr> else u)"

text \<open>The query of each page, enabled while there is a domain.\<close>

definition bandwidth_query :: "usage_ui \<Rightarrow> (string list \<times> bandwidth_call) option" where
  "bandwidth_query u = (if u_domain u = [] then None
     else Some ([''bandwidth'', u_domain u, u_period u], GetDomainBandwidth (u_domain u) (Some (u_period u))))"

definition disk_query :: "usage_ui \<Rightarrow> (string list \<times> bandwidth_call) option" where
  "disk_query u = (if u_domain u = [] then None
     else Some ([''disk-usage'', u_domain u], GetDomainDiskUsage (u_domain u)))"

text \<open>The share of an entry, as \<open>Math.round\<close> gives it, and the rows shown when the page opens: the
  entries of the first two levels are open.\<close>

definition disk_pct :: "nat \<Rightarrow> nat \<Rightarrow> int" where
  "disk_pct bytes whole = (if whole > 0 then \<lfloor>of_nat bytes / of_nat whole * 100 + 1 / 2 :: rat\<rfloor> else 0)"

datatype tree_node = TreeNode (node_path: string) (node_bytes: nat) (node_children: "tree_node list")

fun initial_rows :: "nat \<Rightarrow> tree_node \<Rightarrow> (nat \<times> string) list" where
  "initial_rows depth (TreeNode p b cs) =
     (depth, p) # (if depth < 2 then concat (map (initial_rows (Suc depth)) cs) else [])"

lemma disk_pct_bounds: "bytes \<le> whole \<Longrightarrow> disk_pct bytes whole \<in> {0..100}"
proof (cases "whole > 0")
  case True
  assume "bytes \<le> whole"
  then have "(of_nat bytes :: rat) / of_nat whole \<le> 1" using True by (simp add: divide_le_eq)
  then have "(of_nat bytes :: rat) / of_nat whole * 100 + 1 / 2 < 101" by simp
  moreover have "(0 :: rat) \<le> of_nat bytes / of_nat whole * 100 + 1 / 2" by simp
  ultimately show ?thesis using True by (simp add: disk_pct_def floor_le_iff)
qed (simp add: disk_pct_def)

lemma initial_rows_depth: "row \<in> set (initial_rows depth t) \<Longrightarrow> depth \<le> fst row \<and> fst row \<le> max depth 2"
proof (induction depth t rule: initial_rows.induct)
  case (1 depth p b cs)
  then show ?case by (fastforce split: if_splits)
qed

end
