(* ===== verification/SettingsPages.thy ===== *)
theory SettingsPages
  imports "HOL-Library.Word" Panel AuthPages
begin

text \<open>
  The pages under app/(panel)/settings: account security, notification preferences, API tokens, the
  profile and passkeys, whose binary fields travel as base64url texts.
\<close>

section \<open>Account security (settings/security/page.tsx)\<close>

record session_row =
  se_id :: string
  is_current :: bool

datatype password_field = CurrentPassword | NewPassword | ConfirmPassword

record security_ui =
  mfaEnabled :: bool
  showMfaSetup :: bool
  su_mfaCode :: string
  sessions :: "session_row list"
  showPasswordForm :: bool
  passwords :: "password_field \<Rightarrow> string"
  passwordSaved :: bool
  su_requests :: "auth_call list"

text \<open>The effect of the first render asks for the sessions.\<close>

definition security_start :: security_ui where
  "security_start = \<lparr>mfaEnabled = False, showMfaSetup = False, su_mfaCode = [], sessions = [],
     showPasswordForm = False, passwords = (\<lambda>_. []), passwordSaved = False, su_requests = [ListSessions]\<rparr>"

definition handleEnableMfa :: "security_ui \<Rightarrow> security_ui" where
  "handleEnableMfa s = (if length (su_mfaCode s) = 6
     then s\<lparr>mfaEnabled := True, showMfaSetup := False, su_mfaCode := []\<rparr> else s)"

definition handleChangePassword :: "security_ui \<Rightarrow> security_ui" where
  "handleChangePassword s =
     (if passwords s NewPassword \<noteq> [] \<and> passwords s NewPassword = passwords s ConfirmPassword
      then s\<lparr>passwordSaved := True, showPasswordForm := False, passwords := (\<lambda>_. [])\<rparr> else s)"

definition typeMfa :: "string \<Rightarrow> security_ui \<Rightarrow> security_ui" where
  "typeMfa v s = s\<lparr>su_mfaCode := slice (filter is_digit v) 0 6\<rparr>"

text \<open>The answers of the server come later; a failed revocation changes nothing.\<close>

definition revoked :: "string \<Rightarrow> security_ui \<Rightarrow> security_ui" where
  "revoked i s = s\<lparr>sessions := filter (\<lambda>x. se_id x \<noteq> i) (sessions s)\<rparr>"

definition revokedAll :: "security_ui \<Rightarrow> security_ui" where
  "revokedAll s = s\<lparr>sessions := filter is_current (sessions s)\<rparr>"

datatype security_event =
    SessionsLoaded "session_row list"
  | TogglePasswordForm
  | TypePassword password_field string
  | ChangePassword
  | SavedTimeout
  | OpenMfa
  | CloseMfa
  | TypeMfa string
  | EnableMfa
  | RevokeClick nat
  | RevokeAnswer string bool
  | RevokeAllClick
  | RevokeAllAnswer bool

text \<open>The row of the current session has no button; the inputs of a form exist while it is open.\<close>

fun security_step :: "security_event \<Rightarrow> security_ui \<Rightarrow> security_ui" where
  "security_step (SessionsLoaded xs) s = s\<lparr>sessions := xs\<rparr>"
| "security_step TogglePasswordForm s = s\<lparr>showPasswordForm := \<not> showPasswordForm s\<rparr>"
| "security_step (TypePassword k v) s = (if showPasswordForm s then s\<lparr>passwords := (passwords s)(k := v)\<rparr> else s)"
| "security_step ChangePassword s = (if showPasswordForm s then handleChangePassword s else s)"
| "security_step SavedTimeout s = s\<lparr>passwordSaved := False\<rparr>"
| "security_step OpenMfa s = (if mfaEnabled s then s else s\<lparr>showMfaSetup := True\<rparr>)"
| "security_step CloseMfa s = s\<lparr>showMfaSetup := False\<rparr>"
| "security_step (TypeMfa v) s = (if showMfaSetup s then typeMfa v s else s)"
| "security_step EnableMfa s = (if showMfaSetup s then handleEnableMfa s else s)"
| "security_step (RevokeClick i) s =
     (if i < length (sessions s) \<and> \<not> is_current (sessions s ! i)
      then s\<lparr>su_requests := su_requests s @ [RevokeSession (se_id (sessions s ! i))]\<rparr> else s)"
| "security_step (RevokeAnswer i ok) s = (if ok then revoked i s else s)"
| "security_step RevokeAllClick s = s\<lparr>su_requests := su_requests s @ [RevokeAllSessions]\<rparr>"
| "security_step (RevokeAllAnswer ok) s = (if ok then revokedAll s else s)"

fun session_call :: "auth_call \<Rightarrow> bool" where
  "session_call ListSessions = True"
| "session_call (RevokeSession _) = True"
| "session_call RevokeAllSessions = True"
| "session_call _ = False"

definition security_inv :: "security_ui \<Rightarrow> bool" where
  "security_inv s \<longleftrightarrow> list_all session_call (su_requests s) \<and> length (su_mfaCode s) \<le> 6 \<and> list_all is_digit (su_mfaCode s)"

lemma digits_taken: "list_all is_digit (take n (filter is_digit v))"
  by (auto simp: list_all_iff dest: in_set_takeD)

interpretation account_security: component security_step security_inv
proof
  show "security_inv (security_step e s)" if "security_inv s" for e s
    using that by (cases e) (auto simp: security_inv_def handleEnableMfa_def handleChangePassword_def typeMfa_def
        revoked_def revokedAll_def digits_taken)
qed

text \<open>Whatever is typed and pressed on the page, it asks for nothing but the list of sessions and their
  revocation; yet it shows two-factor authentication as enabled after any six digits, and the
  password as changed.\<close>

theorem security_page_never_saves:
  "list_all session_call (su_requests (fold security_step es security_start)) \<and>
   (let s = fold security_step
      [OpenMfa, TypeMfa ''000000'', EnableMfa, TogglePasswordForm, TypePassword NewPassword ''pw'',
       TypePassword ConfirmPassword ''pw'', ChangePassword] security_start
    in mfaEnabled s \<and> passwordSaved s \<and> su_requests s = [ListSessions])"
proof
  have "security_inv security_start" by (simp add: security_inv_def security_start_def)
  from account_security.run_inv [OF this, of es]
  show "list_all session_call (su_requests (fold security_step es security_start))"
    by (simp add: security_inv_def)
qed (simp add: security_start_def typeMfa_def handleEnableMfa_def handleChangePassword_def is_digit_def code_unit_def)

text \<open>Revoking all the others leaves exactly the current session in the list, and revoking one
  leaves the others.\<close>

lemma revoked_all_current: "set (sessions (revokedAll s)) = {x \<in> set (sessions s). is_current x}"
  by (simp add: revokedAll_def)

section \<open>Notification preferences (settings/notifications/page.tsx)\<close>

datatype channel = EmailChannel | SlackChannel | TelegramChannel | DiscordChannel | WebhookChannel

type_synonym notif_events = "(string \<times> (channel \<Rightarrow> bool)) list"

definition channels :: "channel list \<Rightarrow> channel \<Rightarrow> bool" where
  "channels cs c \<longleftrightarrow> c \<in> set cs"

definition DEFAULT_EVENTS :: notif_events where
  "DEFAULT_EVENTS =
     [(''server_down'', channels [EmailChannel, SlackChannel, WebhookChannel]),
      (''cpu_high'', channels [EmailChannel]),
      (''disk_full'', channels [EmailChannel, SlackChannel, TelegramChannel]),
      (''ssl_expiry'', channels [EmailChannel]),
      (''backup_failed'', channels [EmailChannel, SlackChannel, WebhookChannel]),
      (''login_failed'', channels [EmailChannel]),
      (''domain_added'', channels []),
      (''invoice_paid'', channels [EmailChannel])]"

record preferences =
  pf_events :: notif_events
  pf_saved :: bool
  slackUrl :: string
  telegramChatId :: string
  discordUrl :: string
  webhookUrl :: string
  webhookSecret :: string
  pf_requests :: "json list"

definition preferences_start :: preferences where
  "preferences_start = \<lparr>pf_events = DEFAULT_EVENTS, pf_saved = False, slackUrl = [], telegramChatId = [],
     discordUrl = [], webhookUrl = [], webhookSecret = [], pf_requests = []\<rparr>"

definition toggle :: "string \<Rightarrow> channel \<Rightarrow> preferences \<Rightarrow> preferences" where
  "toggle eventId c p = p\<lparr>pf_events := map (\<lambda>(i, cs). if i = eventId then (i, cs(c := \<not> cs c)) else (i, cs)) (pf_events p)\<rparr>"

definition save_body :: "preferences \<Rightarrow> json" where
  "save_body p = obj
     [(''email_enabled'', Some (JBool (list_ex (\<lambda>(_, cs). cs EmailChannel) (pf_events p)))),
      (''slack_enabled'', Some (JBool (slackUrl p \<noteq> []))), (''slack_webhook'', Some (JStr (slackUrl p))),
      (''telegram_chat_id'', Some (JStr (telegramChatId p))),
      (''discord_enabled'', Some (JBool (discordUrl p \<noteq> []))), (''discord_webhook'', Some (JStr (discordUrl p))),
      (''webhook_enabled'', Some (JBool (webhookUrl p \<noteq> []))), (''webhook_url'', Some (JStr (webhookUrl p))),
      (''webhook_secret'', Some (JStr (webhookSecret p))),
      (''alerts_enabled'', Some (JBool True)), (''backups_enabled'', Some (JBool True)),
      (''security_enabled'', Some (JBool True)), (''billing_enabled'', Some (JBool True))]"

text \<open>Both branches of the \<open>try\<close> report success.\<close>

definition handleSave :: "bool \<Rightarrow> preferences \<Rightarrow> preferences" where
  "handleSave ok p = (let p = p\<lparr>pf_requests := pf_requests p @ [save_body p]\<rparr> in
     if ok then p\<lparr>pf_saved := True\<rparr> else p\<lparr>pf_saved := True\<rparr>)"

text \<open>The stored preferences replace a field when they have one that is not empty.\<close>

definition loaded_field :: "json \<Rightarrow> string \<Rightarrow> string \<Rightarrow> string" where
  "loaded_field d k old = (case own_prop d k of Some (JStr v) \<Rightarrow> if v = [] then old else v | _ \<Rightarrow> old)"

definition preferences_loaded :: "json \<Rightarrow> preferences \<Rightarrow> preferences" where
  "preferences_loaded d p = p\<lparr>
     slackUrl := loaded_field d ''slack_webhook'' (slackUrl p),
     telegramChatId := loaded_field d ''telegram_chat_id'' (telegramChatId p),
     discordUrl := loaded_field d ''discord_webhook'' (discordUrl p),
     webhookUrl := loaded_field d ''webhook_url'' (webhookUrl p),
     webhookSecret := loaded_field d ''webhook_secret'' (webhookSecret p)\<rparr>"

lemma toggle_toggle: "toggle i c (toggle i c p) = p"
proof -
  have "map ((\<lambda>(j, cs). if j = i then (j, cs(c := \<not> cs c)) else (j, cs)) \<circ>
      (\<lambda>(j, cs). if j = i then (j, cs(c := \<not> cs c)) else (j, cs))) evs = evs" for evs :: notif_events
    by (rule map_idI) auto
  then show ?thesis by (simp add: toggle_def)
qed

text \<open>What is saved has of the table of events only whether any of them goes by e-mail: switching any
  other channel of any event changes nothing that is sent. A failed save is shown as saved.\<close>

theorem preferences_ignore_channels:
  "(c = EmailChannel \<or> save_body (toggle i c p) = save_body p) \<and>
   pf_saved (handleSave False p) \<and> handleSave False p = handleSave True p"
proof -
  have "list_ex (\<lambda>(_, cs). cs EmailChannel) (map (\<lambda>(j, cs). if j = i then (j, cs(c := \<not> cs c)) else (j, cs)) evs) =
      list_ex (\<lambda>(_, cs). cs EmailChannel) evs" if "c \<noteq> EmailChannel" for evs :: notif_events
    using that by (induction evs) (auto split: if_splits)
  then have "c = EmailChannel \<or> list_ex (\<lambda>(_, cs). cs EmailChannel) (pf_events (toggle i c p)) =
      list_ex (\<lambda>(_, cs). cs EmailChannel) (pf_events p)"
    by (auto simp: toggle_def)
  then show ?thesis by (auto simp: save_body_def toggle_def handleSave_def Let_def)
qed

text \<open>Saving what was loaded sends the five stored texts back, when none was empty.\<close>

lemma loaded_then_saved:
  assumes "own_prop d ''slack_webhook'' = Some (JStr (x # xs))"
  shows "own_prop (save_body (preferences_loaded d p)) ''slack_webhook'' = Some (JStr (x # xs)) \<and>
    own_prop (save_body (preferences_loaded d p)) ''slack_enabled'' = Some (JBool True)"
  using assms by (simp add: save_body_def preferences_loaded_def loaded_field_def prop_obj)

section \<open>API tokens (settings/api-tokens/page.tsx)\<close>

record api_token =
  tk_id :: string
  tk_name :: string
  tk_token :: string
  tk_permissions :: "string list"

record tokens_ui =
  tk_tokens :: "api_token list"
  tk_showCreate :: bool
  newToken :: "string option"
  tk_newName :: string
  selectedPerms :: "string list"
  visibleTokens :: "string set"

definition padEnd :: "string \<Rightarrow> nat \<Rightarrow> char \<Rightarrow> string" where
  "padEnd s n c = s @ replicate (n - length s) c"

text \<open>\<open>random\<close> is the text of a random number after its first two characters, \<open>now\<close> that of the time.\<close>

definition new_token :: "string \<Rightarrow> string" where
  "new_token random = ''xp_live_'' @ padEnd random 32 (CHR ''0'')"

definition handleCreate :: "string \<Rightarrow> string \<Rightarrow> tokens_ui \<Rightarrow> tokens_ui" where
  "handleCreate now random t = (if tk_newName t = [] then t
     else t\<lparr>tk_tokens := \<lparr>tk_id = now, tk_name = tk_newName t, tk_token = new_token random,
          tk_permissions = selectedPerms t\<rparr> # tk_tokens t,
        newToken := Some (new_token random), tk_showCreate := False, tk_newName := [], selectedPerms := []\<rparr>)"

definition deleteToken :: "string \<Rightarrow> tokens_ui \<Rightarrow> tokens_ui" where
  "deleteToken i t = t\<lparr>tk_tokens := filter (\<lambda>x. tk_id x \<noteq> i) (tk_tokens t)\<rparr>"

definition toggleVisibility :: "string \<Rightarrow> tokens_ui \<Rightarrow> tokens_ui" where
  "toggleVisibility i t = t\<lparr>visibleTokens := (if i \<in> visibleTokens t then visibleTokens t - {i} else insert i (visibleTokens t))\<rparr>"

definition choosePerm :: "string \<Rightarrow> bool \<Rightarrow> tokens_ui \<Rightarrow> tokens_ui" where
  "choosePerm perm checked t = t\<lparr>selectedPerms :=
     (if checked then selectedPerms t @ [perm] else filter (\<lambda>x. x \<noteq> perm) (selectedPerms t))\<rparr>"

text \<open>The masked token: its first ten and last four characters around twenty bullets, whose number
  stands for them here.\<close>

definition maskToken :: "string \<Rightarrow> string \<times> nat \<times> string" where
  "maskToken t = (slice t 0 10, 20, slice_from t (- 4))"

definition shown_token :: "tokens_ui \<Rightarrow> api_token \<Rightarrow> string + string \<times> nat \<times> string" where
  "shown_token t k = (if tk_id k \<in> visibleTokens t then Inl (tk_token k) else Inr (maskToken (tk_token k)))"

text \<open>A masked token tells six characters of its random part, wherever they come from: two of them
  at the start and four at the end.\<close>

lemma mask_depends:
  assumes "32 \<le> length r" and "length r = length r'" and "take 2 r = take 2 r'" and "drop (length r - 4) r = drop (length r' - 4) r'"
  shows "maskToken (new_token r) = maskToken (new_token r')"
proof -
  have s: "slice_from (new_token q) (- 4) = drop (length q - 4) q" if "32 \<le> length q" for q
  proof -
    have "new_token q = ''xp_live_'' @ q" using that by (simp add: new_token_def padEnd_def)
    moreover have "slice_from (''xp_live_'' @ q) (- 4) = drop (length (''xp_live_'' @ q) - 4) (''xp_live_'' @ q)"
      using slice_from_neg [of 4 "''xp_live_'' @ q"] by simp
    moreover have "length (''xp_live_'' @ q) - 4 = 8 + (length q - 4)" using that by simp
    ultimately show ?thesis by (simp only: drop_append) simp
  qed
  have p: "slice (new_token q) 0 10 = ''xp_live_'' @ take 2 q" if "32 \<le> length q" for q
    using that by (simp add: new_token_def padEnd_def)
  show ?thesis using assms s [of r] s [of r'] p [of r] p [of r'] by (simp add: maskToken_def)
qed

lemma new_token_length: "40 \<le> length (new_token r)"
  by (simp add: new_token_def padEnd_def)

section \<open>Profile (settings/profile/page.tsx)\<close>

definition TIMEZONES :: "string list" where
  "TIMEZONES = [''UTC'', ''America/New_York'', ''America/Los_Angeles'', ''America/Chicago'', ''Europe/London'',
     ''Europe/Berlin'', ''Europe/Paris'', ''Asia/Tokyo'', ''Asia/Shanghai'', ''Australia/Sydney'']"

definition LANGUAGES :: "string list" where
  "LANGUAGES = [''en'', ''de'', ''fr'', ''es'', ''ja'']"

definition profile_schema :: schema where
  "profile_schema = [(''first_name'', TStr), (''last_name'', TStr), (''email'', TStr), (''username'', TStr),
     (''timezone'', TStr), (''language'', TStr)]"

definition profile_defaults :: json where
  "profile_defaults = str_obj [(''first_name'', ''Admin''), (''last_name'', ''User''), (''email'', ''admin@example.com''),
     (''username'', ''admin''), (''timezone'', ''UTC''), (''language'', ''en'')]"

definition profile_errors :: "(string \<Rightarrow> bool) \<Rightarrow> json \<Rightarrow> string list" where
  "profile_errors email_ok d =
    (if str_field d ''first_name'' = [] then [''first_name''] else []) @
    (if str_field d ''last_name'' = [] then [''last_name''] else []) @
    (if email_ok (str_field d ''email'') then [] else [''email'']) @
    (if length (str_field d ''username'') < 3 then [''username''] else [])"

text \<open>A valid form is written to the console, and reported as saved.\<close>

definition profile_submit :: "(string \<Rightarrow> bool) \<Rightarrow> json \<Rightarrow> bool \<times> string list" where
  "profile_submit email_ok d = (let errors = profile_errors email_ok d in (errors = [], errors))"

section \<open>Passkeys (settings/passkeys/page.tsx)\<close>

text \<open>A buffer is a list of bytes. \<open>btoa\<close> pads its result; the helper takes the padding off.\<close>

type_synonym buffer = "8 word list"

definition btoa :: "string \<Rightarrow> string" where
  "btoa s = (let t = b64_encode s in t @ replicate ((4 - length t mod 4) mod 4) (CHR ''=''))"

definition replaceAll :: "char \<Rightarrow> char \<Rightarrow> string \<Rightarrow> string" where
  "replaceAll a b s = map (\<lambda>c. if c = a then b else c) s"

definition base64UrlToBuffer :: "string \<Rightarrow> buffer res" where
  "base64UrlToBuffer s =
    (case atob (replaceAll (CHR ''_'') (CHR ''/'') (replaceAll (CHR ''-'') (CHR ''+'') s)) of
       Inl e \<Rightarrow> Inl e
     | Inr bin \<Rightarrow> Inr (map (\<lambda>c. word_of_nat (code_unit c)) bin))"

definition bufferToBase64Url :: "buffer \<Rightarrow> string" where
  "bufferToBase64Url bytes = filter (\<lambda>c. c \<noteq> CHR ''='')
     (replaceAll (CHR ''/'') (CHR ''_'') (replaceAll (CHR ''+'') (CHR ''-'')
       (btoa (map (\<lambda>b. char_of (unat b)) bytes))))"

definition url_safe :: "char \<Rightarrow> bool" where
  "url_safe c \<longleftrightarrow> is_upper c \<or> is_lower c \<or> is_digit c \<or> c = CHR ''-'' \<or> c = CHR ''_''"

lemma b64_char_not_url: "n < 64 \<Longrightarrow> b64_char n \<notin> {CHR ''-'', CHR ''_'', CHR ''=''}"
proof -
  assume n: "n < 64"
  then have "code_unit (b64_char n) \<notin> {45, 95, 61}" by (auto simp: code_unit_b64_char split: if_splits)
  then show ?thesis by (auto simp: code_unit_def)
qed

lemma encode_sextet: "c \<in> set (b64_encode s) \<Longrightarrow> \<exists>n < 64. c = b64_char n"
  using sextets_bound [of "map code_unit s"] by (fastforce simp: b64_encode_def code_unit_less)

lemma encode_not_url: "c \<in> set (b64_encode s) \<Longrightarrow> c \<notin> {CHR ''-'', CHR ''_'', CHR ''=''}"
proof -
  assume "c \<in> set (b64_encode s)"
  then obtain n where "n < 64" "c = b64_char n" using encode_sextet by metis
  then show ?thesis using b64_char_not_url [of n] by simp
qed

definition url_char :: "char \<Rightarrow> char" where
  "url_char c = (if c = CHR ''+'' then CHR ''-'' else if c = CHR ''/'' then CHR ''_'' else c)"

lemma url_text:
  "bufferToBase64Url bytes = map url_char
     (b64_encode (map (\<lambda>b. char_of (unat b)) bytes))"
proof -
  have "filter (\<lambda>c. c \<noteq> CHR ''='') (replaceAll a b (replaceAll a' b' (t @ replicate n (CHR ''='')))) =
      map (\<lambda>c. if c = a' then b' else if c = a then b else c) t"
    if "CHR ''='' \<notin> set t" "CHR ''='' \<notin> {a, b, a', b'}" "b' \<noteq> a" for t n a b a' b'
    using that by (induction t) (auto simp: replaceAll_def filter_empty_conv)
  moreover have "CHR ''='' \<notin> set (b64_encode s)" for s using encode_not_url [of "CHR ''=''" s] by auto
  ultimately show ?thesis by (simp add: bufferToBase64Url_def btoa_def Let_def url_char_def [abs_def])
qed

lemma safe_code_unit:
  "code_unit c \<in> {65..90} \<or> code_unit c \<in> {97..122} \<or> code_unit c \<in> {48..57} \<Longrightarrow> url_safe c"
  by (auto simp: url_safe_def is_upper_def is_lower_def is_digit_def Let_def)

lemma b64_char_safe:
  assumes "n < 64"
  shows "url_safe (url_char (b64_char n))"
proof -
  consider "n < 26" | "26 \<le> n" "n < 52" | "52 \<le> n" "n < 62" | "n = 62" | "n = 63" using assms by linarith
  then show ?thesis
  proof cases
    case 4
    then show ?thesis by (simp add: b64_char_def url_char_def url_safe_def)
  next
    case 5
    then show ?thesis by (simp add: b64_char_def url_char_def url_safe_def)
  next
    case 3
    then have "48 \<le> n - 4" "n - 4 \<le> 57" by linarith+
    with 3 have c: "code_unit (b64_char n) \<in> {48..57}" using code_unit_b64_char [OF assms] by simp
    then have "url_char (b64_char n) = b64_char n" by (auto simp: url_char_def code_unit_plus code_unit_slash)
    with c show ?thesis using safe_code_unit [of "b64_char n"] by simp
  next
    case 2
    then have c: "code_unit (b64_char n) \<in> {97..122}" using code_unit_b64_char [OF assms] by simp
    then have "url_char (b64_char n) = b64_char n" by (auto simp: url_char_def code_unit_plus code_unit_slash)
    with c show ?thesis using safe_code_unit [of "b64_char n"] by simp
  next
    case 1
    then have c: "code_unit (b64_char n) \<in> {65..90}" using code_unit_b64_char [OF assms] by simp
    then have "url_char (b64_char n) = b64_char n" by (auto simp: url_char_def code_unit_plus code_unit_slash)
    with c show ?thesis using safe_code_unit [of "b64_char n"] by simp
  qed
qed

lemma unat_byte: "unat (b :: 8 word) < 256"
  using unsigned_less [of b, where 'a = nat] by simp

lemma passkey_buffer_decodes: "base64UrlToBuffer (bufferToBase64Url bytes) = Inr bytes"
proof -
  let ?s = "map (\<lambda>b. char_of (unat b)) bytes"
  have "replaceAll (CHR ''_'') (CHR ''/'') (replaceAll (CHR ''-'') (CHR ''+'') (bufferToBase64Url bytes)) = b64_encode ?s"
    unfolding url_text replaceAll_def map_map by (rule map_idI) (use encode_not_url in \<open>fastforce simp: url_char_def\<close>)
  moreover have "map (\<lambda>c. word_of_nat (code_unit c)) ?s = bytes"
    by (intro nth_equalityI) (simp_all add: code_unit_char_of unat_byte)
  ultimately show "base64UrlToBuffer (bufferToBase64Url bytes) = Inr bytes"
    by (simp add: base64UrlToBuffer_def atob_encode)
qed

lemma passkey_text_safe: "list_all url_safe (bufferToBase64Url bytes)"
proof -
  let ?s = "map (\<lambda>b. char_of (unat b)) bytes"
  have "url_safe (url_char c)" if "c \<in> set (b64_encode ?s)" for c
    using encode_sextet [OF that] b64_char_safe by auto
  then show "list_all url_safe (bufferToBase64Url bytes)"
    by (auto simp: url_text list_all_iff)
qed

text \<open>Property C28: The text of a buffer is one path segment of unreserved characters, and the decoder of the page
  gives the same bytes back, for every buffer: the challenge and the credential survive the way
  between the browser's binary form and the server's text.\<close>

theorem passkey_buffer_roundtrip:
  "base64UrlToBuffer (bufferToBase64Url bytes) = Inr bytes \<and> list_all url_safe (bufferToBase64Url bytes)"
  by (simp add: passkey_buffer_decodes passkey_text_safe)

text \<open>The page: its list with the delete buttons.\<close>

datatype passkeys_mut = RemovePasskey string

definition passkeys_page :: "(passkeys_mut, unit, string) page" where
  "passkeys_page = \<lparr>
     p_call = (\<lambda>m. PasskeyApi (case m of RemovePasskey i \<Rightarrow> DeletePasskey i)),
     p_queries = (\<lambda>u. [([''passkeys''], PasskeyApi ListPasskeys)]),
     p_handle = (\<lambda>i b u. (u, [Mutate (RemovePasskey i)])),
     p_success = (\<lambda>m u. [Invalidate [''passkeys''], Success ''Passkey removed'']),
     p_error = (\<lambda>m. [Failure ''Failed to remove passkey'']),
     p_after = (\<lambda>m u. u),
     p_failed = (\<lambda>m u. u)\<rparr>"

interpretation passkeys: fresh_page passkeys_page "()" "\<lambda>_. True" "\<lambda>_. True" "[]"
  by unfold_locales (auto intro!: nothing_staleI simp: passkeys_page_def refreshes_def)























end
