(* ===== verification/AdminPages.thy ===== *)
theory AdminPages
  imports Panel Dns "HOL-Library.Multiset"
begin

text \<open>
  The administration pages: app/(panel)/admin/users, the reseller's pages (reseller/page.tsx,
  reseller/users, reseller/packages), the marketplace, and the DNS zones (dns/page.tsx,
  dns/[zoneId]/page.tsx, dns/propagation).
\<close>

section \<open>Users (admin/users/page.tsx)\<close>

datatype user_status = ActiveUser | SuspendedUser | PendingUser | LockedUser

record admin_user =
  au_id :: string
  au_name :: string
  au_email :: string
  au_role :: string
  au_status :: user_status
  au_organization :: string

record admin_users =
  au_users :: "admin_user list"
  au_search :: string
  roleFilter :: "string option"
  statusFilter :: "user_status option"
  openMenu :: "string option"
  showInvite :: bool

text \<open>The filters are \<open>None\<close> for \<open>all\<close>.\<close>

definition user_shown :: "admin_users \<Rightarrow> admin_user \<Rightarrow> bool" where
  "user_shown s u \<longleftrightarrow>
     (str_includes (toLowerCase (au_name u)) (toLowerCase (au_search s)) \<or>
      str_includes (toLowerCase (au_email u)) (toLowerCase (au_search s)) \<or>
      str_includes (toLowerCase (au_organization u)) (toLowerCase (au_search s))) \<and>
     (case roleFilter s of None \<Rightarrow> True | Some r \<Rightarrow> au_role u = r) \<and>
     (case statusFilter s of None \<Rightarrow> True | Some st \<Rightarrow> au_status u = st)"

definition shown_users :: "admin_users \<Rightarrow> admin_user list" where
  "shown_users s = filter (user_shown s) (au_users s)"

definition toggleStatus :: "string \<Rightarrow> user_status \<Rightarrow> admin_users \<Rightarrow> admin_users" where
  "toggleStatus i st s = s\<lparr>au_users := map (\<lambda>u. if au_id u = i then u\<lparr>au_status := st\<rparr> else u) (au_users s), openMenu := None\<rparr>"

datatype admin_event = SearchUsers string | FilterRole "string option" | FilterStatus "user_status option"
  | OpenUserMenu string | CloseUserMenu | StatusClick nat | ShowInvite | CloseInvite

text \<open>The menu of a row suspends an active user and activates any other; both buttons of the invitation
  only close it.\<close>

fun admin_step :: "admin_event \<Rightarrow> admin_users \<Rightarrow> admin_users" where
  "admin_step (SearchUsers v) s = s\<lparr>au_search := v\<rparr>"
| "admin_step (FilterRole r) s = s\<lparr>roleFilter := r\<rparr>"
| "admin_step (FilterStatus st) s = s\<lparr>statusFilter := st\<rparr>"
| "admin_step (OpenUserMenu i) s = s\<lparr>openMenu := if openMenu s = Some i then None else Some i\<rparr>"
| "admin_step CloseUserMenu s = s\<lparr>openMenu := None\<rparr>"
| "admin_step (StatusClick k) s =
     (if k < length (shown_users s) \<and> openMenu s = Some (au_id (shown_users s ! k))
      then let u = shown_users s ! k in
        toggleStatus (au_id u) (if au_status u = ActiveUser then SuspendedUser else ActiveUser) s
      else s)"
| "admin_step ShowInvite s = s\<lparr>showInvite := True\<rparr>"
| "admin_step CloseInvite s = s\<lparr>showInvite := False\<rparr>"

text \<open>Nothing on the page changes who the users are: only a status ever differs.\<close>

definition identity :: "admin_user \<Rightarrow> string \<times> string \<times> string \<times> string \<times> string" where
  "identity u = (au_id u, au_name u, au_email u, au_role u, au_organization u)"

lemma admin_step_identity: "map identity (au_users (admin_step e s)) = map identity (au_users s)"
  by (cases e) (auto simp: toggleStatus_def identity_def Let_def)

interpretation admin_users: component admin_step "\<lambda>s. map identity (au_users s) = ids" for ids
  by unfold_locales (simp add: admin_step_identity)

section \<open>Reseller overview (reseller/page.tsx)\<close>

record package =
  pg_id :: string
  pg_name :: string
  pg_price :: rat
  pg_domains :: int
  pg_disk_gb :: rat

record reseller_user =
  ru_id :: string
  ru_package_id :: string
  ru_package_name :: string
  ru_disk_used_gb :: rat
  ru_active :: bool

definition MOCK_PACKAGES :: "package list" where
  "MOCK_PACKAGES =
     [\<lparr>pg_id = ''1'', pg_name = ''Starter'', pg_price = 499 / 100, pg_domains = 3, pg_disk_gb = 10\<rparr>,
      \<lparr>pg_id = ''2'', pg_name = ''Business'', pg_price = 999 / 100, pg_domains = 10, pg_disk_gb = 50\<rparr>,
      \<lparr>pg_id = ''3'', pg_name = ''Premium'', pg_price = 1999 / 100, pg_domains = 25, pg_disk_gb = 100\<rparr>]"

definition MOCK_USERS :: "reseller_user list" where
  "MOCK_USERS =
     [\<lparr>ru_id = ''1'', ru_package_id = ''2'', ru_package_name = ''Business'', ru_disk_used_gb = 182 / 10, ru_active = True\<rparr>,
      \<lparr>ru_id = ''2'', ru_package_id = ''1'', ru_package_name = ''Starter'', ru_disk_used_gb = 41 / 10, ru_active = True\<rparr>,
      \<lparr>ru_id = ''3'', ru_package_id = ''3'', ru_package_name = ''Premium'', ru_disk_used_gb = 678 / 10, ru_active = False\<rparr>]"

record reseller =
  rs_packages :: "package list"
  rs_users :: "reseller_user list"

definition find_package :: "string \<Rightarrow> package list \<Rightarrow> package option" where
  "find_package i ps = find (\<lambda>p. pg_id p = i) ps"

definition totalRevenue :: "reseller \<Rightarrow> rat" where
  "totalRevenue s = of_nat (length (filter ru_active (rs_users s))) *
     (case find_package ''2'' (rs_packages s) of None \<Rightarrow> 999 / 100 | Some p \<Rightarrow> pg_price p)"

text \<open>The width of the bar in percent; \<open>None\<close> is \<open>NaN\<close>.\<close>

definition disk_bar :: "reseller \<Rightarrow> reseller_user \<Rightarrow> rat option" where
  "disk_bar s u = (case find_package (ru_package_id u) (rs_packages s) of
     None \<Rightarrow> Some 0
   | Some p \<Rightarrow> if pg_disk_gb p = 0 then (if ru_disk_used_gb u = 0 then None else Some 100)
       else Some (min (ru_disk_used_gb u / pg_disk_gb p * 100) 100))"

definition toggle_reseller_user :: "string \<Rightarrow> reseller \<Rightarrow> reseller" where
  "toggle_reseller_user i s = s\<lparr>rs_users := map (\<lambda>u. if ru_id u = i then u\<lparr>ru_active := \<not> ru_active u\<rparr> else u) (rs_users s)\<rparr>"

definition delete_reseller_user :: "string \<Rightarrow> reseller \<Rightarrow> reseller" where
  "delete_reseller_user i s = s\<lparr>rs_users := filter (\<lambda>u. ru_id u \<noteq> i) (rs_users s)\<rparr>"

definition add_reseller_user :: "string \<Rightarrow> string \<Rightarrow> reseller \<Rightarrow> reseller" where
  "add_reseller_user now package s = s\<lparr>rs_users := rs_users s @
     [\<lparr>ru_id = now, ru_package_id = package,
       ru_package_name = (case find_package package (rs_packages s) of None \<Rightarrow> [] | Some p \<Rightarrow> pg_name p),
       ru_disk_used_gb = 0, ru_active = True\<rparr>]\<rparr>"

definition delete_package :: "string \<Rightarrow> reseller \<Rightarrow> reseller" where
  "delete_package i s = s\<lparr>rs_packages := filter (\<lambda>p. pg_id p \<noteq> i) (rs_packages s)\<rparr>"

definition package_users :: "string \<Rightarrow> reseller \<Rightarrow> nat" where
  "package_users i s = length (filter (\<lambda>u. ru_package_id u = i) (rs_users s))"

text \<open>The revenue that the subscriptions of the active users make.\<close>

definition actual_revenue :: "reseller \<Rightarrow> rat" where
  "actual_revenue s = sum_list (map (\<lambda>u. case find_package (ru_package_id u) (rs_packages s) of
     None \<Rightarrow> 0 | Some p \<Rightarrow> pg_price p) (filter ru_active (rs_users s)))"

text \<open>The revenue shown prices every active user at the package with id 2. It is the actual revenue when
  they all have that package, and differs on the very data the page starts with.\<close>

lemma sum_list_const: "(\<And>x. x \<in> set xs \<Longrightarrow> f x = c) \<Longrightarrow> sum_list (map f xs) = of_nat (length xs) * (c :: rat)"
  by (induction xs) (auto simp: algebra_simps)

theorem revenue_of_one_package:
  assumes "list_all (\<lambda>u. ru_package_id u = ''2'') (filter ru_active (rs_users s))"
    and "find_package ''2'' (rs_packages s) \<noteq> None"
  shows "totalRevenue s = actual_revenue s"
  using assms sum_list_const [of "filter ru_active (rs_users s)"]
  by (auto simp: totalRevenue_def actual_revenue_def list_all_iff)

lemma revenue_wrong_at_start:
  "totalRevenue \<lparr>rs_packages = MOCK_PACKAGES, rs_users = MOCK_USERS\<rparr> = 1998 / 100 \<and>
   actual_revenue \<lparr>rs_packages = MOCK_PACKAGES, rs_users = MOCK_USERS\<rparr> = 1498 / 100"
  by (simp add: totalRevenue_def actual_revenue_def MOCK_PACKAGES_def MOCK_USERS_def find_package_def)

section \<open>The reseller's users and packages (reseller/users, reseller/packages)\<close>

text \<open>These pages call the client themselves; the requests they make are the state's log.\<close>

definition fetchUsers :: request where "fetchUsers = get_req ''/auth/users''"

definition createUser :: "json \<Rightarrow> request" where
  "createUser d = send_req POST ''/auth/users'' (Some d)"

definition suspendUser :: "string \<Rightarrow> request" where
  "suspendUser i = send_req PATCH (''/auth/users/'' @ i @ ''/status'') (Some (str_obj [(''status'', ''suspended'')]))"

definition deleteUser :: "string \<Rightarrow> request" where
  "deleteUser i = delete_req (''/auth/users/'' @ i)"

definition resetPassword :: "string \<Rightarrow> request" where
  "resetPassword i = send_req POST (''/auth/users/'' @ i @ ''/reset-password'') None"

definition fetchPackages :: request where "fetchPackages = get_req ''/reseller/packages''"

definition savePackage :: "json \<Rightarrow> request" where
  "savePackage pkg = (case own_prop pkg ''id'' of
     Some (JStr (c # cs)) \<Rightarrow> send_req PUT (''/reseller/packages/'' @ c # cs) (Some pkg)
   | _ \<Rightarrow> send_req POST ''/reseller/packages'' (Some pkg))"

definition deletePackage :: "string \<Rightarrow> request" where
  "deletePackage i = delete_req (''/reseller/packages/'' @ i)"

definition emptyPackage :: json where
  "emptyPackage = obj [(''name'', Some (JStr [])), (''price'', Some (JNum 0)), (''domains'', Some (JNum 1)),
     (''disk_gb'', Some (JNum 10)), (''bandwidth_gb'', Some (JNum 100)), (''email_accounts'', Some (JNum 10)),
     (''databases'', Some (JNum 5)), (''active'', Some (JBool True))]"

definition package_schema :: schema where
  "package_schema = [(''name'', TStr), (''price'', TNum), (''domains'', TNum), (''disk_gb'', TNum),
     (''bandwidth_gb'', TNum), (''email_accounts'', TNum), (''databases'', TNum), (''active'', TBool)]"

record packages_ui =
  pk_open :: bool
  editing :: "json option"
  pk_pending :: bool
  pk_requests :: "request list"

definition packages_start :: packages_ui where
  "packages_start = \<lparr>pk_open = False, editing = None, pk_pending = False, pk_requests = []\<rparr>"

datatype packages_event = OpenCreate | OpenEdit json | CancelPackage | TypePackage string json | SavePackage
  | SaveAnswer bool | DeletePackage string

text \<open>\<open>openEdit\<close> is given a row of the list: an object with the fields of a package and its id.\<close>

fun packages_step :: "packages_event \<Rightarrow> packages_ui \<Rightarrow> packages_ui" where
  "packages_step OpenCreate s = s\<lparr>editing := Some emptyPackage, pk_open := True\<rparr>"
| "packages_step (OpenEdit pkg) s =
     (if conforms package_schema pkg then s\<lparr>editing := Some pkg, pk_open := True\<rparr> else s)"
| "packages_step CancelPackage s = s\<lparr>pk_open := False, editing := None\<rparr>"
| "packages_step (TypePackage k v) s = s\<lparr>editing := map_option (type_in package_schema k v) (editing s)\<rparr>"
| "packages_step SavePackage s = (case editing s of
     None \<Rightarrow> s
   | Some p \<Rightarrow> if pk_pending s \<or> \<not> filled [''name''] p then s
       else s\<lparr>pk_pending := True, pk_requests := pk_requests s @ [savePackage p]\<rparr>)"
| "packages_step (SaveAnswer ok) s =
     (if \<not> pk_pending s then s
      else if ok then s\<lparr>pk_pending := False, pk_open := False, editing := None\<rparr> else s\<lparr>pk_pending := False\<rparr>)"
| "packages_step (DeletePackage i) s = s\<lparr>pk_requests := pk_requests s @ [deletePackage i]\<rparr>"

text \<open>A request that carries a package carries a complete and named one, to its own address when it
  has an id.\<close>

definition package_request_ok :: "request \<Rightarrow> bool" where
  "package_request_ok r \<longleftrightarrow> (case body r of None \<Rightarrow> verb r = DELETE
     | Some p \<Rightarrow> conforms package_schema p \<and> filled [''name''] p \<and>
         (verb r = PUT \<longleftrightarrow> truthy (own_prop p ''id'') \<and> (\<exists>i. own_prop p ''id'' = Some (JStr i) \<and> url r = ''/reseller/packages/'' @ i)) \<and>
         (verb r = POST \<longleftrightarrow> url r = ''/reseller/packages''))"

definition packages_inv :: "packages_ui \<Rightarrow> bool" where
  "packages_inv s \<longleftrightarrow> list_all package_request_ok (pk_requests s) \<and>
     (case editing s of None \<Rightarrow> True | Some p \<Rightarrow> conforms package_schema p)"

lemma savePackage_ok: "conforms package_schema p \<Longrightarrow> filled [''name''] p \<Longrightarrow> package_request_ok (savePackage p)"
  by (auto simp: package_request_ok_def savePackage_def split: option.splits json.splits list.splits)

lemma emptyPackage_conforms: "conforms package_schema emptyPackage"
  by (simp add: package_schema_def emptyPackage_def conforms_def prop_obj)

interpretation packages: component packages_step packages_inv
proof
  have d: "distinct (map fst package_schema)" by (simp add: package_schema_def)
  show "packages_inv (packages_step e s)" if "packages_inv s" for e s
  proof (cases e)
    case OpenCreate
    with that show ?thesis by (simp add: packages_inv_def emptyPackage_conforms)
  next
    case (TypePackage k v)
    with that d show ?thesis by (auto simp: packages_inv_def split: option.splits)
  next
    case SavePackage
    with that show ?thesis by (auto simp: packages_inv_def savePackage_ok split: option.splits)
  next
    case (DeletePackage i)
    with that show ?thesis by (simp add: packages_inv_def package_request_ok_def deletePackage_def)
  qed (use that in \<open>auto simp: packages_inv_def split: option.splits\<close>)
qed

text \<open>The users' page. Nothing is required of the form, and it keeps its content when a user was created.\<close>

definition reseller_user_schema :: schema where
  "reseller_user_schema = [(''email'', TStr), (''username'', TStr), (''password'', TStr), (''role'', TStr)]"

definition reseller_user_blank :: json where
  "reseller_user_blank = str_obj [(''email'', []), (''username'', []), (''password'', []), (''role'', ''user'')]"

definition reseller_roles :: select_options where
  "reseller_roles = [(''role'', map JStr [''user'', ''developer'', ''reseller''])]"

record reseller_users = form_ui +
  rw_pending :: bool
  rw_requests :: "request list"
  rw_log :: "effect list"

definition reseller_users_start :: reseller_users where
  "reseller_users_start = \<lparr>showForm = False, form = reseller_user_blank, rw_pending = False, rw_requests = [], rw_log = []\<rparr>"

datatype reseller_users_event = OpenUserDialog bool | TypeUser string json | CreateUserClick | CreateUserAnswer bool
  | ResetClick string | SuspendClick string | DeleteConfirmed string | ActionDone string

definition ask :: "request \<Rightarrow> reseller_users \<Rightarrow> reseller_users" where
  "ask r s = s\<lparr>rw_requests := rw_requests s @ [r]\<rparr>"

text \<open>\<open>ActionDone\<close> is the answer to one of the menu's calls; a failed one is an unhandled rejection and
  changes nothing.\<close>

fun reseller_users_step :: "reseller_users_event \<Rightarrow> reseller_users \<Rightarrow> reseller_users" where
  "reseller_users_step (OpenUserDialog o') s = s\<lparr>showForm := o'\<rparr>"
| "reseller_users_step (TypeUser k v) s = choose_in reseller_user_schema reseller_roles k v s"
| "reseller_users_step CreateUserClick s =
     (if showForm s \<and> \<not> rw_pending s then (ask (createUser (form s)) s)\<lparr>rw_pending := True\<rparr> else s)"
| "reseller_users_step (CreateUserAnswer ok) s =
     (if \<not> rw_pending s then s
      else if ok then s\<lparr>rw_pending := False, showForm := False,
        rw_log := rw_log s @ [Invalidate [''reseller-users''], Success ''User created'']\<rparr>
      else s\<lparr>rw_pending := False, rw_log := rw_log s @ [Failure ''Failed to create user'']\<rparr>)"
| "reseller_users_step (ResetClick i) s = ask (resetPassword i) s"
| "reseller_users_step (SuspendClick i) s = ask (suspendUser i) s"
| "reseller_users_step (DeleteConfirmed i) s = ask (deleteUser i) s"
| "reseller_users_step (ActionDone msg) s =
     s\<lparr>rw_log := rw_log s @ (if msg = ''Password reset email sent'' then [] else [Invalidate [''reseller-users'']]) @ [Success msg]\<rparr>"

definition reseller_users_inv :: "reseller_users \<Rightarrow> bool" where
  "reseller_users_inv s \<longleftrightarrow> chosen reseller_user_schema reseller_roles (form s) \<and>
     list_all (\<lambda>r. verb r = POST \<and> url r = ''/auth/users'' \<longrightarrow>
       (case body r of None \<Rightarrow> False | Some d \<Rightarrow> chosen reseller_user_schema reseller_roles d)) (rw_requests s)"

lemma choose_in_keeps [simp]:
  "rw_requests (choose_in S opts k v s) = rw_requests s"
  by (simp add: choose_in_def edit_form_def split: option.splits)

interpretation reseller_users: component reseller_users_step reseller_users_inv
proof
  have d: "distinct (map fst reseller_user_schema)" "distinct (map fst reseller_roles)"
    by (simp_all add: reseller_user_schema_def reseller_roles_def)
  show "reseller_users_inv (reseller_users_step e s)" if "reseller_users_inv s" for e s
    using that by (cases e) (auto simp: reseller_users_inv_def ask_def createUser_def resetPassword_def suspendUser_def
        deleteUser_def chosen_choose_in [OF _ d])
qed

section \<open>Marketplace (marketplace/page.tsx)\<close>

record market_app =
  ma_slug :: string
  ma_name :: string
  ma_description :: string
  ma_category :: string
  is_featured :: bool

definition APP_CATEGORIES :: "string list" where
  "APP_CATEGORIES = [''all'', ''cms'', ''framework'', ''storage'', ''automation'', ''analytics'', ''community'']"

definition matching_apps :: "string \<Rightarrow> string \<Rightarrow> market_app list \<Rightarrow> market_app list" where
  "matching_apps category search = filter (\<lambda>a.
     \<not> (category \<noteq> ''all'' \<and> ma_category a \<noteq> category) \<and>
     \<not> (search \<noteq> [] \<and> \<not> str_includes (toLowerCase (ma_name a)) (toLowerCase search) \<and>
        \<not> str_includes (toLowerCase (ma_description a)) (toLowerCase search)))"

text \<open>The cards on the page: the featured applications and the others, in the plain view; the matching
  ones otherwise, in the block that is there while there are others. And the message that there are
  none.\<close>

definition app_cards :: "string \<Rightarrow> string \<Rightarrow> market_app list \<Rightarrow> market_app list" where
  "app_cards category search all_apps =
     (let apps = matching_apps category search all_apps; featured = filter is_featured apps;
          rest = filter (\<lambda>a. \<not> is_featured a) apps; plain = (category = ''all'' \<and> search = []) in
      (if featured \<noteq> [] \<and> plain then featured else []) @
      (if rest \<noteq> [] then if plain then rest else apps else []))"

definition no_apps_message :: "string \<Rightarrow> string \<Rightarrow> market_app list \<Rightarrow> bool" where
  "no_apps_message category search all_apps \<longleftrightarrow> matching_apps category search all_apps = []"

text \<open>Every matching application has a card, except when a category or a search matches featured
  applications only: then the page is blank, with neither a card nor the message.\<close>

theorem marketplace_blank:
  fixes category search :: string and all_apps :: "market_app list"
  defines "apps \<equiv> matching_apps category search all_apps"
  shows "mset (app_cards category search all_apps) =
     (if (category \<noteq> ''all'' \<or> search \<noteq> []) \<and> apps \<noteq> [] \<and> list_all is_featured apps then {#} else mset apps) \<and>
   (app_cards category search all_apps = [] \<and> \<not> no_apps_message category search all_apps \<longleftrightarrow>
     (category \<noteq> ''all'' \<or> search \<noteq> []) \<and> apps \<noteq> [] \<and> list_all is_featured apps)"
proof -
  have m: "mset (filter is_featured xs) + mset (filter (\<lambda>a. \<not> is_featured a) xs) = mset xs" for xs
    by (metis mset_filter multiset_partition)
  have r: "filter (\<lambda>a. \<not> is_featured a) xs = [] \<longleftrightarrow> list_all is_featured xs" for xs
    by (auto simp: filter_empty_conv list_all_iff)
  have g: "\<forall>x\<in>set xs. \<not> is_featured x \<Longrightarrow> filter (\<lambda>a. \<not> is_featured a) xs = xs" for xs
    by (simp add: filter_id_conv)
  have f: "list_all is_featured xs \<Longrightarrow> filter is_featured xs = xs" for xs by (auto simp: list_all_iff filter_id_conv)
  show ?thesis unfolding apps_def
    by (auto simp: app_cards_def no_apps_message_def Let_def r f g m filter_empty_conv list_all_iff simp flip: mset_filter)
qed

lemma marketplace_blank_search:
  "app_cards ''all'' ''word'' [\<lparr>ma_slug = ''wordpress'', ma_name = ''WordPress'', ma_description = [],
     ma_category = ''cms'', is_featured = True\<rparr>] = []"
  by (simp add: app_cards_def matching_apps_def toLowerCase_def to_lower_def code_unit_def Let_def)

datatype market_mut = Uninstall string

datatype market_tab = AppsTab | InstalledTab

datatype market_control = MarketTab market_tab | MarketCategory nat | MarketSearch string | ChooseApp string
  | CloseInstall | UninstallClick string bool

record market_ui =
  mk_category :: string
  mk_search :: string
  selectedApp :: "string option"
  mk_tab :: market_tab

definition market_start :: market_ui where
  "market_start = \<lparr>mk_category = ''all'', mk_search = [], selectedApp = None, mk_tab = AppsTab\<rparr>"

definition market_handle :: "market_control \<Rightarrow> market_mut busy \<Rightarrow> market_ui \<Rightarrow> market_ui \<times> market_mut act list" where
  "market_handle e b u = (case e of
     MarketTab t \<Rightarrow> (u\<lparr>mk_tab := t\<rparr>, [])
   | MarketCategory i \<Rightarrow> (if i < length APP_CATEGORIES then u\<lparr>mk_category := APP_CATEGORIES ! i\<rparr> else u, [])
   | MarketSearch v \<Rightarrow> (u\<lparr>mk_search := v\<rparr>, [])
   | ChooseApp slug \<Rightarrow> (if mk_tab u = AppsTab then u\<lparr>selectedApp := Some slug\<rparr> else u, [])
   | CloseInstall \<Rightarrow> (u\<lparr>selectedApp := None\<rparr>, [])
   | UninstallClick i confirmed \<Rightarrow> (u, if mk_tab u = InstalledTab \<and> confirmed then [Mutate (Uninstall i)] else []))"

definition market_page :: "(market_mut, market_ui, market_control) page" where
  "market_page = \<lparr>
     p_call = (\<lambda>m. MarketplaceApi (case m of Uninstall i \<Rightarrow> UninstallApp i)),
     p_queries = (\<lambda>u. [([''marketplace-apps''], MarketplaceApi (ListApps [])),
       ([''marketplace-installations''], MarketplaceApi ListInstallations)]),
     p_handle = market_handle,
     p_success = (\<lambda>m u. [Invalidate [''marketplace-installations''], Success ''App uninstalled'']),
     p_error = (\<lambda>m. [Failure ''Failed to uninstall'']),
     p_after = (\<lambda>m u. u),
     p_failed = (\<lambda>m u. u)\<rparr>"

lemma all_category: "''all'' \<in> set APP_CATEGORIES"
  by (simp add: APP_CATEGORIES_def)

lemma market_stale: "stale_after market_page m u = []"
  by (cases m) (simp add: market_page_def stale_after_def touched_def touches_def path_of_call_def
      url_path_def refreshes_def)

interpretation marketplace_page: fresh_page market_page market_start "\<lambda>u. mk_category u \<in> set APP_CATEGORIES" "\<lambda>_. True" "[]"
  by unfold_locales (rule market_stale | (auto simp: market_page_def market_handle_def market_start_def
      all_category split: market_control.splits if_splits)[1])+

definition install_schema :: schema where
  "install_schema = [(''app_slug'', TStr), (''install_path'', TStr), (''site_name'', TStr), (''admin_email'', TStr),
     (''admin_user'', TStr), (''admin_pass'', TStr)]"

text \<open>The slug has no input.\<close>

definition install_blank :: "string \<Rightarrow> json" where
  "install_blank slug = str_obj [(''app_slug'', slug), (''install_path'', ''/var/www/'' @ slug), (''site_name'', []),
     (''admin_email'', []), (''admin_user'', []), (''admin_pass'', [])]"

definition install_dialog :: "string \<Rightarrow> string \<Rightarrow> (create_mut, form_ui, unit form_event) page" where
  "install_dialog slug app_name = dialog install_schema [(''app_slug'', [JStr slug])] (filled [''install_path''])
     (\<lambda>d. MarketplaceApi (InstallApp d)) [([''marketplace-installations''], MarketplaceApi ListInstallations)]
     (app_name @ '' installed successfully!'') ''Installation failed''"

interpretation install_app: dialog_page install_schema "[(''app_slug'', [JStr slug])]" "filled [''install_path'']"
  "\<lambda>d. MarketplaceApi (InstallApp d)" "[([''marketplace-installations''], MarketplaceApi ListInstallations)]"
  "app_name @ '' installed successfully!''" "''Installation failed''" "install_blank slug" for slug app_name
  by unfold_locales (simp_all add: install_schema_def chosen_def conforms_def install_blank_def str_obj_def prop_obj)

section \<open>DNS zones (dns/page.tsx, dns/[zoneId]/page.tsx)\<close>

datatype zones_mut = AddZone string | is_DropZone: DropZone string

datatype zones_control = ZoneDialog bool | TypeZone string | ZoneEnter | ZoneSubmit | OpenZone string | DropZoneClick string

record zones_ui =
  zn_open :: bool
  zn_name :: string

definition zones_start :: zones_ui where
  "zones_start = \<lparr>zn_open = False, zn_name = []\<rparr>"

text \<open>The button checks that there is a name and no creation under way; the Enter key does not.\<close>

definition zones_handle :: "zones_control \<Rightarrow> zones_mut busy \<Rightarrow> zones_ui \<Rightarrow> zones_ui \<times> zones_mut act list" where
  "zones_handle e b u = (case e of
     ZoneDialog o' \<Rightarrow> (u\<lparr>zn_open := o'\<rparr>, [])
   | TypeZone v \<Rightarrow> (if zn_open u then u\<lparr>zn_name := v\<rparr> else u, [])
   | ZoneEnter \<Rightarrow> (u, if zn_open u then [Mutate (AddZone (zn_name u))] else [])
   | ZoneSubmit \<Rightarrow> (u, if zn_open u \<and> zn_name u \<noteq> [] \<and> \<not> b (\<lambda>m. \<not> is_DropZone m) then [Mutate (AddZone (zn_name u))] else [])
   | OpenZone i \<Rightarrow> (u, [Do (Goto (''/dns/'' @ i))])
   | DropZoneClick i \<Rightarrow> (u, if b is_DropZone then [] else [Mutate (DropZone i)]))"

definition zones_page :: "(zones_mut, zones_ui, zones_control) page" where
  "zones_page = \<lparr>
     p_call = (\<lambda>m. DnsApi (case m of
         AddZone n \<Rightarrow> CreateZone (str_obj [(''name'', n), (''kind'', ''Native'')]) | DropZone i \<Rightarrow> DeleteZone i)),
     p_queries = (\<lambda>u. [([''dns-zones''], DnsApi ListZones)]),
     p_handle = zones_handle,
     p_success = (\<lambda>m u. [Invalidate [''dns-zones'']]),
     p_error = (\<lambda>m. []),
     p_after = (\<lambda>m u. case m of AddZone _ \<Rightarrow> u\<lparr>zn_open := False, zn_name := []\<rparr> | DropZone _ \<Rightarrow> u),
     p_failed = (\<lambda>m u. u)\<rparr>"

interpretation zones: fresh_page zones_page zones_start "\<lambda>_. True" "\<lambda>_. True" "[is_DropZone]"
  by unfold_locales (auto intro!: nothing_staleI simp: zones_page_def zones_handle_def refreshes_def
      split: zones_control.splits if_splits)

text \<open>The Enter key asks for a zone without a name, and again while one is being created.\<close>

lemma zones_enter_unchecked:
  "p_sent (page_run zones_page zones_start [User (ZoneDialog True), User ZoneEnter, User ZoneEnter]) = [AddZone [], AddZone []]"
  by (simp add: page_run_def page_start_def zones_page_def zones_handle_def zones_start_def)

text \<open>The editor of a zone (DNSRecordTable.tsx with DNSRecordForm.tsx): its filters, deleting a record after
  confirmation, and the form, whose two mutations belong to the form that is open. \<open>rc_dialog\<close>
  counts the forms opened; a form that was closed has left the screen before the next one opens.\<close>

datatype records_mut = DropRecord string | SaveRecord nat "DNSRecord option" form_data

primrec saved_by :: "nat \<Rightarrow> records_mut \<Rightarrow> bool" where
  "saved_by n (DropRecord i) = False"
| "saved_by n (SaveRecord k r d) = (k = n)"

record records_ui =
  rc_open :: bool
  rc_edit :: "DNSRecord option"
  rc_form :: form_data
  rc_dialog :: nat
  rc_filter :: string
  rc_type :: "dns_type option"

definition records_start :: "DNSZone \<Rightarrow> records_ui" where
  "records_start zone = \<lparr>rc_open = False, rc_edit = None, rc_form = default_values zone None, rc_dialog = 0,
     rc_filter = [], rc_type = None\<rparr>"

definition open_record :: "DNSZone \<Rightarrow> DNSRecord option \<Rightarrow> records_ui \<Rightarrow> records_ui" where
  "open_record zone r u =
     u\<lparr>rc_open := True, rc_edit := r, rc_form := default_values zone r, rc_dialog := Suc (rc_dialog u)\<rparr>"

definition close_record :: "records_ui \<Rightarrow> records_ui" where
  "close_record u = u\<lparr>rc_open := False, rc_edit := None\<rparr>"

datatype records_control = RecordTypeButton "dns_type option" | TypeRecordFilter string | AddRecordClick
  | EditRecordClick DNSRecord | DropRecordClick string bool | FillRecord record_input | SaveRecordClick | CloseRecordForm

text \<open>The form lies over the table: while it is open the table cannot be reached.\<close>

definition records_handle ::
  "DNSZone \<Rightarrow> records_control \<Rightarrow> records_mut busy \<Rightarrow> records_ui \<Rightarrow> records_ui \<times> records_mut act list" where
  "records_handle zone e b u = (if rc_open u then
     (case e of
        FillRecord x \<Rightarrow> (u\<lparr>rc_form := fill_record (rc_edit u) x (rc_form u)\<rparr>, [])
      | SaveRecordClick \<Rightarrow> (u, if form_errors (rc_form u) \<noteq> [] \<or> b (saved_by (rc_dialog u)) then []
          else [Mutate (SaveRecord (rc_dialog u) (rc_edit u) (rc_form u))])
      | CloseRecordForm \<Rightarrow> (close_record u, [])
      | _ \<Rightarrow> (u, []))
   else
     (case e of
        RecordTypeButton t \<Rightarrow> (u\<lparr>rc_type := t\<rparr>, [])
      | TypeRecordFilter v \<Rightarrow> (u\<lparr>rc_filter := v\<rparr>, [])
      | AddRecordClick \<Rightarrow> (open_record zone None u, [])
      | EditRecordClick r \<Rightarrow> (open_record zone (Some r) u, [])
      | DropRecordClick i confirmed \<Rightarrow> (u, if confirmed then [Mutate (DropRecord i)] else [])
      | _ \<Rightarrow> (u, [])))"

text \<open>The rows shown.\<close>

definition shown_records :: "DNSZone \<Rightarrow> records_ui \<Rightarrow> DNSRecord list" where
  "shown_records zone u = filter_records (rc_type u) (rc_filter u) (table_records zone)"

primrec records_call :: "DNSZone \<Rightarrow> records_mut \<Rightarrow> dns_call" where
  "records_call zone (DropRecord i) = DeleteRecord (zone_id zone) i"
| "records_call zone (SaveRecord n r d) = (case r of
     None \<Rightarrow> CreateRecord (zone_id zone) (form_json d)
   | Some r' \<Rightarrow> UpdateRecord (zone_id zone) (rec_id r') (form_json d))"

text \<open>A saved record closes the form: \<open>onClose\<close> is the same function for every form opened.\<close>

definition records_page :: "DNSZone \<Rightarrow> (records_mut, records_ui, records_control) page" where
  "records_page zone = \<lparr>
     p_call = (\<lambda>m. DnsApi (records_call zone m)),
     p_queries = (\<lambda>u. [([''dns-zone'', zone_id zone], DnsApi (GetZone (zone_id zone)))]),
     p_handle = records_handle zone,
     p_success = (\<lambda>m u. [Invalidate [''dns-zone'', zone_id zone], Success (case m of
         DropRecord i \<Rightarrow> ''Record deleted''
       | SaveRecord n r d \<Rightarrow> if r = None then ''Record created'' else ''Record updated'')]),
     p_error = (\<lambda>m. [Failure (case m of
         DropRecord i \<Rightarrow> ''Failed to delete record''
       | SaveRecord n r d \<Rightarrow> if r = None then ''Failed to create record'' else ''Failed to update record'')]),
     p_after = (\<lambda>m u. case m of DropRecord i \<Rightarrow> u | SaveRecord n r d \<Rightarrow> close_record u),
     p_failed = (\<lambda>m u. u)\<rparr>"

text \<open>What a saved record may be: all fields in order, a type the list offers, or the type the record has.\<close>

definition type_allowed :: "DNSRecord option \<Rightarrow> form_data \<Rightarrow> bool" where
  "type_allowed r d = (case r of None \<Rightarrow> f_type d \<in> set DNS_RECORD_TYPES | Some r' \<Rightarrow> f_type d = rec_type r')"

primrec valid_record :: "records_mut \<Rightarrow> bool" where
  "valid_record (DropRecord i) = True"
| "valid_record (SaveRecord n r d) = (form_errors d = [] \<and> type_allowed r d)"

lemma type_allowed_default [simp]: "type_allowed r (default_values zone r)"
  by (cases r) (simp_all add: type_allowed_def default_values_def listed_types)

lemma type_allowed_fill [simp]: "type_allowed r d \<Longrightarrow> type_allowed r (fill_record r x d)"
  by (cases x) (simp_all add: type_allowed_def split: option.splits)

interpretation zone_records: fresh_page "records_page zone" "records_start zone"
    "\<lambda>u. rc_open u \<longrightarrow> type_allowed (rc_edit u) (rc_form u)" valid_record "[saved_by n]" for zone n
  by unfold_locales (auto intro!: nothing_staleI simp: records_page_def records_handle_def records_start_def
      open_record_def close_record_def refreshes_def split: records_control.splits records_mut.splits if_splits)

text \<open>The answer to a form that was closed meanwhile closes the form that is open now, with what was typed.\<close>

lemma late_save_closes_form:
  assumes "rc_open (p_ui s)" and "rc_dialog (p_ui s) = Suc n"
    and "i \<in> set (p_waiting s)" and "p_sent s ! i = SaveRecord n r d"
  shows "\<not> rc_open (p_ui (page_step (records_page zone) (Answered i True) s))"
  using assms by (simp add: records_page_def close_record_def Let_def)

lemma late_save_example:
  "let zone = \<lparr>zone_id = ''z'', zone_name = ''x.org'', zone_records = None\<rparr>;
       es = [User AddRecordClick, User (FillRecord (InContent ''192.0.2.1'')), User SaveRecordClick,
             User CloseRecordForm, User AddRecordClick];
       s = page_run (records_page zone) (records_start zone) es
   in rc_open (p_ui s) \<and> \<not> rc_open (p_ui (page_step (records_page zone) (Answered 0 True) s))"
  by (simp add: page_run_def page_start_def records_page_def records_handle_def records_start_def open_record_def
      close_record_def default_values_def form_errors_def pending_of_def Let_def)

section \<open>DNS propagation (dns/propagation/page.tsx)\<close>

definition PROPAGATION_TYPES :: "string list" where
  "PROPAGATION_TYPES = [''A'', ''AAAA'', ''CNAME'', ''MX'', ''TXT'', ''NS'']"

record propagation =
  pr_domain :: string
  pr_type :: string
  pr_loading :: bool
  pr_results :: jsval
  pr_calls :: "dns_call list"

definition propagation_start :: propagation where
  "propagation_start = \<lparr>pr_domain = [], pr_type = ''A'', pr_loading = False, pr_results = None, pr_calls = []\<rparr>"

definition check_propagation :: "propagation \<Rightarrow> propagation" where
  "check_propagation s = (if trim (pr_domain s) = [] then s
     else s\<lparr>pr_loading := True, pr_calls := pr_calls s @ [CheckPropagation (trim (pr_domain s)) (pr_type s)]\<rparr>)"

datatype propagation_event = TypePropDomain string | ChoosePropType nat | PropEnter | PropClick | PropAnswer "json option"

text \<open>A failed check leaves the results as they were; the Enter key does not look at \<open>loading\<close>.\<close>

fun propagation_step :: "propagation_event \<Rightarrow> propagation \<Rightarrow> propagation" where
  "propagation_step (TypePropDomain v) s = s\<lparr>pr_domain := v\<rparr>"
| "propagation_step (ChoosePropType i) s =
     (if i < length PROPAGATION_TYPES then s\<lparr>pr_type := PROPAGATION_TYPES ! i\<rparr> else s)"
| "propagation_step PropEnter s = check_propagation s"
| "propagation_step PropClick s = (if pr_loading s then s else check_propagation s)"
| "propagation_step (PropAnswer answer) s = (if pr_calls s = [] then s
     else case answer of Some d \<Rightarrow> s\<lparr>pr_results := Some d, pr_loading := False\<rparr> | None \<Rightarrow> s\<lparr>pr_loading := False\<rparr>)"

definition propagation_inv :: "propagation \<Rightarrow> bool" where
  "propagation_inv s \<longleftrightarrow> pr_type s \<in> set PROPAGATION_TYPES \<and>
     list_all (\<lambda>c. case c of CheckPropagation d t \<Rightarrow> d \<noteq> [] \<and> trim d = d \<and> t \<in> set PROPAGATION_TYPES | _ \<Rightarrow> False) (pr_calls s)"

interpretation propagation: component propagation_step propagation_inv
proof
  show "propagation_inv (propagation_step e s)" if "propagation_inv s" for e s
    using that by (cases e) (auto simp: propagation_inv_def check_propagation_def split: option.splits)
qed

end
