(* ===== verification/ChatMarkup.thy ===== *)
theory ChatMarkup
  imports Prelude
begin

text \<open>
  How a finished message is shown: \<open>renderContent\<close> of components/ai/ChatMessage.tsx, with the two
  regular expressions it splits at. The specification is the way such texts are written: prose with
  pieces of code between single ticks, and blocks of code between fences.
\<close>

section \<open>Splitting\<close>

definition fence :: string where
  "fence = ''```''"

text \<open>The first occurrence of a text: what is before it and what is after it.\<close>

fun find_sub :: "string \<Rightarrow> string \<Rightarrow> (string \<times> string) option" where
  "find_sub p [] = (if p = [] then Some ([], []) else None)"
| "find_sub p (c # s) =
     (if prefix p (c # s) then Some ([], drop (length p) (c # s))
      else (case find_sub p s of None \<Rightarrow> None | Some (a, b) \<Rightarrow> Some (c # a, b)))"

lemma find_sub_sound: "find_sub p s = Some (a, b) \<Longrightarrow> s = a @ p @ b"
proof (induction s arbitrary: a)
  case (Cons c s)
  then show ?case by (cases "prefix p (c # s)") (auto simp: prefix_def split: option.splits prod.splits)
qed (simp split: if_splits)

text \<open>\<open>split(/(```[\s\S]*?```)/g)\<close>: the texts between the blocks and the blocks themselves, in turn. A
  match starts at the first fence and ends at the first one after it; when there is none after the first
  fence there is none after any later one either.\<close>

function split_blocks :: "string \<Rightarrow> string list" where
  "split_blocks s = (case find_sub fence s of
     None \<Rightarrow> [s]
   | Some (a, b) \<Rightarrow> (case find_sub fence b of
       None \<Rightarrow> [s]
     | Some (c, d) \<Rightarrow> a # (fence @ c @ fence) # split_blocks d))"
  by pat_completeness auto
termination
proof (relation "measure length")
  fix s x a b y c d
  assume "find_sub fence s = Some x" "(a, b) = x" "find_sub fence b = Some y" "(c, d) = y"
  then have "s = a @ fence @ b" "b = c @ fence @ d" by (auto dest: find_sub_sound)
  then show "(d, s) \<in> measure length" by (simp add: fence_def)
qed simp

declare split_blocks.simps [simp del]

text \<open>\<open>split(/(`[^`]+`)/g)\<close>. The part before the next match is collected in reverse.\<close>

abbreviation tick :: char where "tick \<equiv> CHR ''`''"

definition inline_at :: "string \<Rightarrow> (string \<times> string) option" where
  "inline_at s = (case s of [] \<Rightarrow> None
   | c # t \<Rightarrow>
      (let w = takeWhile (\<lambda>x. x \<noteq> tick) t; r = dropWhile (\<lambda>x. x \<noteq> tick) t in
       if c = tick \<and> w \<noteq> [] \<and> r \<noteq> [] then Some (w, tl r) else None))"

lemma inline_at_sound: "inline_at s = Some (w, r) \<Longrightarrow> s = tick # w @ tick # r"
proof -
  assume a: "inline_at s = Some (w, r)"
  then obtain t where t: "s = tick # t" "w = takeWhile (\<lambda>x. x \<noteq> tick) t" "dropWhile (\<lambda>x. x \<noteq> tick) t \<noteq> []"
      "r = tl (dropWhile (\<lambda>x. x \<noteq> tick) t)"
    by (auto simp: inline_at_def Let_def split: list.splits if_splits)
  then have "dropWhile (\<lambda>x. x \<noteq> tick) t = tick # r" using hd_dropWhile [OF t(3)] by (cases "dropWhile (\<lambda>x. x \<noteq> tick) t") auto
  then have "t = w @ tick # r" using t(2) takeWhile_dropWhile_id [of "\<lambda>x. x \<noteq> tick" t] by simp
  with t(1) show ?thesis by simp
qed

function split_inline :: "string \<Rightarrow> string \<Rightarrow> string list" where
  "split_inline acc [] = [rev acc]"
| "split_inline acc (c # s) = (case inline_at (c # s) of
     None \<Rightarrow> split_inline (c # acc) s
   | Some (w, r) \<Rightarrow> rev acc # (tick # w @ [tick]) # split_inline [] r)"
  by pat_completeness auto
termination
proof (relation "measure (length \<circ> snd)")
  fix acc c s x w r
  assume "inline_at (c # s) = Some x" "(w, r) = x"
  then have "c # s = tick # w @ tick # r" by (auto dest: inline_at_sound)
  then have "length (c # s) = length (tick # w @ tick # r)" by simp
  then show "(([], r), (acc, c # s)) \<in> measure (length \<circ> snd)" by simp
qed auto

section \<open>Rendering\<close>

datatype inline = InlineCode string | Plain string

datatype piece = CodeBlock "string option" string | Prose "inline list"

definition render_inline :: "string \<Rightarrow> inline" where
  "render_inline ip = (if startsWith ip [tick] \<and> endsWith ip [tick] then InlineCode (slice ip 1 (- 1)) else Plain ip)"

definition render_part :: "string \<Rightarrow> piece" where
  "render_part part =
    (if startsWith part fence then
       (let lines = split_on (CHR 0x0A) (slice part 3 (- 3)); lang = trim (hd lines);
            code = join_on (CHR 0x0A) (tl lines)
        in CodeBlock (if lang = [] then None else Some lang) code)
     else Prose (map render_inline (split_inline [] part)))"

definition renderContent :: "string \<Rightarrow> piece list" where
  "renderContent content = map render_part (split_blocks content)"

text \<open>Splitting loses nothing.\<close>

lemma concat_split_blocks: "concat (split_blocks s) = s"
proof (induction s rule: split_blocks.induct)
  case (1 s)
  show ?case
  proof (cases "find_sub fence s")
    case None
    then show ?thesis by (simp add: split_blocks.simps)
  next
    case (Some ab)
    then obtain a b where ab: "find_sub fence s = Some (a, b)" by (cases ab) auto
    show ?thesis
    proof (cases "find_sub fence b")
      case None
      with ab show ?thesis by (simp add: split_blocks.simps)
    next
      case (Some cd)
      then obtain c d where cd: "find_sub fence b = Some (c, d)" by (cases cd) auto
      have "concat (split_blocks d) = d" using 1 ab cd by blast
      moreover have "s = a @ fence @ b" "b = c @ fence @ d" using ab cd by (auto dest: find_sub_sound)
      ultimately show ?thesis using ab cd by (subst split_blocks.simps) simp
    qed
  qed
qed

lemma concat_split_inline: "concat (split_inline acc s) = rev acc @ s"
proof (induction acc s rule: split_inline.induct)
  case (2 acc c s)
  then show ?case by (cases "inline_at (c # s)") (auto dest: inline_at_sound)
qed simp

section \<open>Writing\<close>

text \<open>A prose starts with plain text and goes on with pieces of code and plain text in turn; a message is
  a prose, and then blocks, with their language, each followed by a prose.\<close>

type_synonym prose = "string \<times> (string \<times> string) list"
type_synonym block = "string \<times> string"

fun write_prose :: "prose \<Rightarrow> string" where
  "write_prose (t, []) = t"
| "write_prose (t, (c, u) # cs) = t @ tick # c @ tick # write_prose (u, cs)"

definition write_block :: "block \<Rightarrow> string" where
  "write_block b = fst b @ CHR 0x0A # snd b"

fun write_message :: "prose \<Rightarrow> (block \<times> prose) list \<Rightarrow> string" where
  "write_message p [] = write_prose p"
| "write_message p ((b, q) # bs) = write_prose p @ fence @ write_block b @ fence @ write_message q bs"

text \<open>What a reader has to see.\<close>

fun shown_prose :: "prose \<Rightarrow> inline list" where
  "shown_prose (t, []) = [Plain t]"
| "shown_prose (t, (c, u) # cs) = Plain t # InlineCode c # shown_prose (u, cs)"

definition shown_block :: "block \<Rightarrow> piece" where
  "shown_block b = CodeBlock (if trim (fst b) = [] then None else Some (trim (fst b))) (snd b)"

fun shown_message :: "prose \<Rightarrow> (block \<times> prose) list \<Rightarrow> piece list" where
  "shown_message p [] = [Prose (shown_prose p)]"
| "shown_message p ((b, q) # bs) = Prose (shown_prose p) # shown_block b # shown_message q bs"

text \<open>Plain text has no tick, a piece of code is not empty and has none; neither a prose nor a block has a
  fence in it or ends in a way that makes one with the fence after it.\<close>

fun prose_ok :: "prose \<Rightarrow> bool" where
  "prose_ok (t, []) = (tick \<notin> set t)"
| "prose_ok (t, (c, u) # cs) = (tick \<notin> set t \<and> tick \<notin> set c \<and> c \<noteq> [] \<and> prose_ok (u, cs))"

definition fence_free :: "string \<Rightarrow> bool" where
  "fence_free s \<longleftrightarrow> find_sub fence (s @ ''``'') = None"

definition block_ok :: "block \<Rightarrow> bool" where
  "block_ok b \<longleftrightarrow> CHR 0x0A \<notin> set (fst b) \<and> fence_free (write_block b)"

fun message_ok :: "prose \<Rightarrow> (block \<times> prose) list \<Rightarrow> bool" where
  "message_ok p [] = (prose_ok p \<and> fence_free (write_prose p))"
| "message_ok p ((b, q) # bs) = (prose_ok p \<and> fence_free (write_prose p) \<and> block_ok b \<and> message_ok q bs)"

lemma fence_free_Cons: "fence_free (c # s) \<Longrightarrow> fence_free s"
  by (simp add: fence_free_def split: if_splits option.splits prod.splits)

lemma fence_free_prefix: "fence_free (c # s) \<Longrightarrow> \<not> prefix fence (c # s @ ''``'')"
  by (simp add: fence_free_def split: if_splits)

lemma find_fence: "fence_free s \<Longrightarrow> find_sub fence (s @ fence @ r) = Some (s, r)"
proof (induction s)
  case Nil
  show ?case by (simp add: fence_def prefix_def)
next
  case (Cons c s)
  have "\<not> prefix fence (c # s @ fence @ r)"
    using fence_free_prefix [OF Cons.prems] by (cases s; cases "tl s") (auto simp: fence_def prefix_def)
  then show ?case using Cons.IH [OF fence_free_Cons [OF Cons.prems]] by simp
qed

lemma find_fence_none: "fence_free s \<Longrightarrow> find_sub fence s = None"
proof (induction s)
  case Nil
  show ?case by (simp add: fence_def)
next
  case (Cons c s)
  have "\<not> prefix fence (c # s)"
    using fence_free_prefix [OF Cons.prems] by (cases s; cases "tl s") (auto simp: fence_def prefix_def)
  then show ?case using Cons.IH [OF fence_free_Cons [OF Cons.prems]] by simp
qed

lemma fence_free_start: "fence_free s \<Longrightarrow> \<not> startsWith s fence"
  using find_fence_none [of s] by (cases s) (auto simp: startsWith_def fence_def split: if_splits)

lemma inline_plain: "tick \<noteq> c \<Longrightarrow> inline_at (c # s) = None"
  by (auto simp: inline_at_def Let_def)

lemma inline_code: "tick \<notin> set c \<Longrightarrow> c \<noteq> [] \<Longrightarrow> inline_at (tick # c @ tick # r) = Some (c, r)"
proof -
  assume "tick \<notin> set c" "c \<noteq> []"
  moreover have "takeWhile (\<lambda>x. x \<noteq> tick) (c @ tick # r) = c" "dropWhile (\<lambda>x. x \<noteq> tick) (c @ tick # r) = tick # r"
    using \<open>tick \<notin> set c\<close> by (induction c) auto
  ultimately show ?thesis by (simp add: inline_at_def)
qed

lemma split_plain_text: "tick \<notin> set t \<Longrightarrow> split_inline acc (t @ s) = split_inline (rev t @ acc) s"
  by (induction t arbitrary: acc) (simp_all add: inline_plain)

lemma split_inline_prose:
  "prose_ok p \<Longrightarrow> map render_inline (split_inline [] (write_prose p)) = shown_prose p"
proof (induction p rule: write_prose.induct)
  case (1 t)
  then have "split_inline [] t = [t]" using split_plain_text [of t "[]" "[]"] by simp
  with 1 show ?case by (cases t) (auto simp: render_inline_def startsWith_def)
next
  case (2 t c u cs)
  then have s: "split_inline [] (write_prose (t, (c, u) # cs)) = t # (tick # c @ [tick]) # split_inline [] (write_prose (u, cs))"
    using split_plain_text [of t "[]"] inline_code [of c] by simp
  have "render_inline t = Plain t" using 2 by (cases t) (auto simp: render_inline_def startsWith_def)
  moreover have "render_inline (tick # c @ [tick]) = InlineCode c"
    by (simp add: render_inline_def startsWith_def endsWith_def suffix_def slice_def rel_index_def)
  ultimately show ?case using 2 s by simp
qed

lemma render_prose: "prose_ok p \<Longrightarrow> fence_free (write_prose p) \<Longrightarrow> render_part (write_prose p) = Prose (shown_prose p)"
  by (simp add: render_part_def fence_free_start split_inline_prose)

lemma render_block: "block_ok b \<Longrightarrow> render_part (fence @ write_block b @ fence) = shown_block b"
proof -
  assume b: "block_ok b"
  have sl: "slice (fence @ write_block b @ fence) 3 (- 3) = write_block b"
    by (simp add: fence_def slice_def rel_index_def)
  have sp: "split_on (CHR 0x0A) (write_block b) = fst b # split_on (CHR 0x0A) (snd b)"
    using b by (simp add: block_ok_def write_block_def split_on_append_sep)
  have "startsWith (fence @ write_block b @ fence) fence" by (simp add: startsWith_def)
  then show ?thesis by (simp add: render_part_def Let_def sl sp shown_block_def)
qed

text \<open>Property C34: A message written in this way is shown as it was meant: the plain texts, the pieces of code and the
  blocks with their languages, in order, each with exactly its text.\<close>

theorem markup_roundtrip:
  assumes "message_ok p bs"
  shows "renderContent (write_message p bs) = shown_message p bs"
  using assms
proof (induction p bs rule: write_message.induct)
  case (1 p)
  then show ?case by (simp add: renderContent_def split_blocks.simps find_fence_none render_prose)
next
  case (2 p b q bs)
  have "split_blocks (write_message p ((b, q) # bs)) =
      write_prose p # (fence @ write_block b @ fence) # split_blocks (write_message q bs)"
    using 2 by (subst split_blocks.simps) (simp add: find_fence block_ok_def)
  with 2 show ?case by (simp add: renderContent_def render_prose render_block)
qed

theorem markup_roundtrip_witness:
  "renderContent (''Run `ls` now: ```sh'' @ CHR 0x0A # ''ls -l```'') =
     [Prose [Plain ''Run '', InlineCode ''ls'', Plain '' now: ''], CodeBlock (Some ''sh'') ''ls -l'', Prose [Plain []]]"
proof -
  have "message_ok (''Run '', [(''ls'', '' now: '')]) [((''sh'', ''ls -l''), ([], []))]"
    by (simp add: block_ok_def write_block_def fence_free_def fence_def)
  from markup_roundtrip [OF this] show ?thesis
    by (simp add: write_block_def fence_def shown_block_def trim_def is_space_def code_unit_def)
qed

text \<open>A block whose end has not come, in a message that was cut or is being written, is taken for one that
  has: its last three characters are not shown.\<close>

lemma unclosed_block_truncated:
  assumes "fence_free (lang @ CHR 0x0A # code)" and "CHR 0x0A \<notin> set lang" and "3 \<le> length code"
  shows "renderContent (fence @ lang @ CHR 0x0A # code) =
    [CodeBlock (if trim lang = [] then None else Some (trim lang)) (take (length code - 3) code)]"
proof -
  let ?b = "lang @ CHR 0x0A # code"
  have "find_sub fence (fence @ ?b) = Some ([], ?b)"
    by (simp add: fence_def)
  then have sp: "split_blocks (fence @ ?b) = [fence @ ?b]"
    using find_fence_none [OF assms(1)] by (simp add: split_blocks.simps)
  have "slice (fence @ ?b) 3 (- 3) = lang @ CHR 0x0A # take (length code - 3) code"
  proof -
    have "nat (1 + (int (length lang) + int (length code))) - (3 + length lang) = Suc (length code - 3)"
      using assms(3) by linarith
    then show ?thesis using assms(3) by (simp add: fence_def slice_def rel_index_def)
  qed
  then have "render_part (fence @ ?b) = CodeBlock (if trim lang = [] then None else Some (trim lang)) (take (length code - 3) code)"
    using assms(2) by (simp add: render_part_def startsWith_def Let_def split_on_append_sep)
  then show ?thesis by (simp add: renderContent_def sp)
qed

text \<open>A tick that stands alone is taken for an empty piece of code, and is not shown at all.\<close>

lemma lone_tick_vanishes: "renderContent [tick] = [Prose [InlineCode []]]"
  by (simp add: renderContent_def split_blocks.simps fence_def render_part_def startsWith_def inline_at_def
      render_inline_def endsWith_def suffix_def slice_def rel_index_def)

end
