(* ===== verification/Widgets.thy ===== *)
theory Widgets
  imports ChatMarkup Stores Format
begin

text \<open>
  Smaller parts of the panel: translated texts (i18n/index.ts), the threat map
  (app/(panel)/monitoring/geomap/page.tsx), and the figures of the dashboard and of the monitoring
  components. Numbers are exact rationals; random numbers are arguments, from 0 up to but not
  including 1, as \<open>Math.random\<close> gives them.
\<close>

section \<open>Translations (i18n/index.ts)\<close>

definition getMessages :: "json \<Rightarrow> json \<Rightarrow> locale_code \<Rightarrow> json" where
  "getMessages en ar l = (case l of En \<Rightarrow> en | Ar \<Rightarrow> ar)"

text \<open>The replacement text of \<open>String.replace\<close> with a string pattern: \<open>$$\<close>, \<open>$&\<close>, the text before and
  the text after the match are expanded, anything else stands for itself.\<close>

fun expand :: "string \<Rightarrow> string \<Rightarrow> string \<Rightarrow> string \<Rightarrow> string" where
  "expand m b a [] = []"
| "expand m b a [c] = [c]"
| "expand m b a (c # d # s) =
     (if c = CHR ''$'' \<and> d = CHR ''$'' then CHR ''$'' # expand m b a s
      else if c = CHR ''$'' \<and> d = CHR ''&'' then m @ expand m b a s
      else if c = CHR ''$'' \<and> d = tick then b @ expand m b a s
      else if c = CHR ''$'' \<and> d = CHR 0x27 then a @ expand m b a s
      else c # expand m b a (d # s))"

definition replace_first :: "string \<Rightarrow> string \<Rightarrow> string \<Rightarrow> string" where
  "replace_first s p v = (case find_sub p s of None \<Rightarrow> s | Some (b, a) \<Rightarrow> b @ expand p b a v @ a)"

definition message_at :: "json \<Rightarrow> string \<Rightarrow> jsval" where
  "message_at msgs key = fold (\<lambda>part v. opt_member v part) (split_on (CHR ''.'') key) (Some msgs)"

definition placeholder :: "string \<Rightarrow> string" where
  "placeholder k = ''{'' @ k @ ''}''"

definition translate :: "json \<Rightarrow> string \<Rightarrow> (string \<times> string) list option \<Rightarrow> string" where
  "translate msgs key params = (case message_at msgs key of
     Some (JStr val) \<Rightarrow> (case params of None \<Rightarrow> val
       | Some ps \<Rightarrow> fold (\<lambda>(k, v) s. replace_first s (placeholder k) v) ps val)
   | _ \<Rightarrow> key)"

lemma expand_plain: "CHR ''$'' \<notin> set v \<Longrightarrow> expand m b a v = v"
  by (induction m b a v rule: expand.induct) auto

lemma translate_plain:
  "message_at msgs key = Some (JStr val) \<Longrightarrow> translate msgs key None = val"
  "message_at msgs key = None \<Longrightarrow> translate msgs key ps = key"
  by (simp_all add: translate_def)

text \<open>A value without a dollar sign takes the place of the first occurrence of its placeholder.\<close>

lemma translate_one:
  assumes "message_at msgs key = Some (JStr val)" and "find_sub (placeholder k) val = Some (b, a)"
    and "CHR ''$'' \<notin> set v"
  shows "translate msgs key (Some [(k, v)]) = b @ v @ a"
  using assms by (simp add: translate_def replace_first_def expand_plain)

section \<open>The threat map (monitoring/geomap/page.tsx)\<close>

datatype threat_severity = LowThreat | MediumThreat | HighThreat | CriticalThreat

definition THREAT_TYPES :: "string list" where
  "THREAT_TYPES = [''brute_force'', ''port_scan'', ''sql_injection'', ''ddos'', ''malware'', ''phishing'', ''xss'']"

definition COUNTRY_COORDS :: "(string \<times> rat \<times> rat) list" where
  "COUNTRY_COORDS = [
     (''CN'', 35.86, 104.19), (''US'', 37.09, - 95.71), (''RU'', 61.52, 105.31),
     (''BR'', - 14.23, - 51.92), (''DE'', 51.16, 10.45), (''IN'', 20.59, 78.96),
     (''KR'', 35.90, 127.76), (''FR'', 46.22, 2.21), (''GB'', 55.37, - 3.43),
     (''NL'', 52.13, 5.29), (''UA'', 48.37, 31.16), (''IR'', 32.42, 53.68),
     (''JP'', 36.20, 138.25), (''AU'', - 25.27, 133.77), (''CA'', 56.13, - 106.34),
     (''SG'', 1.35, 103.81), (''TR'', 38.96, 35.24), (''PL'', 51.91, 19.14),
     (''VN'', 14.05, 108.27), (''ID'', - 0.78, 113.92)]"

definition latLngToXY :: "rat \<Rightarrow> rat \<Rightarrow> rat \<Rightarrow> rat \<Rightarrow> rat \<times> rat" where
  "latLngToXY lat lng w h = ((lng + 180) / 360 * w, (90 - lat) / 180 * h)"

definition randomChoice :: "'a list \<Rightarrow> rat \<Rightarrow> 'a" where
  "randomChoice arr r = arr ! nat \<lfloor>r * of_nat (length arr)\<rfloor>"

definition srcCountries :: "string list" where
  "srcCountries = [''CN'', ''RU'', ''IR'', ''KR'', ''IN'', ''BR'', ''UA'', ''TR'', ''VN'', ''ID'']"

definition dstCountries :: "string list" where
  "dstCountries = [''US'', ''DE'', ''GB'', ''FR'', ''NL'', ''AU'', ''CA'', ''JP'', ''SG'']"

definition threat_severities :: "threat_severity list" where
  "threat_severities = [LowThreat, LowThreat, MediumThreat, MediumThreat, HighThreat, CriticalThreat]"

record threat =
  th_src :: "rat \<times> rat"
  th_dst :: "rat \<times> rat"
  src_country :: string
  dst_country :: string
  src_ip :: "int list"
  th_type :: string
  th_severity :: threat_severity

text \<open>The coordinates of a country, \<open>[0, 0]\<close> when it has none.\<close>

definition coords :: "string \<Rightarrow> rat \<times> rat" where
  "coords c = (case map_of COUNTRY_COORDS c of None \<Rightarrow> (0, 0) | Some p \<Rightarrow> p)"

text \<open>\<open>r i\<close> is the random number of the \<open>i\<close>-th draw.\<close>

definition generateThreat :: "(nat \<Rightarrow> rat) \<Rightarrow> threat" where
  "generateThreat r =
    (let src = randomChoice srcCountries (r 0); dst = randomChoice dstCountries (r 1);
         (slat, slng) = coords src; (dlat, dlng) = coords dst
     in \<lparr>th_src = (slat + (r 3 - 1 / 2) * 8, slng + (r 4 - 1 / 2) * 8),
         th_dst = (dlat + (r 5 - 1 / 2) * 4, dlng + (r 6 - 1 / 2) * 4),
         src_country = src, dst_country = dst,
         src_ip = [\<lfloor>r 7 * 200 + 1\<rfloor>, \<lfloor>r 8 * 256\<rfloor>, \<lfloor>r 9 * 256\<rfloor>, \<lfloor>r 10 * 256\<rfloor>],
         th_type = randomChoice THREAT_TYPES (r 11), th_severity = randomChoice threat_severities (r 12)\<rparr>)"

text \<open>The animated arcs: from the source to the destination of a threat, with their progress.\<close>

record arc =
  arc_from :: "rat \<times> rat"
  arc_to :: "rat \<times> rat"
  progress :: rat
  arc_severity :: threat_severity

record geomap =
  threats :: "threat list"
  st_total :: nat
  st_critical :: nat
  st_blocked :: nat
  st_countries :: nat
  isLive :: bool
  arcs :: "arc list"

definition geomap_init :: geomap where
  "geomap_init = \<lparr>threats = [], st_total = 0, st_critical = 0, st_blocked = 0, st_countries = 0,
     isLive = True, arcs = []\<rparr>"

definition new_arc :: "rat \<Rightarrow> rat \<Rightarrow> threat \<Rightarrow> arc" where
  "new_arc w h t = \<lparr>arc_from = latLngToXY (fst (th_src t)) (snd (th_src t)) w h,
     arc_to = latLngToXY (fst (th_dst t)) (snd (th_dst t)) w h, progress = 0, arc_severity = th_severity t\<rparr>"

text \<open>One tick of the interval, with the threats it makes; the interval exists while the map is live.\<close>

definition geo_tick :: "rat \<Rightarrow> rat \<Rightarrow> threat list \<Rightarrow> rat \<Rightarrow> geomap \<Rightarrow> geomap" where
  "geo_tick w h new r s = (if \<not> isLive s then s else
     s\<lparr>arcs := arcs s @ map (new_arc w h) new,
       threats := take 50 (new @ threats s),
       st_total := st_total s + length new,
       st_critical := st_critical s + length (filter (\<lambda>t. th_severity t = CriticalThreat) new),
       st_blocked := st_blocked s + length new,
       st_countries := min (st_countries s + (if r > 7 / 10 then 1 else 0)) 47\<rparr>)"

text \<open>What a frame does to the arcs before it draws them.\<close>

definition geo_frame :: "geomap \<Rightarrow> geomap" where
  "geo_frame s = s\<lparr>arcs := filter (\<lambda>a. progress a \<le> 6 / 5) (map (\<lambda>a. a\<lparr>progress := progress a + 3 / 200\<rparr>) (arcs s))\<rparr>"

text \<open>How many threats a tick makes.\<close>

definition geo_count :: "rat \<Rightarrow> nat" where
  "geo_count r = nat \<lfloor>r * 3\<rfloor> + 1"

datatype geo_event = GeoTick rat rat "threat list" rat | GeoFrame | GeoLive

fun geo_step :: "geo_event \<Rightarrow> geomap \<Rightarrow> geomap" where
  "geo_step (GeoTick w h new r) s = geo_tick w h new r s"
| "geo_step GeoFrame s = geo_frame s"
| "geo_step GeoLive s = s\<lparr>isLive := \<not> isLive s\<rparr>"

text \<open>A point of the curve an arc is drawn on.\<close>

definition arc_point :: "arc \<Rightarrow> rat \<Rightarrow> rat \<times> rat" where
  "arc_point a t =
    (let x1 = fst (arc_from a); y1 = snd (arc_from a); x2 = fst (arc_to a); y2 = snd (arc_to a);
         cx = (x1 + x2) / 2; cy = min y1 y2 - \<bar>x2 - x1\<bar> * 3 / 10
     in ((1 - t)\<^sup>2 * x1 + 2 * (1 - t) * t * cx + t\<^sup>2 * x2, (1 - t)\<^sup>2 * y1 + 2 * (1 - t) * t * cy + t\<^sup>2 * y2))"

definition arc_steps :: "arc \<Rightarrow> nat" where
  "arc_steps a = nat \<lfloor>min (progress a) 1 * 40\<rfloor>"

text \<open>The path a frame draws for an arc.\<close>

definition arc_path :: "arc \<Rightarrow> (rat \<times> rat) list" where
  "arc_path a = map (\<lambda>i. arc_point a (of_nat i / 40)) [0..<Suc (arc_steps a)]"

text \<open>\<open>Object.entries\<close> of the counts, in the order the countries were met; then the five largest.\<close>

fun bump :: "string \<Rightarrow> (string \<times> nat) list \<Rightarrow> (string \<times> nat) list" where
  "bump c [] = [(c, 1)]"
| "bump c ((d, n) # cs) = (if d = c then (d, Suc n) # cs else (d, n) # bump c cs)"

definition country_counts :: "threat list \<Rightarrow> (string \<times> nat) list" where
  "country_counts ts = fold (\<lambda>t. bump (src_country t)) ts []"

definition topCountries :: "threat list \<Rightarrow> (string \<times> nat) list" where
  "topCountries ts = take 5 (rev (sort_key snd (rev (country_counts ts))))"

subsection \<open>The feed\<close>

definition geo_inv :: "geomap \<Rightarrow> bool" where
  "geo_inv s \<longleftrightarrow> length (threats s) \<le> 50 \<and> st_blocked s = st_total s \<and> st_critical s \<le> st_total s \<and>
     st_countries s \<le> 47 \<and> (\<forall>a \<in> set (arcs s). 0 \<le> progress a \<and> progress a \<le> 6 / 5)"

lemma geo_step_inv: "geo_inv s \<Longrightarrow> geo_inv (geo_step e s)"
proof (cases e)
  case (GeoTick w h new r)
  assume "geo_inv s"
  with GeoTick show ?thesis
    by (auto simp: geo_inv_def geo_tick_def new_arc_def intro!: add_mono)
next
  case GeoFrame
  assume "geo_inv s"
  with GeoFrame show ?thesis by (auto simp: geo_inv_def geo_frame_def)
qed (simp add: geo_inv_def)

interpretation geo: component geo_step geo_inv
  by unfold_locales (rule geo_step_inv)

text \<open>Nothing is drawn for ever: after 81 frames an arc is gone.\<close>

lemma geo_frames:
  "arcs ((geo_frame ^^ Suc n) s) =
     filter (\<lambda>a. progress a \<le> 6 / 5) (map (\<lambda>a. a\<lparr>progress := progress a + of_nat (Suc n) * 3 / 200\<rparr>) (arcs s))"
proof (induction n)
  case 0
  show ?case by (simp add: geo_frame_def)
next
  case (Suc n)
  have f: "filter P (map f (filter Q (map g xs))) = filter P (map (f \<circ> g) xs)"
    if "\<And>x. P (f (g x)) \<Longrightarrow> Q (g x)" for P Q :: "arc \<Rightarrow> bool" and f g :: "arc \<Rightarrow> arc" and xs
    using that by (induction xs) auto
  have "arcs ((geo_frame ^^ Suc (Suc n)) s) = filter (\<lambda>a. progress a \<le> 6 / 5)
      (map (\<lambda>a. a\<lparr>progress := progress a + 3 / 200\<rparr>) (arcs ((geo_frame ^^ Suc n) s)))"
    by (simp add: geo_frame_def)
  also have "\<dots> = filter (\<lambda>a. progress a \<le> 6 / 5) (map ((\<lambda>a. a\<lparr>progress := progress a + 3 / 200\<rparr>) \<circ>
      (\<lambda>a. a\<lparr>progress := progress a + of_nat (Suc n) * 3 / 200\<rparr>)) (arcs s))"
    unfolding Suc.IH by (rule f) simp
  also have "(\<lambda>a. a\<lparr>progress := progress a + 3 / 200\<rparr>) \<circ> (\<lambda>a. a\<lparr>progress := progress a + of_nat (Suc n) * 3 / 200\<rparr>) =
      (\<lambda>a :: arc. a\<lparr>progress := progress a + of_nat (Suc (Suc n)) * 3 / 200\<rparr>)"
    by (rule ext) (simp add: field_simps)
  finally show ?case .
qed

lemma arcs_end: "geo_inv s \<Longrightarrow> arcs ((geo_frame ^^ 81) s) = []"
  using geo_frames [of 80 s] by (auto simp: geo_inv_def filter_empty_conv)

lemma arc_ends: "arc_point a 0 = arc_from a" "arc_point a 1 = arc_to a"
  by (simp_all add: arc_point_def)

lemma arc_path_complete:
  assumes "1 \<le> progress a"
  shows "hd (arc_path a) = arc_from a" and "last (arc_path a) = arc_to a" and "length (arc_path a) = 41"
proof -
  have "arc_steps a = 40" using assms by (simp add: arc_steps_def)
  then have "arc_path a = map (\<lambda>i. arc_point a (of_nat i / 40)) ([0..<40] @ [40])"
    unfolding arc_path_def by (simp only: upt_Suc_append zero_le)
  then show "hd (arc_path a) = arc_from a" and "last (arc_path a) = arc_to a" and "length (arc_path a) = 41"
    by (simp_all add: arc_ends hd_map)
qed

subsection \<open>Threats\<close>

abbreviation unit_random :: "rat \<Rightarrow> bool" where
  "unit_random r \<equiv> 0 \<le> r \<and> r < 1"

lemma floor_random: "unit_random r \<Longrightarrow> 0 < n \<Longrightarrow> 0 \<le> \<lfloor>r * of_nat n\<rfloor> \<and> \<lfloor>r * of_nat n\<rfloor> < int n"
proof -
  assume r: "unit_random r" and n: "0 < n"
  then have "r * of_nat n < 1 * of_nat n" by (intro mult_strict_right_mono) simp_all
  then have "r * of_nat n < of_int (int n)" by simp
  then show ?thesis using r n by (simp add: floor_less_iff)
qed

lemma randomChoice_in: "unit_random r \<Longrightarrow> arr \<noteq> [] \<Longrightarrow> randomChoice arr r \<in> set arr"
  using floor_random [of r "length arr"] by (simp add: randomChoice_def nat_less_iff)

lemma spread_around:
  assumes "unit_random r" and "0 \<le> k" and "k / 2 \<le> x - l" and "k / 2 \<le> u - x"
  shows "l \<le> x + (r - 1 / 2) * k \<and> x + (r - 1 / 2) * k \<le> u"
proof -
  have "0 \<le> r * k" using assms(1,2) by simp
  moreover have "r * k \<le> 1 * k" using assms(1,2) by (intro mult_right_mono) simp_all
  moreover have "(r - 1 / 2) * k = r * k - k / 2" by (simp add: algebra_simps)
  ultimately show ?thesis using assms(3,4) by linarith
qed

definition inland :: "rat \<times> rat \<Rightarrow> bool" where
  "inland p \<longleftrightarrow> \<bar>fst p\<bar> \<le> 86 \<and> \<bar>snd p\<bar> \<le> 176"

lemma coords_inland:
  "c \<in> set srcCountries \<Longrightarrow> inland (coords c)" "c \<in> set dstCountries \<Longrightarrow> inland (coords c)"
proof -
  have "list_all (\<lambda>c. inland (coords c)) (srcCountries @ dstCountries)" by code_simp
  then show "c \<in> set srcCountries \<Longrightarrow> inland (coords c)" "c \<in> set dstCountries \<Longrightarrow> inland (coords c)"
    by (auto simp: list_all_iff)
qed

lemma on_canvas:
  assumes "\<bar>lat\<bar> \<le> 90" and "\<bar>lng\<bar> \<le> 180" and "0 \<le> w" and "0 \<le> h"
  shows "fst (latLngToXY lat lng w h) \<in> {0..w} \<and> snd (latLngToXY lat lng w h) \<in> {0..h}"
proof -
  have "(lng + 180) / 360 * w \<le> 1 * w" "(90 - lat) / 180 * h \<le> 1 * h"
    using assms by (intro mult_right_mono; simp)+
  moreover have "0 \<le> (lng + 180) / 360 * w" "0 \<le> (90 - lat) / 180 * h"
    using assms by (intro mult_nonneg_nonneg; simp)+
  ultimately show ?thesis by (simp add: latLngToXY_def)
qed

text \<open>Every threat made is drawn on the canvas, whatever its size and the random numbers are: both ends of its
  arc are points of it, the two countries differ, and the address is one a host can have.\<close>

lemma threat_on_map:
  assumes r: "\<And>i. unit_random (r i)" and "0 \<le> w" "0 \<le> h"
  defines "t \<equiv> generateThreat r"
  shows "arc_from (new_arc w h t) \<in> {0..w} \<times> {0..h}" and "arc_to (new_arc w h t) \<in> {0..w} \<times> {0..h}"
    and "src_country t \<noteq> dst_country t" and "th_type t \<in> set THREAT_TYPES"
    and "hd (src_ip t) \<in> {1..200}" and "\<forall>i \<in> set (tl (src_ip t)). i \<in> {0..255}"
proof -
  let ?s = "randomChoice srcCountries (r 0)" and ?d = "randomChoice dstCountries (r 1)"
  have "srcCountries \<noteq> []" "dstCountries \<noteq> []" by (simp_all add: srcCountries_def dstCountries_def)
  then have s: "?s \<in> set srcCountries" and d: "?d \<in> set dstCountries"
    using randomChoice_in [OF r] by blast+
  note i = coords_inland(1) [OF s] coords_inland(2) [OF d]
  have src: "\<bar>fst (th_src t)\<bar> \<le> 90" "\<bar>snd (th_src t)\<bar> \<le> 180"
    using spread_around [OF r [of 3], of 8 "fst (coords ?s)" "- 90" 90] spread_around [OF r [of 4], of 8 "snd (coords ?s)" "- 180" 180] i(1)
    by (auto simp: t_def generateThreat_def Let_def inland_def abs_le_iff split: prod.splits)
  have dst: "\<bar>fst (th_dst t)\<bar> \<le> 90" "\<bar>snd (th_dst t)\<bar> \<le> 180"
    using spread_around [OF r [of 5], of 4 "fst (coords ?d)" "- 90" 90] spread_around [OF r [of 6], of 4 "snd (coords ?d)" "- 180" 180] i(2)
    by (auto simp: t_def generateThreat_def Let_def inland_def abs_le_iff split: prod.splits)
  show "arc_from (new_arc w h t) \<in> {0..w} \<times> {0..h}" "arc_to (new_arc w h t) \<in> {0..w} \<times> {0..h}"
    using on_canvas [OF src assms(2,3)] on_canvas [OF dst assms(2,3)] by (simp_all add: new_arc_def mem_Times_iff)
  have "src_country t = ?s" "dst_country t = ?d"
    by (simp_all add: t_def generateThreat_def Let_def split: prod.splits)
  moreover have "set srcCountries \<inter> set dstCountries = {}" by (simp add: srcCountries_def dstCountries_def)
  ultimately show "src_country t \<noteq> dst_country t" using s d by auto
  have "th_type t = randomChoice THREAT_TYPES (r 11)"
    by (simp add: t_def generateThreat_def Let_def split: prod.splits)
  moreover have "THREAT_TYPES \<noteq> []" by (simp add: THREAT_TYPES_def)
  ultimately show "th_type t \<in> set THREAT_TYPES" using randomChoice_in [OF r [of 11]] by simp
  have ip: "src_ip t = [\<lfloor>r 7 * 200 + 1\<rfloor>, \<lfloor>r 8 * 256\<rfloor>, \<lfloor>r 9 * 256\<rfloor>, \<lfloor>r 10 * 256\<rfloor>]"
    by (simp add: t_def generateThreat_def Let_def split: prod.splits)
  have "\<lfloor>r 7 * 200 + 1\<rfloor> = \<lfloor>r 7 * 200\<rfloor> + 1" by simp
  then show "hd (src_ip t) \<in> {1..200}" using floor_random [OF r, of 200 7] by (simp add: ip)
  show "\<forall>i \<in> set (tl (src_ip t)). i \<in> {0..255}"
    using floor_random [OF r, of 256] by (simp add: ip)
qed

subsection \<open>Origins\<close>

lemma bump_keys: "fst ` set (bump c cs) = insert c (fst ` set cs)"
  by (induction c cs rule: bump.induct) auto

lemma bump_distinct: "distinct (map fst cs) \<Longrightarrow> distinct (map fst (bump c cs))"
proof (induction c cs rule: bump.induct)
  case (2 c d n cs)
  then show ?case using bump_keys [of c cs] by auto
qed simp

lemma map_of_bump:
  "map_of (bump c cs) x = (if x = c then Some (Suc (case map_of cs c of None \<Rightarrow> 0 | Some n \<Rightarrow> n)) else map_of cs x)"
  by (induction c cs rule: bump.induct) auto

lemma counts_snoc: "country_counts (ts @ [t]) = bump (src_country t) (country_counts ts)"
  by (simp add: country_counts_def)

lemma country_counts_correct:
  "map_of (country_counts ts) c =
    (let n = length (filter (\<lambda>t. src_country t = c) ts) in if n = 0 then None else Some n)"
  by (induction ts rule: rev_induct) (auto simp: counts_snoc map_of_bump Let_def, simp add: country_counts_def)

lemma counts_distinct: "distinct (map fst (country_counts ts))"
  by (induction ts rule: rev_induct) (auto simp: counts_snoc bump_distinct, simp add: country_counts_def)

text \<open>The origins shown are at most five different countries with the number of their threats, the most
  frequent first, and none that is left out is more frequent.\<close>

lemma topCountries_correct:
  "length (topCountries ts) \<le> 5 \<and> distinct (map fst (topCountries ts)) \<and>
   sorted_wrt (\<lambda>a b. snd b \<le> snd a) (topCountries ts) \<and>
   (\<forall>(c, n) \<in> set (topCountries ts). n = length (filter (\<lambda>t. src_country t = c) ts))"
proof -
  let ?cs = "rev (sort_key snd (rev (country_counts ts)))"
  have "sorted (map snd (sort_key snd (rev (country_counts ts))))" by simp
  then have s: "sorted_wrt (\<lambda>a b. snd b \<le> snd a) ?cs"
    by (simp add: sorted_wrt_rev sorted_wrt_map)
  have "distinct (map fst (rev (country_counts ts)))" using counts_distinct by (simp add: rev_map [symmetric])
  then have "inj_on fst (set (country_counts ts))" "distinct (country_counts ts)"
    by (simp_all add: distinct_map rev_map [symmetric])
  then have d: "distinct (map fst ?cs)" by (simp add: distinct_map)
  have "n = length (filter (\<lambda>t. src_country t = c) ts)" if "(c, n) \<in> set (topCountries ts)" for c n
  proof -
    have "(c, n) \<in> set (country_counts ts)" using that by (auto simp: topCountries_def dest: in_set_takeD)
    then have "map_of (country_counts ts) c = Some n" using counts_distinct by simp
    then show ?thesis by (simp add: country_counts_correct Let_def split: if_splits)
  qed
  with s d show ?thesis
    by (auto simp: topCountries_def sorted_wrt_take distinct_take take_map [symmetric])
qed

section \<open>Dashboard (dashboard/dashboard-client.tsx)\<close>

text \<open>The sections of the start page: each entry with its label and the page it leads to.\<close>

definition appSections :: "(string \<times> (string \<times> string) list) list" where
  "appSections = [
     (''Account Manager'', [(''Domains'', ''/domains''), (''Subdomains'', ''/domains''), (''DNS Management'', ''/dns''),
        (''SSL Certificates'', ''/ssl''), (''FTP Management'', ''/files''), (''Databases'', ''/databases''),
        (''Web Server'', ''/webserver''), (''PHP Settings'', ''/php''), (''Redirects'', ''/webserver''),
        (''Statistics'', ''/monitoring'')]),
     (''E-mail Manager'', [(''E-mail Accounts'', ''/email''), (''Forwarders'', ''/email/forwarders''),
        (''DKIM / SPF'', ''/email/dkim''), (''Catch-All'', ''/email''), (''Autoresponders'', ''/email''),
        (''Vacation Messages'', ''/email''), (''SPAM Filters'', ''/security''), (''MX Records'', ''/dns''),
        (''Webmail'', ''/email'')]),
     (''Files & Backups'', [(''File Manager'', ''/files''), (''Backups'', ''/backups''),
        (''Backup Restore'', ''/backups''), (''Archiver'', ''/files'')]),
     (''Security'', [(''Security Center'', ''/security''), (''Firewall'', ''/security/firewall''),
        (''Malware Scanner'', ''/security/scanner''), (''Security Events'', ''/security/events'')]),
     (''Monitoring'', [(''Live Metrics'', ''/monitoring''), (''Alerts'', ''/monitoring/alerts''),
        (''Access Logs'', ''/monitoring/logs''), (''Threat Map'', ''/monitoring/geomap'')]),
     (''Advanced Features'', [(''Docker'', ''/docker''), (''Pipelines'', ''/devops''),
        (''Marketplace'', ''/marketplace''), (''AI Assistant'', ''/ai''), (''Cron Jobs'', ''/admin/servers''),
        (''Terminal'', ''/admin/servers''), (''Admin Panel'', ''/admin/users''), (''Settings'', ''/settings/profile'')])]"

text \<open>The bar of a resource: none when there is no limit, and a limit of 0 counts as none.\<close>

record resource_bar =
  rb_over :: bool
  rb_text :: string
  rb_width :: "rat option"

definition resource_pct :: "rat \<Rightarrow> rat option \<Rightarrow> rat" where
  "resource_pct amount limit = (case limit of None \<Rightarrow> 0 | Some l \<Rightarrow> if l = 0 then 0 else amount / l * 100)"

definition ResourceBar :: "(rat \<Rightarrow> string) \<Rightarrow> rat \<Rightarrow> rat option \<Rightarrow> string \<Rightarrow> resource_bar" where
  "ResourceBar show amount limit unit =
    (let pct = resource_pct amount limit; limited = truthy (map_option JNum limit) in
     \<lparr>rb_over = pct \<ge> 100,
      rb_text = show amount @ unit @ '' '' @ (case limit of
         Some l \<Rightarrow> if l \<noteq> 0 then ''/ '' @ show l @ unit else ''/ Unlimited'' | None \<Rightarrow> ''/ Unlimited''),
      rb_width = (if limited then Some (min pct 100) else None)\<rparr>)"

definition UsageRow_over :: "nat \<Rightarrow> nat \<Rightarrow> bool" where
  "UsageRow_over amount limit \<longleftrightarrow> (of_nat amount / of_nat limit :: rat) * 100 \<ge> 100"

lemma ResourceBar_limited:
  assumes "0 < l" and "0 \<le> amount"
  shows "rb_over (ResourceBar show amount (Some l) unit) \<longleftrightarrow> l \<le> amount"
    and "\<exists>w. rb_width (ResourceBar show amount (Some l) unit) = Some w \<and> 0 \<le> w \<and> w \<le> 100"
  using assms by (simp_all add: ResourceBar_def resource_pct_def Let_def le_divide_eq)

lemma UsageRow_full: "0 < limit \<Longrightarrow> UsageRow_over amount limit \<longleftrightarrow> limit \<le> amount"
proof -
  assume "0 < limit"
  then have "(of_nat amount / of_nat limit :: rat) * 100 \<ge> 100 \<longleftrightarrow> (of_nat limit :: rat) \<le> of_nat amount"
    by (simp add: le_divide_eq)
  then show ?thesis by (simp add: UsageRow_over_def)
qed

section \<open>Figures of the monitoring components\<close>

text \<open>components/charts/ResourceGauge.tsx.\<close>

definition gauge_value :: "rat \<Rightarrow> rat" where
  "gauge_value x = min 100 (max 0 x)"

definition gauge_color :: "rat \<Rightarrow> string" where
  "gauge_color x = (if x \<ge> 90 then ''#ef4444'' else if x \<ge> 75 then ''#f59e0b''
     else if x \<ge> 50 then ''#3b82f6'' else ''#22c55e'')"

lemma gauge_range: "gauge_value x \<in> {0..100}" and gauge_inside: "x \<in> {0..100} \<Longrightarrow> gauge_value x = x"
  by (auto simp: gauge_value_def)

text \<open>components/monitoring/IncidentTimeline.tsx: a duration of its own.\<close>

definition incidentDuration :: "nat \<Rightarrow> string" where
  "incidentDuration seconds =
    (if seconds < 60 then show_nat seconds @ ''s''
     else if seconds < 3600 then show_nat (seconds div 60) @ ''m''
     else show_nat (seconds div 3600) @ ''h '' @ show_nat (seconds mod 3600 div 60) @ ''m'')"

text \<open>It prints what the shared helper prints, but for the seconds of durations under an hour.\<close>

lemma incidentDuration_shared:
  "seconds < 60 \<or> 3600 \<le> seconds \<Longrightarrow> incidentDuration seconds = formatDuration seconds"
  "60 \<le> seconds \<Longrightarrow> seconds < 3600 \<Longrightarrow>
     formatDuration seconds = incidentDuration seconds @ '' '' @ show_nat (seconds mod 60) @ ''s''"
  by (auto simp: incidentDuration_def formatDuration_def Let_def)

text \<open>components/dashboard/ActivityFeed.tsx shows the first entries it is given.\<close>

definition feed_shown :: "'a list \<Rightarrow> nat \<Rightarrow> 'a list" where
  "feed_shown items maxItems = slice items 0 (int maxItems)"

lemma feed_shown_take: "feed_shown items n = take n items"
  by (simp add: feed_shown_def)

text \<open>The sizes of the bandwidth and disk pages: \<open>toFixed\<close> keeps the zeros.\<close>

definition show_fixed :: "nat \<Rightarrow> nat \<Rightarrow> string" where
  "show_fixed n d = show_nat (n div 10 ^ d) @ CHR ''.'' # map digit (digits d (n mod 10 ^ d))"

definition page_bytes :: "nat \<Rightarrow> string" where
  "page_bytes bytes =
    (if bytes < 1024 then show_nat bytes @ '' B''
     else if bytes < 1024 * 1024 then show_fixed (nat (toFixed (of_nat bytes / 1024) 1)) 1 @ '' KB''
     else if bytes < 1024 * 1024 * 1024 then show_fixed (nat (toFixed (of_nat bytes / 1024 / 1024) 1)) 1 @ '' MB''
     else show_fixed (nat (toFixed (of_nat bytes / 1024 / 1024 / 1024) 2)) 2 @ '' GB'')"

text \<open>components/dashboard/ResourceWidget.tsx: the rate of a network, in kilobytes under one megabyte.\<close>

definition net_text :: "rat \<Rightarrow> string" where
  "net_text x = (if x < 1 then show_nat (nat (toFixed (x * 1024) 0)) @ '' KB/s''
     else show_fixed (nat (toFixed x 1)) 1 @ '' MB/s'')"

text \<open>Just under one megabyte the rounding gives 1024 KB/s, not 1.0 MB/s.\<close>

lemma net_text_edge: "net_text (9999 / 10000) = ''1024 KB/s''" "net_text 1 = ''1.0 MB/s''"
  by code_simp+

text \<open>Colours of components/charts/PieBreakdown.tsx: those given, the others in turn.\<close>

definition DEFAULT_COLORS :: "string list" where
  "DEFAULT_COLORS = [''#3b82f6'', ''#22c55e'', ''#f59e0b'', ''#ef4444'', ''#8b5cf6'', ''#06b6d4'', ''#ec4899'', ''#84cc16'']"

definition pie_colors :: "string option list \<Rightarrow> string list" where
  "pie_colors cs = map (\<lambda>(i, c). case c of Some x \<Rightarrow> x | None \<Rightarrow> DEFAULT_COLORS ! (i mod length DEFAULT_COLORS))
     (enumerate 0 cs)"

lemma pie_colors_nth:
  "i < length cs \<Longrightarrow> pie_colors cs ! i = (case cs ! i of Some x \<Rightarrow> x | None \<Rightarrow> DEFAULT_COLORS ! (i mod 8))"
proof -
  have "length DEFAULT_COLORS = 8" by (simp add: DEFAULT_COLORS_def)
  then show "i < length cs \<Longrightarrow> ?thesis" by (simp add: pie_colors_def nth_enumerate_eq)
qed

end
