(* ===== verification/SharedParts.thy ===== *)
theory SharedParts
  imports Navigation Widgets
begin

text \<open>
  Parts used all over the panel that keep a state of their own: notices that a timer takes away
  (components/shared/CopyButton.tsx, components/ai/VoiceButton.tsx), the confirmation dialog
  (components/shared/ConfirmDialog.tsx), the error boundary (components/shared/ErrorBoundary.tsx), the
  status badge (components/shared/StatusBadge.tsx) and the map of the servers
  (components/maps/_LeafletMap.tsx).
\<close>

section \<open>Notices taken away by a timer\<close>

text \<open>\<open>setX(v); setTimeout(() => setX(null), d)\<close>: every call starts a timer of its own and none is ever
  cleared. \<open>timers\<close> are the times at which the ones started will fire.\<close>

record 'a notice =
  notice_clock :: nat
  shown :: "'a option"
  timers :: "nat list"

definition notice_start :: "'a notice" where
  "notice_start = \<lparr>notice_clock = 0, shown = None, timers = []\<rparr>"

datatype 'a notice_event = Notify 'a | Wait nat

text \<open>Time passes: the timers that fall due fire, whichever notice they were started for.\<close>

fun notice_step :: "nat \<Rightarrow> 'a notice_event \<Rightarrow> 'a notice \<Rightarrow> 'a notice" where
  "notice_step d (Notify v) n = n\<lparr>shown := Some v, timers := timers n @ [notice_clock n + d]\<rparr>"
| "notice_step d (Wait ms) n =
     (let t = notice_clock n + ms in
      n\<lparr>notice_clock := t, shown := (if list_ex (\<lambda>x. x \<le> t) (timers n) then None else shown n),
        timers := filter (\<lambda>x. t < x) (timers n)\<rparr>)"

definition notice_inv :: "nat \<Rightarrow> 'a notice \<Rightarrow> bool" where
  "notice_inv d n \<longleftrightarrow> list_all (\<lambda>x. notice_clock n < x \<and> x \<le> notice_clock n + d) (timers n) \<and> (shown n \<noteq> None \<longrightarrow> timers n \<noteq> [])"

lemma notice_step_inv: "0 < d \<Longrightarrow> notice_inv d n \<Longrightarrow> notice_inv d (notice_step d e n)"
proof (cases e)
  case (Wait ms)
  have "\<not> list_ex (\<lambda>x. x \<le> notice_clock n + ms) (timers n) \<Longrightarrow> filter (\<lambda>x. notice_clock n + ms < x) (timers n) = timers n"
    by (simp add: filter_id_conv list_ex_iff not_le)
  moreover assume "notice_inv d n"
  ultimately show ?thesis using Wait by (auto simp: notice_inv_def list_all_iff Let_def)
qed (auto simp: notice_inv_def list_all_iff)

interpretation notices: component "notice_step (Suc d)" "notice_inv (Suc d)" for d
  by unfold_locales (rule notice_step_inv, simp_all)

lemma notice_start_inv [simp]: "notice_inv d notice_start"
  by (simp add: notice_inv_def notice_start_def)

lemma notice_expires: "notice_inv d n \<Longrightarrow> shown (notice_step d (Wait d) n) = None"
  by (cases "timers n") (auto simp: notice_inv_def Let_def)

section \<open>components/shared/CopyButton.tsx\<close>

text \<open>\<open>clip\<close> is the text in the clipboard; \<open>CopyDone\<close> is the answer of the browser, which may refuse.\<close>

record copy_button =
  clip :: "string option"
  copying :: "string list"
  copied :: "unit notice"

definition copy_start :: copy_button where
  "copy_start = \<lparr>clip = None, copying = [], copied = notice_start\<rparr>"

datatype copy_event = CopyClick string | CopyDone bool | CopyWait nat

fun copy_step :: "copy_event \<Rightarrow> copy_button \<Rightarrow> copy_button" where
  "copy_step (CopyClick v) s = s\<lparr>copying := copying s @ [v]\<rparr>"
| "copy_step (CopyDone ok) s = (case copying s of
     [] \<Rightarrow> s
   | v # vs \<Rightarrow> if ok then s\<lparr>copying := vs, clip := Some v, copied := notice_step 2000 (Notify ()) (copied s)\<rparr>
       else s\<lparr>copying := vs\<rparr>)"
| "copy_step (CopyWait ms) s = s\<lparr>copied := notice_step 2000 (Wait ms) (copied s)\<rparr>"

definition copy_title :: "copy_button \<Rightarrow> string" where
  "copy_title s = (if shown (copied s) = None then ''Copy'' else ''Copied!'')"

definition copy_inv :: "copy_button \<Rightarrow> bool" where
  "copy_inv s \<longleftrightarrow> notice_inv 2000 (copied s) \<and> (shown (copied s) \<noteq> None \<longrightarrow> clip s \<noteq> None)"

lemma copy_step_inv: "copy_inv s \<Longrightarrow> copy_inv (copy_step e s)"
proof (cases e)
  case (CopyWait ms)
  moreover assume "copy_inv s"
  ultimately show ?thesis using notice_step_inv [of 2000 "copied s" "Wait ms"] by (auto simp: copy_inv_def Let_def)
next
  case (CopyDone ok)
  moreover assume "copy_inv s"
  ultimately show ?thesis using notice_step_inv [of 2000 "copied s" "Notify ()"]
    by (auto simp: copy_inv_def split: list.splits)
qed (simp add: copy_inv_def)

interpretation copy: component copy_step copy_inv
  by unfold_locales (rule copy_step_inv)

section \<open>components/ai/VoiceButton.tsx\<close>

record voice_button =
  showHelp :: bool
  lastCommand :: "string notice"
  control :: voice

definition voice_button_start :: "bool \<Rightarrow> voice_button" where
  "voice_button_start supported = \<lparr>showHelp = False, lastCommand = notice_start,
     control = \<lparr>isListening = False, isSupported = supported, transcript = [], voice_error = None, heard = [], went = []\<rparr>\<rparr>"

datatype voice_button_event = VoiceHelp | VoiceHelpClose | VoiceHeard voice_event | VoiceWait nat

text \<open>\<open>onCommand\<close> is called with the text of the recognition that matched a command.\<close>

fun voice_button_step :: "voice_button_event \<Rightarrow> voice_button \<Rightarrow> voice_button" where
  "voice_button_step VoiceHelp s = s\<lparr>showHelp := \<not> showHelp s\<rparr>"
| "voice_button_step VoiceHelpClose s = s\<lparr>showHelp := False\<rparr>"
| "voice_button_step (VoiceHeard e) s = (let v = voice_step e (control s) in
     s\<lparr>control := v, lastCommand := fold (\<lambda>cmd. notice_step 3000 (Notify cmd)) (drop (length (heard (control s))) (heard v)) (lastCommand s)\<rparr>)"
| "voice_button_step (VoiceWait ms) s = s\<lparr>lastCommand := notice_step 3000 (Wait ms) (lastCommand s)\<rparr>"

text \<open>The text of the bubble over the button, if there is one: an empty text counts as none.\<close>

definition some_text :: "string option \<Rightarrow> string option" where
  "some_text x = (case x of None \<Rightarrow> None | Some t \<Rightarrow> if t = [] then None else Some t)"

definition voice_bubble :: "voice_button \<Rightarrow> string option" where
  "voice_bubble s = (case some_text (voice_error (control s)) of
     Some e \<Rightarrow> Some (''Error: '' @ e)
   | None \<Rightarrow> (case some_text (shown (lastCommand s)) of
       Some c \<Rightarrow> Some (''Command: \"'' @ c @ ''\"'')
     | None \<Rightarrow> some_text (Some (transcript (control s)))))"

definition voice_inv :: "voice_button \<Rightarrow> bool" where
  "voice_inv s \<longleftrightarrow> notice_inv 3000 (lastCommand s) \<and> (case shown (lastCommand s) of None \<Rightarrow> True
     | Some c \<Rightarrow> c \<in> set (heard (control s)))"

lemma heard_step: "heard (voice_step e v) = heard v @ drop (length (heard v)) (heard (voice_step e v))"
  by (cases e) (auto simp: processTranscript_def startListening_def stopListening_def Let_def split: option.splits)

lemma notify_all:
  assumes "notice_inv 3000 n" and "\<And>c. shown n = Some c \<Longrightarrow> c \<in> S"
  shows "notice_inv 3000 (fold (\<lambda>c. notice_step 3000 (Notify c)) cs n) \<and>
    (case shown (fold (\<lambda>c. notice_step 3000 (Notify c)) cs n) of None \<Rightarrow> True | Some c \<Rightarrow> c \<in> S \<union> set cs)"
  using assms
proof (induction cs arbitrary: n S)
  case (Cons c cs)
  have "notice_inv 3000 (notice_step 3000 (Notify c) n)" using notice_step_inv [of 3000 n "Notify c"] Cons.prems(1) by simp
  from Cons.IH [OF this, of "insert c S"] show ?case by (auto split: option.splits)
qed (auto split: option.splits)

lemma voice_button_step_inv: "voice_inv s \<Longrightarrow> voice_inv (voice_button_step e s)"
proof (cases e)
  case (VoiceHeard x)
  moreover assume "voice_inv s"
  ultimately show ?thesis
    using notify_all [of "lastCommand s" "set (heard (control s))" "drop (length (heard (control s))) (heard (voice_step x (control s)))"]
      arg_cong [OF heard_step [of x "control s"], of set]
    by (fastforce simp: voice_inv_def Let_def split: option.splits)
next
  case (VoiceWait ms)
  moreover assume "voice_inv s"
  ultimately show ?thesis using notice_step_inv [of 3000 "lastCommand s" "Wait ms"]
    by (auto simp: voice_inv_def Let_def split: option.splits)
qed (auto simp: voice_inv_def split: option.splits)

interpretation voice_button: component voice_button_step voice_inv
  by unfold_locales (rule voice_button_step_inv)

text \<open>The transcript is only cleared when listening starts again: its bubble stays over the button after the
  command's has gone.\<close>

lemma transcript_stays:
  "voice_bubble (fold voice_button_step [VoiceHeard Toggle, VoiceHeard OnStart, VoiceHeard (OnResult ''go to dns'' True),
     VoiceHeard OnEnd, VoiceWait ms] (voice_button_start True)) =
   Some (if ms < 3000 then ''Command: \"go to dns\"'' else ''go to dns'')"
proof -
  have "first_match voice_commands ''go to dns'' = Some ''/dns''" by code_simp
  then show ?thesis
    by (simp add: voice_button_start_def notice_start_def startListening_def processTranscript_def Let_def
        voice_bubble_def some_text_def)
qed

section \<open>components/shared/ConfirmDialog.tsx\<close>

text \<open>The buttons are Radix's: both close the dialog, as the Escape key does. \<open>cf_calls\<close> are the calls of
  \<open>onConfirm\<close>, \<open>cf_done\<close> those that have ended, \<open>cf_unhandled\<close> those that ended with an error, which
  \<open>handleConfirm\<close> does not catch.\<close>

record confirm_dialog =
  cf_open :: bool
  cf_loading :: bool
  cf_calls :: nat
  cf_done :: nat
  cf_unhandled :: nat

definition confirm_start :: confirm_dialog where
  "confirm_start = \<lparr>cf_open = False, cf_loading = False, cf_calls = 0, cf_done = 0, cf_unhandled = 0\<rparr>"

datatype confirm_event = ConfirmTrigger | ConfirmCancel | ConfirmEscape | ConfirmAction | ConfirmSettled bool

fun confirm_step :: "confirm_event \<Rightarrow> confirm_dialog \<Rightarrow> confirm_dialog" where
  "confirm_step ConfirmTrigger s = s\<lparr>cf_open := True\<rparr>"
| "confirm_step ConfirmCancel s = (if cf_open s \<and> \<not> cf_loading s then s\<lparr>cf_open := False\<rparr> else s)"
| "confirm_step ConfirmEscape s = s\<lparr>cf_open := False\<rparr>"
| "confirm_step ConfirmAction s = (if cf_open s \<and> \<not> cf_loading s
     then s\<lparr>cf_open := False, cf_loading := True, cf_calls := Suc (cf_calls s)\<rparr> else s)"
| "confirm_step (ConfirmSettled ok) s = (if \<not> cf_loading s then s
     else s\<lparr>cf_loading := False, cf_done := Suc (cf_done s), cf_unhandled := cf_unhandled s + (if ok then 0 else 1)\<rparr>)"

definition confirm_label :: "string \<Rightarrow> confirm_dialog \<Rightarrow> string option" where
  "confirm_label l s = (if \<not> cf_open s then None else Some (if cf_loading s then ''Processing...'' else l))"

definition confirm_inv :: "confirm_dialog \<Rightarrow> bool" where
  "confirm_inv s \<longleftrightarrow> cf_calls s = cf_done s + (if cf_loading s then 1 else 0) \<and> cf_unhandled s \<le> cf_done s"

lemma confirm_step_inv: "confirm_inv s \<Longrightarrow> confirm_inv (confirm_step e s)"
  by (cases e) (auto simp: confirm_inv_def)

interpretation confirm: component confirm_step confirm_inv
  by unfold_locales (rule confirm_step_inv)

text \<open>The dialog is closed by the press that confirms: that the action is under way is seen only by who opens
  it again.\<close>

lemma confirm_closes:
  "\<not> cf_loading s \<Longrightarrow> confirm_label l (confirm_step ConfirmAction s) = None"
  "cf_loading s \<Longrightarrow> confirm_label l (confirm_step ConfirmTrigger s) = Some ''Processing...''"
  by (simp_all add: confirm_label_def)

section \<open>components/shared/ErrorBoundary.tsx\<close>

text \<open>The error that was caught, with its message; \<open>TryAgain\<close> renders the children again, which may fail again.\<close>

type_synonym boundary = "string option"

datatype boundary_event = ChildThrows string | TryAgain

fun boundary_step :: "boundary_event \<Rightarrow> boundary \<Rightarrow> boundary" where
  "boundary_step (ChildThrows msg) b = Some msg"
| "boundary_step TryAgain b = None"

text \<open>What is rendered: the children, the fallback if one was given, or the message.\<close>

datatype 'a rendered = Children | Fallback 'a | ErrorText string

definition boundary_render :: "'a option \<Rightarrow> boundary \<Rightarrow> 'a rendered" where
  "boundary_render fallback b = (case b of None \<Rightarrow> Children
     | Some msg \<Rightarrow> (case fallback of Some f \<Rightarrow> Fallback f | None \<Rightarrow> ErrorText msg))"

text \<open>With a fallback there is no button to try again: the children never come back.\<close>

lemma fallback_stays:
  "boundary_render (Some f) (fold boundary_step (map ChildThrows msgs) (Some m)) = Fallback f"
proof -
  have "\<exists>m'. fold boundary_step (map ChildThrows msgs) (Some m) = Some m'" by (induction msgs arbitrary: m) auto
  then show ?thesis by (auto simp: boundary_render_def)
qed

section \<open>components/shared/StatusBadge.tsx\<close>

definition variantStyles :: "(string \<times> string) list" where
  "variantStyles =
    (let green = ''bg-emerald-500/15 text-emerald-600 dark:text-emerald-400 border-emerald-500/30'';
         blue = ''bg-blue-500/15 text-blue-600 dark:text-blue-400 border-blue-500/30'';
         yellow = ''bg-yellow-500/15 text-yellow-600 dark:text-yellow-400 border-yellow-500/30'';
         red = ''bg-red-500/15 text-red-600 dark:text-red-400 border-red-500/30'';
         grey = ''bg-muted text-muted-foreground border-border''
     in [(''active'', green), (''success'', green), (''running'', blue), (''pending'', yellow), (''warning'', yellow),
         (''failed'', red), (''error'', red), (''inactive'', grey), (''offline'', grey), (''disabled'', grey)])"

text \<open>\<open>cn\<close> ignores a function: an inherited property gives no style.\<close>

definition badge_style :: "string \<Rightarrow> string option" where
  "badge_style status = (case obj_get variantStyles (toLowerCase status) of
     Own v \<Rightarrow> Some v | Inherited \<Rightarrow> None | Missing \<Rightarrow> map_of variantStyles ''inactive'')"

definition badge_text :: "string \<Rightarrow> string option \<Rightarrow> string" where
  "badge_text status label = (case label of None \<Rightarrow> status | Some l \<Rightarrow> l)"

lemma lower_no_upper: "c \<in> set (toLowerCase s) \<Longrightarrow> \<not> is_upper c"
  by (auto simp: toLowerCase_def to_lower_def is_upper_def Let_def)

text \<open>Every badge has a style but that of a status named like a property all objects have.\<close>

lemma badge_styled: "badge_style status = None \<longleftrightarrow> toLowerCase status \<in> {''constructor'', ''__proto__''}"
proof -
  have f: "filter (list_all (\<lambda>c. \<not> is_upper c)) object_prototype = [''constructor'', ''__proto__'']"
    by (simp add: object_prototype_def is_upper_def code_unit_def Let_def)
  have "k \<in> set (filter (list_all (\<lambda>c. \<not> is_upper c)) object_prototype) \<longleftrightarrow> k \<in> {''constructor'', ''__proto__''}" for k
    unfolding f by (simp only: list.set)
  then have "k \<in> set object_prototype \<and> list_all (\<lambda>c. \<not> is_upper c) k \<longleftrightarrow> k \<in> {''constructor'', ''__proto__''}" for k
    by (simp only: set_filter mem_Collect_eq)
  moreover have "list_all (\<lambda>c. \<not> is_upper c) (toLowerCase status)"
    using lower_no_upper by (simp add: list_all_iff)
  ultimately have i: "toLowerCase status \<in> set object_prototype \<longleftrightarrow> toLowerCase status \<in> {''constructor'', ''__proto__''}"
    by blast
  have m: "map_of variantStyles ''constructor'' = None" "map_of variantStyles ''__proto__'' = None"
    "map_of variantStyles ''inactive'' \<noteq> None"
    by (simp_all add: variantStyles_def Let_def)
  show ?thesis
  proof (cases "map_of variantStyles (toLowerCase status)")
    case None
    then show ?thesis using i m(3) by (simp only: badge_style_def obj_get_def option.case) simp
  next
    case (Some v)
    with m(1,2) have "toLowerCase status \<notin> {''constructor'', ''__proto__''}" by auto
    with Some show ?thesis by (simp only: badge_style_def obj_get_def option.case property.case) simp
  qed
qed

section \<open>components/maps/_LeafletMap.tsx\<close>

record server_node =
  sn_hostname :: string
  sn_ip :: string
  sn_status :: string
  sn_datacenter :: "string option"
  sn_cpu :: "nat option"
  sn_ram :: "nat option"

definition STATUS_COLORS :: "(string \<times> string) list" where
  "STATUS_COLORS = [(''active'', ''#22c55e''), (''offline'', ''#ef4444''), (''maintenance'', ''#f59e0b'')]"

definition marker_color :: "string \<Rightarrow> string" where
  "marker_color st = (case map_of STATUS_COLORS st of Some c \<Rightarrow> c | None \<Rightarrow> ''#6b7280'')"

text \<open>The HTML of a marker's popup; nothing in it is escaped.\<close>

text \<open>The template literal is written as it stands: its line breaks and its indentation are part of the text.\<close>

definition indent_line :: "nat \<Rightarrow> string" where
  "indent_line n = CHR 0x0A # replicate n (CHR '' '')"

definition popup_html :: "server_node \<Rightarrow> string" where
  "popup_html s =
     indent_line 12 @ ''<div style=\"font-family:monospace;font-size:12px;min-width:160px\">'' @
     indent_line 14 @ ''<strong>'' @ sn_hostname s @ ''</strong><br/>'' @
     indent_line 14 @ ''<span style=\"color:#9ca3af\">'' @ sn_ip s @ ''</span><br/>'' @
     indent_line 14 @ (case sn_datacenter s of
         Some d \<Rightarrow> if d = [] then [] else ''<span>'' @ d @ ''</span><br/>'' | None \<Rightarrow> []) @
     indent_line 14 @ (case sn_cpu s of
         Some c \<Rightarrow> ''CPU: '' @ show_nat c @ ''% | RAM: '' @
           show_nat (case sn_ram s of Some r \<Rightarrow> r | None \<Rightarrow> 0) @ ''%'' | None \<Rightarrow> []) @
     indent_line 12 @ ''</div>'' @ indent_line 10"

lemma popup_not_escaped: "str_includes (popup_html s) (sn_hostname s)"
proof -
  define before where "before = indent_line 12 @
     ''<div style=\"font-family:monospace;font-size:12px;min-width:160px\">'' @ indent_line 14 @ ''<strong>''"
  obtain after where "popup_html s = before @ sn_hostname s @ after"
    unfolding popup_html_def before_def append_assoc by blast
  then show ?thesis by (simp only: str_includes_sublist sublist_appendI)
qed

text \<open>The life of the map: the library is loaded when the component is mounted, and puts up the markers of the
  servers there were then; the effect of later ones is empty.\<close>

record infra_map =
  im_servers :: "server_node list"
  im_mounted :: bool
  im_loading :: "server_node list list"
  im_markers :: "server_node list option"
  im_errors :: nat

definition map_start :: "server_node list \<Rightarrow> infra_map" where
  "map_start ss = \<lparr>im_servers = ss, im_mounted = True, im_loading = [ss], im_markers = None, im_errors = 0\<rparr>"

datatype map_event = MapLoaded | MapServers "server_node list" | MapUnmount

text \<open>\<open>L.map\<close> throws when its container is gone.\<close>

fun map_step :: "map_event \<Rightarrow> infra_map \<Rightarrow> infra_map" where
  "map_step MapLoaded m = (case im_loading m of
     [] \<Rightarrow> m
   | ss # l \<Rightarrow> if im_mounted m then m\<lparr>im_loading := l, im_markers := Some ss\<rparr>
       else m\<lparr>im_loading := l, im_errors := Suc (im_errors m)\<rparr>)"
| "map_step (MapServers ss) m = (if im_mounted m then m\<lparr>im_servers := ss\<rparr> else m)"
| "map_step MapUnmount m = m\<lparr>im_mounted := False, im_markers := None\<rparr>"

definition map_inv :: "server_node list \<Rightarrow> infra_map \<Rightarrow> bool" where
  "map_inv ss m \<longleftrightarrow> im_markers m \<in> {None, Some ss} \<and> im_loading m \<in> {[], [ss]} \<and>
     im_errors m + length (im_loading m) \<le> 1 \<and> (im_markers m \<noteq> None \<longrightarrow> im_mounted m)"

lemma map_step_inv: "map_inv ss m \<Longrightarrow> map_inv ss (map_step e m)"
  by (cases e) (auto simp: map_inv_def split: list.splits)

interpretation infra_map: component map_step "map_inv ss" for ss
  by unfold_locales (rule map_step_inv)

text \<open>Whatever servers come later, the markers are those of the first.\<close>

lemma markers_of_first: "im_markers (fold map_step es (map_start ss)) \<in> {None, Some ss}"
proof -
  have "map_inv ss (map_start ss)" by (simp add: map_inv_def map_start_def)
  from infra_map.run_inv [OF this] show ?thesis by (simp add: map_inv_def)
qed

section \<open>What notices do\<close>

text \<open>A notice is gone when its time is over, whatever happened before; alone it stays as long as that; but one that
  is shown while the timer of another is still running goes with the other's.\<close>

theorem notices_end:
  "shown (notice_step (Suc d) (Wait (Suc d)) (fold (notice_step (Suc d)) es notice_start)) = None \<and>
   shown (fold (notice_step (Suc d)) [Notify v, Wait k] notice_start) = (if k \<le> d then Some v else None) \<and>
   shown (fold (notice_step (Suc d)) [Notify v, Wait k, Notify w, Wait j] notice_start) =
     (if k \<le> d \<and> k + j \<le> d \<or> d < k \<and> j \<le> d then Some w else None)"
proof (intro conjI)
  have "notice_inv (Suc d) (fold (notice_step (Suc d)) es notice_start)"
    by (rule notices.run_inv) simp
  then show "shown (notice_step (Suc d) (Wait (Suc d)) (fold (notice_step (Suc d)) es notice_start)) = None"
    by (rule notice_expires)
qed (auto simp: notice_start_def Let_def)

end
