(* ===== verification/OverviewPages.thy ===== *)
theory OverviewPages
  imports AdminPages SecurityPages SharedParts
begin

text \<open>
  Pages and components that mostly show something: the reseller's page as a whole (reseller/page.tsx), the
  servers of the administrator (admin/servers/page.tsx), the security overview (security/page.tsx), the
  invoices (billing/invoices/page.tsx), the webmail clients (email/webmail/page.tsx), the list of alert
  rules and the incidents (components/monitoring), the charts and the cards of the dashboard. What is
  modelled of them is what they select and compute, and the state of those that have one.
\<close>

section \<open>reseller/page.tsx\<close>

datatype reseller_tab = OverviewTab | UsersTab | PackagesTab

record reseller_page =
  rv_tab :: reseller_tab
  rv_data :: reseller
  rv_showAddPackage :: bool
  rv_showAddUser :: bool

definition reseller_page_start :: reseller_page where
  "reseller_page_start = \<lparr>rv_tab = OverviewTab, rv_data = \<lparr>rs_packages = MOCK_PACKAGES, rs_users = MOCK_USERS\<rparr>,
     rv_showAddPackage = False, rv_showAddUser = False\<rparr>"

text \<open>The dialogs lie over the page, and require all of their fields. A user is created with the package chosen
  from the options, which are the packages; \<open>now\<close> is \<open>Date.now().toString()\<close>.\<close>

datatype reseller_event = ResellerTab reseller_tab | AddPackageClick | AddUserClick | CloseReseller
  | CreatePackage string string rat int rat | CreateResellerUser string string string string string
  | ToggleUserClick string | DeleteUserClick string bool | DeletePackageClick string bool

definition add_package :: "string \<Rightarrow> string \<Rightarrow> rat \<Rightarrow> int \<Rightarrow> rat \<Rightarrow> reseller \<Rightarrow> reseller" where
  "add_package now name price domains disk s = s\<lparr>rs_packages := rs_packages s @
     [\<lparr>pg_id = now, pg_name = name, pg_price = price, pg_domains = domains, pg_disk_gb = disk\<rparr>]\<rparr>"

definition overlaid :: "reseller_page \<Rightarrow> bool" where
  "overlaid s \<longleftrightarrow> rv_showAddPackage s \<or> rv_showAddUser s"

fun reseller_step :: "reseller_event \<Rightarrow> reseller_page \<Rightarrow> reseller_page" where
  "reseller_step (ResellerTab t) s = (if overlaid s then s else s\<lparr>rv_tab := t\<rparr>)"
| "reseller_step AddPackageClick s = (if rv_tab s = PackagesTab \<and> \<not> overlaid s then s\<lparr>rv_showAddPackage := True\<rparr> else s)"
| "reseller_step AddUserClick s = (if rv_tab s = UsersTab \<and> \<not> overlaid s then s\<lparr>rv_showAddUser := True\<rparr> else s)"
| "reseller_step CloseReseller s = s\<lparr>rv_showAddPackage := False, rv_showAddUser := False\<rparr>"
| "reseller_step (CreatePackage now name price domains disk) s =
     (if rv_showAddPackage s \<and> name \<noteq> []
      then s\<lparr>rv_data := add_package now name price domains disk (rv_data s), rv_showAddPackage := False\<rparr> else s)"
| "reseller_step (CreateResellerUser now username email password pkg) s =
     (if rv_showAddUser s \<and> username \<noteq> [] \<and> email \<noteq> [] \<and> password \<noteq> [] \<and> pkg \<noteq> [] \<and>
         pkg \<in> pg_id ` set (rs_packages (rv_data s))
      then s\<lparr>rv_data := add_reseller_user now pkg (rv_data s), rv_showAddUser := False\<rparr> else s)"
| "reseller_step (ToggleUserClick i) s =
     (if rv_tab s = UsersTab \<and> \<not> overlaid s then s\<lparr>rv_data := toggle_reseller_user i (rv_data s)\<rparr> else s)"
| "reseller_step (DeleteUserClick i confirmed) s =
     (if rv_tab s = UsersTab \<and> \<not> overlaid s \<and> confirmed then s\<lparr>rv_data := delete_reseller_user i (rv_data s)\<rparr> else s)"
| "reseller_step (DeletePackageClick i confirmed) s =
     (if rv_tab s = PackagesTab \<and> \<not> overlaid s \<and> confirmed then s\<lparr>rv_data := delete_package i (rv_data s)\<rparr> else s)"

text \<open>The figures of the overview, the tabs, the cells of a user and the cards of the packages.\<close>

definition reseller_stats :: "reseller \<Rightarrow> nat \<times> nat \<times> nat \<times> string" where
  "reseller_stats s = (length (rs_users s), length (filter ru_active (rs_users s)), length (rs_packages s),
     ''$'' @ show_fixed (nat (toFixed (totalRevenue s) 2)) 2)"

definition tab_label :: "reseller \<Rightarrow> reseller_tab \<Rightarrow> string" where
  "tab_label s t = (case t of OverviewTab \<Rightarrow> ''Overview''
     | UsersTab \<Rightarrow> ''Users ('' @ show_nat (length (rs_users s)) @ '')''
     | PackagesTab \<Rightarrow> ''Packages ('' @ show_nat (length (rs_packages s)) @ '')'')"

definition recentUsers :: "reseller \<Rightarrow> reseller_user list" where
  "recentUsers s = slice (rs_users s) 0 3"

definition domains_limit :: "reseller \<Rightarrow> reseller_user \<Rightarrow> string" where
  "domains_limit s u = (case find_package (ru_package_id u) (rs_packages s) of None \<Rightarrow> ''?'' | Some p \<Rightarrow> show_int (pg_domains p))"

definition bar_full :: "reseller \<Rightarrow> reseller_user \<Rightarrow> bool" where
  "bar_full s u = (case disk_bar s u of None \<Rightarrow> False | Some x \<Rightarrow> x > 80)"

definition package_cards :: "reseller \<Rightarrow> (string \<times> nat) list" where
  "package_cards s = map (\<lambda>p. (pg_name p, package_users (pg_id p) s)) (rs_packages s)"

text \<open>A dialog is open only over its own tab, and one at most.\<close>

definition reseller_page_inv :: "reseller_page \<Rightarrow> bool" where
  "reseller_page_inv s \<longleftrightarrow> \<not> (rv_showAddPackage s \<and> rv_showAddUser s) \<and>
     (rv_showAddPackage s \<longrightarrow> rv_tab s = PackagesTab) \<and> (rv_showAddUser s \<longrightarrow> rv_tab s = UsersTab)"

lemma reseller_step_inv: "reseller_page_inv s \<Longrightarrow> reseller_page_inv (reseller_step e s)"
  by (cases e) (auto simp: reseller_page_inv_def overlaid_def)

interpretation reseller_page: component reseller_step reseller_page_inv
  by unfold_locales (rule reseller_step_inv)

lemma disk_bar_bounded: "disk_bar s u = Some x \<Longrightarrow> x \<le> 100"
  by (auto simp: disk_bar_def split: option.splits if_splits)

text \<open>While every user's package is there, the cards count every user once; a deleted package takes its users from
  the cards, and leaves them without limits.\<close>

lemma cards_count:
  assumes "distinct (map pg_id ps)" and "\<forall>u \<in> set us. ru_package_id u \<in> pg_id ` set ps"
  shows "sum_list (map (\<lambda>p. length (filter (\<lambda>u. ru_package_id u = pg_id p) us)) ps) = length us"
  using assms(2)
proof (induction us)
  case (Cons u us)
  have one: "sum_list (map (\<lambda>p. if ru_package_id u = pg_id p then 1 else 0 :: nat) qs) = 1"
    if "distinct (map pg_id qs)" "ru_package_id u \<in> pg_id ` set qs" for qs
    using that
  proof (induction qs)
    case (Cons q qs)
    have "sum_list (map (\<lambda>p. if pg_id q = pg_id p then 1 else 0 :: nat) qs) = 0"
      using Cons.prems(1) by (auto simp: sum_list_eq_0_iff)
    then show ?case using Cons by auto
  qed simp
  have "sum_list (map (\<lambda>p. length (filter (\<lambda>u. ru_package_id u = pg_id p) (u # us))) ps) =
      sum_list (map (\<lambda>p. (if ru_package_id u = pg_id p then 1 else 0) + length (filter (\<lambda>u. ru_package_id u = pg_id p) us)) ps)"
    by (rule arg_cong [of _ _ sum_list]) simp
  also have "\<dots> = 1 + length us"
    using one [OF assms(1)] Cons by (simp add: sum_list_addf)
  finally show ?case by simp
qed simp

lemma cards_count_users:
  assumes "distinct (map pg_id (rs_packages s))" and "\<forall>u \<in> set (rs_users s). ru_package_id u \<in> pg_id ` set (rs_packages s)"
  shows "sum_list (map snd (package_cards s)) = length (rs_users s)"
  using cards_count [OF assms] by (simp add: package_cards_def package_users_def comp_def)

lemma deleted_package_orphans:
  assumes "u \<in> set (rs_users s)" and "ru_package_id u = i"
  shows "u \<in> set (rs_users (delete_package i s))" and "domains_limit (delete_package i s) u = ''?''"
    and "disk_bar (delete_package i s) u = Some 0"
proof -
  have "find_package i (rs_packages (delete_package i s)) = None"
    by (auto simp: find_package_def delete_package_def find_None_iff)
  then show "domains_limit (delete_package i s) u = ''?''" and "disk_bar (delete_package i s) u = Some 0"
    using assms(2) by (simp_all add: domains_limit_def disk_bar_def)
qed (use assms(1) in \<open>simp add: delete_package_def\<close>)

section \<open>admin/servers/page.tsx\<close>

datatype server_state = ActiveServer | MaintenanceServer | OfflineServer | ErrorServer | ProvisioningServer

record admin_server =
  as_id :: string
  as_status :: server_state
  as_cpu :: nat
  as_ram :: nat
  as_disk :: nat
  as_domains :: nat
  as_uptime_days :: nat

definition MOCK_SERVERS :: "admin_server list" where
  "MOCK_SERVERS =
     [\<lparr>as_id = ''1'', as_status = ActiveServer, as_cpu = 34, as_ram = 62, as_disk = 45, as_domains = 47, as_uptime_days = 127\<rparr>,
      \<lparr>as_id = ''2'', as_status = ActiveServer, as_cpu = 18, as_ram = 41, as_disk = 28, as_domains = 31, as_uptime_days = 89\<rparr>,
      \<lparr>as_id = ''3'', as_status = ActiveServer, as_cpu = 71, as_ram = 88, as_disk = 55, as_domains = 23, as_uptime_days = 14\<rparr>,
      \<lparr>as_id = ''4'', as_status = MaintenanceServer, as_cpu = 0, as_ram = 0, as_disk = 67, as_domains = 15, as_uptime_days = 0\<rparr>,
      \<lparr>as_id = ''5'', as_status = OfflineServer, as_cpu = 0, as_ram = 0, as_disk = 0, as_domains = 0, as_uptime_days = 0\<rparr>]"

fun server_state_label :: "server_state \<Rightarrow> string" where
  "server_state_label ActiveServer = ''Active''" | "server_state_label MaintenanceServer = ''Maintenance''"
| "server_state_label OfflineServer = ''Offline''" | "server_state_label ErrorServer = ''Error''"
| "server_state_label ProvisioningServer = ''Provisioning''"

definition usage_color :: "nat \<Rightarrow> string" where
  "usage_color value = (if value > 80 then ''bg-destructive'' else if value > 60 then ''bg-amber-500'' else ''bg-primary'')"

definition activeServers :: "admin_server list \<Rightarrow> admin_server list" where
  "activeServers ss = filter (\<lambda>s. as_status s = ActiveServer) ss"

text \<open>\<open>Math.round\<close> of the average load of the active servers, 0 when there are none.\<close>

definition avg_cpu :: "admin_server list \<Rightarrow> int" where
  "avg_cpu ss = (let act = activeServers ss; n = length act in
     \<lfloor>of_nat (fold (\<lambda>s a. a + as_cpu s) act 0) / of_nat (if n = 0 then 1 else n) + 1 / 2 :: rat\<rfloor>)"

definition server_stats :: "admin_server list \<Rightarrow> (string \<times> string) list" where
  "server_stats ss =
     [(''Total Servers'', show_nat (length ss)), (''Active'', show_nat (length (activeServers ss))),
      (''Total Domains'', show_nat (fold (\<lambda>s a. a + as_domains s) ss 0)), (''Avg CPU'', show_int (avg_cpu ss) @ ''%'')]"

text \<open>The bars of a card, which only an active server has.\<close>

definition usage_bars :: "admin_server \<Rightarrow> (string \<times> nat \<times> string) list" where
  "usage_bars s = (if as_status s = ActiveServer
     then map (\<lambda>(l, v). (l, v, usage_color v)) [(''CPU'', as_cpu s), (''RAM'', as_ram s), (''Disk'', as_disk s)] else [])"

record servers_view =
  sv_openMenu :: "string option"
  sv_showAdd :: bool

definition servers_view_start :: servers_view where
  "servers_view_start = \<lparr>sv_openMenu = None, sv_showAdd = False\<rparr>"

text \<open>Every entry of the menu, and both buttons of the dialog, only close what they are in.\<close>

definition server_menu :: "string list" where
  "server_menu = [''SSH Terminal'', ''View Logs'', ''Reboot'', ''Set Maintenance'']"

datatype servers_view_event = ServerMenu string | ServerAction string | AddServer | CloseAddServer | GenerateToken

fun servers_view_step :: "servers_view_event \<Rightarrow> servers_view \<Rightarrow> servers_view" where
  "servers_view_step (ServerMenu i) s = s\<lparr>sv_openMenu := (if sv_openMenu s = Some i then None else Some i)\<rparr>"
| "servers_view_step (ServerAction a) s = (if sv_openMenu s \<noteq> None \<and> a \<in> set server_menu then s\<lparr>sv_openMenu := None\<rparr> else s)"
| "servers_view_step AddServer s = s\<lparr>sv_showAdd := True\<rparr>"
| "servers_view_step CloseAddServer s = s\<lparr>sv_showAdd := False\<rparr>"
| "servers_view_step GenerateToken s = s\<lparr>sv_showAdd := False\<rparr>"

text \<open>Rebooting a server is closing the menu.\<close>

lemma actions_do_nothing:
  "a \<in> set server_menu \<Longrightarrow> servers_view_step (ServerAction a) (servers_view_step (ServerMenu i) s) = s\<lparr>sv_openMenu := None\<rparr>
     \<or> sv_openMenu s = Some i"
  "servers_view_step GenerateToken s = servers_view_step CloseAddServer s"
  by auto

lemma stats_at_start:
  "server_stats MOCK_SERVERS = [(''Total Servers'', ''5''), (''Active'', ''3''), (''Total Domains'', ''116''), (''Avg CPU'', ''41%'')]"
  by code_simp

lemma fold_cpu: "fold (\<lambda>s a. a + as_cpu s) ss n = n + sum_list (map as_cpu ss)"
  by (induction ss arbitrary: n) auto

text \<open>The average is within the loads it averages.\<close>

lemma avg_cpu_between:
  assumes "activeServers ss \<noteq> []" and "\<forall>s \<in> set (activeServers ss). l \<le> as_cpu s \<and> as_cpu s \<le> u"
  shows "int l \<le> avg_cpu ss \<and> avg_cpu ss \<le> int u"
proof -
  let ?a = "activeServers ss" and ?n = "length (activeServers ss)"
  have b: "l * length xs \<le> sum_list (map as_cpu xs) \<and> sum_list (map as_cpu xs) \<le> u * length xs"
    if "\<forall>s \<in> set xs. l \<le> as_cpu s \<and> as_cpu s \<le> u" for xs
    using that by (induction xs) auto
  have "of_nat (l * ?n) \<le> (of_nat (sum_list (map as_cpu ?a)) :: rat)"
    "(of_nat (sum_list (map as_cpu ?a)) :: rat) \<le> of_nat (u * ?n)"
    using b [OF assms(2)] by (simp_all only: of_nat_le_iff)
  moreover have n: "(0 :: rat) < of_nat ?n" using assms(1) by simp
  ultimately have "of_nat l \<le> of_nat (sum_list (map as_cpu ?a)) / (of_nat ?n :: rat)"
    "of_nat (sum_list (map as_cpu ?a)) / (of_nat ?n :: rat) \<le> of_nat u"
    by (simp_all add: pos_le_divide_eq pos_divide_le_eq)
  then show ?thesis using assms(1)
    by (simp add: avg_cpu_def fold_cpu Let_def le_floor_iff floor_le_iff)
qed

section \<open>security/page.tsx and billing/invoices/page.tsx\<close>

text \<open>The queries of both pages, which change nothing.\<close>

definition overview_queries :: "(string list \<times> api_call) list" where
  "overview_queries = [([''security-score''], SecurityApi GetScore), ([''security-events''], SecurityApi ListEvents),
     ([''invoices''], BillingApi ListInvoices)]"

text \<open>The width of the bar in percent, if it is a finite number.\<close>

definition score_width :: "nat \<Rightarrow> nat \<Rightarrow> rat option" where
  "score_width score max_score = (if max_score = 0 then None else Some (of_nat score / of_nat max_score * 100))"

definition grade_bar :: "string \<Rightarrow> string" where
  "grade_bar g = (if g = ''A'' then ''bg-green-500'' else if g = ''B'' then ''bg-blue-500''
     else if g = ''C'' then ''bg-amber-500'' else ''bg-destructive'')"

definition overview_links :: "'a list \<Rightarrow> (string \<times> string \<times> string) list" where
  "overview_links events =
     [(''Firewall Rules'', ''/security/firewall'', ''Manage nftables rules''),
      (''Security Events'', ''/security/events'', show_nat (length events) @ '' recent events''),
      (''Malware Scanner'', ''/security/scanner'', ''ClamAV integration'')]"

definition event_dot :: "string \<Rightarrow> string" where
  "event_dot sev = (if sev = ''critical'' then ''bg-destructive'' else if sev = ''warning'' then ''bg-amber-500'' else ''bg-blue-500'')"

text \<open>\<open>type.replace(/_/g, ' ')\<close>.\<close>

definition event_title :: "string \<Rightarrow> string" where
  "event_title t = map (\<lambda>c. if c = CHR ''_'' then CHR '' '' else c) t"

lemma score_width_le: "score \<le> m \<Longrightarrow> score_width score m = Some w \<Longrightarrow> w \<le> 100"
  by (auto simp: score_width_def pos_divide_le_eq split: if_splits)

record invoice =
  iv_status :: string
  amount_due :: rat
  amount_paid :: rat
  currency :: string
  period_start :: "string option"
  period_end :: "string option"
  due_date :: "string option"
  paid_at :: "string option"

definition STATUS_CONFIG :: "(string \<times> string) list" where
  "STATUS_CONFIG = [(''paid'', ''bg-green-500/10 text-green-500''), (''open'', ''bg-blue-500/10 text-blue-500''),
     (''draft'', ''bg-muted text-muted-foreground''), (''void'', ''bg-muted text-muted-foreground''),
     (''uncollectible'', ''bg-destructive/10 text-destructive'')]"

definition invoice_color :: "string \<Rightarrow> string" where
  "invoice_color st = (case map_of STATUS_CONFIG st of Some c \<Rightarrow> c | None \<Rightarrow> ''bg-muted text-muted-foreground'')"

text \<open>The cells of an invoice; \<open>loc\<close> is \<open>toLocaleDateString\<close> of a date. A date is absent when it is null or empty;
  the dash between two dates and the one for no date are single characters of the page, given as \<open>dash\<close>.
  An amount is not negative.\<close>

definition has_date :: "string option \<Rightarrow> bool" where
  "has_date d \<longleftrightarrow> d \<noteq> None \<and> d \<noteq> Some []"

definition period_cell :: "(string \<Rightarrow> string) \<Rightarrow> string \<Rightarrow> string \<Rightarrow> invoice \<Rightarrow> string" where
  "period_cell loc endash emdash iv = (if has_date (period_start iv) \<and> has_date (period_end iv)
     then loc (the (period_start iv)) @ '' '' @ endash @ '' '' @ loc (the (period_end iv)) else emdash)"

definition amount_text :: "rat \<Rightarrow> string" where
  "amount_text x = show_fixed (nat (toFixed x 2)) 2"

definition amount_cell :: "invoice \<Rightarrow> string \<times> string option" where
  "amount_cell iv = (currency iv @ '' '' @ amount_text (amount_due iv),
     if 0 < amount_paid iv \<and> amount_paid iv < amount_due iv then Some (''Paid: '' @ amount_text (amount_paid iv)) else None)"

definition due_cell :: "(string \<Rightarrow> string) \<Rightarrow> string \<Rightarrow> invoice \<Rightarrow> string" where
  "due_cell loc emdash iv = (if has_date (due_date iv) then loc (the (due_date iv))
     else if has_date (paid_at iv) then ''Paid '' @ loc (the (paid_at iv)) else emdash)"

text \<open>A paid invoice with a due date shows the due date, not when it was paid.\<close>

lemma paid_invoice_shows_due_date: "has_date (due_date iv) \<Longrightarrow> due_cell loc dash iv = due_cell loc dash (iv\<lparr>paid_at := p\<rparr>)"
  by (simp add: due_cell_def has_date_def)

section \<open>email/webmail/page.tsx\<close>

text \<open>The addresses come from the environment, with the paths of the page as defaults.\<close>

definition WEBMAIL_CLIENTS :: "(string \<Rightarrow> string option) \<Rightarrow> (string \<times> string \<times> string) list" where
  "WEBMAIL_CLIENTS env =
    (let url = \<lambda>name path. case env name of Some u \<Rightarrow> u | None \<Rightarrow> path in
     [(''roundcube'', ''Roundcube'', url ''NEXT_PUBLIC_ROUNDCUBE_URL'' ''/webmail''),
      (''rainloop'', ''RainLoop'', url ''NEXT_PUBLIC_RAINLOOP_URL'' ''/rainloop''),
      (''snappymail'', ''SnappyMail'', url ''NEXT_PUBLIC_SNAPPYMAIL_URL'' ''/snappymail'')])"

datatype webmail_event = OpenClient string | WebmailBack

text \<open>\<open>active\<close>: the client whose frame is shown, if any. The list is shown while there is none.\<close>

definition webmail_frame :: "(string \<Rightarrow> string option) \<Rightarrow> string option \<Rightarrow> (string \<times> string) option" where
  "webmail_frame env active = (case active of None \<Rightarrow> None
     | Some i \<Rightarrow> if i = [] then None else map_of (WEBMAIL_CLIENTS env) i)"

fun webmail_step :: "(string \<Rightarrow> string option) \<Rightarrow> webmail_event \<Rightarrow> string option \<Rightarrow> string option" where
  "webmail_step env (OpenClient i) a =
     (if webmail_frame env a = None \<and> i \<in> fst ` set (WEBMAIL_CLIENTS env) then Some i else a)"
| "webmail_step env WebmailBack a = (if webmail_frame env a = None then a else None)"

lemma webmail_opens:
  "i \<in> fst ` set (WEBMAIL_CLIENTS env) \<Longrightarrow> webmail_frame env a = None \<Longrightarrow>
     webmail_frame env (webmail_step env (OpenClient i) a) = map_of (WEBMAIL_CLIENTS env) i"
  by (auto simp: webmail_frame_def WEBMAIL_CLIENTS_def Let_def)

section \<open>Alert rules and incidents (components/monitoring)\<close>

record alert_row =
  ar_id :: string
  ar_enabled :: bool
  ar_trigger_count :: "nat option"

datatype alert_press = ToggleRule nat | DeleteRule nat

text \<open>What a row's buttons call: \<open>onToggle(id, !enabled)\<close> and \<open>onDelete(id)\<close>, when the callbacks were given.\<close>

fun alert_call :: "bool \<Rightarrow> bool \<Rightarrow> alert_row list \<Rightarrow> alert_press \<Rightarrow> (string \<times> bool option) option" where
  "alert_call onToggle onDelete rules (ToggleRule k) =
     (if onToggle \<and> k < length rules then Some (ar_id (rules ! k), Some (\<not> ar_enabled (rules ! k))) else None)"
| "alert_call onToggle onDelete rules (DeleteRule k) =
     (if onDelete \<and> k < length rules then Some (ar_id (rules ! k), None) else None)"

definition trigger_mark :: "alert_row \<Rightarrow> nat option" where
  "trigger_mark r = (case ar_trigger_count r of Some n \<Rightarrow> if n > 0 then Some n else None | None \<Rightarrow> None)"

text \<open>The body of either list: placeholders while loading, a text when it is empty, else the rows.\<close>

datatype 'a list_view = Placeholders nat | EmptyText string | Rows "'a list"

definition list_body :: "string \<Rightarrow> bool \<Rightarrow> 'a list \<Rightarrow> 'a list_view" where
  "list_body none loading xs = (if loading then Placeholders 3 else if xs = [] then EmptyText none else Rows xs)"

text \<open>The details of an incident, once it is expanded.\<close>

record incident =
  in_metric :: string
  in_value :: "string option"
  in_threshold :: "string option"
  in_started :: string
  in_resolved :: "string option"

definition incident_details :: "(string \<Rightarrow> string) \<Rightarrow> incident \<Rightarrow> (string \<times> string) list" where
  "incident_details fmt i =
     (if in_metric i = [] then [] else [(''Metric'', in_metric i)]) @
     (case in_value i of None \<Rightarrow> [] | Some v \<Rightarrow> [(''Value'', v @ (case in_threshold i of None \<Rightarrow> []
        | Some t \<Rightarrow> ''(threshold: '' @ t @ '')''))]) @
     [(''Started'', fmt (in_started i))] @
     (if has_date (in_resolved i) then [(''Resolved'', fmt (the (in_resolved i)))] else [])"

lemma incident_started: "(''Started'', fmt (in_started i)) \<in> set (incident_details fmt i)"
  by (simp add: incident_details_def)

section \<open>Charts and cards\<close>

text \<open>components/charts/MetricsChart.tsx: what is plotted as \<open>Network\<close> is the disk of the data has_date.\<close>

record metric_point =
  mp_timestamp :: string
  mp_CPU :: rat
  mp_RAM :: rat
  mp_Disk :: rat

record chart_point =
  cp_time :: string
  cp_cpu :: rat
  cp_ram :: rat
  cp_network :: rat

definition chartData :: "chart_point list \<Rightarrow> metric_point list option \<Rightarrow> chart_point list" where
  "chartData mock external = (case external of None \<Rightarrow> mock
     | Some ds \<Rightarrow> map (\<lambda>d. \<lparr>cp_time = mp_timestamp d, cp_cpu = mp_CPU d, cp_ram = mp_RAM d, cp_network = mp_Disk d\<rparr>) ds)"

text \<open>The data shown without any: 24 hours of random numbers, three draws for each.\<close>

definition generateData :: "(nat \<Rightarrow> string) \<Rightarrow> (nat \<Rightarrow> rat) \<Rightarrow> chart_point list" where
  "generateData hour r = map (\<lambda>i. \<lparr>cp_time = hour (23 - i), cp_cpu = of_int \<lfloor>20 + r (3 * i) * 50\<rfloor>,
     cp_ram = of_int \<lfloor>40 + r (3 * i + 1) * 30\<rfloor>, cp_network = of_int \<lfloor>10 + r (3 * i + 2) * 40\<rfloor>\<rparr>) [0..<24]"

lemma chart_network_is_disk: "map cp_network (chartData mock (Some ds)) = map mp_Disk ds"
  by (simp add: chartData_def)

lemma drawn_between:
  assumes "unit_random q" and "0 < k"
  shows "of_int \<lfloor>of_int a + q * of_int k\<rfloor> \<in> {of_int a..of_int (a + k - 1) :: rat}"
proof -
  have "0 \<le> q * of_int k" and "q * of_int k < 1 * of_int k"
    using assms by (simp, intro mult_strict_right_mono) simp_all
  then have "a \<le> \<lfloor>of_int a + q * of_int k\<rfloor>" and "\<lfloor>of_int a + q * of_int k\<rfloor> \<le> a + k - 1"
    by (simp_all add: le_floor_iff floor_le_iff floor_less_iff)
  then show ?thesis by (simp only: atLeastAtMost_iff of_int_le_iff)
qed

lemma generated_on_chart:
  assumes "\<And>i. unit_random (r i)" and "p \<in> set (generateData hour r)"
  shows "cp_cpu p \<in> {20..69}" and "cp_ram p \<in> {40..69}" and "cp_network p \<in> {10..49}"
proof -
  from assms(2) obtain i where p: "p = \<lparr>cp_time = hour (23 - i), cp_cpu = of_int \<lfloor>20 + r (3 * i) * 50\<rfloor>,
     cp_ram = of_int \<lfloor>40 + r (3 * i + 1) * 30\<rfloor>, cp_network = of_int \<lfloor>10 + r (3 * i + 2) * 40\<rfloor>\<rparr>"
    by (auto simp: generateData_def)
  show "cp_cpu p \<in> {20..69}" using drawn_between [OF assms(1) [of "3 * i"], of 50 20] p by simp
  show "cp_ram p \<in> {40..69}" using drawn_between [OF assms(1) [of "3 * i + 1"], of 30 40] p by simp
  show "cp_network p \<in> {10..49}" using drawn_between [OF assms(1) [of "3 * i + 2"], of 40 10] p by simp
qed

text \<open>components/charts/BandwidthChart.tsx: its own table of units ends at the terabyte.\<close>

definition chart_bytes :: "(nat \<Rightarrow> nat) \<Rightarrow> nat \<Rightarrow> string" where
  "chart_bytes log1024 bytes =
    (if bytes = 0 then ''0 B''
     else let i = log1024 bytes; us = [''B'', ''KB'', ''MB'', ''GB'', ''TB''] in
       show_decimal (nat (toFixed (of_nat bytes / 1024 ^ i) 1)) 1 @ '' '' @ (if i < length us then us ! i else ''undefined''))"

lemma chart_bytes_past_units: "0 < bytes \<Longrightarrow> 5 \<le> log1024 bytes \<Longrightarrow> \<exists>n. chart_bytes log1024 bytes = n @ '' undefined''"
  by (auto simp: chart_bytes_def Let_def)

text \<open>components/dashboard/StatsCard.tsx: the sign, the colour and the text of a trend.\<close>

definition trend_color :: "rat \<Rightarrow> string" where
  "trend_color t = (if t > 0 then ''text-green-500'' else if t < 0 then ''text-red-500'' else ''text-muted-foreground'')"

definition trend_text :: "rat \<Rightarrow> string" where
  "trend_text t = (let m = show_fixed (nat (toFixed \<bar>t\<bar> 1)) 1 in
     (if t > 0 then ''+'' else if t < 0 then ''-'' else []) @ m @ ''%'')"

text \<open>components/dashboard/ServerStatusBadge.tsx\<close>

definition SERVER_STATUS :: "(string \<times> string \<times> string) list" where
  "SERVER_STATUS = [(''active'', ''bg-green-500'', ''Online''), (''offline'', ''bg-red-500'', ''Offline''),
     (''maintenance'', ''bg-amber-500'', ''Maintenance''), (''provisioning'', ''bg-blue-500'', ''Provisioning''),
     (''error'', ''bg-red-500'', ''Error'')]"

definition server_badge :: "string \<Rightarrow> bool \<Rightarrow> string \<times> string \<times> bool" where
  "server_badge status pulse =
    (let (dot, label) = (case map_of SERVER_STATUS status of Some x \<Rightarrow> x | None \<Rightarrow> (''bg-red-500'', ''Offline''))
     in (dot, label, pulse \<and> status = ''active''))"

lemma only_active_pulses:
  assumes "snd (snd (server_badge status pulse))"
  shows "fst (snd (server_badge status pulse)) = ''Online''"
proof -
  from assms have "status = ''active''" by (simp add: server_badge_def Let_def split: prod.splits)
  then show ?thesis by (simp add: server_badge_def SERVER_STATUS_def)
qed

text \<open>components/dashboard/QuickActions.tsx\<close>

definition QUICK_ACTIONS :: "string list" where
  "QUICK_ACTIONS = [''/domains?action=add'', ''/databases?action=new'', ''/email?action=new'', ''/ssl'', ''/backups?action=run'',
     ''/docker'', ''/security'', ''/ai'', ''/files'', ''/php'', ''/monitoring'', ''/marketplace'']"

end
