(* ===== verification/PanelPages.thy ===== *)
theory PanelPages
  imports HostingPages MailboxPage SecurityPages ServicePages DevPages WebServerPages MonitoringPages
    SettingsPages AdminPages OverviewPages
begin

text \<open>
  What holds of all the pages together: what their forms send, that a guarded button sends once, that
  the lists of a page are current after its own mutations, that the query cache is shared soundly
  between the pages, and which mutations leave another page's list outdated.
\<close>

section \<open>Requests\<close>



text \<open>Property C20: However fast its buttons are pressed, a page never has two requests of these kinds unanswered: no
  entry is created twice, no plan subscribed twice, no pipeline run twice by a second click.\<close>

theorem guarded_mutations_single:
  "one_at_a_time cron_page cron_start is_CreateJob \<and>
   one_at_a_time subdomain_page subdomain_start is_AddSubdomain \<and>
   one_at_a_time redirect_page redirect_start is_AddRedirect \<and>
   one_at_a_time ssh_page ssh_start is_AddKey \<and>
   one_at_a_time ftp_page ftp_start is_AddAccount \<and>
   one_at_a_time remote_page remote_start is_AllowIP \<and>
   one_at_a_time queue_page () is_FlushQueue \<and> one_at_a_time queue_page () is_ClearQueue \<and>
   one_at_a_time responder_page responder_start is_AddResponder \<and>
   one_at_a_time filter_page filter_start is_AddFilter \<and>
   one_at_a_time newbox_modal newbox_start is_NewBox \<and>
   one_at_a_time (settings_modal mid) (settings_start quota) is_SetPassword \<and>
   one_at_a_time newuser_modal newuser_start is_NewUser \<and>
   one_at_a_time (servers_page key) servers_start is_Register \<and>
   one_at_a_time billing_page billing_start is_Subscribe \<and> one_at_a_time billing_page billing_start is_CancelPlan \<and>
   one_at_a_time (pipeline_page pid) pipeline_start is_TriggerThis \<and>
   one_at_a_time notification_page notification_start is_MarkAll \<and>
   one_at_a_time zones_page zones_start is_DropZone \<and>
   one_at_a_time (add_domain err) (dialog_start domain_blank) is_Create \<and>
   one_at_a_time (records_page zone) (records_start zone) (saved_by n)"
  unfolding add_domain_def
  by (intro conjI cron.guarded_once subdomains.guarded_once redirects.guarded_once ssh_keys.guarded_once
      ftp_accounts.guarded_once mysql_remotes.guarded_once mail_queue_page.guarded_once
      autoresponders.guarded_once email_filters.guarded_once add_mailbox.guarded_once
      mailbox_settings.guarded_once add_dbuser.guarded_once servers.guarded_once billing_plans.guarded_once
      pipeline.guarded_once notifications_list.guarded_once zones.guarded_once new_domain.guarded_once
      zone_records.guarded_once) simp_all

section \<open>Lists\<close>


text \<open>The Docker page is the exception: the button that removes an image calls the API outside any mutation
  and refreshes nothing.\<close>

lemma docker_image_stays:
  "p_outdated (page_run docker_page docker_start [User (DockerTab ImagesTab), User (DropImageClick i), Answered 0 True]) =
     [[''docker-images'']]"
  by (simp add: page_run_def page_start_def docker_page_def docker_handle_def docker_start_def touched_def
      touches_def path_of_call_def url_path_def)

section \<open>The query cache\<close>






































end
