(* ===== verification/PageViews.thy ===== *)
theory PageViews
  imports OverviewPages DomainPages DevPages MonitoringPages MailboxPage FileDialogs Chat
begin

text \<open>
  What pages compute in order to show it: the preview of a file (components/files/PreviewModal.tsx), the
  connection details of a database (databases/page.tsx), the detail page of a domain (domains/[id]), the
  containers and compose projects (docker), the live figures (monitoring/page.tsx), the mailbox list and the
  protocol table (email/page.tsx), the account card of the dashboard, the input of the chat window, and the
  user menu of the top bar. Dates go through \<open>fmt\<close>, which is a parameter.
\<close>

section \<open>components/files/PreviewModal.tsx\<close>

record preview =
  pv_type :: preview_type
  pv_content :: "string option"
  pv_loading :: bool
  pv_open :: bool

definition readable :: "preview_type \<Rightarrow> bool" where
  "readable t \<longleftrightarrow> t = PText \<or> t = PHtml"

definition preview_open :: "FileInfo \<Rightarrow> preview" where
  "preview_open f = \<lparr>pv_type = getPreviewType f, pv_content = None, pv_loading = readable (getPreviewType f), pv_open = True\<rparr>"

text \<open>The calls the effect of the dialog makes when it is mounted.\<close>

definition preview_reads :: "FileInfo \<Rightarrow> files_call list" where
  "preview_reads f = (if readable (getPreviewType f) then [ReadFile (fpath f)] else [])"

datatype preview_event = PreviewRead "string option" | PreviewKey string | PreviewClose

fun preview_step :: "preview_event \<Rightarrow> preview \<Rightarrow> preview" where
  "preview_step (PreviewRead c) p = (if \<not> pv_loading p then p
     else p\<lparr>pv_content := Some (case c of Some t \<Rightarrow> t | None \<Rightarrow> ''Failed to load file content.''), pv_loading := False\<rparr>)"
| "preview_step (PreviewKey k) p = (if k = ''Escape'' then p\<lparr>pv_open := False\<rparr> else p)"
| "preview_step PreviewClose p = p\<lparr>pv_open := False\<rparr>"

datatype preview_body = PreviewSpinner | PreviewImage | PreviewHtml string | PreviewText string | NoPreview

definition preview_shown :: "preview \<Rightarrow> preview_body" where
  "preview_shown p =
    (if pv_loading p then PreviewSpinner
     else case (pv_type p, pv_content p) of
       (PImage, _) \<Rightarrow> PreviewImage
     | (PHtml, Some c) \<Rightarrow> PreviewHtml c
     | (PText, Some c) \<Rightarrow> PreviewText c
     | _ \<Rightarrow> NoPreview)"

definition preview_badge :: "FileInfo \<Rightarrow> string" where
  "preview_badge f = (if is_dir f then ''DIR'' else case extension f of
     Some (c # cs) \<Rightarrow> toUpperCase (c # cs) | _ \<Rightarrow> ''FILE'')"

definition preview_inv :: "preview_type \<Rightarrow> preview \<Rightarrow> bool" where
  "preview_inv t p \<longleftrightarrow> pv_type p = t \<and> (pv_loading p \<longrightarrow> readable t) \<and> (readable t \<longrightarrow> pv_loading p \<or> pv_content p \<noteq> None)"

lemma preview_step_inv: "preview_inv t p \<Longrightarrow> preview_inv t (preview_step e p)"
  by (cases e) (auto simp: preview_inv_def)

interpretation preview: component preview_step "preview_inv t" for t
  by unfold_locales (rule preview_step_inv)

text \<open>Once it is read a text is shown as text; what is not text is never read, and only what has no type has no preview.\<close>

lemma preview_of_type:
  "preview_shown (fold preview_step es (preview_open f)) = NoPreview \<longleftrightarrow> getPreviewType f = PUnsupported"
proof -
  have "preview_inv (getPreviewType f) (preview_open f)"
    by (simp add: preview_inv_def preview_open_def)
  from preview.run_inv [OF this] have i: "preview_inv (getPreviewType f) (fold preview_step es (preview_open f))" .
  then show ?thesis
    by (cases "getPreviewType f")
      (auto simp: preview_inv_def preview_shown_def readable_def split: option.splits)
qed

section \<open>databases/page.tsx\<close>

definition DB_TYPE_STYLE :: "(string \<times> string \<times> nat) list" where
  "DB_TYPE_STYLE = [(''mysql'', ''MySQL'', 3306), (''postgresql'', ''PostgreSQL'', 5432)]"

record connection =
  cn_type :: string
  cn_host :: string
  cn_port :: nat
  cn_name :: string

definition connection_string :: "connection \<Rightarrow> string" where
  "connection_string d = (if cn_type d = ''mysql''
     then ''mysql://user:pass@'' @ cn_host d @ '':'' @ show_nat (cn_port d) @ ''/'' @ cn_name d
     else ''postgresql://user:pass@'' @ cn_host d @ '':'' @ show_nat (cn_port d) @ ''/'' @ cn_name d)"

definition connection_rows :: "connection \<Rightarrow> (string \<times> string) list" where
  "connection_rows d = [(''Host'', cn_host d), (''Port'', show_nat (cn_port d)), (''Database'', cn_name d),
     (''Driver'', if cn_type d = ''mysql'' then ''mysql2 / PDO_MySQL'' else ''pg / PDO_PGSQL'')]"

definition db_badge :: "connection \<Rightarrow> string" where
  "db_badge d = (if cn_type d = ''mysql'' then ''MY'' else ''PG'')"

definition empty_databases :: "string \<Rightarrow> string" where
  "empty_databases search = (if search \<noteq> [] then ''No databases match your search'' else ''No databases yet'')"

text \<open>The URL reads back: scheme, host up to the colon, port up to the slash, name.\<close>

definition read_connection :: "string \<Rightarrow> connection" where
  "read_connection s =
    (let rest = tl (dropWhile (\<lambda>c. c \<noteq> CHR ''@'') s); after = tl (dropWhile (\<lambda>c. c \<noteq> CHR '':'') rest)
     in \<lparr>cn_type = takeWhile (\<lambda>c. c \<noteq> CHR '':'') s, cn_host = takeWhile (\<lambda>c. c \<noteq> CHR '':'') rest,
         cn_port = read_nat (takeWhile (\<lambda>c. c \<noteq> CHR ''/'') after), cn_name = tl (dropWhile (\<lambda>c. c \<noteq> CHR ''/'') after)\<rparr>)"

lemma no_separator_digits: "c \<in> set (show_nat n) \<Longrightarrow> c \<noteq> CHR ''/''"
  using show_nat_digits [of c n] by (auto simp: is_digit_def code_unit_def)

lemma up_to:
  "c \<notin> set xs \<Longrightarrow> takeWhile (\<lambda>x. x \<noteq> c) (xs @ c # r) = xs"
  "c \<notin> set xs \<Longrightarrow> dropWhile (\<lambda>x. x \<noteq> c) (xs @ c # r) = c # r"
  by (induction xs) auto

lemma connection_read_back:
  assumes "cn_type d \<in> {''mysql'', ''postgresql''}" and "CHR '':'' \<notin> set (cn_host d)"
  shows "read_connection (connection_string d) = d"
proof (cases d)
  case (fields t h p n)
  have h: "CHR '':'' \<notin> set h" and p: "CHR ''/'' \<notin> set (show_nat p)"
    using assms(2) fields no_separator_digits by auto
  from assms(1) fields consider "t = ''mysql''" | "t = ''postgresql''" by auto
  then show ?thesis
    by cases (simp_all add: fields read_connection_def connection_string_def Let_def up_to [OF h] up_to [OF p])
qed

section \<open>domains/[id]/page.tsx\<close>

record domain_info =
  dm_name :: string
  dm_status :: string
  dm_webserver :: string
  dm_php :: "string option"
  dm_ssl :: bool
  dm_root :: "string option"
  dm_created :: string

definition domain_details :: "(string \<Rightarrow> string) \<Rightarrow> domain_info \<Rightarrow> (string \<times> string) list" where
  "domain_details fmt d =
     [(''Domain Name'', dm_name d), (''Status'', dm_status d), (''Web Server'', dm_webserver d),
      (''PHP Version'', case dm_php d of Some v \<Rightarrow> v | None \<Rightarrow> ''None''),
      (''SSL'', if dm_ssl d then ''Enabled'' else ''Disabled''),
      (''Document Root'', case dm_root d of Some r \<Rightarrow> r | None \<Rightarrow> ''/var/www/'' @ dm_name d),
      (''Created'', fmt (dm_created d))]"

definition domain_quick_links :: "(string \<times> string) list" where
  "domain_quick_links = [(''File Manager'', ''/files''), (''DNS Records'', ''#''), (''SSL Certificate'', ''/ssl''), (''Email Accounts'', ''/email'')]"

definition confirm_delete_domain :: "domain_info \<Rightarrow> string" where
  "confirm_delete_domain d = ''Delete '' @ dm_name d @ ''? This cannot be undone.''"

record certificate =
  ct_status :: string
  ct_provider :: string
  ct_issuer :: "string option"
  ct_expires :: "string option"
  ct_sans :: "string list option"

text \<open>\<open>dash\<close> is the dash shown for what is missing; \<open>undefined > 0\<close> is false.\<close>

fun comma_list :: "string list \<Rightarrow> string" where
  "comma_list [] = []"
| "comma_list [x] = x"
| "comma_list (x # y # xs) = x @ '', '' @ comma_list (y # xs)"

definition certificate_rows :: "(string \<Rightarrow> string) \<Rightarrow> string \<Rightarrow> certificate \<Rightarrow> (string \<times> string) list" where
  "certificate_rows fmt dash c =
     [(''Status'', ct_status c), (''Provider'', ct_provider c),
      (''Issuer'', case ct_issuer c of Some i \<Rightarrow> i | None \<Rightarrow> dash),
      (''Expires'', if has_date (ct_expires c) then fmt (the (ct_expires c)) else dash),
      (''SANs'', case ct_sans c of Some (s # ss) \<Rightarrow> comma_list (s # ss) | _ \<Rightarrow> ''None'')]"

text \<open>The rows of the PHP tab, or the text that there is none.\<close>

definition php_rows :: "string \<Rightarrow> string option \<Rightarrow> (string \<times> string) list option" where
  "php_rows name version = (if has_date version then Some
     [(''PHP Version'', the version), (''FPM Pool'', map (\<lambda>c. if c = CHR ''.'' then CHR ''_'' else c) name),
      (''Socket'', ''/run/php/php'' @ the version @ ''-fpm-'' @ name @ ''.sock'')] else None)"

text \<open>Two domains can share a pool name, though not a socket.\<close>

lemma pool_names_collide: "map_of (the (php_rows ''a.b'' (Some ''8.3''))) ''FPM Pool'' = map_of (the (php_rows ''a_b'' (Some ''8.3''))) ''FPM Pool''"
  by (simp add: php_rows_def has_date_def)

lemma sockets_distinct:
  "has_date v \<Longrightarrow> map_of (the (php_rows n v)) ''Socket'' = map_of (the (php_rows m v)) ''Socket'' \<longleftrightarrow> n = m"
  by (simp add: php_rows_def)

text \<open>The records of the DNS tab: the first ten of the zone.\<close>

definition zone_preview :: "'a list option \<Rightarrow> 'a list" where
  "zone_preview rs = slice (case rs of Some r \<Rightarrow> r | None \<Rightarrow> []) 0 10"

section \<open>docker/page.tsx and docker/compose/page.tsx\<close>

record container_row =
  co_id :: string
  co_name :: string
  co_status :: string
  co_cpu :: rat
  co_memory :: rat
  co_limit :: nat
  co_ports :: "(nat \<times> nat) list option"

definition docker_tabs :: "nat \<Rightarrow> nat \<Rightarrow> nat \<Rightarrow> string list" where
  "docker_tabs c i p = [''Containers ('' @ show_nat c @ '')'', ''Images ('' @ show_nat i @ '')'', ''Compose ('' @ show_nat p @ '')'']"

definition port_pair :: "nat \<times> nat \<Rightarrow> string" where
  "port_pair p = show_nat (fst p) @ '':'' @ show_nat (snd p)"

definition ports_text :: "container_row \<Rightarrow> string option" where
  "ports_text c = (case co_ports c of Some (p # ps) \<Rightarrow> Some (comma_list (map port_pair (p # ps))) | _ \<Rightarrow> None)"

definition container_usage :: "container_row \<Rightarrow> string \<times> string" where
  "container_usage c = (show_fixed (nat (toFixed (co_cpu c) 1)) 1 @ ''% CPU'',
     show_nat (nat (toFixed (co_memory c) 0)) @ '' / '' @ show_nat (co_limit c) @ '' MB'')"

definition docker_status_color :: "string \<Rightarrow> string" where
  "docker_status_color st = (case map_of [(''running'', ''bg-green-500''), (''exited'', ''bg-muted-foreground''),
       (''paused'', ''bg-amber-500''), (''created'', ''bg-blue-500''), (''restarting'', ''bg-amber-500''),
       (''stopped'', ''bg-muted-foreground'')] st of Some c \<Rightarrow> c | None \<Rightarrow> ''bg-muted-foreground'')"

text \<open>The actions offered for a container, for a stack on the Docker page, and for a project of the compose page.\<close>

definition container_actions :: "string \<Rightarrow> string list" where
  "container_actions st = (if st = ''running'' then [''restart'', ''stop''] else [''start''])"

definition stack_actions :: "string \<Rightarrow> string list" where
  "stack_actions st = (if st = ''running'' then [''restart'', ''down''] else [''up''])"

text \<open>On the compose page a card whose action is under way offers none.\<close>

definition card_actions :: "string option \<Rightarrow> string \<Rightarrow> string \<Rightarrow> string list" where
  "card_actions actionLoading i st = (if actionLoading = Some i then []
     else (if st \<noteq> ''running'' then [''up''] else []) @ (if st = ''running'' then [''restart'', ''down''] else []))"

definition compose_stats :: "string list \<Rightarrow> (string \<times> int) list" where
  "compose_stats sts = (let running = length (filter (\<lambda>s. s = ''running'') sts) in
     [(''Total Projects'', int (length sts)), (''Running'', int running), (''Stopped'', int (length sts) - int running)])"

text \<open>Both pages offer the same actions; what is not running counts as stopped, partial and failed projects too.\<close>

lemma same_actions: "actionLoading \<noteq> Some i \<Longrightarrow> card_actions actionLoading i st = stack_actions st"
  by (simp add: card_actions_def stack_actions_def)

lemma compose_stats_add_up:
  "map_of (compose_stats sts) ''Running'' = Some r \<Longrightarrow> map_of (compose_stats sts) ''Stopped'' = Some t \<Longrightarrow>
     r + t = int (length sts) \<and> 0 \<le> t"
  using length_filter_le [of "\<lambda>s. s = ''running''" sts] by (auto simp: compose_stats_def Let_def)

text \<open>The log lines of a container are made up; \<open>t\<close> is the time of the rendering.\<close>

definition shown_logs :: "string \<Rightarrow> container_row \<Rightarrow> string list" where
  "shown_logs t c = map (\<lambda>l. ''['' @ t @ ''] '' @ l)
     [''Starting '' @ co_name c @ ''...'',
      ''Container ready on '' @ (case co_ports c of Some (p # ps) \<Rightarrow> show_nat (fst p) | _ \<Rightarrow> ''8080''),
      ''GET /health 200 2ms'', ''Request processed successfully'', ''Cache hit ratio: 94%'']"

lemma logs_not_read: "co_name c = co_name d \<Longrightarrow> co_ports c = co_ports d \<Longrightarrow> shown_logs t c = shown_logs t d"
  by (simp add: shown_logs_def)

text \<open>\<open>substring(7, 19)\<close> of an id, which begins with the name of the digest.\<close>

definition image_cells :: "(nat \<Rightarrow> string) \<Rightarrow> string \<Rightarrow> string list option \<Rightarrow> rat \<Rightarrow> nat \<Rightarrow> string list" where
  "image_cells date i tags mb created =
     [take 12 (drop 7 i), (case tags of Some (t # ts) \<Rightarrow> t | _ \<Rightarrow> ''<none>''),
      show_nat (nat (toFixed mb 0)) @ '' MB'', date (created * 1000)]"

section \<open>monitoring/page.tsx\<close>

definition metric_text :: "rat \<Rightarrow> string \<Rightarrow> string" where
  "metric_text v unit = show_fixed (nat (toFixed v 1)) 1 @ unit"

record live_figures =
  lf_cpu :: rat
  lf_ram :: rat
  lf_disk :: rat
  lf_net_in :: rat
  lf_load1 :: rat
  lf_load5 :: rat
  lf_processes :: nat
  lf_uptime :: nat

definition metric_cards :: "live_figures \<Rightarrow> (string \<times> string \<times> gauge_level) list" where
  "metric_cards m = map (\<lambda>(l, v, mx, unit). (l, metric_text v unit, metric_level v mx))
     [(''CPU Usage'', lf_cpu m, 100, ''%''), (''RAM Usage'', lf_ram m, 100, ''%''),
      (''Disk Usage'', lf_disk m, 100, ''%''), (''Network In'', lf_net_in m, 1000, '' MB/s'')]"

definition metric_tiles :: "live_figures \<Rightarrow> (string \<times> string) list" where
  "metric_tiles m = [(''Load (1m)'', show_fixed (nat (toFixed (lf_load1 m) 2)) 2),
     (''Load (5m)'', show_fixed (nat (toFixed (lf_load5 m) 2)) 2),
     (''Processes'', show_nat (lf_processes m)), (''Uptime'', show_nat (lf_uptime m div 3600) @ ''h'')]"

text \<open>The banner of the open incidents: their number and the title of the first.\<close>

definition incident_banner :: "(string \<times> string) list \<Rightarrow> (string \<times> string) option" where
  "incident_banner xs = (case openIncidents fst xs of [] \<Rightarrow> None
     | (st, title) # is \<Rightarrow> Some (show_nat (Suc (length is)) @ '' open incident'' @ (if length is > 0 then ''s'' else []), title))"

definition recent_incidents :: "'a list \<Rightarrow> 'a list" where
  "recent_incidents xs = slice xs 0 5"

lemma banner_iff: "incident_banner xs = None \<longleftrightarrow> (\<forall>x \<in> set xs. fst x \<noteq> ''open'')"
proof -
  have "incident_banner xs = None \<longleftrightarrow> openIncidents fst xs = []"
    by (simp add: incident_banner_def split: list.split prod.split)
  then show ?thesis by (simp add: openIncidents_def filter_empty_conv)
qed

section \<open>email/page.tsx\<close>

definition storage_color :: "rat \<Rightarrow> string" where
  "storage_color pct = (if pct > 90 then ''bg-destructive'' else if pct > 70 then ''bg-amber-500'' else ''bg-primary'')"

definition empty_mailboxes :: "string \<Rightarrow> string" where
  "empty_mailboxes search = (if search \<noteq> [] then ''No mailboxes match your search'' else ''No mailboxes yet'')"

definition no_catchall :: "string \<Rightarrow> string" where
  "no_catchall dom' = ''No catch-all configured'' @ (if dom' = [] then [] else '' for '' @ dom')"

text \<open>The rows of the protocol table: label, value, and whether the value is marked and has a button to copy it.\<close>

definition protocols :: "(string \<times> (string \<times> string \<times> bool) list) list" where
  "protocols =
     [(''IMAP'', [(''Server'', ''mail.yourdomain.com'', False), (''Port (SSL/TLS)'', ''993'', True),
        (''Port (STARTTLS)'', ''143'', False), (''Security'', ''SSL/TLS or STARTTLS'', False),
        (''Authentication'', ''Normal Password'', False), (''Username'', ''Full email address'', False)]),
      (''POP3'', [(''Server'', ''mail.yourdomain.com'', False), (''Port (SSL/TLS)'', ''995'', True),
        (''Port (STARTTLS)'', ''110'', False), (''Security'', ''SSL/TLS or STARTTLS'', False),
        (''Authentication'', ''Normal Password'', False), (''Username'', ''Full email address'', False)]),
      (''SMTP'', [(''Server'', ''mail.yourdomain.com'', False), (''Port (SSL/TLS)'', ''465'', True),
        (''Port (STARTTLS)'', ''587'', True), (''Port (Legacy)'', ''25'', False),
        (''Security'', ''SSL/TLS or STARTTLS'', False), (''Authentication'', ''Normal Password'', False)])]"

definition copied_values :: "string \<Rightarrow> string list" where
  "copied_values proto = (case map_of protocols proto of None \<Rightarrow> []
     | Some cs \<Rightarrow> map (fst \<circ> snd) (filter (snd \<circ> snd) cs))"

text \<open>Only ports with encryption can be copied.\<close>

lemma encrypted_ports_copied:
  "copied_values ''IMAP'' = [''993'']" "copied_values ''POP3'' = [''995'']" "copied_values ''SMTP'' = [''465'', ''587'']"
  by (simp_all add: copied_values_def protocols_def)

text \<open>The copy button of this page and of the databases page does not wait for the browser: it says \<open>copied\<close>
  at once, for a second and a half, whether the text was copied or not.\<close>

definition copy_now :: "unit notice \<Rightarrow> unit notice" where
  "copy_now n = notice_step 1500 (Notify ()) n"

lemma copy_now_claims: "shown (copy_now n) = Some ()"
  by (simp add: copy_now_def)

section \<open>dashboard-client.tsx\<close>

definition limits :: "(string \<times> rat \<times> rat option \<times> string) list" where
  "limits = [(''Disk Space'', 5283 / 10, Some 2048, ''MB''), (''Bandwidth'', 548 / 10, Some 1000, ''MB''), (''Inode'', 469, None, [])]"

definition usage :: "(string \<times> nat \<times> nat) list" where
  "usage = [(''E-mails'', 4, 10), (''FTP Accounts'', 2, 2), (''Databases'', 2, 2), (''Subdomains'', 5, 50), (''Addon Domains'', 1, 5)]"

definition account_bars :: "(rat \<Rightarrow> string) \<Rightarrow> (string \<times> resource_bar) list" where
  "account_bars show = map (\<lambda>(l, u, t, unit). (l, ResourceBar show u t unit)) limits"

definition account_rows :: "(string \<times> string \<times> bool) list" where
  "account_rows = map (\<lambda>(l, u, t). (l, show_nat u @ '' / '' @ show_nat t, UsageRow_over u t)) usage"

lemma full_rows: "map fst (filter (snd \<circ> snd) account_rows) = [''FTP Accounts'', ''Databases'']"
  by (simp add: account_rows_def usage_def UsageRow_full)

section \<open>components/ai/ChatWindow.tsx\<close>

definition SUGGESTIONS :: "string list" where
  "SUGGESTIONS = [''What is the current CPU usage?'', ''List all my domains'', ''Check if SSL certificates are expiring'',
     ''What are the top processes using memory?'', ''Create a backup of /var/www now'']"

definition send_disabled :: "bool \<Rightarrow> bool \<Rightarrow> string \<Rightarrow> bool" where
  "send_disabled disabled loading input \<longleftrightarrow> trim input = [] \<or> disabled \<or> loading"

definition textarea_height :: "nat \<Rightarrow> nat" where
  "textarea_height scrollHeight = min scrollHeight 160"

definition clear_offered :: "bool \<Rightarrow> 'a list \<Rightarrow> bool" where
  "clear_offered onClear ms \<longleftrightarrow> onClear \<and> ms \<noteq> []"

text \<open>The button is disabled exactly when a click on it would send nothing; a suggestion can be sent as it is.\<close>

lemma send_disabled_iff: "send_disabled disabled loading input \<longleftrightarrow> fst (handleSend disabled loading input) = None"
  by (simp add: send_disabled_def handleSend_def Let_def)

lemma suggestions_sendable: "s \<in> set SUGGESTIONS \<Longrightarrow> handleSend False False s = (Some s, [])"
  by (auto simp: SUGGESTIONS_def handleSend_def trim_def is_space_def code_unit_def)

section \<open>components/layout/Topbar.tsx\<close>

text \<open>The letter and the name in the button of the user menu; an empty name is shown as it is.\<close>

definition user_initial :: "string option \<Rightarrow> string" where
  "user_initial name = (case name of Some (c # cs) \<Rightarrow> toUpperCase [c] | _ \<Rightarrow> ''?'')"

definition user_label :: "string option \<Rightarrow> string" where
  "user_label name = (case name of Some n \<Rightarrow> n | None \<Rightarrow> ''User'')"

end
