(* ===== verification/SignUpPages.thy ===== *)
theory SignUpPages
  imports AuthPages
begin

text \<open>
  The pages a visitor without a session uses beside the login page, as state machines: registration
  (register/page.tsx), the forgotten password (forgot-password/page.tsx), the new password
  (reset-password/page.tsx), and the layout all of them stand in ((auth)/layout.tsx). The form
  library runs the schema before \<open>onSubmit\<close>, shows its messages at the fields, and clears
  \<open>isSubmitting\<close> after \<open>onSubmit\<close>.
\<close>

section \<open>register/page.tsx\<close>

definition register_json :: "register_form \<Rightarrow> json" where
  "register_json d = JObj [(''orgName'', JStr (orgName d)), (''orgSlug'', JStr (orgSlug d)),
     (''email'', JStr (r_email d)), (''username'', JStr (r_username d)), (''password'', JStr (r_password d))]"

record register_page =
  rg_form :: register_form
  rg_submitting :: bool
  rg_sent :: "register_form list"
  rg_auth :: auth_state
  rg_toasts :: "string list"
  rg_routes :: "string list"

definition register_start :: "auth_state \<Rightarrow> register_page" where
  "register_start a = \<lparr>rg_form = \<lparr>orgName = [], orgSlug = [], r_email = [], r_username = [], r_password = []\<rparr>,
     rg_submitting = False, rg_sent = [], rg_auth = a, rg_toasts = [], rg_routes = []\<rparr>"

definition register_call :: "register_form \<Rightarrow> auth_call" where
  "register_call d = Register (register_json d)"

text \<open>What comes back: the message of the failure if it has one, or the tokens if there are any.\<close>

type_synonym token_answer = "string option + (string \<times> string) option"

definition register_answer :: "(string \<Rightarrow> json res) \<Rightarrow> token_answer \<Rightarrow> register_page \<Rightarrow> register_page" where
  "register_answer parse r p = (let p = p\<lparr>rg_submitting := False\<rparr> in case r of
     Inr (Some (acc, ref)) \<Rightarrow> p\<lparr>rg_auth := setTokens parse acc ref (rg_auth p),
       rg_toasts := rg_toasts p @ [''Account created! Welcome to XP-Panel.''],
       rg_routes := rg_routes p @ [''/dashboard'']\<rparr>
   | Inr None \<Rightarrow> p
   | Inl m \<Rightarrow> p\<lparr>rg_toasts := rg_toasts p @ [case m of None \<Rightarrow> ''Registration failed'' | Some t \<Rightarrow> t]\<rparr>)"

datatype register_event = TypeOrg string | TypeSlug string | TypeRegEmail string | TypeUsername string
  | TypeRegPassword string | RegisterClick | RegisterAnswer token_answer

fun register_step :: "(string \<Rightarrow> bool) \<Rightarrow> (string \<Rightarrow> json res) \<Rightarrow> register_event \<Rightarrow> register_page \<Rightarrow> register_page" where
  "register_step email_ok parse (TypeOrg v) p = p\<lparr>rg_form := typeOrgName v (rg_form p)\<rparr>"
| "register_step email_ok parse (TypeSlug v) p = p\<lparr>rg_form := (rg_form p)\<lparr>orgSlug := v\<rparr>\<rparr>"
| "register_step email_ok parse (TypeRegEmail v) p = p\<lparr>rg_form := (rg_form p)\<lparr>r_email := v\<rparr>\<rparr>"
| "register_step email_ok parse (TypeUsername v) p = p\<lparr>rg_form := (rg_form p)\<lparr>r_username := v\<rparr>\<rparr>"
| "register_step email_ok parse (TypeRegPassword v) p = p\<lparr>rg_form := (rg_form p)\<lparr>r_password := v\<rparr>\<rparr>"
| "register_step email_ok parse RegisterClick p =
     (if rg_submitting p \<or> register_errors email_ok (rg_form p) \<noteq> [] then p
      else p\<lparr>rg_submitting := True, rg_sent := rg_sent p @ [rg_form p]\<rparr>)"
| "register_step email_ok parse (RegisterAnswer r) p = (if rg_submitting p then register_answer parse r p else p)"

section \<open>forgot-password/page.tsx\<close>

record forgot_page =
  fp_email :: string
  fp_loading :: bool
  fp_done :: bool
  fp_asked :: "string list"
  fp_toasts :: "string list"

definition forgot_start :: forgot_page where
  "forgot_start = \<lparr>fp_email = [], fp_loading = False, fp_done = False, fp_asked = [], fp_toasts = []\<rparr>"

text \<open>The field can be edited while the request is under way.\<close>

datatype forgot_event = TypeForgotEmail string | ForgotClick | ForgotAnswer bool | DifferentEmail

fun forgot_step :: "forgot_event \<Rightarrow> forgot_page \<Rightarrow> forgot_page" where
  "forgot_step (TypeForgotEmail v) p = (if fp_done p then p else p\<lparr>fp_email := v\<rparr>)"
| "forgot_step ForgotClick p = (if fp_done p \<or> fp_loading p \<or> forgot_submit (fp_email p) = None then p
     else p\<lparr>fp_loading := True, fp_asked := fp_asked p @ [fp_email p]\<rparr>)"
| "forgot_step (ForgotAnswer ok) p = (if \<not> fp_loading p then p
     else if ok then p\<lparr>fp_done := True, fp_loading := False\<rparr>
     else p\<lparr>fp_toasts := fp_toasts p @ [''Failed to send reset email. Please try again.''], fp_loading := False\<rparr>)"
| "forgot_step DifferentEmail p = (if fp_done p then p\<lparr>fp_done := False, fp_email := []\<rparr> else p)"

text \<open>\<open>We sent a password reset link to\<close> ...\<close>

definition forgot_message :: "forgot_page \<Rightarrow> string option" where
  "forgot_message p = (if fp_done p then Some (fp_email p) else None)"

section \<open>reset-password/page.tsx\<close>

record reset_page =
  rp_token :: string
  rp_password :: string
  rp_confirm :: string
  rp_loading :: bool
  rp_done :: bool
  rp_sent :: "(string \<times> string) list"
  rp_timer :: bool
  rp_toasts :: "string list"
  rp_routes :: "string list"

text \<open>\<open>params.get('token') ?? ''\<close>.\<close>

definition reset_start :: "string option \<Rightarrow> reset_page" where
  "reset_start t = \<lparr>rp_token = (case t of None \<Rightarrow> [] | Some v \<Rightarrow> v), rp_password = [], rp_confirm = [],
     rp_loading = False, rp_done = False, rp_sent = [], rp_timer = False, rp_toasts = [], rp_routes = []\<rparr>"

definition reset_shown :: "reset_page \<Rightarrow> bool" where
  "reset_shown p \<longleftrightarrow> rp_token p \<noteq> [] \<and> \<not> rp_done p"

datatype reset_event = TypeNewPassword string | TypeConfirm string | ResetClick | ResetAnswer bool | ResetTimer

fun reset_step :: "reset_event \<Rightarrow> reset_page \<Rightarrow> reset_page" where
  "reset_step (TypeNewPassword v) p = (if reset_shown p then p\<lparr>rp_password := v\<rparr> else p)"
| "reset_step (TypeConfirm v) p = (if reset_shown p then p\<lparr>rp_confirm := v\<rparr> else p)"
| "reset_step ResetClick p = (if \<not> reset_shown p \<or> rp_loading p \<or>
       reset_submit (rp_token p) (rp_password p) (rp_confirm p) = None then p
     else p\<lparr>rp_loading := True, rp_sent := rp_sent p @ [(rp_token p, rp_password p)]\<rparr>)"
| "reset_step (ResetAnswer ok) p = (if \<not> rp_loading p then p
     else if ok then p\<lparr>rp_done := True, rp_timer := True, rp_loading := False\<rparr>
     else p\<lparr>rp_toasts := rp_toasts p @ [''Reset link is invalid or expired. Request a new one.''], rp_loading := False\<rparr>)"
| "reset_step ResetTimer p = (if rp_timer p then p\<lparr>rp_timer := False, rp_routes := rp_routes p @ [''/login'']\<rparr> else p)"

section \<open>(auth)/layout.tsx\<close>

definition auth_redirect :: "auth_state \<Rightarrow> string option" where
  "auth_redirect s = (if isAuthenticated s then Some ''/dashboard'' else None)"

section \<open>Lemmas\<close>

lemma setTokens_authenticated [simp]: "isAuthenticated (setTokens parse acc ref s)"
  by (simp add: setTokens_def split: sum.splits)

definition register_inv :: "(string \<Rightarrow> bool) \<Rightarrow> auth_state \<Rightarrow> register_page \<Rightarrow> bool" where
  "register_inv email_ok a p \<longleftrightarrow> list_all (\<lambda>d. register_errors email_ok d = []) (rg_sent p) \<and>
     (if rg_routes p = [] then rg_auth p = a else auth_redirect (rg_auth p) = Some (last (rg_routes p))) \<and>
     length (rg_routes p) + (if rg_submitting p then 1 else 0) \<le> length (rg_sent p)"

lemma register_step_inv: "register_inv email_ok a p \<Longrightarrow> register_inv email_ok a (register_step email_ok parse e p)"
  by (cases e) (auto simp: register_inv_def register_answer_def auth_redirect_def Let_def
      split: sum.splits option.splits if_splits)

interpretation registration: component "register_step email_ok parse" "register_inv email_ok a" for email_ok parse a
  by unfold_locales (rule register_step_inv)

text \<open>Nothing ever changes what was sent already, and an answer is needed before the next request.\<close>

definition forgot_inv :: "forgot_page \<Rightarrow> bool" where
  "forgot_inv p \<longleftrightarrow> list_all (\<lambda>e. e \<noteq> []) (fp_asked p) \<and> (fp_loading p \<longrightarrow> \<not> fp_done p \<and> fp_asked p \<noteq> [])"

lemma forgot_step_inv: "forgot_inv p \<Longrightarrow> forgot_inv (forgot_step e p)"
  by (cases e) (auto simp: forgot_inv_def forgot_submit_def)

interpretation forgot: component forgot_step forgot_inv
  by unfold_locales (rule forgot_step_inv)

text \<open>The address named is that of the field, not the one the request was made for.\<close>

lemma forgot_names_other_address:
  "forgot_message (fold forgot_step [TypeForgotEmail ''a@x.org'', ForgotClick, TypeForgotEmail ''b@x.org'', ForgotAnswer True]
     forgot_start) = Some ''b@x.org''"
  "fp_asked (fold forgot_step [TypeForgotEmail ''a@x.org'', ForgotClick, TypeForgotEmail ''b@x.org'', ForgotAnswer True]
     forgot_start) = [''a@x.org'']"
  by (simp_all add: forgot_start_def forgot_submit_def forgot_message_def)

definition reset_inv :: "string \<Rightarrow> reset_page \<Rightarrow> bool" where
  "reset_inv tok p \<longleftrightarrow> rp_token p = tok \<and> list_all (\<lambda>(t, pw). t = tok \<and> t \<noteq> [] \<and> 8 \<le> length pw) (rp_sent p) \<and>
     (rp_loading p \<longrightarrow> \<not> rp_done p \<and> rp_sent p \<noteq> []) \<and> (rp_done p \<longrightarrow> rp_sent p \<noteq> []) \<and>
     rp_routes p = (if rp_done p \<and> \<not> rp_timer p then [''/login''] else []) \<and> (rp_timer p \<longrightarrow> rp_done p)"

lemma reset_step_inv: "reset_inv tok p \<Longrightarrow> reset_inv tok (reset_step e p)"
  by (cases e) (auto simp: reset_inv_def reset_shown_def reset_submit_def reset_valid_def split: if_splits)

interpretation reset: component reset_step "reset_inv tok" for tok
  by unfold_locales (rule reset_step_inv)

section \<open>Properties\<close>

text \<open>Registration sends only accounts the schema accepts, one request at a time; the session is the
  visitor's old one until tokens have come, and from then on the page's own redirect is the one
  the layout around it makes as well.\<close>

theorem registration_safe:
  "let p = fold (register_step email_ok parse) es (register_start a) in
     list_all (\<lambda>d. register_errors email_ok d = []) (rg_sent p) \<and>
     length (rg_routes p) + (if rg_submitting p then 1 else 0) \<le> length (rg_sent p) \<and>
     (if rg_routes p = [] then rg_auth p = a else auth_redirect (rg_auth p) = Some (last (rg_routes p)))"
proof -
  have "register_inv email_ok a (register_start a)" by (simp add: register_inv_def register_start_def)
  from registration.run_inv [OF this] show ?thesis by (simp add: register_inv_def Let_def)
qed

text \<open>Property C36: A reset link is used at most once successfully: after it the form is gone, no request follows, and the
  visitor is sent to the login page once; only passwords of eight characters and the link's own
  token are ever sent.\<close>

theorem reset_link_used_once:
  "let p = fold reset_step es (reset_start t) in
     list_all (\<lambda>(t', pw). Some t' = t \<and> t' \<noteq> [] \<and> 8 \<le> length pw) (rp_sent p) \<and>
     rp_routes p = (if rp_done p \<and> \<not> rp_timer p then [''/login''] else []) \<and>
     (if rp_done p then rp_sent (fold reset_step es' p) = rp_sent p else True)"
proof -
  let ?p = "fold reset_step es (reset_start t)" and ?tok = "case t of None \<Rightarrow> [] | Some v \<Rightarrow> v"
  have "reset_inv ?tok (reset_start t)" by (simp add: reset_inv_def reset_start_def)
  from reset.run_inv [OF this] have i: "reset_inv ?tok ?p" .
  have "rp_done p \<and> \<not> rp_loading p \<Longrightarrow> rp_sent (fold reset_step es' p) = rp_sent p" for p
  proof (induction es' arbitrary: p)
    case (Cons e es')
    then have "rp_done (reset_step e p) \<and> \<not> rp_loading (reset_step e p) \<and> rp_sent (reset_step e p) = rp_sent p"
      by (cases e) (auto simp: reset_shown_def)
    then show ?case using Cons.IH [of "reset_step e p"] by simp
  qed simp
  moreover have "rp_done ?p \<Longrightarrow> \<not> rp_loading ?p" using i by (auto simp: reset_inv_def)
  moreover have "list_all (\<lambda>(t', pw). Some t' = t \<and> t' \<noteq> [] \<and> 8 \<le> length pw) (rp_sent ?p)"
    using i by (cases t) (auto simp: reset_inv_def list_all_iff)
  ultimately show ?thesis using i by (simp add: reset_inv_def Let_def)
qed

end
