(* ===== verification/Routes.thy ===== *)
theory Routes
  imports Navigation SignUpPages OverviewPages Url
begin

text \<open>
  Where the panel's links lead. The pages are the \<open>page.tsx\<close> files under app; a directory in brackets
  stands for any one segment. Those under (panel) stand in the shell, which sends visitors without a
  session to the login page; those under (auth) in the layout that sends visitors with a session to
  the dashboard.
\<close>

section \<open>Pages\<close>

definition auth_pages :: "string list" where
  "auth_pages = [''/auth/callback'', ''/forgot-password'', ''/login'', ''/register'', ''/reset-password'', ''/two-factor'']"

definition panel_pages :: "string list" where
  "panel_pages = [''/admin/servers'', ''/admin/users'', ''/ai'', ''/backups'', ''/billing/invoices'', ''/billing'',
     ''/cron'', ''/dashboard'', ''/databases'', ''/databases/remote'', ''/devops'', ''/devops/pipelines/[id]'',
     ''/dns/[zoneId]'', ''/dns'', ''/dns/propagation'', ''/docker/compose'', ''/docker'', ''/domains/[id]'',
     ''/domains'', ''/email/autoresponders'', ''/email/dkim'', ''/email/dmarc'', ''/email/filters'',
     ''/email/forwarders'', ''/email'', ''/email/queue'', ''/email/webmail'', ''/files'', ''/ftp'', ''/marketplace'',
     ''/monitoring/alerts'', ''/monitoring/bandwidth'', ''/monitoring/disk'', ''/monitoring/geomap'',
     ''/monitoring'', ''/monitoring/servers'', ''/notifications'', ''/php'', ''/redirects'',
     ''/reseller/packages'', ''/reseller'', ''/reseller/users'', ''/security/events'', ''/security/firewall'',
     ''/security/geoip'', ''/security'', ''/security/scanner'', ''/security/waf'', ''/settings/api-tokens'',
     ''/settings/notifications'', ''/settings'', ''/settings/passkeys'', ''/settings/profile'',
     ''/settings/security'', ''/ssh-keys'', ''/ssl/csr'', ''/ssl'', ''/subdomains'', ''/terminal'', ''/webserver'']"

fun segment_matches :: "string \<Rightarrow> string \<Rightarrow> bool" where
  "segment_matches (CHR ''['' # p) s = (s \<noteq> [])"
| "segment_matches p s = (p = s)"

definition leads_to :: "string \<Rightarrow> string \<Rightarrow> bool" where
  "leads_to page path = list_all2 segment_matches (split_on (CHR ''/'') page) (split_on (CHR ''/'') path)"

definition in_panel :: "string \<Rightarrow> bool" where
  "in_panel path = list_ex (\<lambda>p. leads_to p path) panel_pages"

text \<open>The redirects: of app/page.tsx, of the layout of (auth), of the shell, and of settings/page.tsx, which the
  shell renders only for a session.\<close>

definition settings_redirect :: string where
  "settings_redirect = ''/settings/profile''"

definition guard :: "auth_state \<Rightarrow> string \<Rightarrow> string option" where
  "guard s path =
    (if path = ''/'' then Some ''/dashboard''
     else if path \<in> set auth_pages then auth_redirect s
     else if in_panel path then (case shell_redirect s of
         Some q \<Rightarrow> Some q
       | None \<Rightarrow> if path = ''/settings'' then Some settings_redirect else None)
     else None)"

fun follow :: "nat \<Rightarrow> auth_state \<Rightarrow> string \<Rightarrow> string" where
  "follow 0 s path = path"
| "follow (Suc n) s path = (case guard s path of None \<Rightarrow> path | Some q \<Rightarrow> follow n s q)"

text \<open>The links of the sidebar, of the command palette, of the voice control and of the dashboard.\<close>

definition dashboard_hrefs :: "string list" where
  "dashboard_hrefs = concat (map (map snd \<circ> snd) appSections)"

section \<open>Lemmas\<close>

lemma known_pages [simp]:
  "in_panel ''/dashboard''" "\<not> in_panel ''/login''" "''/login'' \<in> set auth_pages" "''/dashboard'' \<notin> set auth_pages"
  "in_panel ''/settings''" "in_panel ''/settings/profile''" "''/settings'' \<notin> set auth_pages" "''/settings/profile'' \<notin> set auth_pages"
  by code_simp+

lemma menu_pages: "list_all in_panel nav_hrefs"
  by code_simp

lemma command_pages: "list_all (in_panel \<circ> cmd_href) commands"
  by code_simp

lemma voice_pages: "list_all (in_panel \<circ> snd) voice_commands"
  by code_simp

lemma dashboard_pages: "filter (\<lambda>h. \<not> in_panel h) dashboard_hrefs = [''/monitoring/logs'']"
  by code_simp

text \<open>The quick actions lead to pages too, though no page reads the action it is given.\<close>

lemma action_pages: "list_all (in_panel \<circ> url_path) QUICK_ACTIONS"
  by code_simp

lemma overview_pages: "list_all (in_panel \<circ> fst \<circ> snd) (overview_links events)"
proof -
  have "in_panel ''/security/firewall''" "in_panel ''/security/events''" "in_panel ''/security/scanner''"
    by code_simp+
  then show ?thesis by (simp add: overview_links_def)
qed

text \<open>The links of the registration page to the terms and the privacy policy lead nowhere.\<close>

lemma no_terms_pages:
  "\<not> in_panel ''/terms'' \<and> \<not> in_panel ''/privacy'' \<and> ''/terms'' \<notin> set auth_pages \<and> ''/privacy'' \<notin> set auth_pages"
  by code_simp

lemma pushed_in_panel: "list_all in_panel (pushed (fold palette_step es palette_init))"
proof -
  have "palette_inv (fold palette_step es palette_init)" using palette.run_inv [OF palette_init_inv] .
  then show ?thesis using command_pages by (auto simp: palette_inv_def list_all_iff)
qed

lemma first_match_in: "first_match cs text = Some h \<Longrightarrow> h \<in> snd ` set cs"
  by (induction cs) (auto split: if_splits)

lemma voice_step_went: "\<exists>hs. went (voice_step e v) = went v @ hs \<and> list_all in_panel hs"
proof (cases e)
  case (OnResult t b)
  have "in_panel h" if "first_match voice_commands t = Some h" for h
    using first_match_in [OF that] voice_pages by (auto simp: list_all_iff)
  then show ?thesis using OnResult by (auto simp: processTranscript_def Let_def split: option.splits)
qed (auto simp: startListening_def stopListening_def)

lemma voice_run_went: "list_all in_panel (drop (length (went v)) (went (fold voice_step es v)))"
proof -
  have "\<exists>hs. went (fold voice_step es v) = went v @ hs \<and> list_all in_panel hs"
  proof (induction es arbitrary: v)
    case (Cons e es)
    obtain hs where "went (voice_step e v) = went v @ hs" "list_all in_panel hs" using voice_step_went by blast
    moreover obtain hs' where "went (fold voice_step es (voice_step e v)) = went (voice_step e v) @ hs'" "list_all in_panel hs'"
      using Cons.IH by blast
    ultimately show ?case by auto
  qed simp
  then show ?thesis by auto
qed

section \<open>Properties\<close>

text \<open>Every link of the menu leads to a page of the panel, and so does wherever the command palette
  and the voice control ever go, in any run; of the links of the dashboard all but one do: there
  is no page of the logs.\<close>

theorem navigation_reaches_pages:
  "list_all in_panel nav_hrefs \<and>
   list_all in_panel (pushed (fold palette_step es palette_init)) \<and>
   list_all in_panel (drop (length (went v)) (went (fold voice_step es' v))) \<and>
   filter (\<lambda>h. \<not> in_panel h) dashboard_hrefs = [''/monitoring/logs'']"
  by (intro conjI menu_pages pushed_in_panel voice_run_went dashboard_pages)

text \<open>Property C27: The redirects settle, never in a loop: whatever page is opened, after two of them at most there is none
  to follow, with a session on the page itself or, from the sign-in pages, on the dashboard, or, from
  the settings, on the profile, and without one on the page itself or, from the panel, on the login page.\<close>

theorem guards_settle:
  "guard s (follow 2 s path) = None \<and>
   follow 2 s path =
     (if path = ''/'' \<or> path \<in> set auth_pages \<and> isAuthenticated s then (if isAuthenticated s then ''/dashboard'' else ''/login'')
      else if path \<notin> set auth_pages \<and> in_panel path \<and> \<not> isAuthenticated s then ''/login''
      else if path = ''/settings'' then ''/settings/profile'' else path)"
  by (auto simp: numeral_2_eq_2 guard_def auth_redirect_def shell_redirect_def settings_redirect_def)

end
