(* ===== verification/Gateway.thy ===== *)
theory Gateway
  imports ApiCatalog
begin

text \<open>
  The other end of lib/api: the gateway all requests go through (services/gateway, in Go). Its routes
  and middleware are those of cmd/gateway/main.go and internal/middleware. The web framework (Fiber)
  is not in the repository: \<open>serve\<close>, which runs a request through a list of routes, is a parameter,
  and \<open>fiber_serves\<close> states what its documentation says of it. Token verification and the counters of
  the rate limit are parameters as well.
\<close>

section \<open>Requests and handlers\<close>

record http =
  h_verb :: verb
  h_path :: string
  h_auth :: string

text \<open>\<open>h_auth\<close> is the \<open>Authorization\<close> header, empty when there is none.\<close>

record claims =
  cl_roles :: "string list"
  cl_perms :: "string list"

datatype service = AuthService | DnsService | MailService | DomainsService | WebServerService | FileService
  | DatabaseService | BackupService | MonitoringService | BillingService | AiService | SecurityService
  | DockerService | DevopsService | MarketplaceService | NotificationService

datatype handler = JWTAuth | TenantIsolation | RateLimit | RequirePerm string | RequireRole "string list" | ProxyTo service

datatype verdict = Proxied service | Refused nat

record environment =
  verify :: "string \<Rightarrow> claims option"
  over_limit :: "http \<Rightarrow> bool"

definition jwt_claims :: "(string \<Rightarrow> claims option) \<Rightarrow> string \<Rightarrow> claims option" where
  "jwt_claims vf h = (if length h < 8 \<or> toLowerCase (take 7 h) \<noteq> ''bearer '' then None else vf (drop 7 h))"

definition has_perm :: "string \<Rightarrow> claims \<Rightarrow> bool" where
  "has_perm p c = list_ex (\<lambda>q. q = ''super:*'' \<or> q = p) (cl_perms c)"

definition has_role :: "string list \<Rightarrow> claims \<Rightarrow> bool" where
  "has_role rs c = list_ex (\<lambda>r. r = ''super_admin'' \<or> r \<in> set rs) (cl_roles c)"

text \<open>The handlers of a route, one after the other; \<open>ctx\<close> is what \<open>JWTAuth\<close> left in the locals and \<open>next\<close>
  what follows the last of them.\<close>

fun run_handlers ::
  "environment \<Rightarrow> handler list \<Rightarrow> claims option \<Rightarrow> http \<Rightarrow> (claims option \<Rightarrow> verdict) \<Rightarrow> verdict" where
  "run_handlers e [] ctx x k = k ctx"
| "run_handlers e (JWTAuth # hs) ctx x k =
     (case jwt_claims (verify e) (h_auth x) of None \<Rightarrow> Refused 401 | Some c \<Rightarrow> run_handlers e hs (Some c) x k)"
| "run_handlers e (TenantIsolation # hs) ctx x k =
     (if ctx = None then Refused 401 else run_handlers e hs ctx x k)"
| "run_handlers e (RateLimit # hs) ctx x k = (if over_limit e x then Refused 429 else run_handlers e hs ctx x k)"
| "run_handlers e (RequirePerm p # hs) ctx x k =
     (case ctx of None \<Rightarrow> Refused 401 | Some c \<Rightarrow> if has_perm p c then run_handlers e hs ctx x k else Refused 403)"
| "run_handlers e (RequireRole rs # hs) ctx x k =
     (case ctx of None \<Rightarrow> Refused 401 | Some c \<Rightarrow> if has_role rs c then run_handlers e hs ctx x k else Refused 403)"
| "run_handlers e (ProxyTo s # hs) ctx x k = Proxied s"

section \<open>Routes\<close>

text \<open>A route for one verb or all of them, or the middleware of a group of routes.\<close>

datatype route = Route "verb option" string (route_handlers: "handler list") | Group string (route_handlers: "handler list")

text \<open>Patterns: \<open>:name\<close> is one segment, \<open>*\<close> whatever follows; letters match in either case.\<close>

function fiber_match :: "string \<Rightarrow> string \<Rightarrow> bool" where
  "fiber_match [] p = (p = [])"
| "fiber_match (c # ps) p =
     (if c = CHR ''*'' then True
      else if c = CHR '':'' then takeWhile (\<lambda>d. d \<noteq> CHR ''/'') p \<noteq> [] \<and>
        fiber_match (dropWhile (\<lambda>d. d \<noteq> CHR ''/'') ps) (dropWhile (\<lambda>d. d \<noteq> CHR ''/'') p)
      else (case p of [] \<Rightarrow> False | x # p' \<Rightarrow> to_lower x = c \<and> fiber_match ps p'))"
  by pat_completeness auto
termination
  by (relation "measure (\<lambda>(ps, p). length ps)") (auto simp: le_imp_less_Suc length_dropWhile_le)

definition under_group :: "string \<Rightarrow> string \<Rightarrow> bool" where
  "under_group g p \<longleftrightarrow> fiber_match g p \<or> fiber_match (g @ ''/*'') p"

fun route_matches :: "route \<Rightarrow> http \<Rightarrow> bool" where
  "route_matches (Route v pat hs) x \<longleftrightarrow> (v = None \<or> v = Some (h_verb x)) \<and> fiber_match pat (h_path x)"
| "route_matches (Group g hs) x \<longleftrightarrow> under_group g (h_path x)"

abbreviation post_route :: "string \<Rightarrow> handler list \<Rightarrow> route" where
  "post_route \<equiv> Route (Some POST)"

abbreviation get_route :: "string \<Rightarrow> handler list \<Rightarrow> route" where
  "get_route \<equiv> Route (Some GET)"

abbreviation all_route :: "string \<Rightarrow> handler list \<Rightarrow> route" where
  "all_route \<equiv> Route None"

text \<open>cmd/gateway/main.go, in its order. \<open>To\<close> and \<open>SSETo\<close> both hand the request on to a service.\<close>

definition gateway :: "route list" where
  "gateway = [
     post_route ''/api/v1/auth/register'' [RateLimit, ProxyTo AuthService],
     post_route ''/api/v1/auth/login'' [RateLimit, ProxyTo AuthService],
     post_route ''/api/v1/auth/refresh'' [RateLimit, ProxyTo AuthService],
     post_route ''/api/v1/auth/mfa/verify'' [RateLimit, ProxyTo AuthService],
     post_route ''/api/v1/auth/forgot-password'' [RateLimit, ProxyTo AuthService],
     post_route ''/api/v1/auth/reset-password'' [RateLimit, ProxyTo AuthService],
     get_route ''/api/v1/auth/oauth2/:provider'' [ProxyTo AuthService],
     get_route ''/api/v1/auth/oauth2/:provider/callback'' [ProxyTo AuthService],
     Group ''/api/v1'' [JWTAuth, TenantIsolation, RateLimit],
     all_route ''/api/v1/auth/*'' [ProxyTo AuthService],
     all_route ''/api/v1/dns/*'' [RequirePerm ''dns:read'', ProxyTo DnsService],
     all_route ''/api/v1/mail/*'' [RequirePerm ''mail:read'', ProxyTo MailService],
     get_route ''/api/v1/domains'' [RequirePerm ''domains:read'', ProxyTo DomainsService],
     get_route ''/api/v1/domains/*'' [RequirePerm ''domains:read'', ProxyTo DomainsService],
     post_route ''/api/v1/domains'' [RequirePerm ''domains:write'', ProxyTo DomainsService],
     post_route ''/api/v1/domains/*'' [RequirePerm ''domains:write'', ProxyTo DomainsService],
     Route (Some DELETE) ''/api/v1/domains/*'' [RequirePerm ''domains:delete'', ProxyTo DomainsService],
     all_route ''/api/v1/webserver/*'' [RequirePerm ''domains:write'', ProxyTo WebServerService],
     all_route ''/api/v1/files/*'' [RequirePerm ''files:read'', ProxyTo FileService],
     all_route ''/api/v1/databases*'' [RequirePerm ''db:read'', ProxyTo DatabaseService],
     all_route ''/api/v1/database-users*'' [RequirePerm ''db:read'', ProxyTo DatabaseService],
     all_route ''/api/v1/backups*'' [RequirePerm ''backup:read'', ProxyTo BackupService],
     all_route ''/api/v1/monitoring/*'' [RequirePerm ''monitoring:read'', ProxyTo MonitoringService],
     all_route ''/api/v1/billing/*'' [RequirePerm ''billing:read'', ProxyTo BillingService],
     get_route ''/api/v1/ai/chat'' [RequirePerm ''ai:use'', ProxyTo AiService],
     all_route ''/api/v1/ai/*'' [RequirePerm ''ai:use'', ProxyTo AiService],
     all_route ''/api/v1/security/*'' [RequirePerm ''security:read'', ProxyTo SecurityService],
     all_route ''/api/v1/docker/*'' [RequirePerm ''docker:read'', ProxyTo DockerService],
     get_route ''/api/v1/devops/deployments/:id/logs'' [RequirePerm ''devops:read'', ProxyTo DevopsService],
     all_route ''/api/v1/devops/*'' [RequirePerm ''devops:read'', ProxyTo DevopsService],
     all_route ''/api/v1/marketplace/*'' [RequirePerm ''marketplace:read'', ProxyTo MarketplaceService],
     all_route ''/api/v1/notifications*'' [JWTAuth, ProxyTo NotificationService],
     all_route ''/api/v1/admin/*'' [RequireRole [''admin'', ''super_admin''], ProxyTo AuthService],
     post_route ''/api/v1/agent/metrics'' [ProxyTo MonitoringService],
     post_route ''/api/v1/auth/passkeys/authenticate/begin'' [RateLimit, ProxyTo AuthService],
     post_route ''/api/v1/auth/passkeys/authenticate/finish'' [RateLimit, ProxyTo AuthService],
     get_route ''/ws/metrics/:serverId'' [JWTAuth, ProxyTo MonitoringService],
     get_route ''/ws/logs/:deploymentId'' [JWTAuth, ProxyTo DevopsService],
     get_route ''/ws/notifications'' [JWTAuth, ProxyTo NotificationService],
     all_route ''/graphql'' [JWTAuth, ProxyTo AuthService]]"

text \<open>What Fiber does with a request whose path does not end in a slash: it tries the routes in the order in
  which they were registered, groups included, and runs the handlers of those that match until one of
  them answers; when none is left, it answers with an error of its own.\<close>

definition no_final_slash :: "http \<Rightarrow> bool" where
  "no_final_slash x \<longleftrightarrow> h_path x \<noteq> [] \<and> last (h_path x) \<noteq> CHR ''/''"

definition fiber_serves ::
  "(environment \<Rightarrow> route list \<Rightarrow> claims option \<Rightarrow> http \<Rightarrow> verdict) \<Rightarrow> bool" where
  "fiber_serves serve \<longleftrightarrow>
     (\<forall>e ctx x s. serve e [] ctx x \<noteq> Proxied s) \<and>
     (\<forall>e r rs ctx x. no_final_slash x \<longrightarrow> serve e (r # rs) ctx x =
        (if route_matches r x then run_handlers e (route_handlers r) ctx x (\<lambda>c. serve e rs c x) else serve e rs ctx x))"

section \<open>What the gateway promises\<close>

text \<open>The service a call is meant for, and the permission it takes.\<close>

fun service_of :: "api_call \<Rightarrow> service" where
  "service_of (AuthApi _) = AuthService" | "service_of (PasskeyApi _) = AuthService"
| "service_of (FilesApi _) = FileService" | "service_of (BackupApi _) = BackupService"
| "service_of (BillingApi _) = BillingService" | "service_of (AiApi _) = AiService"
| "service_of (DatabasesApi _) = DatabaseService" | "service_of (DevopsApi _) = DevopsService"
| "service_of (DnsApi _) = DnsService" | "service_of (DockerApi _) = DockerService"
| "service_of (MailApi _) = MailService" | "service_of (AutoresponderApi _) = MailService"
| "service_of (EmailFilterApi _) = MailService" | "service_of (MailQueueApi _) = MailService"
| "service_of (MarketplaceApi _) = MarketplaceService" | "service_of (MonitoringApi _) = MonitoringService"
| "service_of (BandwidthApi _) = MonitoringService" | "service_of (NotificationsApi _) = NotificationService"
| "service_of (SecurityApi _) = SecurityService" | "service_of (ModsecApi _) = SecurityService"
| "service_of (DomainsApi _) = DomainsService" | "service_of _ = WebServerService"

fun permission_of :: "service \<Rightarrow> verb \<Rightarrow> string option" where
  "permission_of AuthService v = None" | "permission_of NotificationService v = None"
| "permission_of DnsService v = Some ''dns:read''" | "permission_of MailService v = Some ''mail:read''"
| "permission_of DomainsService v = Some (if v = GET then ''domains:read'' else if v = DELETE then ''domains:delete'' else ''domains:write'')"
| "permission_of WebServerService v = Some ''domains:write''" | "permission_of FileService v = Some ''files:read''"
| "permission_of DatabaseService v = Some ''db:read''" | "permission_of BackupService v = Some ''backup:read''"
| "permission_of MonitoringService v = Some ''monitoring:read''" | "permission_of BillingService v = Some ''billing:read''"
| "permission_of AiService v = Some ''ai:use''" | "permission_of SecurityService v = Some ''security:read''"
| "permission_of DockerService v = Some ''docker:read''" | "permission_of DevopsService v = Some ''devops:read''"
| "permission_of MarketplaceService v = Some ''marketplace:read''"

text \<open>The calls that are made before there is a session.\<close>

fun public_call :: "api_call \<Rightarrow> bool" where
  "public_call (AuthApi (Register _)) = True" | "public_call (AuthApi (Login _ _)) = True"
| "public_call (AuthApi (Refresh _)) = True" | "public_call (AuthApi (VerifyMFA _)) = True"
| "public_call (AuthApi (ForgotPassword _)) = True" | "public_call (AuthApi (ResetPassword _ _)) = True"
| "public_call _ = False"

text \<open>A request on the wire, with the header the client sets when there is a token.\<close>

definition on_wire :: "string option \<Rightarrow> request \<Rightarrow> http" where
  "on_wire tok r = \<lparr>h_verb = verb r, h_path = ''/api/v1'' @ url_path (url r),
     h_auth = (case tok of None \<Rightarrow> [] | Some t \<Rightarrow> ''Bearer '' @ t)\<rparr>"

definition http_of :: "string option \<Rightarrow> api_call \<Rightarrow> http" where
  "http_of tok c = on_wire tok (api_request c)"

section \<open>Lemmas\<close>

text \<open>Any Fiber runs a list of routes like this, up to its own error at the end.\<close>

fun dispatch ::
  "(claims option \<Rightarrow> http \<Rightarrow> verdict) \<Rightarrow> environment \<Rightarrow> route list \<Rightarrow> claims option \<Rightarrow> http \<Rightarrow> verdict" where
  "dispatch err e [] ctx x = err ctx x"
| "dispatch err e (r # rs) ctx x =
     (if route_matches r x then run_handlers e (route_handlers r) ctx x (\<lambda>c. dispatch err e rs c x)
      else dispatch err e rs ctx x)"

lemma fiber_dispatch:
  "fiber_serves serve \<Longrightarrow> no_final_slash x \<Longrightarrow> serve e rs ctx x = dispatch (serve e []) e rs ctx x"
  by (induction rs arbitrary: ctx) (simp_all add: fiber_serves_def)

lemma dispatch_skip:
  "\<not> list_ex (\<lambda>r. route_matches r x) rs \<Longrightarrow> dispatch err e (rs @ rs') ctx x = dispatch err e rs' ctx x"
  by (induction rs) auto

lemma fiber_dispatch_404: "fiber_serves (dispatch (\<lambda>_ _. Refused 404))"
  by (simp add: fiber_serves_def)

text \<open>Patterns on lower-case literals.\<close>

lemma to_lower_literals [simp]:
  "to_lower (CHR ''/'') = CHR ''/''" "to_lower (CHR ''-'') = CHR ''-''" "to_lower (CHR ''1'') = CHR ''1''"
  "to_lower (CHR ''2'') = CHR ''2''"
  "to_lower (CHR ''a'') = CHR ''a''" "to_lower (CHR ''b'') = CHR ''b''" "to_lower (CHR ''c'') = CHR ''c''"
  "to_lower (CHR ''d'') = CHR ''d''" "to_lower (CHR ''e'') = CHR ''e''" "to_lower (CHR ''f'') = CHR ''f''"
  "to_lower (CHR ''g'') = CHR ''g''" "to_lower (CHR ''h'') = CHR ''h''" "to_lower (CHR ''i'') = CHR ''i''"
  "to_lower (CHR ''j'') = CHR ''j''" "to_lower (CHR ''k'') = CHR ''k''" "to_lower (CHR ''l'') = CHR ''l''"
  "to_lower (CHR ''m'') = CHR ''m''" "to_lower (CHR ''n'') = CHR ''n''" "to_lower (CHR ''o'') = CHR ''o''"
  "to_lower (CHR ''p'') = CHR ''p''" "to_lower (CHR ''q'') = CHR ''q''" "to_lower (CHR ''r'') = CHR ''r''"
  "to_lower (CHR ''s'') = CHR ''s''" "to_lower (CHR ''t'') = CHR ''t''" "to_lower (CHR ''u'') = CHR ''u''"
  "to_lower (CHR ''v'') = CHR ''v''" "to_lower (CHR ''w'') = CHR ''w''" "to_lower (CHR ''x'') = CHR ''x''"
  "to_lower (CHR ''y'') = CHR ''y''" "to_lower (CHR ''z'') = CHR ''z''"
  by code_simp+

lemma fiber_literal [simp]:
  "c \<noteq> CHR ''*'' \<Longrightarrow> c \<noteq> CHR '':'' \<Longrightarrow> fiber_match (c # ps) [] = False"
  "c \<noteq> CHR ''*'' \<Longrightarrow> c \<noteq> CHR '':'' \<Longrightarrow> fiber_match (c # ps) (x # p) = (to_lower x = c \<and> fiber_match ps p)"
  "fiber_match (CHR ''*'' # ps) p = True"
  "fiber_match (CHR '':'' # ps) p \<longleftrightarrow> takeWhile (\<lambda>d. d \<noteq> CHR ''/'') p \<noteq> [] \<and>
     fiber_match (dropWhile (\<lambda>d. d \<noteq> CHR ''/'') ps) (dropWhile (\<lambda>d. d \<noteq> CHR ''/'') p)"
  by simp_all

declare fiber_match.simps(2) [simp del]

text \<open>The path of a call starts with that of its module.\<close>

lemma path_base: "\<exists>r. h_path (http_of t c) = ''/api/v1'' @ api_base c @ r"
proof -
  obtain r where u: "url (api_request c) = api_base c @ r"
    using api_request_base [of c] by (auto simp: startsWith_def prefix_def)
  have "CHR ''?'' \<notin> set (api_base c)" by (cases c) simp_all
  then have "url_path (api_base c @ r) = api_base c @ url_path r"
    by (auto simp: url_path_def takeWhile_append)
  then show ?thesis by (simp add: http_of_def on_wire_def u)
qed

lemma bearer_claims [simp]: "t \<noteq> [] \<Longrightarrow> jwt_claims vf (CHR ''B'' # CHR ''e'' # CHR ''a'' # CHR ''r'' # CHR ''e'' # CHR ''r'' # CHR '' '' # t) = vf t"
  by (cases t) (simp_all add: jwt_claims_def toLowerCase_def, code_simp)

lemma no_header [simp]: "jwt_claims vf [] = None"
  by (simp add: jwt_claims_def)

text \<open>The answer to a request below \<open>/api/v1\<close> that no public route takes.\<close>

definition grant_for :: "service \<Rightarrow> verb \<Rightarrow> claims \<Rightarrow> verdict" where
  "grant_for s v cl = (case permission_of s v of
     None \<Rightarrow> Proxied s | Some p \<Rightarrow> if has_perm p cl then Proxied s else Refused 403)"

definition answer :: "environment \<Rightarrow> service \<Rightarrow> http \<Rightarrow> verdict" where
  "answer e s x = (case jwt_claims (verify e) (h_auth x) of
     None \<Rightarrow> Refused 401
   | Some cl \<Rightarrow> if over_limit e x then Refused 429 else grant_for s (h_verb x) cl)"

lemma service_paths:
  "h_path x = ''/api/v1/dns/'' @ r \<Longrightarrow> dispatch err e (drop 9 gateway) (Some cl) x = grant_for DnsService (h_verb x) cl"
  "h_path x = ''/api/v1/mail/'' @ r \<Longrightarrow> dispatch err e (drop 9 gateway) (Some cl) x = grant_for MailService (h_verb x) cl"
  "h_path x = ''/api/v1/webserver/'' @ r \<Longrightarrow> dispatch err e (drop 9 gateway) (Some cl) x = grant_for WebServerService (h_verb x) cl"
  "h_path x = ''/api/v1/files/'' @ r \<Longrightarrow> dispatch err e (drop 9 gateway) (Some cl) x = grant_for FileService (h_verb x) cl"
  "h_path x = ''/api/v1/databases'' @ r \<Longrightarrow> dispatch err e (drop 9 gateway) (Some cl) x = grant_for DatabaseService (h_verb x) cl"
  "h_path x = ''/api/v1/database-users'' @ r \<Longrightarrow> dispatch err e (drop 9 gateway) (Some cl) x = grant_for DatabaseService (h_verb x) cl"
  "h_path x = ''/api/v1/backups'' @ r \<Longrightarrow> dispatch err e (drop 9 gateway) (Some cl) x = grant_for BackupService (h_verb x) cl"
  "h_path x = ''/api/v1/monitoring/'' @ r \<Longrightarrow> dispatch err e (drop 9 gateway) (Some cl) x = grant_for MonitoringService (h_verb x) cl"
  "h_path x = ''/api/v1/billing/'' @ r \<Longrightarrow> dispatch err e (drop 9 gateway) (Some cl) x = grant_for BillingService (h_verb x) cl"
  "h_path x = ''/api/v1/ai/'' @ r \<Longrightarrow> dispatch err e (drop 9 gateway) (Some cl) x = grant_for AiService (h_verb x) cl"
  "h_path x = ''/api/v1/security/'' @ r \<Longrightarrow> dispatch err e (drop 9 gateway) (Some cl) x = grant_for SecurityService (h_verb x) cl"
  "h_path x = ''/api/v1/docker/'' @ r \<Longrightarrow> dispatch err e (drop 9 gateway) (Some cl) x = grant_for DockerService (h_verb x) cl"
  "h_path x = ''/api/v1/devops/'' @ r \<Longrightarrow> dispatch err e (drop 9 gateway) (Some cl) x = grant_for DevopsService (h_verb x) cl"
  "h_path x = ''/api/v1/marketplace/'' @ r \<Longrightarrow> dispatch err e (drop 9 gateway) (Some cl) x = grant_for MarketplaceService (h_verb x) cl"
  by (simp_all add: gateway_def grant_for_def)

lemma notification_paths:
  "h_path x = ''/api/v1/notifications'' @ r \<Longrightarrow> jwt_claims (verify e) (h_auth x) = Some cl \<Longrightarrow>
     dispatch err e (drop 9 gateway) (Some cl) x = grant_for NotificationService (h_verb x) cl"
  by (simp add: gateway_def grant_for_def)

lemma domain_paths:
  "h_path x = ''/api/v1/domains'' \<Longrightarrow> h_verb x \<in> {GET, POST} \<Longrightarrow>
     dispatch err e (drop 9 gateway) (Some cl) x = grant_for DomainsService (h_verb x) cl"
  "h_path x = ''/api/v1/domains/'' @ r \<Longrightarrow> h_verb x \<in> {GET, POST, DELETE} \<Longrightarrow>
     dispatch err e (drop 9 gateway) (Some cl) x = grant_for DomainsService (h_verb x) cl"
  by (auto simp: gateway_def grant_for_def)

lemma not_public:
  "h_path x = ''/api/v1/dns/'' @ r \<Longrightarrow> \<not> list_ex (\<lambda>q. route_matches q x) (take 8 gateway)"
  "h_path x = ''/api/v1/mail/'' @ r \<Longrightarrow> \<not> list_ex (\<lambda>q. route_matches q x) (take 8 gateway)"
  "h_path x = ''/api/v1/webserver/'' @ r \<Longrightarrow> \<not> list_ex (\<lambda>q. route_matches q x) (take 8 gateway)"
  "h_path x = ''/api/v1/files/'' @ r \<Longrightarrow> \<not> list_ex (\<lambda>q. route_matches q x) (take 8 gateway)"
  "h_path x = ''/api/v1/databases'' @ r \<Longrightarrow> \<not> list_ex (\<lambda>q. route_matches q x) (take 8 gateway)"
  "h_path x = ''/api/v1/database-users'' @ r \<Longrightarrow> \<not> list_ex (\<lambda>q. route_matches q x) (take 8 gateway)"
  "h_path x = ''/api/v1/backups'' @ r \<Longrightarrow> \<not> list_ex (\<lambda>q. route_matches q x) (take 8 gateway)"
  "h_path x = ''/api/v1/monitoring/'' @ r \<Longrightarrow> \<not> list_ex (\<lambda>q. route_matches q x) (take 8 gateway)"
  "h_path x = ''/api/v1/billing/'' @ r \<Longrightarrow> \<not> list_ex (\<lambda>q. route_matches q x) (take 8 gateway)"
  "h_path x = ''/api/v1/ai/'' @ r \<Longrightarrow> \<not> list_ex (\<lambda>q. route_matches q x) (take 8 gateway)"
  "h_path x = ''/api/v1/security/'' @ r \<Longrightarrow> \<not> list_ex (\<lambda>q. route_matches q x) (take 8 gateway)"
  "h_path x = ''/api/v1/docker/'' @ r \<Longrightarrow> \<not> list_ex (\<lambda>q. route_matches q x) (take 8 gateway)"
  "h_path x = ''/api/v1/devops/'' @ r \<Longrightarrow> \<not> list_ex (\<lambda>q. route_matches q x) (take 8 gateway)"
  "h_path x = ''/api/v1/marketplace/'' @ r \<Longrightarrow> \<not> list_ex (\<lambda>q. route_matches q x) (take 8 gateway)"
  "h_path x = ''/api/v1/notifications'' @ r \<Longrightarrow> \<not> list_ex (\<lambda>q. route_matches q x) (take 8 gateway)"
  "h_path x = ''/api/v1/domains'' @ r \<Longrightarrow> \<not> list_ex (\<lambda>q. route_matches q x) (take 8 gateway)"
  by (simp_all add: gateway_def)

lemma gateway_parts: "gateway = take 8 gateway @ Group ''/api/v1'' [JWTAuth, TenantIsolation, RateLimit] # drop 9 gateway"
  by (simp add: gateway_def)

lemma through_group:
  assumes "h_path x = ''/api/v1/'' @ r" and "\<not> list_ex (\<lambda>q. route_matches q x) (take 8 gateway)"
    and "\<And>cl. jwt_claims (verify e) (h_auth x) = Some cl \<Longrightarrow> dispatch err e (drop 9 gateway) (Some cl) x = grant_for s (h_verb x) cl"
  shows "dispatch err e gateway ctx x = answer e s x"
proof -
  have "dispatch err e gateway ctx x = dispatch err e (Group ''/api/v1'' [JWTAuth, TenantIsolation, RateLimit] # drop 9 gateway) ctx x"
    by (subst gateway_parts) (rule dispatch_skip [OF assms(2)])
  also have "\<dots> = answer e s x"
    using assms(1,3) by (simp add: under_group_def answer_def split: option.split)
  finally show ?thesis .
qed

lemma auth_paths: "h_path x = ''/api/v1/auth/'' @ r \<Longrightarrow> dispatch err e (drop 9 gateway) (Some cl) x = Proxied AuthService"
  by (simp add: gateway_def)

lemma auth_calls_guarded:
  assumes "\<not> public_call (AuthApi c)"
  shows "dispatch err e gateway ctx (http_of t (AuthApi c)) = answer e AuthService (http_of t (AuthApi c))"
proof -
  obtain r where r: "h_path (http_of t (AuthApi c)) = ''/api/v1/auth/'' @ r" using path_base [of t "AuthApi c"] by auto
  have n: "\<not> list_ex (\<lambda>q. route_matches q (http_of t (AuthApi c))) (take 8 gateway)"
    using assms by (cases c) (simp_all add: http_of_def on_wire_def url_path_def gateway_def)
  show ?thesis
    by (rule through_group [OF _ n]) (use r in \<open>simp_all add: auth_paths grant_for_def\<close>)
qed

lemma passkey_calls_guarded:
  "dispatch err e gateway ctx (http_of t (PasskeyApi c)) = answer e AuthService (http_of t (PasskeyApi c))"
proof -
  obtain r where r: "h_path (http_of t (PasskeyApi c)) = ''/api/v1/auth/'' @ r" using path_base [of t "PasskeyApi c"] by auto
  have n: "\<not> list_ex (\<lambda>q. route_matches q (http_of t (PasskeyApi c))) (take 8 gateway)"
    by (cases c) (simp_all add: http_of_def on_wire_def url_path_def gateway_def)
  show ?thesis
    by (rule through_group [OF _ n]) (use r in \<open>simp_all add: auth_paths grant_for_def\<close>)
qed

lemma public_calls_pass:
  "public_call c \<Longrightarrow> dispatch err e gateway ctx (http_of t c) =
     (if over_limit e (http_of t c) then Refused 429 else Proxied AuthService)"
  by (cases c rule: public_call.cases) (simp_all add: http_of_def on_wire_def url_path_def gateway_def)

lemma service_answers:
  "h_path x = ''/api/v1/dns/'' @ r \<Longrightarrow> dispatch err e gateway ctx x = answer e DnsService x"
  "h_path x = ''/api/v1/mail/'' @ r \<Longrightarrow> dispatch err e gateway ctx x = answer e MailService x"
  "h_path x = ''/api/v1/webserver/'' @ r \<Longrightarrow> dispatch err e gateway ctx x = answer e WebServerService x"
  "h_path x = ''/api/v1/files/'' @ r \<Longrightarrow> dispatch err e gateway ctx x = answer e FileService x"
  "h_path x = ''/api/v1/databases'' @ r \<Longrightarrow> dispatch err e gateway ctx x = answer e DatabaseService x"
  "h_path x = ''/api/v1/database-users'' @ r \<Longrightarrow> dispatch err e gateway ctx x = answer e DatabaseService x"
  "h_path x = ''/api/v1/backups'' @ r \<Longrightarrow> dispatch err e gateway ctx x = answer e BackupService x"
  "h_path x = ''/api/v1/monitoring/'' @ r \<Longrightarrow> dispatch err e gateway ctx x = answer e MonitoringService x"
  "h_path x = ''/api/v1/billing/'' @ r \<Longrightarrow> dispatch err e gateway ctx x = answer e BillingService x"
  "h_path x = ''/api/v1/ai/'' @ r \<Longrightarrow> dispatch err e gateway ctx x = answer e AiService x"
  "h_path x = ''/api/v1/security/'' @ r \<Longrightarrow> dispatch err e gateway ctx x = answer e SecurityService x"
  "h_path x = ''/api/v1/docker/'' @ r \<Longrightarrow> dispatch err e gateway ctx x = answer e DockerService x"
  "h_path x = ''/api/v1/devops/'' @ r \<Longrightarrow> dispatch err e gateway ctx x = answer e DevopsService x"
  "h_path x = ''/api/v1/marketplace/'' @ r \<Longrightarrow> dispatch err e gateway ctx x = answer e MarketplaceService x"
  "h_path x = ''/api/v1/notifications'' @ r \<Longrightarrow> dispatch err e gateway ctx x = answer e NotificationService x"
  by (rule through_group, simp, erule not_public, erule service_paths notification_paths, (assumption)?)+

lemma database_calls:
  "dispatch err e gateway ctx (http_of t (DatabasesApi c)) = answer e DatabaseService (http_of t (DatabasesApi c))"
proof (cases "\<exists>r. h_path (http_of t (DatabasesApi c)) = ''/api/v1/databases'' @ r")
  case True
  then show ?thesis using service_answers(5) by blast
next
  case False
  then have "\<exists>r. h_path (http_of t (DatabasesApi c)) = ''/api/v1/database-users'' @ r"
    by (cases c) (auto simp: http_of_def on_wire_def url_path_def)
  then show ?thesis using service_answers(6) by blast
qed

lemma domain_calls:
  assumes "no_final_slash (http_of t (DomainsApi c))"
  shows "dispatch err e gateway ctx (http_of t (DomainsApi c)) = answer e DomainsService (http_of t (DomainsApi c))"
proof -
  let ?x = "http_of t (DomainsApi c)"
  have p: "h_path ?x = ''/api/v1/domains'' \<and> h_verb ?x \<in> {GET, POST} \<or>
      (\<exists>r. h_path ?x = ''/api/v1/domains/'' @ r) \<and> h_verb ?x \<in> {GET, POST, DELETE}"
    by (cases c) (auto simp: http_of_def on_wire_def url_path_def)
  obtain r where r: "h_path ?x = ''/api/v1/domains'' @ r" using path_base [of t "DomainsApi c"] by auto
  show ?thesis
    by (rule through_group [OF _ not_public(16) [OF r]]) (use r p domain_paths in auto)
qed

text \<open>Every call of the modules of lib/api.\<close>

lemma call_answers:
  assumes "no_final_slash (http_of t c)"
  shows "dispatch err e gateway ctx (http_of t c) =
    (if public_call c then (if over_limit e (http_of t c) then Refused 429 else Proxied AuthService)
     else answer e (service_of c) (http_of t c))"
proof (cases "public_call c")
  case True
  then show ?thesis by (simp add: public_calls_pass)
next
  case False
  obtain r where r: "h_path (http_of t c) = ''/api/v1'' @ api_base c @ r" using path_base by blast
  have "dispatch err e gateway ctx (http_of t c) = answer e (service_of c) (http_of t c)"
    using r False assms
    by (cases c) (simp_all add: auth_calls_guarded passkey_calls_guarded database_calls domain_calls service_answers)
  then show ?thesis using False by simp
qed







section \<open>Properties\<close>

text \<open>Property C9: Every call of lib/api reaches the service it is meant for: the six calls of the sign-in pages without
  a token, and every other one with a valid token that carries the permission of its service; it is
  refused with 401, 403 or 429 otherwise, and never lost between the routes.\<close>

theorem gateway_answers_calls:
  assumes "fiber_serves serve" and "no_final_slash (http_of t c)"
  shows "serve e gateway None (http_of t c) =
    (if public_call c then (if over_limit e (http_of t c) then Refused 429 else Proxied AuthService)
     else answer e (service_of c) (http_of t c))"
  unfolding fiber_dispatch [OF assms, of e gateway None] by (rule call_answers [OF assms(2)])

theorem gateway_answers_calls_witness:
  "dispatch (\<lambda>_ _. Refused 404)
     \<lparr>verify = (\<lambda>t. if t = ''t'' then Some \<lparr>cl_roles = [], cl_perms = [''dns:read'']\<rparr> else None), over_limit = (\<lambda>_. False)\<rparr>
     gateway None (http_of (Some ''t'') (DnsApi ListZones)) = Proxied DnsService"
proof -
  have "no_final_slash (http_of (Some ''t'') (DnsApi ListZones))" by (simp add: no_final_slash_def http_of_def on_wire_def url_path_def)
  from gateway_answers_calls [OF fiber_dispatch_404 this] show ?thesis
    by (simp add: answer_def grant_for_def has_perm_def http_of_def on_wire_def)
qed



text \<open>What the browser opens by itself carries no token: the download links, the images of the preview, the
  redirect to an OAuth provider (the public route is named \<open>oauth2\<close>) and the live metrics. And the
  passkey routes, registered as public after the group, are behind its middleware.\<close>

lemma direct_urls_refused:
  assumes "p \<in> {''/api/v1/files/download'', ''/api/v1/auth/oauth/github'', ''/api/v1/monitoring/metrics/stream'', ''/api/v1/terminal''}"
  shows "dispatch err e gateway None \<lparr>h_verb = GET, h_path = p, h_auth = []\<rparr> = Refused 401"
proof -
  have n: "\<not> list_ex (\<lambda>q. route_matches q \<lparr>h_verb = GET, h_path = p, h_auth = []\<rparr>) (take 8 gateway)"
    using assms by (auto simp: gateway_def)
  show ?thesis
    by (subst gateway_parts, subst dispatch_skip [OF n]) (use assms in \<open>auto simp: under_group_def\<close>)
qed

lemma passkey_sign_in_refused:
  "dispatch err e gateway None (http_of None (PasskeyApi (BeginAuthentication m))) = Refused 401"
  by (subst passkey_calls_guarded) (simp add: answer_def http_of_def on_wire_def)

end
