(* ===== verification/ServiceRoutes.thy ===== *)
theory ServiceRoutes
  imports Gateway
begin

text \<open>
  The routes of the sixteen services behind the gateway, as the \<open>main.go\<close> of each registers them (a group's
  prefix written out, and without the slash of a group's own route): the verb and the pattern of
  every handler. The gateway hands a request on with its path unchanged, so this is the other side of
  the contract of lib/api: whether a call finds a handler at all.
\<close>

section \<open>Routes\<close>

type_synonym service_table = "(verb \<times> string) list"

text \<open>services/ai/cmd/ai/main.go\<close>

definition ai_routes :: service_table where
  "ai_routes = [
     (GET, ''/api/v1/ai/conversations''), (GET, ''/api/v1/ai/conversations/:id''),
     (DELETE, ''/api/v1/ai/conversations/:id''), (POST, ''/api/v1/ai/chat''), (POST, ''/api/v1/ai/analyze'')]"

text \<open>services/auth/cmd/auth/main.go\<close>

definition auth_routes :: service_table where
  "auth_routes = [
     (POST, ''/api/v1/auth/register''), (POST, ''/api/v1/auth/login''), (POST, ''/api/v1/auth/refresh''),
     (POST, ''/api/v1/auth/mfa/verify''), (POST, ''/api/v1/auth/forgot-password''),
     (POST, ''/api/v1/auth/reset-password''), (GET, ''/api/v1/auth/oauth/:provider''),
     (GET, ''/api/v1/auth/oauth/:provider/callback''), (POST, ''/api/v1/auth/logout''),
     (GET, ''/api/v1/auth/me''), (PATCH, ''/api/v1/auth/me''), (POST, ''/api/v1/auth/mfa/totp/setup''),
     (POST, ''/api/v1/auth/mfa/totp/confirm''), (POST, ''/api/v1/auth/mfa/disable''),
     (GET, ''/api/v1/auth/sessions''), (DELETE, ''/api/v1/auth/sessions/:id''),
     (DELETE, ''/api/v1/auth/sessions''), (GET, ''/api/v1/auth/passkeys''),
     (DELETE, ''/api/v1/auth/passkeys/:id''), (GET, ''/api/v1/auth/passkeys/register/begin''),
     (POST, ''/api/v1/auth/passkeys/register/finish''), (POST, ''/api/v1/auth/passkeys/authenticate/begin''),
     (POST, ''/api/v1/auth/passkeys/authenticate/finish'')]"

text \<open>services/backup/cmd/backup/main.go\<close>

definition backup_routes :: service_table where
  "backup_routes = [
     (GET, ''/api/v1/backups/destinations''), (POST, ''/api/v1/backups/destinations''),
     (DELETE, ''/api/v1/backups/destinations/:id''), (GET, ''/api/v1/backups''), (POST, ''/api/v1/backups''),
     (DELETE, ''/api/v1/backups/:id''), (POST, ''/api/v1/backups/:id/restore''),
     (GET, ''/api/v1/backups/schedules''), (POST, ''/api/v1/backups/schedules''),
     (DELETE, ''/api/v1/backups/schedules/:id'')]"

text \<open>services/billing/cmd/billing/main.go\<close>

definition billing_routes :: service_table where
  "billing_routes = [
     (GET, ''/api/v1/billing/plans''), (GET, ''/api/v1/billing/subscription''),
     (POST, ''/api/v1/billing/subscription''), (DELETE, ''/api/v1/billing/subscription''),
     (GET, ''/api/v1/billing/invoices''), (GET, ''/api/v1/billing/usage''),
     (POST, ''/api/v1/billing/webhook/stripe'')]"

text \<open>services/dbmanager/cmd/dbmanager/main.go\<close>

definition database_routes :: service_table where
  "database_routes = [
     (GET, ''/api/v1/databases''), (POST, ''/api/v1/databases''), (DELETE, ''/api/v1/databases/:id''),
     (GET, ''/api/v1/database-users''), (POST, ''/api/v1/database-users''),
     (DELETE, ''/api/v1/database-users/:id'')]"

text \<open>services/devops/cmd/devops/main.go\<close>

definition devops_routes :: service_table where
  "devops_routes = [
     (GET, ''/api/v1/devops/pipelines''), (POST, ''/api/v1/devops/pipelines''),
     (GET, ''/api/v1/devops/pipelines/:id''), (PUT, ''/api/v1/devops/pipelines/:id''),
     (DELETE, ''/api/v1/devops/pipelines/:id''), (POST, ''/api/v1/devops/pipelines/:id/run''),
     (GET, ''/api/v1/devops/pipelines/:id/runs''), (GET, ''/api/v1/devops/pipelines/:id/runs/:runId/logs''),
     (GET, ''/api/v1/devops/deployments''), (POST, ''/api/v1/devops/webhooks/github/:pipelineId''),
     (POST, ''/api/v1/devops/webhooks/gitlab/:pipelineId'')]"

text \<open>services/dns/cmd/dns/main.go\<close>

definition dns_routes :: service_table where
  "dns_routes =
     concat (map (\<lambda>prefix. [(GET, ''/api/v1'' @ prefix), (POST, ''/api/v1'' @ prefix),
       (GET, ''/api/v1'' @ prefix @ ''/:id''), (DELETE, ''/api/v1'' @ prefix @ ''/:id''),
       (GET, ''/api/v1'' @ prefix @ ''/:zoneId/records''), (POST, ''/api/v1'' @ prefix @ ''/:zoneId/records''),
       (PUT, ''/api/v1'' @ prefix @ ''/:zoneId/records/:id''),
       (DELETE, ''/api/v1'' @ prefix @ ''/:zoneId/records/:id'')]) [''/zones'', ''/dns/zones'']) @
     concat (map (\<lambda>prefix. [(GET, ''/api/v1'' @ prefix @ ''/templates''),
       (GET, ''/api/v1'' @ prefix @ ''/propagation'')]) [''/dns'', ''/dns/dns''])"

text \<open>services/docker/cmd/docker/main.go\<close>

definition docker_routes :: service_table where
  "docker_routes = [
     (GET, ''/api/v1/docker/containers''), (POST, ''/api/v1/docker/containers''),
     (POST, ''/api/v1/docker/containers/:id/:action''), (DELETE, ''/api/v1/docker/containers/:id''),
     (GET, ''/api/v1/docker/containers/:id/logs''), (GET, ''/api/v1/docker/images''),
     (POST, ''/api/v1/docker/images/pull''), (DELETE, ''/api/v1/docker/images/:id''),
     (GET, ''/api/v1/docker/compose''), (POST, ''/api/v1/docker/compose''),
     (POST, ''/api/v1/docker/compose/:id/:action''), (DELETE, ''/api/v1/docker/compose/:id'')]"

text \<open>services/domains/cmd/domains/main.go\<close>

definition domain_routes :: service_table where
  "domain_routes = [
     (GET, ''/api/v1/domains''), (POST, ''/api/v1/domains''), (GET, ''/api/v1/domains/:id''),
     (DELETE, ''/api/v1/domains/:id''), (POST, ''/api/v1/domains/:id/suspend''),
     (POST, ''/api/v1/domains/:id/unsuspend'')]"

text \<open>services/filemanager/cmd/filemanager/main.go\<close>

definition file_routes :: service_table where
  "file_routes = [
     (GET, ''/api/v1/files/list''), (GET, ''/api/v1/files/read''), (PUT, ''/api/v1/files/write''),
     (DELETE, ''/api/v1/files/delete''), (POST, ''/api/v1/files/mkdir''), (POST, ''/api/v1/files/copy''),
     (POST, ''/api/v1/files/move''), (POST, ''/api/v1/files/rename''), (GET, ''/api/v1/files/download''),
     (POST, ''/api/v1/files/newfile''), (PUT, ''/api/v1/files/chmod''), (GET, ''/api/v1/files/search''),
     (POST, ''/api/v1/files/upload''), (POST, ''/api/v1/files/compress''), (POST, ''/api/v1/files/extract''),
     (GET, ''/api/v1/terminal'')]"

text \<open>services/mail/cmd/mail/main.go\<close>

definition mail_routes :: service_table where
  "mail_routes = [
     (GET, ''/api/v1/mail/mailboxes''), (POST, ''/api/v1/mail/mailboxes''),
     (DELETE, ''/api/v1/mail/mailboxes/:id''), (PUT, ''/api/v1/mail/mailboxes/:id/password''),
     (PATCH, ''/api/v1/mail/mailboxes/:id''), (PUT, ''/api/v1/mail/mailboxes/:id/suspend''),
     (PUT, ''/api/v1/mail/mailboxes/:id/unsuspend''), (GET, ''/api/v1/mail/forwarders''),
     (POST, ''/api/v1/mail/forwarders''), (DELETE, ''/api/v1/mail/forwarders/:id''),
     (GET, ''/api/v1/mail/dkim''), (POST, ''/api/v1/mail/dkim''), (GET, ''/api/v1/mail/dkim/:domain''),
     (DELETE, ''/api/v1/mail/dkim/:domain''), (GET, ''/api/v1/mail/catchall''),
     (POST, ''/api/v1/mail/catchall''), (DELETE, ''/api/v1/mail/catchall''), (GET, ''/api/v1/mail/aliases''),
     (POST, ''/api/v1/mail/aliases''), (DELETE, ''/api/v1/mail/aliases/:id''), (GET, ''/api/v1/mail/dmarc''),
     (GET, ''/api/v1/mail/autoresponders''), (POST, ''/api/v1/mail/autoresponders''),
     (PUT, ''/api/v1/mail/autoresponders/:id''), (DELETE, ''/api/v1/mail/autoresponders/:id''),
     (GET, ''/api/v1/mail/filters''), (POST, ''/api/v1/mail/filters''), (PUT, ''/api/v1/mail/filters/:id''),
     (DELETE, ''/api/v1/mail/filters/:id''), (GET, ''/api/v1/mail/queue''),
     (POST, ''/api/v1/mail/queue/flush''), (DELETE, ''/api/v1/mail/queue/:id''),
     (DELETE, ''/api/v1/mail/queue'')]"

text \<open>services/marketplace/cmd/marketplace/main.go\<close>

definition marketplace_routes :: service_table where
  "marketplace_routes = [
     (GET, ''/api/v1/marketplace/apps''), (GET, ''/api/v1/marketplace/apps/:slug''),
     (POST, ''/api/v1/marketplace/install''), (GET, ''/api/v1/marketplace/installations''),
     (GET, ''/api/v1/marketplace/installations/:id''), (DELETE, ''/api/v1/marketplace/installations/:id'')]"

text \<open>services/monitoring/cmd/monitoring/main.go\<close>

definition monitoring_routes :: service_table where
  "monitoring_routes = [
     (GET, ''/api/v1/monitoring/metrics/current''), (GET, ''/api/v1/monitoring/metrics/stream''),
     (GET, ''/ws/metrics/:serverId''), (GET, ''/api/v1/monitoring/alerts/rules''),
     (POST, ''/api/v1/monitoring/alerts/rules''), (DELETE, ''/api/v1/monitoring/alerts/rules/:id''),
     (GET, ''/api/v1/monitoring/incidents''), (PUT, ''/api/v1/monitoring/incidents/:id/acknowledge''),
     (PUT, ''/api/v1/monitoring/incidents/:id/resolve''), (GET, ''/api/v1/monitoring/remediation/logs''),
     (GET, ''/api/v1/monitoring/bandwidth/:domain''), (GET, ''/api/v1/monitoring/disk/:domain''),
     (GET, ''/api/v1/monitoring/logs/:domain''), (GET, ''/api/v1/monitoring/servers''),
     (POST, ''/api/v1/monitoring/servers''), (DELETE, ''/api/v1/monitoring/servers/:id''),
     (GET, ''/api/v1/monitoring/servers/:id/metrics''), (POST, ''/api/v1/agent/metrics'')]"

text \<open>services/notification/cmd/notification/main.go\<close>

definition notification_routes :: service_table where
  "notification_routes = [
     (GET, ''/api/v1/notifications''), (PUT, ''/api/v1/notifications/:id/read''),
     (PATCH, ''/api/v1/notifications/:id/read''), (PUT, ''/api/v1/notifications/read-all''),
     (POST, ''/api/v1/notifications/read-all''), (DELETE, ''/api/v1/notifications/:id''),
     (GET, ''/api/v1/notifications/unread-count''), (GET, ''/api/v1/notifications/preferences''),
     (PUT, ''/api/v1/notifications/preferences''), (POST, ''/api/v1/notifications/dispatch'')]"

text \<open>services/security/cmd/security/main.go\<close>

definition security_routes :: service_table where
  "security_routes = [
     (GET, ''/api/v1/security/score''), (GET, ''/api/v1/security/firewall''),
     (POST, ''/api/v1/security/firewall''), (DELETE, ''/api/v1/security/firewall/:id''),
     (GET, ''/api/v1/security/events''), (GET, ''/api/v1/security/blocklist''),
     (POST, ''/api/v1/security/blocklist''), (DELETE, ''/api/v1/security/blocklist/:id''),
     (GET, ''/api/v1/security/geoip''), (POST, ''/api/v1/security/geoip''),
     (DELETE, ''/api/v1/security/geoip/:countryCode''), (GET, ''/api/v1/security/geoip/lookup''),
     (GET, ''/api/v1/security/bgp/asn/:asn''), (GET, ''/api/v1/security/bgp/route''),
     (GET, ''/api/v1/security/modsec/status''), (PUT, ''/api/v1/security/modsec/mode''),
     (GET, ''/api/v1/security/modsec/rules''), (POST, ''/api/v1/security/modsec/rules/toggle'')]"

text \<open>services/webserver/cmd/webserver/main.go\<close>

definition webserver_routes :: service_table where
  "webserver_routes = [
     (GET, ''/api/v1/webserver/vhosts''), (POST, ''/api/v1/webserver/vhosts''),
     (GET, ''/api/v1/webserver/vhosts/:id''), (DELETE, ''/api/v1/webserver/vhosts/:id''),
     (PUT, ''/api/v1/webserver/vhosts/:id''), (GET, ''/api/v1/webserver/ssl''),
     (GET, ''/api/v1/webserver/ssl/:id''), (POST, ''/api/v1/webserver/ssl/issue''),
     (POST, ''/api/v1/webserver/ssl/renew/:id''), (DELETE, ''/api/v1/webserver/ssl/:id''),
     (PUT, ''/api/v1/webserver/ssl/:id/auto-renew''), (GET, ''/api/v1/webserver/php''),
     (PUT, ''/api/v1/webserver/php/:vhostId''), (GET, ''/api/v1/webserver/php/:vhostId/ini''),
     (PUT, ''/api/v1/webserver/php/:vhostId/ini''), (GET, ''/api/v1/webserver/php/:vhostId/opcache''),
     (POST, ''/api/v1/webserver/php/:vhostId/opcache/reset''), (POST, ''/api/v1/webserver/ssl/csr''),
     (POST, ''/api/v1/webserver/ssl/import''), (GET, ''/api/v1/webserver/cron''),
     (POST, ''/api/v1/webserver/cron''), (PUT, ''/api/v1/webserver/cron/:id''),
     (DELETE, ''/api/v1/webserver/cron/:id''), (POST, ''/api/v1/webserver/cron/:id/toggle''),
     (GET, ''/api/v1/webserver/ftp''), (POST, ''/api/v1/webserver/ftp''),
     (PUT, ''/api/v1/webserver/ftp/:id/password''), (DELETE, ''/api/v1/webserver/ftp/:id''),
     (POST, ''/api/v1/webserver/ftp/:id/toggle''), (GET, ''/api/v1/webserver/subdomains''),
     (POST, ''/api/v1/webserver/subdomains''), (DELETE, ''/api/v1/webserver/subdomains/:id''),
     (GET, ''/api/v1/webserver/redirects''), (POST, ''/api/v1/webserver/redirects''),
     (DELETE, ''/api/v1/webserver/redirects/:id''), (GET, ''/api/v1/webserver/error-pages''),
     (POST, ''/api/v1/webserver/error-pages''), (GET, ''/api/v1/webserver/privacy''),
     (POST, ''/api/v1/webserver/privacy''), (DELETE, ''/api/v1/webserver/privacy/:id''),
     (GET, ''/api/v1/webserver/ssh-keys''), (POST, ''/api/v1/webserver/ssh-keys''),
     (DELETE, ''/api/v1/webserver/ssh-keys/:id''), (GET, ''/api/v1/webserver/mysql-remote''),
     (POST, ''/api/v1/webserver/mysql-remote''), (DELETE, ''/api/v1/webserver/mysql-remote/:id'')]"

fun service_routes :: "service \<Rightarrow> service_table" where
  "service_routes AiService = ai_routes"
| "service_routes AuthService = auth_routes"
| "service_routes BackupService = backup_routes"
| "service_routes BillingService = billing_routes"
| "service_routes DatabaseService = database_routes"
| "service_routes DevopsService = devops_routes"
| "service_routes DnsService = dns_routes"
| "service_routes DockerService = docker_routes"
| "service_routes DomainsService = domain_routes"
| "service_routes FileService = file_routes"
| "service_routes MailService = mail_routes"
| "service_routes MarketplaceService = marketplace_routes"
| "service_routes MonitoringService = monitoring_routes"
| "service_routes NotificationService = notification_routes"
| "service_routes SecurityService = security_routes"
| "service_routes WebServerService = webserver_routes"

text \<open>Whether a service has a handler for a request.\<close>

definition routed :: "service \<Rightarrow> http \<Rightarrow> bool" where
  "routed s x = list_ex (\<lambda>(v, p). v = h_verb x \<and> fiber_match p (h_path x)) (service_routes s)"

text \<open>No empty segment: every id of the call was given.\<close>

fun no_empty_segment :: "string \<Rightarrow> bool" where
  "no_empty_segment [] = True"
| "no_empty_segment [c] = (c \<noteq> CHR ''/'')"
| "no_empty_segment (c # d # s) = (\<not> (c = CHR ''/'' \<and> d = CHR ''/'') \<and> no_empty_segment (d # s))"

section \<open>Lemmas\<close>

lemma conj_if: "p \<and> q \<longleftrightarrow> (if p then q else False)"
  by simp

lemma routed_if:
  "routed s x = list_ex (\<lambda>(v, p). if v = h_verb x then fiber_match p (h_path x) else False) (service_routes s)"
  by (simp only: routed_def conj_if)

text \<open>Ids that are one segment.\<close>

lemma plain_take [simp]:
  "plain_id i \<Longrightarrow> takeWhile (\<lambda>c. c \<noteq> CHR ''?'') (i @ r) = i @ takeWhile (\<lambda>c. c \<noteq> CHR ''?'') r"
  "plain_id i \<Longrightarrow> takeWhile (\<lambda>c. c \<noteq> CHR ''?'') i = i"
  "plain_id i \<Longrightarrow> takeWhile (\<lambda>d. d \<noteq> CHR ''/'') (i @ CHR ''/'' # r) = i"
  "plain_id i \<Longrightarrow> takeWhile (\<lambda>d. d \<noteq> CHR ''/'') i = i"
  "plain_id i \<Longrightarrow> dropWhile (\<lambda>d. d \<noteq> CHR ''/'') (i @ CHR ''/'' # r) = CHR ''/'' # r"
  "plain_id i \<Longrightarrow> dropWhile (\<lambda>d. d \<noteq> CHR ''/'') i = []"
  by (auto simp: plain_id_def takeWhile_append takeWhile_eq_all_conv dropWhile_append)

lemma plain_segment [simp]:
  "plain_id i \<Longrightarrow> no_empty_segment (CHR ''/'' # i @ CHR ''/'' # r) \<longleftrightarrow> i \<noteq> [] \<and> no_empty_segment (CHR ''/'' # r)"
  "plain_id i \<Longrightarrow> no_empty_segment (CHR ''/'' # i) \<longleftrightarrow> i \<noteq> []"
proof -
  have a: "CHR ''/'' \<notin> set (x # i) \<Longrightarrow> no_empty_segment (x # i @ CHR ''/'' # r) \<longleftrightarrow> no_empty_segment (CHR ''/'' # r)" for x i
    by (induction i arbitrary: x) auto
  have b: "CHR ''/'' \<notin> set (x # i) \<Longrightarrow> no_empty_segment (x # i)" for x i
    by (induction i arbitrary: x) auto
  show "plain_id i \<Longrightarrow> no_empty_segment (CHR ''/'' # i @ CHR ''/'' # r) \<longleftrightarrow> i \<noteq> [] \<and> no_empty_segment (CHR ''/'' # r)"
    by (cases i) (use a in \<open>auto simp: plain_id_def\<close>)
  show "plain_id i \<Longrightarrow> no_empty_segment (CHR ''/'' # i) \<longleftrightarrow> i \<noteq> []"
    by (cases i) (use b in \<open>auto simp: plain_id_def\<close>)
qed

lemma action_segments [simp]:
  "plain_id (container_action_name a)" "container_action_name a \<noteq> []"
  "plain_id (compose_action_name b)" "compose_action_name b \<noteq> []"
  by (cases a; cases b; simp add: plain_id_def)+

lemmas wire_simps = routed_if http_of_def on_wire_def url_path_def

text \<open>Every module, by its calls.\<close>

lemma auth_routed:
  "auth_ok c \<Longrightarrow> no_empty_segment (h_path (http_of t (AuthApi c))) \<Longrightarrow> routed AuthService (http_of t (AuthApi c))"
  by (cases c) (simp_all add: wire_simps auth_routes_def split: option.split)

lemma passkey_routed:
  "passkey_ok c \<Longrightarrow> no_empty_segment (h_path (http_of t (PasskeyApi c))) \<Longrightarrow> routed AuthService (http_of t (PasskeyApi c))"
  by (cases c) (simp_all add: wire_simps auth_routes_def split: option.split)

lemma files_routed:
  "no_empty_segment (h_path (http_of t (FilesApi c))) \<Longrightarrow> routed FileService (http_of t (FilesApi c))"
  by (cases c) (simp_all add: wire_simps file_routes_def split: option.split)

lemma backup_routed:
  "backup_ok c \<Longrightarrow> no_empty_segment (h_path (http_of t (BackupApi c))) \<Longrightarrow> routed BackupService (http_of t (BackupApi c))"
  by (cases c) (simp_all add: wire_simps backup_routes_def split: option.split)

lemma billing_routed:
  "no_empty_segment (h_path (http_of t (BillingApi c))) \<Longrightarrow> routed BillingService (http_of t (BillingApi c))"
  by (cases c) (simp_all add: wire_simps billing_routes_def split: option.split)

lemma ai_routed:
  "ai_ok c \<Longrightarrow> no_empty_segment (h_path (http_of t (AiApi c))) \<Longrightarrow> routed AiService (http_of t (AiApi c))"
  by (cases c) (simp_all add: wire_simps ai_routes_def split: option.split)

lemma cron_routed:
  "cron_ok c \<Longrightarrow> no_empty_segment (h_path (http_of t (CronApi c))) \<Longrightarrow> routed WebServerService (http_of t (CronApi c))"
  by (cases c) (simp_all add: wire_simps webserver_routes_def split: option.split)

lemma databases_routed:
  "databases_ok c \<Longrightarrow> no_empty_segment (h_path (http_of t (DatabasesApi c))) \<Longrightarrow> routed DatabaseService (http_of t (DatabasesApi c))"
  by (cases c) (simp_all add: wire_simps database_routes_def split: option.split)

lemma devops_routed:
  "devops_ok c \<Longrightarrow> no_empty_segment (h_path (http_of t (DevopsApi c))) \<Longrightarrow> routed DevopsService (http_of t (DevopsApi c))"
  by (cases c) (simp_all add: wire_simps devops_routes_def split: option.split)

lemma dns_routed:
  "dns_ok c \<Longrightarrow> no_empty_segment (h_path (http_of t (DnsApi c))) \<Longrightarrow> routed DnsService (http_of t (DnsApi c))"
  by (cases c) (simp_all add: wire_simps dns_routes_def split: option.split)

lemma docker_routed:
  "docker_ok c \<Longrightarrow> no_empty_segment (h_path (http_of t (DockerApi c))) \<Longrightarrow> routed DockerService (http_of t (DockerApi c))"
  by (cases c) (simp_all add: wire_simps docker_routes_def split: option.split)

lemma mail_routed:
  "mail_ok c \<Longrightarrow> no_empty_segment (h_path (http_of t (MailApi c))) \<Longrightarrow> routed MailService (http_of t (MailApi c))"
  by (cases c) (simp_all add: wire_simps mail_routes_def split: option.split)

lemma marketplace_routed:
  "marketplace_ok c \<Longrightarrow> no_empty_segment (h_path (http_of t (MarketplaceApi c))) \<Longrightarrow> routed MarketplaceService (http_of t (MarketplaceApi c))"
  by (cases c) (simp_all add: wire_simps marketplace_routes_def split: option.split)

lemma monitoring_routed:
  "monitoring_ok c \<Longrightarrow> no_empty_segment (h_path (http_of t (MonitoringApi c))) \<Longrightarrow> routed MonitoringService (http_of t (MonitoringApi c))"
  by (cases c) (simp_all add: wire_simps monitoring_routes_def split: option.split)

lemma security_routed:
  "security_ok c \<Longrightarrow> no_empty_segment (h_path (http_of t (SecurityApi c))) \<Longrightarrow> routed SecurityService (http_of t (SecurityApi c))"
  by (cases c) (simp_all add: wire_simps security_routes_def split: option.split)

lemma ftp_routed:
  "ftp_ok c \<Longrightarrow> no_empty_segment (h_path (http_of t (FtpApi c))) \<Longrightarrow> routed WebServerService (http_of t (FtpApi c))"
  by (cases c) (simp_all add: wire_simps webserver_routes_def split: option.split)

lemma subdomain_routed:
  "subdomain_ok c \<Longrightarrow> no_empty_segment (h_path (http_of t (SubdomainApi c))) \<Longrightarrow> routed WebServerService (http_of t (SubdomainApi c))"
  by (cases c) (simp_all add: wire_simps webserver_routes_def split: option.split)

lemma redirect_routed:
  "redirect_ok c \<Longrightarrow> no_empty_segment (h_path (http_of t (RedirectApi c))) \<Longrightarrow> routed WebServerService (http_of t (RedirectApi c))"
  by (cases c) (simp_all add: wire_simps webserver_routes_def split: option.split)

lemma error_page_routed:
  "no_empty_segment (h_path (http_of t (ErrorPageApi c))) \<Longrightarrow> routed WebServerService (http_of t (ErrorPageApi c))"
  by (cases c) (simp_all add: wire_simps webserver_routes_def split: option.split)

lemma privacy_routed:
  "privacy_ok c \<Longrightarrow> no_empty_segment (h_path (http_of t (PrivacyApi c))) \<Longrightarrow> routed WebServerService (http_of t (PrivacyApi c))"
  by (cases c) (simp_all add: wire_simps webserver_routes_def split: option.split)

lemma ssh_key_routed:
  "ssh_key_ok c \<Longrightarrow> no_empty_segment (h_path (http_of t (SshKeyApi c))) \<Longrightarrow> routed WebServerService (http_of t (SshKeyApi c))"
  by (cases c) (simp_all add: wire_simps webserver_routes_def split: option.split)

lemma mysql_remote_routed:
  "mysql_remote_ok c \<Longrightarrow> no_empty_segment (h_path (http_of t (MysqlRemoteApi c))) \<Longrightarrow> routed WebServerService (http_of t (MysqlRemoteApi c))"
  by (cases c) (simp_all add: wire_simps webserver_routes_def split: option.split)

lemma ssl_csr_routed:
  "no_empty_segment (h_path (http_of t (SslCsrApi c))) \<Longrightarrow> routed WebServerService (http_of t (SslCsrApi c))"
  by (cases c) (simp_all add: wire_simps webserver_routes_def split: option.split)

lemma autoresponder_routed:
  "autoresponder_ok c \<Longrightarrow> no_empty_segment (h_path (http_of t (AutoresponderApi c))) \<Longrightarrow> routed MailService (http_of t (AutoresponderApi c))"
  by (cases c) (simp_all add: wire_simps mail_routes_def split: option.split)

lemma email_filter_routed:
  "email_filter_ok c \<Longrightarrow> no_empty_segment (h_path (http_of t (EmailFilterApi c))) \<Longrightarrow> routed MailService (http_of t (EmailFilterApi c))"
  by (cases c) (simp_all add: wire_simps mail_routes_def split: option.split)

lemma mail_queue_routed:
  "mail_queue_ok c \<Longrightarrow> no_empty_segment (h_path (http_of t (MailQueueApi c))) \<Longrightarrow> routed MailService (http_of t (MailQueueApi c))"
  by (cases c) (simp_all add: wire_simps mail_routes_def split: option.split)

lemma bandwidth_routed:
  "bandwidth_ok c \<Longrightarrow> no_empty_segment (h_path (http_of t (BandwidthApi c))) \<Longrightarrow> routed MonitoringService (http_of t (BandwidthApi c))"
  by (cases c) (simp_all add: wire_simps monitoring_routes_def split: option.split)

lemma modsec_routed:
  "no_empty_segment (h_path (http_of t (ModsecApi c))) \<Longrightarrow> routed SecurityService (http_of t (ModsecApi c))"
  by (cases c) (simp_all add: wire_simps security_routes_def split: option.split)

lemma webserver_routed:
  "webserver_ok c \<Longrightarrow> no_empty_segment (h_path (http_of t (WebserverApi c))) \<Longrightarrow> routed WebServerService (http_of t (WebserverApi c))"
  by (cases c) (simp_all add: wire_simps webserver_routes_def split: option.split)

lemma domains_routed:
  "domains_ok c \<Longrightarrow> no_empty_segment (h_path (http_of t (DomainsApi c))) \<Longrightarrow> routed DomainsService (http_of t (DomainsApi c))"
  by (cases c) (simp_all add: wire_simps domain_routes_def split: option.split)

lemma domain_ssl_routed:
  "domain_ssl_ok c \<Longrightarrow> no_empty_segment (h_path (http_of t (DomainSslApi c))) \<Longrightarrow> routed WebServerService (http_of t (DomainSslApi c))"
  by (cases c) (simp_all add: wire_simps webserver_routes_def split: option.split)

lemma domain_vhost_routed:
  "domain_vhost_ok c \<Longrightarrow> no_empty_segment (h_path (http_of t (DomainVhostApi c))) \<Longrightarrow> routed WebServerService (http_of t (DomainVhostApi c))"
  by (cases c) (simp_all add: wire_simps webserver_routes_def split: option.split)

lemma notifications_routed:
  "notifications_ok c \<Longrightarrow> no_empty_segment (h_path (http_of t (NotificationsApi c))) \<Longrightarrow>
     routed NotificationService (http_of t (NotificationsApi c)) \<longleftrightarrow> c \<noteq> DeleteAllNotifications"
  by (cases c) (simp_all add: wire_simps notification_routes_def)

lemma domain_php_routed:
  "domain_php_ok c \<Longrightarrow> no_empty_segment (h_path (http_of t (DomainPhpApi c))) \<Longrightarrow>
     routed WebServerService (http_of t (DomainPhpApi c)) \<longleftrightarrow> (case c of GetPHPConfig _ \<Rightarrow> False | _ \<Rightarrow> True)"
  by (cases c) (simp_all add: wire_simps webserver_routes_def)

text \<open>The calls no service answers: deleting all notifications at once, and the PHP settings of a host.\<close>

fun unanswered :: "api_call \<Rightarrow> bool" where
  "unanswered (NotificationsApi DeleteAllNotifications) = True"
| "unanswered (DomainPhpApi (GetPHPConfig _)) = True"
| "unanswered _ = False"

lemma unanswered_iff:
  "unanswered (NotificationsApi n) \<longleftrightarrow> n = DeleteAllNotifications"
  "unanswered (DomainPhpApi d) \<longleftrightarrow> (case d of GetPHPConfig _ \<Rightarrow> True | _ \<Rightarrow> False)"
  by (cases n; cases d; simp)+

lemma call_routed:
  assumes "api_ok c" and "no_empty_segment (h_path (http_of t c))"
  shows "routed (service_of c) (http_of t c) \<longleftrightarrow> \<not> unanswered c"
  using assms
  by (cases c) (simp_all add: auth_routed passkey_routed files_routed backup_routed billing_routed ai_routed cron_routed
    databases_routed devops_routed dns_routed docker_routed mail_routed marketplace_routed monitoring_routed
    security_routed ftp_routed subdomain_routed redirect_routed error_page_routed privacy_routed ssh_key_routed
    mysql_remote_routed ssl_csr_routed autoresponder_routed email_filter_routed mail_queue_routed bandwidth_routed
    modsec_routed webserver_routed domains_routed domain_ssl_routed domain_vhost_routed notifications_routed
    domain_php_routed unanswered_iff split: domain_php_call.split)

lemma no_empty_final: "no_empty_segment s \<Longrightarrow> s \<noteq> [] \<Longrightarrow> last s \<noteq> CHR ''/''"
  by (induction s rule: no_empty_segment.induct) auto

section \<open>Properties\<close>

text \<open>From the module to the handler: whether the gateway lets a call through, and whether the service it
  goes to has a handler for it.\<close>

definition handled :: "verdict \<Rightarrow> http \<Rightarrow> bool" where
  "handled r x = (case r of Proxied s \<Rightarrow> routed s x | Refused _ \<Rightarrow> False)"

definition admitted :: "environment \<Rightarrow> string option \<Rightarrow> api_call \<Rightarrow> bool" where
  "admitted e t c \<longleftrightarrow> (if public_call c then \<not> over_limit e (http_of t c)
     else answer e (service_of c) (http_of t c) = Proxied (service_of c))"

text \<open>Property C11: Every call of lib/api that the gateway admits finds a handler in the service it is meant for, but for two:
  no service deletes all notifications at once or returns the PHP settings of a host.\<close>

theorem calls_find_handlers:
  assumes "fiber_serves serve" and "api_ok c" and "no_empty_segment (h_path (http_of t c))"
  shows "handled (serve e gateway None (http_of t c)) (http_of t c) \<longleftrightarrow> admitted e t c \<and> \<not> unanswered c"
proof -
  have "no_final_slash (http_of t c)"
    using no_empty_final [OF assms(3)] by (simp add: no_final_slash_def http_of_def on_wire_def)
  then have r: "serve e gateway None (http_of t c) = (if public_call c then (if over_limit e (http_of t c) then Refused 429
      else Proxied AuthService) else answer e (service_of c) (http_of t c))"
    using fiber_dispatch [OF assms(1), of "http_of t c" e gateway None] call_answers [of t c] by simp
  have h: "routed (service_of c) (http_of t c) \<longleftrightarrow> \<not> unanswered c" using call_routed [OF assms(2,3)] .
  have p: "public_call c \<Longrightarrow> service_of c = AuthService" by (cases c) simp_all
  have a: "answer e s x = Proxied s' \<Longrightarrow> s' = s" for s s' x
    by (auto simp: answer_def grant_for_def split: option.splits if_splits)
  show ?thesis using r h p a [of "service_of c" "http_of t c"]
    by (auto simp: handled_def admitted_def split: verdict.split)
qed

theorem calls_find_handlers_witness:
  "handled (dispatch (\<lambda>_ _. Refused 404)
     \<lparr>verify = (\<lambda>t. Some \<lparr>cl_roles = [], cl_perms = [''super:*'']\<rparr>), over_limit = (\<lambda>_. False)\<rparr>
     gateway None (http_of (Some ''t'') (CronApi (ToggleCron ''7'')))) (http_of (Some ''t'') (CronApi (ToggleCron ''7'')))"
proof -
  let ?c = "CronApi (ToggleCron ''7'')"
  have c: "api_ok ?c" by (simp add: plain_id_def)
  have n: "no_empty_segment (h_path (http_of (Some ''t'') ?c))" by (simp add: http_of_def on_wire_def url_path_def)
  show ?thesis
    unfolding calls_find_handlers [OF fiber_dispatch_404 c n]
    by (simp add: admitted_def answer_def grant_for_def has_perm_def http_of_def on_wire_def)
qed

end
