(* ===== verification/EndToEnd.thy ===== *)
theory EndToEnd
  imports ServiceRoutes PanelPages
begin

text \<open>
  The pages against the services: what the pages that call the client themselves, outside the modules of
  lib/api, get from the gateway and the services behind it.
\<close>

section \<open>Requests of the pages themselves\<close>

text \<open>The reseller's packages have no route in the gateway, and his users none in the service they go to: the
  answer is the framework's own error, or a refusal before.\<close>

lemma packages_not_routed:
  assumes "h_path x = ''/api/v1/reseller/packages''"
  shows "dispatch err e (drop 9 gateway) ctx x = err ctx x"
  using assms by (simp add: gateway_def)

lemma reseller_packages_unrouted: "h_path (on_wire t fetchPackages) = ''/api/v1/reseller/packages''"
  by (simp add: on_wire_def fetchPackages_def url_path_def)

lemma reseller_users_unhandled:
  "\<not> routed AuthService (on_wire t fetchUsers)" "\<not> routed AuthService (on_wire t (createUser d))"
  by (simp_all add: routed_if on_wire_def fetchUsers_def createUser_def url_path_def auth_routes_def)

lemma user_requests_unhandled:
  assumes "plain_id i" and "i \<noteq> []"
  shows "\<not> routed AuthService (on_wire t (suspendUser i))" "\<not> routed AuthService (on_wire t (deleteUser i))"
    "\<not> routed AuthService (on_wire t (resetPassword i))"
  using assms by (simp_all add: routed_if on_wire_def suspendUser_def deleteUser_def resetPassword_def url_path_def
    auth_routes_def)

end
