(* ===== verification/Spec2Isabelle.thy ===== *)
theory Spec2Isabelle
  imports ApiClient Permissions ApiCatalog Realtime Navigation FileNavigation FileDialogs Dns AuthPages Chat Terminal
    PanelPages PageViews Routes EndToEnd
begin

text \<open>
  The web front end of XP-Panel, a hosting control panel: the Next.js application in apps/web/src.
  The paths in the theories are relative to that directory. The services behind its HTTP interface
  (directory services, in Go) are the environment: their answers are arguments and events of the
  model; of them only the gateway's routes and middleware and the routing tables are modelled.

  \<^bold>\<open>The program and the theories\<close>

  The application is a set of pages in one shell. A page reads through queries, which live in one
  cache under their keys, and changes the server through mutations; both go through the modules of
  lib/api to one HTTP client, which attaches the access token of the session and refreshes it when a
  request is refused. The session is the state of a store that is kept in the browser's storage, which
  the client reads and writes as well. Live data comes over WebSockets.

  \<^item> The runtime: \<open>Prelude\<close> (strings, \<open>slice\<close>, \<open>split\<close>, thrown errors as a sum, \<open>Set\<close>, property
    lookup), \<open>Json\<close> (values, member access, truthiness, spread), \<open>LocalStorage\<close>, \<open>Url\<close> (escaping).
  \<^item> The session: \<open>AuthStore\<close> (lib/stores/auth.store.ts, lib/auth/session.ts), \<open>ApiClient\<close>
    (lib/api/client.ts: both interceptors, \<open>isRefreshing\<close> and \<open>refreshQueue\<close>), \<open>Permissions\<close>
    (lib/utils/permissions.ts, lib/hooks/usePermissions.ts), \<open>AuthPages\<close> (login, second factor, the
    forms' checks, app/setup) and \<open>SignUpPages\<close> (registration, forgotten and new password, the layout
    of app/(auth)).
  \<^item> The interface to the services: \<open>ApiBase\<close>, then \<open>ApiFiles\<close>, \<open>ApiServices\<close>, \<open>ApiHosting\<close> and
    \<open>ApiAuth\<close> with one datatype of calls and one request function per module of lib/api, and
    \<open>ApiCatalog\<close>, which joins them.
  \<^item> The other end of it: \<open>Gateway\<close> (services/gateway: the table of routes, token check, permissions, rate
    limit) and \<open>ServiceRoutes\<close> (what each service's main.go registers); \<open>EndToEnd\<close> follows the requests
    pages make past lib/api.
  \<^item> The shell: \<open>Stores\<close> (UI and server stores), \<open>Navigation\<close> (components/layout, voice control),
    \<open>Realtime\<close> (lib/hooks/useWebSocket.ts, useServerMetrics.ts), \<open>Format\<close> (lib/utils/format.ts),
    \<open>Routes\<close> (the pages there are, the redirects, and where the links lead).
  \<^item> The file manager (components/files): \<open>FilePaths\<close>, \<open>FileExplorer\<close>, \<open>FileNavigation\<close>, \<open>FileDialogs\<close>.
  \<^item> The pages of app/(panel): \<open>Panel\<close> is what a page is, and the step function all pages run on;
    \<open>HostingPages\<close>, \<open>EmailPages\<close>, \<open>MailboxPage\<close>, \<open>SecurityPages\<close>, \<open>ServicePages\<close>, \<open>DevPages\<close>,
    \<open>DomainPages\<close>, \<open>WebServerPages\<close>, \<open>MonitoringPages\<close>, \<open>SettingsPages\<close> and \<open>AdminPages\<close> are the pages,
    each with its state, its handlers, its queries and its mutations with their callbacks;
    \<open>OverviewPages\<close> has the pages that mostly show something, with the charts and cards, \<open>PageViews\<close> what
    the others compute in order to show it; \<open>PanelPages\<close> says what holds of all of them together.
  \<^item> Pages of their own kind: \<open>Chat\<close> and \<open>ChatMarkup\<close> (the assistant and its messages), \<open>Terminal\<close>,
    \<open>Dns\<close> (record form and table, whose editor is a page of \<open>AdminPages\<close>), \<open>SharedParts\<close> (notices,
    confirmation, error boundary, badges, voice button, server map), \<open>Widgets\<close> (translations, threat map, figures).

  \<^bold>\<open>How the code is modelled\<close>

  A component's state is a record with the fields of its \<open>useState\<close>s, refs and module variables, under
  their names where the names are free. A handler is a function with the handler's name; it takes the
  state and what the user or the environment supplies (what was typed or confirmed, the answer of the
  server, random numbers, the time) and returns the new state and the requests it makes. The events of
  a component are a datatype, its step function dispatches them, and a run is a fold of the steps.
  The client is a step relation, since what it sends next depends on the environment's choices.
  Thrown errors are the left branch of a sum. Numbers are exact: sizes and counters are natural
  numbers, quotients rationals; bytes of WebAuthn buffers are 8-bit words. Dynamic values are of
  type \<open>json\<close>, \<open>undefined\<close> being absent. The functions of third parties and of the browser whose code
  is not in the repository are parameters: \<open>JSON.parse\<close> of a text, \<open>localeCompare\<close>, \<open>toLocaleDateString\<close>,
  the logarithm, the e-mail test of the form library, the decoder of a stream; at the gateway the
  verification of a token, the counters of the rate limit, and how Fiber runs a table of routes
  (\<open>fiber_serves\<close>, a named hypothesis, with the function \<open>dispatch\<close> that has it).

  \<^bold>\<open>Interfaces\<close>

  \<open>key_value\<close> is the contract of the storage; \<open>component\<close> that of a state machine with an
  invariant; \<open>bounded_history\<close> that of the lists kept to a length; \<open>authorizer\<close> that of the permission
  checks; \<open>comparator\<close> that of a sort order; \<open>rest_module\<close> that of a module of lib/api (its calls can be
  told apart, stay under its path, and reads have no body). \<open>panel_page\<close> is the contract of a page: a
  condition of its state its handlers keep, and the requests its buttons allow; from it follow
  that every request of every run is allowed and that a guarded button has one request under way.
  \<open>fresh_page\<close> adds that each mutation asks again for the lists it changed, and \<open>dialog_page\<close> is the
  page of a form dialog. Each is interpreted for the components that provide it, in their theories.

  \<^bold>\<open>What is shown\<close>

  \<^item> Session: the store refines what its history says of the session; a token is decoded to the user
    it describes and grants that user's permissions; at most one refresh is under way, requests are
    retried once, a successful refresh re-sends everything that waited, and requests are lost only by
    a failed one, which loses those that waited. The role table and its checks compute the
    permissions they are meant to.
  \<^item> Interface: different calls make different requests, paths arrive as they were given, and the
    escaping can be undone. The gateway hands a call to the service of its module exactly for a token
    with the route's permission, and nothing without one; a call that passes finds a handler there,
    but for two.
  \<^item> Routes: the redirects settle, the links lead to pages, a reset link is used once.
  \<^item> Pages: forms and dialogs send only well-typed and complete requests in every run, guarded
    buttons send once, lists are asked again after the page's own mutations, one key stands for one
    resource in the cache; the exceptions are stated as they are.
  \<^item> File manager: the path is a stack of names under every control; rows are sorted and complete;
    pasting moves each file once; an upload sends each file once; modes can be read back.
  \<^item> Streams: one connection per hook, bounded reconnection, whole answers of the assistant, exact
    histories, and the cases where the code loses an event or keeps a connection.
  \<^item> Messages, terminal addresses, passkey buffers: what is written is read back as it was.

  \<^bold>\<open>Bounds\<close>

  Every function is total. The functions that are not structurally recursive (the splitting of messages,
  the reading of numbers, the matching of route patterns) have their termination proved by the length of
  what is left. Only \<open>follow\<close> takes a bound, the number of redirects to follow, and two are enough: then
  there is none left (\<open>guards_settle\<close>). The runs of state machines are of any length and order of events.
  Characters are the 256 of Isabelle's \<open>char\<close>, the Latin-1 part of the code's UTF-16: what is
  shown of texts is shown of texts in that range.

  \<^bold>\<open>Not modelled\<close>

  The handlers and stores of the Go services, the deployment files and scripts: another program, behind
  the interface. Markup and styles: what a page looks like is only modelled where it selects or computes
  what is shown. The wrappers of component libraries in components/ui, and the table of
  components/shared, whose sorting, filtering and paging are the library's; what recharts, Leaflet and
  the canvas draw. The root layout: fonts, metadata and providers. The message tables of i18n are data and an
  argument. Of TanStack Query, what the pages use: mutations with their callbacks, \<open>isPending\<close>,
  invalidation by key prefix, the retry rule; not the timing of its cache and refetch intervals.
\<close>

end
